(* ===== verification/Prelude.thy ===== *)
theory Prelude
  imports Main "HOL-Library.Sublist" "HOL-Library.Word"
begin

text \<open>
  Shared vocabulary of the development: the parts of Go's \<open>strings\<close> and \<open>strconv\<close>
  packages the program uses, 64-bit wrap-around, ordered de-duplication (the
  "seen map" loop that several packages repeat), and reachable states with invariants.

  A Go string is a byte string and is modelled as a \<open>string\<close> (a list of \<open>char\<close>, that
  is, of bytes). Case folding and white space are those of the ASCII range, which is what
  Go's own fast paths compute; text with bytes above 127 is outside the model.
\<close>

section \<open>Collections of facts\<close>

named_theorems go_string "evaluation of the string operations"
named_theorems go_guard "the guards of the handlers"

section \<open>Strings\<close>

definition is_space :: "char \<Rightarrow> bool" where
  "is_space c \<longleftrightarrow> c = CHR '' '' \<or> c = CHR 0x09 \<or> c = CHR 0x0A \<or> c = CHR 0x0B \<or> c = CHR 0x0C \<or> c = CHR 0x0D"

definition char_lower :: "char \<Rightarrow> char" where
  "char_lower c = (let n = (of_char c :: nat) in if 65 \<le> n \<and> n \<le> 90 then char_of (n + 32) else c)"

definition char_upper :: "char \<Rightarrow> char" where
  "char_upper c = (let n = (of_char c :: nat) in if 97 \<le> n \<and> n \<le> 122 then char_of (n - 32) else c)"

definition to_lower :: "string \<Rightarrow> string" where
  "to_lower s = map char_lower s"

definition to_upper :: "string \<Rightarrow> string" where
  "to_upper s = map char_upper s"

definition equal_fold :: "string \<Rightarrow> string \<Rightarrow> bool" where
  "equal_fold a b \<longleftrightarrow> to_lower a = to_lower b"

definition rdropWhile :: "('a \<Rightarrow> bool) \<Rightarrow> 'a list \<Rightarrow> 'a list" where
  "rdropWhile p xs = rev (dropWhile p (rev xs))"

definition trim_space :: "string \<Rightarrow> string" where
  "trim_space s = rdropWhile is_space (dropWhile is_space s)"

text \<open>\<open>strings.TrimRight(s, "c")\<close> for a cut set of one character.\<close>

definition trim_right :: "char \<Rightarrow> string \<Rightarrow> string" where
  "trim_right c s = rdropWhile (\<lambda>x. x = c) s"

definition has_prefix :: "string \<Rightarrow> string \<Rightarrow> bool" where
  "has_prefix s p \<longleftrightarrow> prefix p s"

definition has_suffix :: "string \<Rightarrow> string \<Rightarrow> bool" where
  "has_suffix s p \<longleftrightarrow> suffix p s"

definition trim_prefix :: "string \<Rightarrow> string \<Rightarrow> string" where
  "trim_prefix s p = (if prefix p s then drop (length p) s else s)"

definition trim_suffix :: "string \<Rightarrow> string \<Rightarrow> string" where
  "trim_suffix s p = (if suffix p s then take (length s - length p) s else s)"

text \<open>\<open>strings.Cut\<close> at one character: \<open>None\<close> when it does not occur.\<close>

fun cut :: "char \<Rightarrow> string \<Rightarrow> (string \<times> string) option" where
  "cut c [] = None"
| "cut c (x # xs) = (if x = c then Some ([], xs)
     else map_option (\<lambda>(a, b). (x # a, b)) (cut c xs))"

text \<open>\<open>strings.LastIndexByte\<close>, as the two parts around the last occurrence.\<close>

definition last_cut :: "char \<Rightarrow> string \<Rightarrow> (string \<times> string) option" where
  "last_cut c s = map_option (\<lambda>(a, b). (rev b, rev a)) (cut c (rev s))"

fun split_on :: "char \<Rightarrow> string \<Rightarrow> string list" where
  "split_on c [] = [[]]"
| "split_on c (x # xs) =
     (if x = c then [] # split_on c xs
      else (case split_on c xs of [] \<Rightarrow> [[x]] | w # ws \<Rightarrow> (x # w) # ws))"

text \<open>\<open>strings.FieldsFunc\<close>: the maximal runs of characters that are not separators.\<close>

definition fields_func :: "(char \<Rightarrow> bool) \<Rightarrow> string \<Rightarrow> string list" where
  "fields_func p s =
     filter (\<lambda>w. w \<noteq> []) (foldr (\<lambda>x ws. if p x then [] # ws
        else (case ws of [] \<Rightarrow> [[x]] | w # us \<Rightarrow> (x # w) # us)) s [[]])"

fun join :: "string \<Rightarrow> string list \<Rightarrow> string" where
  "join sep [] = []"
| "join sep [x] = x"
| "join sep (x # y # xs) = x @ sep @ join sep (y # xs)"

definition contains_any :: "string \<Rightarrow> string \<Rightarrow> bool" where
  "contains_any s cs \<longleftrightarrow> (\<exists>c \<in> set s. c \<in> set cs)"

definition is_digit :: "char \<Rightarrow> bool" where
  "is_digit c \<longleftrightarrow> (let n = (of_char c :: nat) in 48 \<le> n \<and> n \<le> 57)"

definition is_alpha :: "char \<Rightarrow> bool" where
  "is_alpha c \<longleftrightarrow> (let n = (of_char c :: nat) in (65 \<le> n \<and> n \<le> 90) \<or> (97 \<le> n \<and> n \<le> 122))"

definition digit_val :: "char \<Rightarrow> int" where
  "digit_val c = int (of_char c) - 48"

text \<open>Decimal numerals: \<open>strconv.FormatInt\<close> and the digits part of \<open>strconv.ParseInt\<close>.\<close>

function digits_str :: "int \<Rightarrow> string" where
  "digits_str n = (if n < 10 then [char_of (48 + n)] else digits_str (n div 10) @ [char_of (48 + n mod 10)])"
  by pat_completeness auto
termination
  by (relation "measure nat") auto

declare digits_str.simps [simp del]

definition int_str :: "int \<Rightarrow> string" where
  "int_str n = (if n < 0 then ''-'' @ digits_str (- n) else digits_str n)"

definition digits_val :: "string \<Rightarrow> int" where
  "digits_val s = foldl (\<lambda>n c. 10 * n + digit_val c) 0 s"

definition all_digits :: "string \<Rightarrow> bool" where
  "all_digits s \<longleftrightarrow> s \<noteq> [] \<and> list_all is_digit s"

definition int64_min :: int where "int64_min = -9223372036854775808"
definition int64_max :: int where "int64_max = 9223372036854775807"

text \<open>\<open>strconv.ParseInt(s, 10, 64)\<close> and \<open>strconv.Atoi\<close>: \<open>None\<close> is the error.\<close>

definition parse_int64 :: "string \<Rightarrow> int option" where
  "parse_int64 s =
     (let (neg, ds) = (case s of c # cs \<Rightarrow> if c = CHR ''-'' then (True, cs)
                                   else if c = CHR ''+'' then (False, cs) else (False, s) | [] \<Rightarrow> (False, []));
          v = (if neg then - digits_val ds else digits_val ds)
      in if all_digits ds \<and> int64_min \<le> v \<and> v \<le> int64_max then Some v else None)"

subsection \<open>Case folding\<close>

lemma char_lower_idem [simp]: "char_lower (char_lower c) = char_lower c"
proof (cases "65 \<le> (of_char c :: nat) \<and> (of_char c :: nat) \<le> 90")
  case True
  then have "(of_char (char_of ((of_char c :: nat) + 32) :: char) :: nat) = of_char c + 32"
    by (simp only: of_char_of) (simp add: mod_less)
  with True show ?thesis by (simp add: char_lower_def Let_def)
next
  case False
  then show ?thesis by (auto simp: char_lower_def Let_def)
qed

lemma to_lower_idem [simp]: "to_lower (to_lower s) = to_lower s"
  by (simp add: to_lower_def)

lemma length_to_lower [simp]: "length (to_lower s) = length s"
  by (simp add: to_lower_def)

lemma to_lower_Nil [simp]: "to_lower [] = []" and to_lower_eq_Nil [simp]: "to_lower s = [] \<longleftrightarrow> s = []"
  by (simp_all add: to_lower_def)

lemma to_lower_append [simp]: "to_lower (a @ b) = to_lower a @ to_lower b"
  by (simp add: to_lower_def)

lemma is_space_of_char:
  "is_space c \<longleftrightarrow> (of_char c :: nat) \<in> {32, 9, 10, 11, 12, 13}"
proof -
  have eq: "c = d \<longleftrightarrow> (of_char c :: nat) = of_char d" for d
    using inj_of_char [where 'a = nat] by (auto simp: inj_def)
  show ?thesis
    unfolding is_space_def by (simp add: eq of_char_def)
qed

lemma is_space_char_lower [simp]: "is_space (char_lower c) = is_space c"
proof (cases "65 \<le> (of_char c :: nat) \<and> (of_char c :: nat) \<le> 90")
  case True
  then have "(of_char (char_of ((of_char c :: nat) + 32) :: char) :: nat) = of_char c + 32"
    by (simp only: of_char_of) (simp add: mod_less)
  with True show ?thesis by (simp add: is_space_of_char char_lower_def Let_def)
next
  case False
  then show ?thesis by (auto simp: char_lower_def Let_def)
qed

lemma equal_fold_refl [simp, intro]: "equal_fold a a"
  and equal_fold_sym: "equal_fold a b \<Longrightarrow> equal_fold b a"
  and equal_fold_trans: "equal_fold a b \<Longrightarrow> equal_fold b c \<Longrightarrow> equal_fold a c"
  by (simp_all add: equal_fold_def)

subsection \<open>Trimming\<close>

lemma rdropWhile_Nil [simp]: "rdropWhile p [] = []"
  by (simp add: rdropWhile_def)

lemma rdropWhile_snoc [simp]:
  "rdropWhile p (xs @ [x]) = (if p x then rdropWhile p xs else xs @ [x])"
  by (simp add: rdropWhile_def)

lemma rdropWhile_prefix: "prefix (rdropWhile p xs) xs"
  by (induction xs rule: rev_induct) (auto intro: prefix_snocD)

lemma set_rdropWhile: "set (rdropWhile p xs) \<subseteq> set xs"
  by (rule set_mono_prefix) (rule rdropWhile_prefix)

lemma rdropWhile_last: "rdropWhile p xs \<noteq> [] \<Longrightarrow> \<not> p (last (rdropWhile p xs))"
  by (induction xs rule: rev_induct) auto

lemma rdropWhile_id: "xs = [] \<or> \<not> p (last xs) \<Longrightarrow> rdropWhile p xs = xs"
  by (cases xs rule: rev_cases) auto

lemma rdropWhile_idem [simp]: "rdropWhile p (rdropWhile p xs) = rdropWhile p xs"
  by (rule rdropWhile_id) (use rdropWhile_last in blast)

lemma rdropWhile_split: "\<exists>ys. xs = rdropWhile p xs @ ys \<and> list_all p ys"
proof (induction xs rule: rev_induct)
  case Nil
  then show ?case by simp
next
  case (snoc x xs)
  then obtain ys where "xs = rdropWhile p xs @ ys" "list_all p ys" by blast
  then show ?case
    by (cases "p x") (auto intro: exI [of _ "ys @ [x]"])
qed

lemma hd_rdropWhile: "rdropWhile p xs \<noteq> [] \<Longrightarrow> hd (rdropWhile p xs) = hd xs"
  using rdropWhile_prefix [of p xs] by (cases xs; cases "rdropWhile p xs") auto

lemma trim_space_Nil [simp]: "trim_space [] = []"
  by (simp add: trim_space_def)

lemma trim_space_hd: "trim_space s \<noteq> [] \<Longrightarrow> \<not> is_space (hd (trim_space s))"
proof -
  assume a: "trim_space s \<noteq> []"
  then have ne: "dropWhile is_space s \<noteq> []" unfolding trim_space_def by (metis rdropWhile_Nil)
  have "hd (trim_space s) = hd (dropWhile is_space s)"
    using a by (simp add: trim_space_def hd_rdropWhile)
  with hd_dropWhile [OF ne] show ?thesis by simp
qed

lemma trim_space_last: "trim_space s \<noteq> [] \<Longrightarrow> \<not> is_space (last (trim_space s))"
  by (simp add: trim_space_def rdropWhile_last)

lemma trim_space_id: "s = [] \<or> (\<not> is_space (hd s) \<and> \<not> is_space (last s)) \<Longrightarrow> trim_space s = s"
  by (cases s) (auto simp: trim_space_def rdropWhile_id)

lemma trim_space_idem [simp]: "trim_space (trim_space s) = trim_space s"
  using trim_space_hd trim_space_last by (intro trim_space_id) blast

lemma trim_space_Cons: "\<not> is_space c \<Longrightarrow> trim_space (c # s) \<noteq> []"
  by (induction s rule: rev_induct) (simp_all add: trim_space_def rdropWhile_def)

lemma rdropWhile_map:
  "(\<And>x. p (f x) = p x) \<Longrightarrow> rdropWhile p (map f xs) = map f (rdropWhile p xs)"
  by (induction xs rule: rev_induct) auto

lemma trim_space_to_lower: "trim_space (to_lower s) = to_lower (trim_space s)"
  by (simp add: trim_space_def to_lower_def dropWhile_map comp_def rdropWhile_map)

lemma set_trim_space: "set (trim_space s) \<subseteq> set s"
  unfolding trim_space_def using set_rdropWhile set_dropWhileD by fastforce

lemma trim_right_Nil [simp]: "trim_right c [] = []"
  by (simp add: trim_right_def)

lemma trim_right_idem [simp]: "trim_right c (trim_right c s) = trim_right c s"
  by (simp add: trim_right_def)

lemma trim_right_not_suffix: "\<not> suffix [c] (trim_right c s)"
proof
  assume "suffix [c] (trim_right c s)"
  then obtain ys where ys: "trim_right c s = ys @ [c]" by (auto simp: suffix_def)
  then show False
    using rdropWhile_last [of "\<lambda>x. x = c" s] by (simp add: trim_right_def)
qed

lemma trim_right_id: "\<not> suffix [c] s \<Longrightarrow> trim_right c s = s"
  by (cases s rule: rev_cases) (auto simp: trim_right_def)

subsection \<open>Cutting, splitting and joining\<close>

lemma cut_Some_iff: "cut c s = Some (a, b) \<longleftrightarrow> s = a @ c # b \<and> c \<notin> set a"
proof (induction s arbitrary: a)
  case Nil
  then show ?case by simp
next
  case (Cons x xs)
  then show ?case by (cases a) auto
qed

lemma cut_None_iff: "cut c s = None \<longleftrightarrow> c \<notin> set s"
  by (induction s) auto

lemma last_cut_Some_iff: "last_cut c s = Some (a, b) \<longleftrightarrow> s = a @ c # b \<and> c \<notin> set b"
proof -
  have "last_cut c s = Some (a, b) \<longleftrightarrow> cut c (rev s) = Some (rev b, rev a)"
    by (auto simp: last_cut_def)
  also have "\<dots> \<longleftrightarrow> rev s = rev b @ c # rev a \<and> c \<notin> set b"
    by (simp add: cut_Some_iff)
  also have "\<dots> \<longleftrightarrow> s = a @ c # b \<and> c \<notin> set b"
    by (metis append.assoc append_Cons append_Nil rev.simps(2) rev_append rev_rev_ident)
  finally show ?thesis .
qed

lemma split_on_ne [simp]: "split_on c s \<noteq> []"
  by (induction s) (auto split: list.splits)

lemma split_on_single: "c \<notin> set s \<Longrightarrow> split_on c s = [s]"
  by (induction s) auto

lemma split_on_append: "c \<notin> set a \<Longrightarrow> split_on c (a @ c # b) = a # split_on c b"
  by (induction a) auto

lemma split_on_no_sep: "w \<in> set (split_on c s) \<Longrightarrow> c \<notin> set w"
proof (induction s arbitrary: w)
  case Nil
  then show ?case by simp
next
  case (Cons x xs)
  then show ?case by (auto split: if_splits list.splits)
qed

lemma join_Cons: "ws \<noteq> [] \<Longrightarrow> join sep (w # ws) = w @ sep @ join sep ws"
  by (cases ws) auto

lemma join_split_on: "join [c] (split_on c s) = s"
proof (induction s)
  case Nil
  then show ?case by simp
next
  case (Cons x xs)
  show ?case
  proof (cases "x = c")
    case True
    with Cons show ?thesis by (simp add: join_Cons)
  next
    case False
    obtain w ws where ws: "split_on c xs = w # ws" by (meson neq_Nil_conv split_on_ne)
    with False Cons show ?thesis by (cases ws) auto
  qed
qed

lemma split_on_join:
  "ws \<noteq> [] \<Longrightarrow> \<forall>w\<in>set ws. c \<notin> set w \<Longrightarrow> split_on c (join [c] ws) = ws"
proof (induction ws)
  case Nil
  then show ?case by simp
next
  case (Cons w ws)
  then show ?case
    by (cases "ws = []") (simp_all add: split_on_single join_Cons split_on_append)
qed

lemma trim_prefix_append [simp]: "trim_prefix (p @ s) p = s"
  by (simp add: trim_prefix_def)

lemma trim_suffix_append [simp]: "trim_suffix (s @ p) p = s"
  by (simp add: trim_suffix_def suffix_def)

lemma has_prefix_append [simp]: "has_prefix (p @ s) p"
  by (simp add: has_prefix_def)

section \<open>64-bit integers\<close>

text \<open>The value a Go \<open>int64\<close> expression has when its exact value is \<open>n\<close>.\<close>

definition wrap64 :: "int \<Rightarrow> int" where
  "wrap64 n = sint (word_of_int n :: 64 word)"

lemma wrap64_bounds: "int64_min \<le> wrap64 n" "wrap64 n \<le> int64_max"
  using sint_range_size [of "word_of_int n :: 64 word"]
  by (simp_all add: wrap64_def int64_min_def int64_max_def word_size)

lemma wrap64_id: "int64_min \<le> n \<Longrightarrow> n \<le> int64_max \<Longrightarrow> wrap64 n = n"
  by (simp add: wrap64_def int64_min_def int64_max_def sint_sbintrunc' signed_take_bit_int_eq_self)

section \<open>Ordered de-duplication\<close>

text \<open>
  The loop \<open>for _, v := range xs { if seen[key(v)] { continue }; seen[key(v)] = {}; out =
  append(out, v) }\<close>.
\<close>

fun dedup_on :: "('a \<Rightarrow> 'k) \<Rightarrow> 'k list \<Rightarrow> 'a list \<Rightarrow> 'a list" where
  "dedup_on key seen [] = []"
| "dedup_on key seen (x # xs) =
     (if key x \<in> set seen then dedup_on key seen xs
      else x # dedup_on key (key x # seen) xs)"

lemma dedup_on_subset: "set (dedup_on key seen xs) \<subseteq> set xs"
  by (induction xs arbitrary: seen) auto

lemma dedup_on_not_seen: "x \<in> set (dedup_on key seen xs) \<Longrightarrow> key x \<notin> set seen"
proof (induction xs arbitrary: seen)
  case Nil
  then show ?case by simp
next
  case (Cons y ys)
  then show ?case
    using Cons.IH [of "key y # seen"] by (auto split: if_splits)
qed

lemma dedup_on_distinct: "distinct (map key (dedup_on key seen xs))"
  by (induction xs arbitrary: seen) (auto dest: dedup_on_not_seen)

lemma dedup_on_keys: "key ` set (dedup_on key seen xs) = key ` set xs - set seen"
  by (induction xs arbitrary: seen) auto

lemma dedup_on_id: "distinct (map key xs) \<Longrightarrow> key ` set xs \<inter> set seen = {} \<Longrightarrow> dedup_on key seen xs = xs"
  by (induction xs arbitrary: seen) auto

lemma dedup_on_length: "length (dedup_on key seen xs) \<le> length xs"
  by (induction xs arbitrary: seen) (auto simp: le_SucI)

lemma dedup_on_subseq: "subseq (dedup_on key seen xs) xs"
  by (induction xs arbitrary: seen) auto

lemma dedup_on_first:
  "x \<in> set (dedup_on key seen xs) \<Longrightarrow> \<exists>ys zs. xs = ys @ x # zs \<and> key x \<notin> key ` set ys"
proof (induction xs arbitrary: seen)
  case Nil
  then show ?case by simp
next
  case (Cons y ys)
  show ?case
  proof (cases "x = y \<and> key y \<notin> set seen")
    case True
    then show ?thesis by (intro exI [of _ "[]"] exI [of _ ys]) simp
  next
    case False
    obtain seen' where s': "x \<in> set (dedup_on key seen' ys)" and ny: "key x \<noteq> key y"
    proof (cases "key y \<in> set seen")
      case True
      with Cons.prems have "x \<in> set (dedup_on key seen ys)" by simp
      moreover from this True have "key x \<noteq> key y" using dedup_on_not_seen by fastforce
      ultimately show ?thesis by (rule that)
    next
      case False
      with Cons.prems \<open>\<not> (x = y \<and> key y \<notin> set seen)\<close>
      have "x \<in> set (dedup_on key (key y # seen) ys)" by auto
      moreover from this have "key x \<noteq> key y" using dedup_on_not_seen by fastforce
      ultimately show ?thesis by (rule that)
    qed
    from Cons.IH [OF s'] obtain us zs where "ys = us @ x # zs" "key x \<notin> key ` set us" by blast
    with ny show ?thesis by (intro exI [of _ "y # us"] exI [of _ zs]) auto
  qed
qed

lemma mem_map_filter: "y \<in> set (List.map_filter f xs) \<longleftrightarrow> (\<exists>x \<in> set xs. f x = Some y)"
  by (induction xs) (auto simp: List.map_filter_simps split: option.splits)

text \<open>The contract of such a loop over cleaned-up inputs.\<close>

locale unique_list =
  fixes run :: "'a list \<Rightarrow> 'b list"
    and clean :: "'a \<Rightarrow> 'b option"
    and key :: "'b \<Rightarrow> 'k"
  assumes run_eq: "run xs = dedup_on key [] (List.map_filter clean xs)"
begin

lemma ul_distinct: "distinct (map key (run xs))"
  by (simp add: run_eq dedup_on_distinct)

lemma ul_keys: "key ` set (run xs) = {key y | x y. x \<in> set xs \<and> clean x = Some y}"
proof -
  have "key ` set (run xs) = key ` set (List.map_filter clean xs)"
    by (simp add: run_eq dedup_on_keys)
  also have "\<dots> = {key y | x y. x \<in> set xs \<and> clean x = Some y}"
    by (simp add: set_eq_iff image_iff Bex_def mem_map_filter) blast
  finally show ?thesis .
qed

lemma ul_cleaned: "y \<in> set (run xs) \<Longrightarrow> \<exists>x \<in> set xs. clean x = Some y"
  using dedup_on_subset [of key "[]" "List.map_filter clean xs"]
  by (auto simp: run_eq mem_map_filter)

lemma ul_order: "subseq (run xs) (List.map_filter clean xs)"
  by (simp add: run_eq dedup_on_subseq)

lemma ul_empty: "run xs = [] \<longleftrightarrow> (\<forall>x \<in> set xs. clean x = None)"
proof -
  have "run xs = [] \<longleftrightarrow> key ` set (run xs) = {}" by auto
  also have "\<dots> \<longleftrightarrow> (\<forall>x \<in> set xs. clean x = None)"
    by (auto simp: ul_keys) (metis option.exhaust)
  finally show ?thesis .
qed

end

section \<open>Reachable states\<close>

inductive reach :: "('s \<Rightarrow> bool) \<Rightarrow> ('s \<Rightarrow> 's \<Rightarrow> bool) \<Rightarrow> 's \<Rightarrow> bool"
  for init :: "'s \<Rightarrow> bool" and step :: "'s \<Rightarrow> 's \<Rightarrow> bool" where
  reach_init: "init s \<Longrightarrow> reach init step s"
| reach_step: "reach init step s \<Longrightarrow> step s t \<Longrightarrow> reach init step t"

lemma reach_steps: "step\<^sup>*\<^sup>* s t \<Longrightarrow> reach init step s \<Longrightarrow> reach init step t"
  by (induction rule: rtranclp_induct) (auto intro: reach_step)

text \<open>The contract of an inductive invariant; its client is every reachable state.\<close>

locale step_invariant =
  fixes init :: "'s \<Rightarrow> bool" and step :: "'s \<Rightarrow> 's \<Rightarrow> bool" and inv :: "'s \<Rightarrow> bool"
  assumes inv_init: "init s \<Longrightarrow> inv s"
    and inv_step: "inv s \<Longrightarrow> step s t \<Longrightarrow> inv t"
begin

lemma inv_reach: "reach init step s \<Longrightarrow> inv s"
  by (induction rule: reach.induct) (auto intro: inv_init inv_step)

end

text \<open>
  A refinement of an abstract machine by each component of a system: \<open>view i s\<close> is what the
  abstract machine sees of component \<open>i\<close> in the state \<open>s\<close>, while the component exists. A step
  of the system is any number of abstract steps of the component, none included, or removes it.
\<close>

locale refinement =
  fixes init :: "'s \<Rightarrow> bool" and step :: "'s \<Rightarrow> 's \<Rightarrow> bool" and view :: "'i \<Rightarrow> 's \<Rightarrow> 'v option"
    and start :: "'v \<Rightarrow> bool" and astep :: "'v \<Rightarrow> 'v \<Rightarrow> bool"
  assumes view_init: "init s \<Longrightarrow> view i s = None"
    and view_born: "step s t \<Longrightarrow> view i s = None \<Longrightarrow> view i t = Some v \<Longrightarrow> start v"
    and view_step: "reach init step s \<Longrightarrow> step s t \<Longrightarrow> view i s = Some v \<Longrightarrow>
      view i t = None \<or> (\<exists>w. view i t = Some w \<and> astep\<^sup>*\<^sup>* v w)"
begin

lemma refines: "reach init step s \<Longrightarrow> view i s = Some v \<Longrightarrow> reach start astep v"
proof (induction arbitrary: v rule: reach.induct)
  case (reach_init s)
  with view_init [of s i] show ?case by simp
next
  case (reach_step s t)
  show ?case
  proof (cases "view i s")
    case None
    from view_born [OF reach_step(2) None reach_step(4)] show ?thesis by (rule reach.reach_init)
  next
    case (Some u)
    with view_step [OF reach_step(1,2) Some] reach_step(3,4) show ?thesis by (auto intro: reach_steps)
  qed
qed

end

section \<open>Decimal numerals\<close>

lemma digit_char:
  assumes "0 \<le> n" "n < 10" shows "is_digit (char_of (48 + n))" "digit_val (char_of (48 + n)) = n"
proof -
  have "(of_char (char_of (48 + n)) :: int) = 48 + n" using assms by simp
  then have "int (of_char (char_of (48 + n))) = 48 + n" by (simp add: of_nat_of_char)
  with assms show "is_digit (char_of (48 + n))" "digit_val (char_of (48 + n)) = n"
    by (simp_all add: is_digit_def digit_val_def Let_def)
qed

lemma digits_str_digits:
  "0 \<le> n \<Longrightarrow> all_digits (digits_str n) \<and> digits_val (digits_str n) = n"
proof (induction n rule: digits_str.induct)
  case (1 n)
  show ?case
  proof (cases "n < 10")
    case True
    with 1 digit_char [of n] show ?thesis by (simp add: digits_str.simps [of n] all_digits_def digits_val_def)
  next
    case False
    with 1 have "all_digits (digits_str (n div 10))" "digits_val (digits_str (n div 10)) = n div 10" by simp_all
    moreover have "is_digit (char_of (48 + n mod 10))" "digit_val (char_of (48 + n mod 10)) = n mod 10"
      using digit_char [of "n mod 10"] by simp_all
    ultimately show ?thesis
      using False by (subst (1 2) digits_str.simps) (simp add: all_digits_def digits_val_def)
  qed
qed

lemma digits_not_sign: "all_digits s \<Longrightarrow> s \<noteq> [] \<and> hd s \<noteq> CHR ''-'' \<and> hd s \<noteq> CHR ''+''"
  by (cases s) (auto simp: all_digits_def is_digit_def)

lemma parse_int64_int_str:
  assumes "int64_min \<le> n" "n \<le> int64_max" shows "parse_int64 (int_str n) = Some n"
proof (cases "n < 0")
  case True
  with assms digits_str_digits [of "- n"] show ?thesis by (simp add: parse_int64_def int_str_def)
next
  case False
  with assms digits_str_digits [of n] digits_not_sign [of "digits_str n"] show ?thesis
    by (cases "digits_str n") (simp_all add: parse_int64_def int_str_def)
qed

section \<open>Results\<close>

text \<open>A fallible Go call returns \<open>(value, error)\<close>: \<open>Inr\<close> the value or \<open>Inl\<close> the error.\<close>

definition bind_res :: "'e + 'a \<Rightarrow> ('a \<Rightarrow> 'e + 'b) \<Rightarrow> 'e + 'b" where
  "bind_res r f = (case r of Inl e \<Rightarrow> Inl e | Inr x \<Rightarrow> f x)"

lemma bind_res_simps [simp]: "bind_res (Inl e) f = Inl e" "bind_res (Inr x) f = f x"
  by (simp_all add: bind_res_def)

lemma bind_res_Inr: "bind_res r f = Inr y \<longleftrightarrow> (\<exists>x. r = Inr x \<and> f x = Inr y)"
  by (cases r) auto

definition is_ok :: "'e + 'a \<Rightarrow> bool" where
  "is_ok r \<longleftrightarrow> (case r of Inl _ \<Rightarrow> False | Inr _ \<Rightarrow> True)"

lemma is_ok_simps [simp]: "is_ok (Inr x)" "\<not> is_ok (Inl e)"
  by (simp_all add: is_ok_def)

end
