(* ===== verification/GoUrl.thy ===== *)
theory GoUrl
  imports Prelude "HOL-Library.List_Lexorder" "HOL-Library.Char_ord"
begin

text \<open>
  The parts of Go's \<open>net/url\<close> and \<open>path\<close> packages the program calls: \<open>Parse\<close>,
  \<open>ParseRequestURI\<close>, \<open>URL.String\<close>, \<open>EscapedPath\<close>, \<open>Hostname\<close>, query
  values, \<open>PathEscape\<close>, \<open>path.Join\<close>. They are executable, so that a property of a
  handler can be evaluated on a concrete URL. Zones of IPv6 literals are outside the model.
\<close>

section \<open>Escaping\<close>

datatype url_mode = EncPath | EncPathSegment | EncHost | EncUserPassword | EncQuery | EncFragment

definition is_hex :: "char \<Rightarrow> bool" where
  "is_hex c \<longleftrightarrow> (let n = (of_char c :: nat) in
     (48 \<le> n \<and> n \<le> 57) \<or> (97 \<le> n \<and> n \<le> 102) \<or> (65 \<le> n \<and> n \<le> 70))"

definition unhex :: "char \<Rightarrow> nat" where
  "unhex c = (let n = (of_char c :: nat) in
     if n \<le> 57 then n - 48 else if n \<le> 70 then n - 55 else n - 87)"

definition upper_hex :: "nat \<Rightarrow> char" where
  "upper_hex n = char_of (if n < 10 then n + 48 else n + 55)"

definition should_escape :: "url_mode \<Rightarrow> char \<Rightarrow> bool" where
  "should_escape m c =
     (if is_alpha c \<or> is_digit c then False
      else if m = EncHost \<and> c \<in> set ''!$&'' \<union> {CHR 0x27} \<union> set ''()*+,;=:[]<>'' \<union> {CHR 0x22} then False
      else if c \<in> set ''-_.~'' then False
      else if c \<in> set ''$&+,/:;=?@'' then
        (case m of EncPath \<Rightarrow> c = CHR ''?''
         | EncPathSegment \<Rightarrow> c \<in> set ''/;,?''
         | EncUserPassword \<Rightarrow> c \<in> set ''@/?:''
         | EncQuery \<Rightarrow> True
         | EncFragment \<Rightarrow> False
         | EncHost \<Rightarrow> True)
      else if m = EncFragment \<and> c \<in> set ''!()*'' then False
      else True)"

definition escape_char :: "url_mode \<Rightarrow> char \<Rightarrow> string" where
  "escape_char m c =
     (if m = EncQuery \<and> c = CHR '' '' then ''+''
      else if should_escape m c
      then [CHR 0x25, upper_hex (of_char c div 16), upper_hex (of_char c mod 16)]
      else [c])"

definition url_escape :: "url_mode \<Rightarrow> string \<Rightarrow> string" where
  "url_escape m s = concat (map (escape_char m) s)"

definition path_escape :: "string \<Rightarrow> string" where
  "path_escape s = url_escape EncPathSegment s"

definition query_escape :: "string \<Rightarrow> string" where
  "query_escape s = url_escape EncQuery s"

text \<open>\<open>None\<close> is Go's \<open>EscapeError\<close> or \<open>InvalidHostError\<close>.\<close>

fun url_unescape :: "url_mode \<Rightarrow> string \<Rightarrow> string option" where
  "url_unescape m [] = Some []"
| "url_unescape m (c # s) =
     (if c = CHR 0x25 then
        (case s of a # b # t \<Rightarrow>
           if is_hex a \<and> is_hex b \<and> \<not> (m = EncHost \<and> unhex a < 8 \<and> [a, b] \<noteq> ''25'')
           then map_option (\<lambda>r. char_of (16 * unhex a + unhex b) # r) (url_unescape m t)
           else None
         | _ \<Rightarrow> None)
      else if c = CHR ''+'' \<and> m = EncQuery then map_option (\<lambda>r. CHR '' '' # r) (url_unescape m s)
      else if m = EncHost \<and> (of_char c :: nat) < 128 \<and> should_escape m c then None
      else map_option (\<lambda>r. c # r) (url_unescape m s))"

definition valid_encoded_path :: "string \<Rightarrow> bool" where
  "valid_encoded_path s \<longleftrightarrow> list_all (\<lambda>c.
     c \<in> set ''!$&'' \<union> {CHR 0x27} \<union> set ''()*+,;=:@[]'' \<union> {CHR 0x25} \<or> \<not> should_escape EncPath c) s"

section \<open>URLs\<close>

text \<open>The user part is a name and, when one was given, a password.\<close>

record go_url =
  u_scheme :: string
  u_opaque :: string
  u_user :: "(string \<times> string option) option"
  u_host :: string
  u_path :: string
  u_raw_path :: string
  u_omit_host :: bool
  u_force_query :: bool
  u_raw_query :: string
  u_fragment :: string

definition empty_url :: go_url where
  "empty_url = \<lparr>u_scheme = [], u_opaque = [], u_user = None, u_host = [], u_path = [],
     u_raw_path = [], u_omit_host = False, u_force_query = False, u_raw_query = [], u_fragment = []\<rparr>"

definition has_ctl :: "string \<Rightarrow> bool" where
  "has_ctl s \<longleftrightarrow> list_ex (\<lambda>c. (of_char c :: nat) < 32 \<or> (of_char c :: nat) = 127) s"

text \<open>\<open>getScheme\<close>: \<open>None\<close> is "missing protocol scheme".\<close>

fun get_scheme_from :: "string \<Rightarrow> string \<Rightarrow> string \<Rightarrow> (string \<times> string) option" where
  "get_scheme_from raw acc [] = Some ([], raw)"
| "get_scheme_from raw acc (c # cs) =
     (if is_alpha c then get_scheme_from raw (acc @ [c]) cs
      else if is_digit c \<or> c \<in> set ''+-.'' then
        (if acc = [] then Some ([], raw) else get_scheme_from raw (acc @ [c]) cs)
      else if c = CHR '':'' then (if acc = [] then None else Some (acc, cs))
      else Some ([], raw))"

definition get_scheme :: "string \<Rightarrow> (string \<times> string) option" where
  "get_scheme raw = get_scheme_from raw [] raw"

definition valid_optional_port :: "string \<Rightarrow> bool" where
  "valid_optional_port p = (case p of [] \<Rightarrow> True | c # ds \<Rightarrow> c = CHR '':'' \<and> list_all is_digit ds)"

definition parse_host :: "string \<Rightarrow> string option" where
  "parse_host host =
     (if has_prefix host ''['' then
        (case last_cut (CHR '']'') host of None \<Rightarrow> None
         | Some (_, port) \<Rightarrow> if valid_optional_port port then url_unescape EncHost host else None)
      else (case last_cut (CHR '':'') host of
              Some (_, port) \<Rightarrow> if list_all is_digit port then url_unescape EncHost host else None
            | None \<Rightarrow> url_unescape EncHost host))"

definition valid_userinfo :: "string \<Rightarrow> bool" where
  "valid_userinfo s \<longleftrightarrow> list_all (\<lambda>c. is_alpha c \<or> is_digit c \<or>
     c \<in> set ''-._:~!$&'' \<union> {CHR 0x27} \<union> set ''()*+,;='' \<union> {CHR 0x25, CHR ''@''}) s"

definition parse_authority :: "string \<Rightarrow> ((string \<times> string option) option \<times> string) option" where
  "parse_authority a =
     (case last_cut (CHR ''@'') a of
        None \<Rightarrow> map_option (\<lambda>h. (None, h)) (parse_host a)
      | Some (ui, h) \<Rightarrow>
          (case parse_host h of None \<Rightarrow> None | Some host \<Rightarrow>
             if \<not> valid_userinfo ui then None
             else (case cut (CHR '':'') ui of
                 None \<Rightarrow> map_option (\<lambda>n. (Some (n, None), host)) (url_unescape EncUserPassword ui)
               | Some (n, p) \<Rightarrow>
                   (case (url_unescape EncUserPassword n, url_unescape EncUserPassword p) of
                      (Some n', Some p') \<Rightarrow> Some (Some (n', Some p'), host)
                    | _ \<Rightarrow> None))))"

definition set_path :: "string \<Rightarrow> go_url \<Rightarrow> go_url option" where
  "set_path p u = (case url_unescape EncPath p of None \<Rightarrow> None
     | Some q \<Rightarrow> Some (u\<lparr>u_path := q, u_raw_path := (if url_escape EncPath q = p then [] else p)\<rparr>))"

definition split_query :: "string \<Rightarrow> string \<times> string \<times> bool" where
  "split_query rest =
     (if has_suffix rest ''?'' \<and> length (filter (\<lambda>c. c = CHR ''?'') rest) = 1
      then (butlast rest, [], True)
      else (case cut (CHR ''?'') rest of None \<Rightarrow> (rest, [], False) | Some (a, b) \<Rightarrow> (a, b, False)))"

text \<open>The unexported \<open>parse(rawURL, viaRequest)\<close>.\<close>

definition url_parse0 :: "bool \<Rightarrow> string \<Rightarrow> go_url option" where
  "url_parse0 via raw =
     (if has_ctl raw then None
      else if raw = [] \<and> via then None
      else if raw = ''*'' then Some (empty_url\<lparr>u_path := ''*''\<rparr>)
      else (case get_scheme raw of None \<Rightarrow> None
       | Some (sch, rest0) \<Rightarrow>
          (let (rest, q, fq) = split_query rest0;
               u = empty_url\<lparr>u_scheme := to_lower sch, u_raw_query := q, u_force_query := fq\<rparr>
           in if \<not> has_prefix rest ''/'' \<and> sch \<noteq> [] then Some (u\<lparr>u_opaque := rest\<rparr>)
              else if \<not> has_prefix rest ''/'' \<and> via then None
              else if \<not> has_prefix rest ''/'' \<and>
                CHR '':'' \<in> set (case cut (CHR ''/'') rest of None \<Rightarrow> rest | Some (a, _) \<Rightarrow> a) then None
              else if (sch \<noteq> [] \<or> (\<not> via \<and> \<not> has_prefix rest ''///'')) \<and> has_prefix rest ''//'' then
                (let auth_rest = drop 2 rest;
                     (auth, p) = (case cut (CHR ''/'') auth_rest of None \<Rightarrow> (auth_rest, [])
                                  | Some (a, b) \<Rightarrow> (a, CHR ''/'' # b))
                 in (case parse_authority auth of None \<Rightarrow> None
                     | Some (us, h) \<Rightarrow> set_path p (u\<lparr>u_user := us, u_host := h\<rparr>)))
              else set_path rest (u\<lparr>u_omit_host := (sch \<noteq> [] \<and> has_prefix rest ''/'')\<rparr>))))"

text \<open>\<open>url.Parse\<close> (\<open>None\<close> is the parse error) and \<open>url.ParseRequestURI\<close>.\<close>

definition url_parse :: "string \<Rightarrow> go_url option" where
  "url_parse raw = (case cut (CHR ''#'') raw of
       None \<Rightarrow> url_parse0 False raw
     | Some (u, frag) \<Rightarrow>
         (case url_parse0 False u of None \<Rightarrow> None
          | Some url \<Rightarrow> map_option (\<lambda>f. url\<lparr>u_fragment := f\<rparr>) (url_unescape EncFragment frag)))"

definition url_parse_request_uri :: "string \<Rightarrow> go_url option" where
  "url_parse_request_uri raw = url_parse0 True raw"

definition escaped_path :: "go_url \<Rightarrow> string" where
  "escaped_path u =
     (if u_raw_path u \<noteq> [] \<and> valid_encoded_path (u_raw_path u)
         \<and> url_unescape EncPath (u_raw_path u) = Some (u_path u) then u_raw_path u
      else if u_path u = ''*'' then ''*''
      else url_escape EncPath (u_path u))"

definition userinfo_str :: "string \<times> string option \<Rightarrow> string" where
  "userinfo_str ui = (case ui of (n, p) \<Rightarrow>
     if n \<noteq> [] \<or> p \<noteq> None then url_escape EncUserPassword n @
       (case p of None \<Rightarrow> [] | Some pw \<Rightarrow> '':'' @ url_escape EncUserPassword pw)
     else [])"

definition authority_str :: "go_url \<Rightarrow> string" where
  "authority_str u =
     (if (u_scheme u \<noteq> [] \<or> u_host u \<noteq> [] \<or> u_user u \<noteq> None)
         \<and> \<not> (u_omit_host u \<and> u_host u = [] \<and> u_user u = None)
      then (if u_host u \<noteq> [] \<or> u_path u \<noteq> [] \<or> u_user u \<noteq> None then ''//'' else []) @
           (case u_user u of None \<Rightarrow> [] | Some ui \<Rightarrow> userinfo_str ui @ ''@'') @
           url_escape EncHost (u_host u)
      else [])"

definition url_string :: "go_url \<Rightarrow> string" where
  "url_string u =
     (let sch = (if u_scheme u \<noteq> [] then u_scheme u @ '':'' else []);
          p = escaped_path u;
          pre = sch @ authority_str u;
          pre' = pre @ (if p \<noteq> [] \<and> \<not> has_prefix p ''/'' \<and> u_host u \<noteq> [] then ''/'' else []);
          dot = (if pre' = [] \<and> CHR '':'' \<in> set (case cut (CHR ''/'') p of None \<Rightarrow> p | Some (a, _) \<Rightarrow> a)
                 then ''./'' else [])
      in (if u_opaque u \<noteq> [] then sch @ u_opaque u else pre' @ dot @ p)
         @ (if u_force_query u \<or> u_raw_query u \<noteq> [] then ''?'' @ u_raw_query u else [])
         @ (if u_fragment u \<noteq> [] then ''#'' @ url_escape EncFragment (u_fragment u) else []))"

definition url_hostname :: "go_url \<Rightarrow> string" where
  "url_hostname u =
     (let h = (case last_cut (CHR '':'') (u_host u) of
                 Some (a, port) \<Rightarrow> if list_all is_digit port then a else u_host u
               | None \<Rightarrow> u_host u)
      in if has_prefix h ''['' \<and> has_suffix h '']'' then butlast (tl h) else h)"

definition url_is_abs :: "go_url \<Rightarrow> bool" where
  "url_is_abs u \<longleftrightarrow> u_scheme u \<noteq> []"

section \<open>Query values\<close>

text \<open>\<open>url.Values\<close>: the keys with their values, in the order the keys were first seen.\<close>

type_synonym url_values = "(string \<times> string list) list"

fun values_add :: "string \<Rightarrow> string \<Rightarrow> url_values \<Rightarrow> url_values" where
  "values_add k v [] = [(k, [v])]"
| "values_add k v ((k', vs) # q) = (if k = k' then (k', vs @ [v]) # q else (k', vs) # values_add k v q)"

fun values_set :: "string \<Rightarrow> string \<Rightarrow> url_values \<Rightarrow> url_values" where
  "values_set k v [] = [(k, [v])]"
| "values_set k v ((k', vs) # q) = (if k = k' then (k', [v]) # q else (k', vs) # values_set k v q)"

definition values_get :: "url_values \<Rightarrow> string \<Rightarrow> string" where
  "values_get q k = (case map_of q k of Some (v # _) \<Rightarrow> v | _ \<Rightarrow> [])"

definition values_has :: "url_values \<Rightarrow> string \<Rightarrow> bool" where
  "values_has q k \<longleftrightarrow> map_of q k \<noteq> None"

definition parse_query_pair :: "string \<Rightarrow> url_values \<Rightarrow> url_values" where
  "parse_query_pair p q =
     (if CHR '';'' \<in> set p \<or> p = [] then q
      else (let (k, v) = (case cut (CHR ''='') p of None \<Rightarrow> (p, []) | Some kv \<Rightarrow> kv)
            in (case (url_unescape EncQuery k, url_unescape EncQuery v) of
                  (Some k', Some v') \<Rightarrow> values_add k' v' q
                | _ \<Rightarrow> q)))"

definition url_query :: "go_url \<Rightarrow> url_values" where
  "url_query u = fold parse_query_pair (split_on (CHR ''&'') (u_raw_query u)) []"

definition values_encode :: "url_values \<Rightarrow> string" where
  "values_encode q = join ''&'' (concat (map (\<lambda>k. map (\<lambda>v. query_escape k @ ''='' @ query_escape v)
      (the (map_of q k))) (sort (map fst q))))"

section \<open>Paths\<close>

text \<open>\<open>path.Clean\<close> works segment by segment; \<open>path.Join\<close> joins the non-empty elements.\<close>

fun clean_segments :: "bool \<Rightarrow> string list \<Rightarrow> string list \<Rightarrow> string list" where
  "clean_segments rooted acc [] = rev acc"
| "clean_segments rooted acc (s # ss) =
     (if s = [] \<or> s = ''.'' then clean_segments rooted acc ss
      else if s = ''..'' then
        (case acc of [] \<Rightarrow> clean_segments rooted (if rooted then [] else [''..'']) ss
         | a # as \<Rightarrow> if a = ''..'' then clean_segments rooted (''..'' # acc) ss
                     else clean_segments rooted as ss)
      else clean_segments rooted (s # acc) ss)"

definition path_clean :: "string \<Rightarrow> string" where
  "path_clean p =
     (let rooted = has_prefix p ''/'';
          body = join ''/'' (clean_segments rooted [] (split_on (CHR ''/'') p));
          out = (if rooted then ''/'' @ body else body)
      in if out = [] then ''.'' else out)"

definition path_join :: "string list \<Rightarrow> string" where
  "path_join ps = (let qs = filter (\<lambda>p. p \<noteq> []) ps in if qs = [] then [] else path_clean (join ''/'' qs))"

section \<open>Facts\<close>

lemma url_escape_append [simp]: "url_escape m (a @ b) = url_escape m a @ url_escape m b"
  by (simp add: url_escape_def)

lemma url_escape_Nil [simp]: "url_escape m [] = []"
  by (simp add: url_escape_def)

lemma escape_char_ne [simp]: "escape_char m c \<noteq> []"
  by (simp add: escape_char_def)

lemma url_escape_eq_Nil [simp]: "url_escape m s = [] \<longleftrightarrow> s = []"
  by (cases s) (simp_all add: url_escape_def)

lemma upper_hex_all: "list_all (\<lambda>n. upper_hex n \<noteq> CHR ''/'' \<and> upper_hex n \<noteq> CHR ''.'') [0..<16]"
  by code_simp

lemma upper_hex_safe: "n < 16 \<Longrightarrow> upper_hex n \<noteq> CHR ''/'' \<and> upper_hex n \<noteq> CHR ''.''"
  using upper_hex_all by (simp add: list_all_iff)

lemma should_escape_slash: "should_escape EncPathSegment (CHR ''/'')"
  by code_simp

lemma of_char_bounds: "(of_char c :: nat) div 16 < 16" "(of_char c :: nat) mod 16 < 16"
  using nat_of_char_less_256 [of c] by (simp_all add: less_mult_imp_div_less)

lemma path_escape_no_slash: "CHR ''/'' \<notin> set (path_escape s)"
proof -
  have "CHR ''/'' \<notin> set (escape_char EncPathSegment c)" for c
    using upper_hex_safe [OF of_char_bounds(1) [of c]] upper_hex_safe [OF of_char_bounds(2) [of c]]
      should_escape_slash by (auto simp: escape_char_def)
  then show ?thesis by (auto simp: path_escape_def url_escape_def)
qed

end
