(* ===== verification/GoJson.thy ===== *)
theory GoJson
  imports Prelude "HOL-Library.Char_ord"
begin

text \<open>
  The parts of Go's \<open>encoding/json\<close> the program calls: a parser for JSON texts, and the
  typed decodings the source asks of \<open>Unmarshal\<close> (a list of raw messages, a string, a
  bool, a struct with string fields). A number keeps its lexeme. Two rules of Go's decoder
  matter to the program and are modelled: JSON \<open>null\<close> leaves a Go variable at its zero
  value without an error, and an object key selects a struct field by its exact name or,
  failing that, up to case, a later key overwriting an earlier one. The nesting limit of
  10000 and the replacement of invalid UTF-8 are outside the model.
\<close>

section \<open>Values and the parser\<close>

datatype json =
    JNull
  | JBool bool
  | JNum string
  | JStr string
  | JArr "json list"
  | JObj "(string \<times> json) list"

definition json_ws :: "char \<Rightarrow> bool" where
  "json_ws c \<longleftrightarrow> c = CHR '' '' \<or> c = CHR 0x09 \<or> c = CHR 0x0A \<or> c = CHR 0x0D"

definition skip_ws :: "string \<Rightarrow> string" where
  "skip_ws s = dropWhile json_ws s"

definition hex_digit :: "char \<Rightarrow> nat option" where
  "hex_digit c = (let n = (of_char c :: nat) in
     if 48 \<le> n \<and> n \<le> 57 then Some (n - 48)
     else if 97 \<le> n \<and> n \<le> 102 then Some (n - 87)
     else if 65 \<le> n \<and> n \<le> 70 then Some (n - 55) else None)"

fun hex4 :: "string \<Rightarrow> (nat \<times> string) option" where
  "hex4 (a # b # c # d # r) =
     (case (hex_digit a, hex_digit b, hex_digit c, hex_digit d) of
        (Some w, Some x, Some y, Some z) \<Rightarrow> Some (((w * 16 + x) * 16 + y) * 16 + z, r)
      | _ \<Rightarrow> None)"
| "hex4 _ = None"

definition utf8 :: "nat \<Rightarrow> string" where
  "utf8 n =
     (if n < 128 then [char_of n]
      else if n < 2048 then [char_of (192 + n div 64), char_of (128 + n mod 64)]
      else if n < 65536 then [char_of (224 + n div 4096), char_of (128 + n div 64 mod 64), char_of (128 + n mod 64)]
      else [char_of (240 + n div 262144), char_of (128 + n div 4096 mod 64),
            char_of (128 + n div 64 mod 64), char_of (128 + n mod 64)])"

text \<open>The code point of a \<open>\\u\<close> escape: a surrogate pair counts as one, a lone half is U+FFFD.\<close>

definition unicode_escape :: "string \<Rightarrow> (string \<times> string) option" where
  "unicode_escape s = (case hex4 s of None \<Rightarrow> None
     | Some (n, r) \<Rightarrow>
        if n < 55296 \<or> 57344 \<le> n then Some (utf8 n, r)
        else (case r of c # u # t \<Rightarrow>
               if n < 56320 \<and> c = CHR 0x5C \<and> u = CHR ''u'' then
                 (case hex4 t of Some (m, r') \<Rightarrow>
                    if 56320 \<le> m \<and> m < 57344
                    then Some (utf8 ((n - 55296) * 1024 + (m - 56320) + 65536), r')
                    else Some (utf8 65533, r)
                  | None \<Rightarrow> Some (utf8 65533, r))
               else Some (utf8 65533, r)
             | _ \<Rightarrow> Some (utf8 65533, r)))"

definition simple_escape :: "char \<Rightarrow> char option" where
  "simple_escape e =
     (if e = CHR 0x22 \<or> e = CHR 0x5C \<or> e = CHR ''/'' then Some e
      else if e = CHR ''b'' then Some (CHR 0x08) else if e = CHR ''f'' then Some (CHR 0x0C)
      else if e = CHR ''n'' then Some (CHR 0x0A) else if e = CHR ''r'' then Some (CHR 0x0D)
      else if e = CHR ''t'' then Some (CHR 0x09) else None)"

lemma hex4_shorter: "hex4 s = Some (n, r) \<Longrightarrow> length r < length s"
  by (cases s rule: hex4.cases) (auto split: option.splits)

lemma unicode_escape_shorter: "unicode_escape s = Some (w, r) \<Longrightarrow> length r < length s"
  by (fastforce simp: unicode_escape_def split: option.splits if_splits list.splits dest: hex4_shorter)

text \<open>The characters of a string literal after its opening quote.\<close>

function parse_str :: "string \<Rightarrow> (string \<times> string) option" where
  "parse_str s = (case s of [] \<Rightarrow> None
     | c # t \<Rightarrow>
        if c = CHR 0x22 then Some ([], t)
        else if c = CHR 0x5C then
          (case t of [] \<Rightarrow> None
           | e # u \<Rightarrow>
              if e = CHR ''u'' then
                (case unicode_escape u of None \<Rightarrow> None
                 | Some (w, r) \<Rightarrow> map_option (\<lambda>(x, r'). (w @ x, r')) (parse_str r))
              else (case simple_escape e of None \<Rightarrow> None
                    | Some d \<Rightarrow> map_option (\<lambda>(x, r'). (d # x, r')) (parse_str u)))
        else if (of_char c :: nat) < 32 then None
        else map_option (\<lambda>(x, r'). (c # x, r')) (parse_str t))"
  by pat_completeness auto
termination
  by (relation "measure length") (auto dest: unicode_escape_shorter)

declare parse_str.simps [simp del]

lemma parse_str_shorter: "parse_str s = Some (x, r) \<Longrightarrow> length r < length s"
proof (induction s arbitrary: x rule: parse_str.induct)
  case (1 s)
  from "1.prems" show ?case
    apply (subst (asm) parse_str.simps)
    apply (clarsimp split: list.splits if_splits option.splits)
    using "1.IH" unicode_escape_shorter by fastforce+
qed

definition parse_int_part :: "string \<Rightarrow> (string \<times> string) option" where
  "parse_int_part s = (case s of [] \<Rightarrow> None
     | c # t \<Rightarrow> if c = CHR ''0'' then Some ([c], t)
                else if is_digit c then Some (takeWhile is_digit s, dropWhile is_digit s) else None)"

definition parse_frac :: "string \<Rightarrow> (string \<times> string) option" where
  "parse_frac s = (case s of [] \<Rightarrow> Some ([], [])
     | c # t \<Rightarrow> if c = CHR ''.'' then
         (if takeWhile is_digit t = [] then None else Some (c # takeWhile is_digit t, dropWhile is_digit t))
       else Some ([], s))"

definition parse_exp :: "string \<Rightarrow> (string \<times> string) option" where
  "parse_exp s = (case s of [] \<Rightarrow> Some ([], [])
     | c # t \<Rightarrow> if c = CHR ''e'' \<or> c = CHR ''E'' then
         (let (sg, u) = (case t of d # v \<Rightarrow> if d = CHR ''+'' \<or> d = CHR ''-'' then ([d], v) else ([], t) | [] \<Rightarrow> ([], []))
          in if takeWhile is_digit u = [] then None
             else Some (c # sg @ takeWhile is_digit u, dropWhile is_digit u))
       else Some ([], s))"

definition parse_sign :: "string \<Rightarrow> string \<times> string" where
  "parse_sign s = (case s of c # u \<Rightarrow> if c = CHR ''-'' then ([c], u) else ([], s) | [] \<Rightarrow> ([], []))"

definition parse_num :: "string \<Rightarrow> (json \<times> string) option" where
  "parse_num s =
     (let (sg, t) = parse_sign s
      in case parse_int_part t of None \<Rightarrow> None
       | Some (i, r1) \<Rightarrow> (case parse_frac r1 of None \<Rightarrow> None
         | Some (f, r2) \<Rightarrow> (case parse_exp r2 of None \<Rightarrow> None
           | Some (e, r3) \<Rightarrow> Some (JNum (sg @ i @ f @ e), r3))))"

lemma length_dropWhile_digit: "length (dropWhile is_digit s) \<le> length s"
  by (rule length_dropWhile_le)

lemma parse_num_shorter: "parse_num s = Some (v, r) \<Longrightarrow> length r < length s"
proof -
  have i: "length r1 < length t" if "parse_int_part t = Some (i, r1)" for t i r1
    using that length_dropWhile_digit
    by (auto simp: parse_int_part_def le_imp_less_Suc split: list.splits if_splits)
  have f: "length r2 \<le> length r1" if "parse_frac r1 = Some (f, r2)" for r1 f r2
    using that length_dropWhile_digit
    by (auto simp: parse_frac_def le_SucI split: list.splits if_splits)
  have e: "length r3 \<le> length r2" if "parse_exp r2 = Some (x, r3)" for r2 x r3
    using that length_dropWhile_digit
    by (auto simp: parse_exp_def le_SucI Let_def split: list.splits if_splits)
  assume n: "parse_num s = Some (v, r)"
  obtain sg t where st: "parse_sign s = (sg, t)" by fastforce
  then have "length t \<le> length s" by (auto simp: parse_sign_def split: list.splits if_splits)
  moreover from n st obtain i' r1 f' r2 e' where
    "parse_int_part t = Some (i', r1)" "parse_frac r1 = Some (f', r2)" "parse_exp r2 = Some (e', r)"
    by (auto simp: parse_num_def split: option.splits)
  ultimately show ?thesis using i f e by (meson order_less_le_trans order_le_less_trans)
qed

definition parse_lit :: "string \<Rightarrow> json \<Rightarrow> string \<Rightarrow> (json \<times> string) option" where
  "parse_lit l v s = (if prefix l s then Some (v, drop (length l) s) else None)"

text \<open>Values, array elements and object members; the fuel is discussed below.\<close>

fun parse_value :: "nat \<Rightarrow> string \<Rightarrow> (json \<times> string) option"
  and parse_elems :: "nat \<Rightarrow> string \<Rightarrow> (json list \<times> string) option"
  and parse_members :: "nat \<Rightarrow> string \<Rightarrow> ((string \<times> json) list \<times> string) option" where
  "parse_value 0 s = None"
| "parse_value (Suc n) s = (case skip_ws s of [] \<Rightarrow> None
     | c # t \<Rightarrow>
        if c = CHR 0x22 then map_option (\<lambda>(x, r). (JStr x, r)) (parse_str t)
        else if c = CHR ''{'' then
          (if prefix ''}'' (skip_ws t) then Some (JObj [], tl (skip_ws t))
           else map_option (\<lambda>(m, r). (JObj m, r)) (parse_members n t))
        else if c = CHR ''['' then
          (if prefix '']'' (skip_ws t) then Some (JArr [], tl (skip_ws t))
           else map_option (\<lambda>(es, r). (JArr es, r)) (parse_elems n t))
        else if c = CHR ''t'' then parse_lit ''true'' (JBool True) (c # t)
        else if c = CHR ''f'' then parse_lit ''false'' (JBool False) (c # t)
        else if c = CHR ''n'' then parse_lit ''null'' JNull (c # t)
        else parse_num (c # t))"
| "parse_elems 0 s = None"
| "parse_elems (Suc n) s = (case parse_value n s of None \<Rightarrow> None
     | Some (v, r) \<Rightarrow> (case skip_ws r of [] \<Rightarrow> None
         | c # t \<Rightarrow> if c = CHR '','' then map_option (\<lambda>(vs, r'). (v # vs, r')) (parse_elems n t)
                    else if c = CHR '']'' then Some ([v], t) else None))"
| "parse_members 0 s = None"
| "parse_members (Suc n) s = (case skip_ws s of [] \<Rightarrow> None
     | q # t \<Rightarrow> if q \<noteq> CHR 0x22 then None
       else (case parse_str t of None \<Rightarrow> None
        | Some (k, r) \<Rightarrow> (case skip_ws r of [] \<Rightarrow> None
           | c # u \<Rightarrow> if c \<noteq> CHR '':'' then None
             else (case parse_value n u of None \<Rightarrow> None
              | Some (v, r') \<Rightarrow> (case skip_ws r' of [] \<Rightarrow> None
                 | d # w \<Rightarrow> if d = CHR '','' then map_option (\<lambda>(ms, r''). ((k, v) # ms, r'')) (parse_members n w)
                            else if d = CHR ''}'' then Some ([(k, v)], w) else None)))))"

text \<open>
  One unit of fuel is spent per call, and a call chain makes at most two calls per
  character, so \<open>2 * length s + 2\<close> is enough: \<open>parse_value_fuel\<close> below shows that any
  larger fuel gives the same result.
\<close>

definition json_fuel :: "string \<Rightarrow> nat" where
  "json_fuel s = 2 * length s + 2"

text \<open>\<open>json.Unmarshal\<close>'s syntax check: the whole text is one value (\<open>None\<close>: syntax error).\<close>

definition json_parse :: "string \<Rightarrow> json option" where
  "json_parse s = (case parse_value (json_fuel s) s of None \<Rightarrow> None
     | Some (v, r) \<Rightarrow> if skip_ws r = [] then Some v else None)"

text \<open>\<open>json.NewDecoder(r).Decode\<close>: the first value of the stream.\<close>

definition json_decode_first :: "string \<Rightarrow> json option" where
  "json_decode_first s = map_option fst (parse_value (json_fuel s) s)"

section \<open>The fuel is enough\<close>

lemma skip_ws_le: "length (skip_ws s) \<le> length s"
  by (simp add: skip_ws_def length_dropWhile_le)

lemma skip_ws_Cons: "skip_ws s = c # t \<Longrightarrow> length t < length s"
  using skip_ws_le [of s] by simp

lemma parse_lit_shorter: "l \<noteq> [] \<Longrightarrow> parse_lit l v s = Some (x, r) \<Longrightarrow> length r < length s"
  by (auto simp: parse_lit_def prefix_def split: if_splits)

lemma tl_skip_ws_less: "prefix [c] (skip_ws t) \<Longrightarrow> length (tl (skip_ws t)) < length t"
  using skip_ws_le [of t] by (cases "skip_ws t") auto


lemma parse_shorter:
  "parse_value n s = Some (v, r) \<Longrightarrow> length r < length s"
  "parse_elems n s = Some (vs, r) \<Longrightarrow> length r < length s"
  "parse_members n s = Some (ms, r) \<Longrightarrow> length r < length s"
proof (induction n s and n s and n s arbitrary: v r and vs r and ms r
    rule: parse_value_parse_elems_parse_members.induct)
  case (2 n s)
  then obtain c t where ct: "skip_ws s = c # t" by (auto split: list.splits)
  then have t: "length t < length s" by (rule skip_ws_Cons)
  consider "c = CHR 0x22" | "c = CHR ''{''" | "c = CHR ''[''"
    | "c \<noteq> CHR 0x22" "c \<noteq> CHR ''{''" "c \<noteq> CHR ''[''" by blast
  then show ?case
  proof cases
    case 1
    with "2.prems" ct t show ?thesis by (auto dest!: parse_str_shorter)
  next
    case o: 2
    with "2.prems" "2.IH"(1) [OF ct] ct t tl_skip_ws_less [of "CHR ''}''" t] show ?thesis
      by (force split: if_splits)
  next
    case 3
    with "2.prems" "2.IH"(2) [OF ct] ct t tl_skip_ws_less [of "CHR '']''" t] show ?thesis
      by (force split: if_splits)
  next
    case 4
    with "2.prems" ct have "length r < length (c # t)"
      by (auto split: if_splits dest!: parse_num_shorter parse_lit_shorter [rotated])
    with t show ?thesis by simp
  qed
next
  case (4 n s)
  then obtain v' r1 where v': "parse_value n s = Some (v', r1)" by (auto split: option.splits)
  have l1: "length r1 < length s" by (rule "4.IH"(1) [OF v'])
  from "4.prems" v' obtain c t where ct: "skip_ws r1 = c # t" by (auto split: list.splits)
  with l1 have lt: "length t < length s" using skip_ws_Cons by (meson order_less_trans)
  show ?case
  proof (cases "c = CHR '',''")
    case True
    with "4.prems" v' ct obtain vs' where "parse_elems n t = Some (vs', r)" by auto
    then have "length r < length t" using "4.IH"(2) [OF v' refl ct True] by blast
    with lt show ?thesis by simp
  next
    case False
    with "4.prems" v' ct lt show ?thesis by (auto split: if_splits)
  qed
next
  case (6 n s)
  then obtain t k r1 c u v' r2 d w where
    p: "skip_ws s = CHR 0x22 # t" "parse_str t = Some (k, r1)" "skip_ws r1 = CHR '':'' # u"
       "parse_value n u = Some (v', r2)" "skip_ws r2 = d # w"
    by (auto split: list.splits if_splits option.splits)
  have lt: "length w < length s"
    using skip_ws_Cons [OF p(1)] parse_str_shorter [OF p(2)] skip_ws_Cons [OF p(3)]
      "6.IH"(1) [OF p(1) _ p(2) refl p(3)] p(4) skip_ws_Cons [OF p(5)] by force
  show ?case
  proof (cases "d = CHR '',''")
    case True
    with "6.prems" p obtain ms' where "parse_members n w = Some (ms', r)" by auto
    then have "length r < length w" using "6.IH"(2) [OF p(1) _ p(2) refl p(3) _ p(4) refl p(5)] True by simp
    with lt show ?thesis by simp
  next
    case False
    with "6.prems" p lt show ?thesis by (auto split: if_splits)
  qed
qed simp_all

lemma parse_fuel_step:
  "2 * length s < n \<Longrightarrow> parse_value (Suc n) s = parse_value n s"
  "2 * length s + 1 < n \<Longrightarrow> parse_elems (Suc n) s = parse_elems n s"
  "2 * length s + 1 < n \<Longrightarrow> parse_members (Suc n) s = parse_members n s"
proof (induction n s and n s and n s rule: parse_value_parse_elems_parse_members.induct)
  case (2 n s)
  show ?case
  proof (cases "skip_ws s")
    case Nil
    then show ?thesis by simp
  next
    case (Cons c t)
    then have "length t < length s" by (rule skip_ws_Cons)
    with "2.prems" have "2 * length t + 1 < n" by simp
    with "2.IH" Cons show ?thesis
      by (simp del: parse_members.simps parse_elems.simps add: parse_value.simps(2))
  qed
next
  case (4 n s)
  then have v: "parse_value (Suc n) s = parse_value n s" by simp
  have e: "parse_elems (Suc n) t = parse_elems n t"
    if "parse_value n s = Some (x, r)" "skip_ws r = CHR '','' # t" for x r t
  proof -
    have "length t < length s" using parse_shorter(1) [OF that(1)] skip_ws_Cons [OF that(2)] by simp
    with "4.prems" "4.IH"(2) [OF that(1) refl that(2) refl] show ?thesis by simp
  qed
  show ?case
    unfolding parse_elems.simps(2) [of "Suc n" s] parse_elems.simps(2) [of n s] v
    using e by (fastforce split: option.splits list.splits)
next
  case (6 n s)
  have *: "parse_value (Suc n) u = parse_value n u \<and>
      (\<forall>v r' w. parse_value n u = Some (v, r') \<longrightarrow> skip_ws r' = CHR '','' # w \<longrightarrow>
         parse_members (Suc n) w = parse_members n w)"
    if p: "skip_ws s = CHR 0x22 # t" "parse_str t = Some (k, r)" "skip_ws r = CHR '':'' # u" for t k r u
  proof -
    have lu: "length u < length s"
      using skip_ws_Cons [OF p(1)] parse_str_shorter [OF p(2)] skip_ws_Cons [OF p(3)] by simp
    have "parse_value (Suc n) u = parse_value n u"
      using lu "6.prems" "6.IH"(1) [OF p(1) _ p(2) refl p(3)] by simp
    moreover have "parse_members (Suc n) w = parse_members n w"
      if q: "parse_value n u = Some (v, r')" "skip_ws r' = CHR '','' # w" for v r' w
    proof -
      have "length w < length s"
        using lu parse_shorter(1) [OF q(1)] skip_ws_Cons [OF q(2)] by simp
      with "6.prems" "6.IH"(2) [OF p(1) _ p(2) refl p(3) _ q(1) refl q(2) refl] show ?thesis by simp
    qed
    ultimately show ?thesis by blast
  qed
  show ?case
    unfolding parse_members.simps(2) [of "Suc n" s] parse_members.simps(2) [of n s]
    using * by (fastforce split: option.splits list.splits)
qed simp_all

text \<open>Any fuel of at least \<open>json_fuel s\<close> gives the result \<open>json_parse\<close> is defined with.\<close>

lemma parse_value_fuel: "json_fuel s \<le> n \<Longrightarrow> parse_value n s = parse_value (json_fuel s) s"
proof (induction rule: dec_induct)
  case base
  show ?case ..
next
  case (step m)
  then have "parse_value (Suc m) s = parse_value m s"
    by (intro parse_fuel_step(1)) (simp add: json_fuel_def)
  with step.IH show ?case by simp
qed

declare parse_value.simps [simp del] parse_elems.simps [simp del] parse_members.simps [simp del]

section \<open>Typed decoding\<close>

text \<open>Decoding into a Go variable that holds its zero value; \<open>None\<close> is a type error.\<close>

definition unmarshal_string :: "json \<Rightarrow> string option" where
  "unmarshal_string j = (case j of JStr s \<Rightarrow> Some s | JNull \<Rightarrow> Some [] | _ \<Rightarrow> None)"

definition unmarshal_bool :: "json \<Rightarrow> bool option" where
  "unmarshal_bool j = (case j of JBool b \<Rightarrow> Some b | JNull \<Rightarrow> Some False | _ \<Rightarrow> None)"

text \<open>\<open>json.Unmarshal(message, &raw)\<close> for \<open>var raw []json.RawMessage\<close>.\<close>

definition unmarshal_raws :: "string \<Rightarrow> json list option" where
  "unmarshal_raws s = (case json_parse s of
      Some (JArr xs) \<Rightarrow> Some xs | Some JNull \<Rightarrow> Some [] | _ \<Rightarrow> None)"

text \<open>The struct field an object key selects.\<close>

definition struct_field :: "string list \<Rightarrow> string \<Rightarrow> string option" where
  "struct_field names k = (if k \<in> set names then Some k else find (\<lambda>n. equal_fold n k) names)"

text \<open>A struct whose fields are all strings: the members in order, and whether all had the right type.\<close>

fun set_fields :: "string list \<Rightarrow> (string \<times> json) list \<Rightarrow> (string \<Rightarrow> string) \<times> bool \<Rightarrow> (string \<Rightarrow> string) \<times> bool" where
  "set_fields names [] acc = acc"
| "set_fields names ((k, v) # kvs) (m, ok) =
     set_fields names kvs
       (case struct_field names k of None \<Rightarrow> (m, ok)
        | Some n \<Rightarrow> (case v of JStr s \<Rightarrow> (m(n := s), ok) | JNull \<Rightarrow> (m, ok) | _ \<Rightarrow> (m, False)))"

definition unmarshal_struct :: "string list \<Rightarrow> json \<Rightarrow> (string \<Rightarrow> string) option" where
  "unmarshal_struct names j = (case j of
      JObj kvs \<Rightarrow> (case set_fields names kvs (\<lambda>_. [], True) of (m, ok) \<Rightarrow> if ok then Some m else None)
    | JNull \<Rightarrow> Some (\<lambda>_. [])
    | _ \<Rightarrow> None)"

end
