(* ===== verification/GoHttp.thy ===== *)
theory GoHttp
  imports GoUrl GoJson
begin

text \<open>
  Requests, responses and headers of Go's \<open>net/http\<close> as the handlers see them, the
  helpers of \<open>internal/httpx\<close>, \<open>encoding/base64\<close> and \<open>time.Time\<close>.

  A handler is a function from the request (and what it reads of the world) to its response
  together with the list of outgoing requests it makes, in order; so "the upstream is not
  contacted" is "the list is empty". An outgoing call is a function \<open>do\<close> from the
  request to the cause of the transport failure or to the answer.
\<close>

section \<open>Headers\<close>

text \<open>Header names are compared in canonical form, that is, up to case.\<close>

type_synonym header = "string \<Rightarrow> string list"

definition no_header :: header where
  "no_header = (\<lambda>_. [])"

definition hdr_get :: "header \<Rightarrow> string \<Rightarrow> string" where
  "hdr_get h n = (case h (to_lower n) of [] \<Rightarrow> [] | v # _ \<Rightarrow> v)"

definition hdr_values :: "header \<Rightarrow> string \<Rightarrow> string list" where
  "hdr_values h n = h (to_lower n)"

definition hdr_set :: "string \<Rightarrow> string \<Rightarrow> header \<Rightarrow> header" where
  "hdr_set n v h = h(to_lower n := [v])"

definition hdr_add :: "string \<Rightarrow> string \<Rightarrow> header \<Rightarrow> header" where
  "hdr_add n v h = h(to_lower n := h (to_lower n) @ [v])"

definition hdr_del :: "string \<Rightarrow> header \<Rightarrow> header" where
  "hdr_del n h = h(to_lower n := [])"

text \<open>Adding every value of \<open>src\<close> to \<open>dst\<close>: the loop \<open>for k, vs := range src { for v := range vs { dst.Add(k, v) } }\<close>.\<close>

definition hdr_add_all :: "header \<Rightarrow> header \<Rightarrow> header" where
  "hdr_add_all src dst = (\<lambda>k. dst k @ src k)"

section \<open>Requests and responses\<close>

record http_req =
  rq_method :: string
  rq_url :: go_url
  rq_host :: string
  rq_header :: header
  rq_tls :: bool
  rq_remote :: string
  rq_body :: "(string \<times> string option) option"

text \<open>
  The body of a request is absent (\<open>None\<close>), or the bytes the peer sends and, if reading
  then fails, the text of the error.
\<close>

datatype http_body = BodyEmpty | BodyJson json | BodyText string | BodyBytes string

record http_resp =
  rs_status :: int
  rs_header :: header
  rs_body :: http_body

record out_req =
  oq_method :: string
  oq_url :: string
  oq_header :: header
  oq_body :: "string option"

record up_resp =
  up_code :: int
  up_status :: string
  up_header :: header
  up_body :: string

type_synonym http_do = "out_req \<Rightarrow> string + up_resp"

text \<open>
  \<open>http.Client.Do\<close> wraps the cause of a transport failure in a \<open>url.Error\<close>, whose
  text names the method and the URL (with the password of its user part replaced).
\<close>

definition url_strip_password :: "string \<Rightarrow> string" where
  "url_strip_password raw = (case url_parse raw of None \<Rightarrow> raw
     | Some u \<Rightarrow> (case u_user u of
         Some (n, Some _) \<Rightarrow> url_string (u\<lparr>u_user := Some (n, Some ''***'')\<rparr>)
       | _ \<Rightarrow> url_string u))"

definition title_method :: "string \<Rightarrow> string" where
  "title_method m = (case m of [] \<Rightarrow> ''Get'' | c # cs \<Rightarrow> c # to_lower cs)"

definition client_error :: "out_req \<Rightarrow> string \<Rightarrow> string" where
  "client_error q cause =
     title_method (oq_method q) @ '' '' @ [CHR 0x22] @ url_strip_password (oq_url q) @ [CHR 0x22] @ '': '' @ cause"

text \<open>
  \<open>http.Error\<close> and \<open>http.NotFound\<close> on the headers set so far.
\<close>

definition http_error :: "header \<Rightarrow> string \<Rightarrow> int \<Rightarrow> http_resp" where
  "http_error h msg code =
     \<lparr>rs_status = code,
      rs_header = hdr_set ''X-Content-Type-Options'' ''nosniff''
        (hdr_set ''Content-Type'' ''text/plain; charset=utf-8'' (hdr_del ''Content-Length'' h)),
      rs_body = BodyText (msg @ [CHR 0x0A])\<rparr>"

definition not_found :: http_resp where
  "not_found = http_error no_header ''404 page not found'' 404"

definition json_err :: "string \<Rightarrow> json" where
  "json_err e = JObj [(''error'', JStr e)]"

section \<open>internal/httpx\<close>

definition stream_header_names :: "string list" where
  "stream_header_names = [''Content-Type'', ''Content-Length'', ''Content-Range'', ''Accept-Ranges'']"

definition httpx_write_json :: "int \<Rightarrow> json \<Rightarrow> http_resp" where
  "httpx_write_json status body =
     \<lparr>rs_status = status, rs_header = hdr_set ''Content-Type'' ''application/json'' no_header, rs_body = BodyJson body\<rparr>"

text \<open>\<open>None\<close>: the method is the required one; \<open>Some\<close>: the response that was written.\<close>

definition require_method :: "http_req \<Rightarrow> string \<Rightarrow> http_resp option" where
  "require_method r m =
     (if rq_method r = m then None
      else Some (http_error (hdr_set ''Allow'' m no_header) ''method not allowed'' 405))"

definition require_methods :: "http_req \<Rightarrow> string list \<Rightarrow> http_resp option" where
  "require_methods r ms =
     (if rq_method r \<in> set ms then None
      else Some (http_error (hdr_set ''Allow'' (join '', '' ms) no_header) ''method not allowed'' 405))"

fun copy_headers_names :: "header \<Rightarrow> header \<Rightarrow> string list \<Rightarrow> header" where
  "copy_headers_names dst src [] = dst"
| "copy_headers_names dst src (n # ns) =
     copy_headers_names (if hdr_get src n \<noteq> [] then hdr_set n (hdr_get src n) dst else dst) src ns"

definition copy_stream_headers :: "header \<Rightarrow> header \<Rightarrow> header" where
  "copy_stream_headers dst src = copy_headers_names dst src stream_header_names"

section \<open>Base64\<close>

definition b64_std :: "char \<Rightarrow> nat option" where
  "b64_std c = (let n = (of_char c :: nat) in
     if 65 \<le> n \<and> n \<le> 90 then Some (n - 65) else if 97 \<le> n \<and> n \<le> 122 then Some (n - 71)
     else if 48 \<le> n \<and> n \<le> 57 then Some (n + 4) else if c = CHR ''+'' then Some 62
     else if c = CHR ''/'' then Some 63 else None)"

text \<open>
  \<open>base64.StdEncoding.DecodeString\<close>: carriage returns and line feeds are dropped, the
  last group is padded.
\<close>

fun b64_groups :: "string \<Rightarrow> string option" where
  "b64_groups [] = Some []"
| "b64_groups (a # b # c # d # r) =
     (case (b64_std a, b64_std b, b64_std c, b64_std d) of
        (Some w, Some x, Some y, Some z) \<Rightarrow>
          map_option (\<lambda>t. char_of (w * 4 + x div 16) # char_of (x mod 16 * 16 + y div 4) # char_of (y mod 4 * 64 + z) # t)
            (b64_groups r)
      | (Some w, Some x, Some y, None) \<Rightarrow>
          if d = CHR ''='' \<and> r = [] then Some [char_of (w * 4 + x div 16), char_of (x mod 16 * 16 + y div 4)] else None
      | (Some w, Some x, None, None) \<Rightarrow>
          if c = CHR ''='' \<and> d = CHR ''='' \<and> r = [] then Some [char_of (w * 4 + x div 16)] else None
      | _ \<Rightarrow> None)"
| "b64_groups _ = None"

definition base64_decode :: "string \<Rightarrow> string option" where
  "base64_decode s = b64_groups (filter (\<lambda>c. c \<noteq> CHR 0x0A \<and> c \<noteq> CHR 0x0D) s)"

text \<open>\<open>base64.StdEncoding.EncodeToString\<close>.\<close>

definition b64_char :: "nat \<Rightarrow> char" where
  "b64_char n = char_of (if n < 26 then n + 65 else if n < 52 then n + 71 else if n < 62 then n - 4
     else if n = 62 then 43 else 47)"

fun base64_encode :: "string \<Rightarrow> string" where
  "base64_encode [] = []"
| "base64_encode [a] = (let x = of_char a in
     [b64_char (x div 4), b64_char (x mod 4 * 16), CHR ''='', CHR ''=''])"
| "base64_encode [a, b] = (let x = of_char a; y = of_char b in
     [b64_char (x div 4), b64_char (x mod 4 * 16 + y div 16), b64_char (y mod 16 * 4), CHR ''=''])"
| "base64_encode (a # b # c # s) = (let x = of_char a; y = of_char b; z = of_char c in
     b64_char (x div 4) # b64_char (x mod 4 * 16 + y div 16) # b64_char (y mod 16 * 4 + z div 64)
       # b64_char (z mod 64) # base64_encode s)"

text \<open>\<open>strings.ReplaceAll\<close> for a non-empty old text.\<close>

function replace_all :: "string \<Rightarrow> string \<Rightarrow> string \<Rightarrow> string" where
  "replace_all old new s =
     (if old = [] then s
      else (case s of [] \<Rightarrow> []
        | c # t \<Rightarrow> if prefix old s then new @ replace_all old new (drop (length old) s)
                   else c # replace_all old new t))"
  by pat_completeness auto
termination
  by (relation "measure (\<lambda>(_, _, s). length s)") (auto simp: le_imp_diff_is_add length_greater_0_conv [symmetric] simp del: length_greater_0_conv)

declare replace_all.simps [simp del]

text \<open>
  The error of \<open>url.Parse\<close> inside \<open>http.NewRequest\<close> names the URL; the reason that
  follows is abbreviated.
\<close>

definition url_parse_error :: "string \<Rightarrow> string" where
  "url_parse_error raw = ''parse '' @ [CHR 0x22] @ raw @ [CHR 0x22] @ '': invalid URL''"

section \<open>Time\<close>

text \<open>
  A \<open>time.Time\<close> is the number of nanoseconds since the Unix epoch, a \<open>time.Duration\<close>
  a number of nanoseconds. \<open>time.Unix(s, 0)\<close> stores \<open>s\<close> plus the distance to year 1
  in an \<open>int64\<close>, so it wraps around for the largest \<open>s\<close>.
\<close>

type_synonym go_time = int
type_synonym duration = int

definition second :: int where "second = 1000000000"
definition minute :: int where "minute = 60 * second"
definition hour :: int where "hour = 60 * minute"

definition unix_to_internal :: int where "unix_to_internal = 62135596800"

definition time_unix :: "int \<Rightarrow> go_time" where
  "time_unix s = (wrap64 (s + unix_to_internal) - unix_to_internal) * second"

definition unix_of_time :: "go_time \<Rightarrow> int" where
  "unix_of_time t = t div second"

text \<open>\<open>Duration.String\<close>: the digits of a fraction without trailing zeros, then the units.\<close>

fun frac_digits :: "nat \<Rightarrow> int \<Rightarrow> string" where
  "frac_digits 0 n = []"
| "frac_digits (Suc k) n = frac_digits k (n div 10) @ [char_of (48 + n mod 10)]"

definition with_frac :: "int \<Rightarrow> nat \<Rightarrow> string" where
  "with_frac n k = (let u = 10 ^ k; f = rdropWhile (\<lambda>c. c = CHR ''0'') (frac_digits k (n mod u))
     in int_str (n div u) @ (if f = [] then [] else ''.'' @ f))"

definition duration_str :: "duration \<Rightarrow> string" where
  "duration_str d =
     (let u = \<bar>d\<bar>; sign = (if d < 0 then ''-'' else [])
      in if u = 0 then ''0s''
         else if u < 1000 then sign @ int_str u @ ''ns''
         else if u < 1000000 then sign @ with_frac u 3 @ [CHR 0xC2, CHR 0xB5] @ ''s''
         else if u < second then sign @ with_frac u 6 @ ''ms''
         else if u < minute then sign @ with_frac u 9 @ ''s''
         else if u < hour then sign @ int_str (u div minute) @ ''m'' @ with_frac (u mod minute) 9 @ ''s''
         else sign @ int_str (u div hour) @ ''h'' @ int_str (u div minute mod 60) @ ''m'' @ with_frac (u mod minute) 9 @ ''s'')"

section \<open>Facts\<close>

lemma second_pos [simp]: "0 < second" "second \<noteq> 0"
  by (simp_all add: second_def)

lemma hdr_get_set [simp]: "hdr_get (hdr_set n v h) n' = (if to_lower n = to_lower n' then v else hdr_get h n')"
  by (simp add: hdr_get_def hdr_set_def)

lemma hdr_get_none [simp]: "hdr_get no_header n = []"
  by (simp add: hdr_get_def no_header_def)

lemma copy_headers_names_other:
  "k \<notin> to_lower ` set ns \<Longrightarrow> copy_headers_names dst src ns k = dst k"
  by (induction ns arbitrary: dst) (auto simp: hdr_set_def)

text \<open>Only the four stream headers are ever taken from the upstream answer.\<close>

lemma copy_stream_headers_only:
  "copy_stream_headers no_header src k \<noteq> [] \<Longrightarrow> k \<in> to_lower ` set stream_header_names"
  using copy_headers_names_other [of k stream_header_names no_header src]
  by (auto simp: copy_stream_headers_def no_header_def)

lemma stream_header_names_differ:
  "to_lower ''Content-Type'' \<noteq> to_lower ''Content-Length''" "to_lower ''Content-Type'' \<noteq> to_lower ''Content-Range''"
  "to_lower ''Content-Type'' \<noteq> to_lower ''Accept-Ranges''" "to_lower ''Content-Length'' \<noteq> to_lower ''Content-Range''"
  "to_lower ''Content-Length'' \<noteq> to_lower ''Accept-Ranges''" "to_lower ''Content-Range'' \<noteq> to_lower ''Accept-Ranges''"
  by code_simp+

text \<open>Copying the stream headers twice is copying them once.\<close>

lemma copy_stream_headers_idem [simp]:
  "copy_stream_headers no_header (copy_stream_headers no_header h) = copy_stream_headers no_header h"
  using stream_header_names_differ
  by (simp add: copy_stream_headers_def stream_header_names_def)

lemma time_unix_small:
  "int64_min \<le> s \<Longrightarrow> s + unix_to_internal \<le> int64_max \<Longrightarrow> time_unix s = s * second"
  by (simp add: time_unix_def wrap64_id unix_to_internal_def)

lemma unix_of_time_mult [simp]: "unix_of_time (s * second) = s"
  by (simp add: unix_of_time_def)


section \<open>Guarded handlers\<close>

text \<open>
  The contract of a handler that checks before it acts: where the guard applies and refuses,
  nothing is sent. Its client: whatever is sent was admitted.
\<close>

locale guarded =
  fixes applies :: "'r \<Rightarrow> bool" and guard :: "'r \<Rightarrow> 'e + 'p" and handler :: "'r \<Rightarrow> 'resp \<times> 'q list"
  assumes refused: "applies r \<Longrightarrow> guard r = Inl e \<Longrightarrow> snd (handler r) = []"
begin

lemma sent_admitted: "applies r \<Longrightarrow> q \<in> set (snd (handler r)) \<Longrightarrow> \<exists>p. guard r = Inr p"
  using refused [of r] by (cases "guard r") auto

end

end
