(* ===== verification/Nostr.thy ===== *)
theory Nostr
  imports GoHttp
begin

text \<open>
  Errors as values and the Nostr events the program exchanges.

  The third-party package \<open>go-nostr\<close> is not under \<open>src/\<close>: the functions of it the
  program calls are the fields of the record \<open>nostr_lib\<close>, an argument of every definition
  that uses them. What the program relies on is named by \<open>nostr_lib_ok\<close>.
\<close>

section \<open>Error values\<close>

text \<open>The sentinel errors of \<open>internal/admin\<close>, \<open>internal/access\<close>, \<open>internal/media\<close> and \<open>internal/auth\<close>.\<close>

datatype admin_error =
    ErrMissingAuthorization | ErrWrongScheme | ErrBadEncoding | ErrWrongKind | ErrBadSignature
  | ErrStaleEvent | ErrWrongURL | ErrWrongMethod | ErrNotAdmin

datatype access_error =
    ErrNoRule | ErrUnsupportedRule | ErrDenied | ErrNotAllowed | ErrNoTrustrootsName
  | ErrNoFollowList | ErrInvalidFollowRule

datatype media_error = ErrNotGranted | ErrNoGrantPubkeys

datatype nip42_error = AuthWrongKind | AuthBadSignature | AuthWrongChallenge | AuthWrongRelay | AuthStaleEvent

text \<open>
  An error of the program: a sentinel, a sentinel wrapped by \<open>fmt.Errorf("%w: %v", ...)\<close>,
  the sentinel of \<open>internal/nip05\<close>, or an error known by its text only.
\<close>

datatype goerr =
    AdminErr admin_error
  | AdminWrap admin_error string
  | AccessErr access_error
  | MediaErr media_error
  | Nip42Err nip42_error
  | Nip42Wrap nip42_error string
  | Nip05NoMatch
  | TextErr string

fun admin_error_text :: "admin_error \<Rightarrow> string" where
  "admin_error_text ErrMissingAuthorization = ''missing Nostr authorization''"
| "admin_error_text ErrWrongScheme = ''authorization scheme must be Nostr''"
| "admin_error_text ErrBadEncoding = ''authorization event is not valid base64 JSON''"
| "admin_error_text ErrWrongKind = ''authorization event must be kind 27235''"
| "admin_error_text ErrBadSignature = ''authorization event signature is invalid''"
| "admin_error_text ErrStaleEvent = ''authorization event timestamp is outside allowed age''"
| "admin_error_text ErrWrongURL = ''authorization event URL does not match request''"
| "admin_error_text ErrWrongMethod = ''authorization event method does not match request''"
| "admin_error_text ErrNotAdmin = ''pubkey is not an admin''"

fun access_error_text :: "access_error \<Rightarrow> string" where
  "access_error_text ErrNoRule = ''access rule is not configured''"
| "access_error_text ErrUnsupportedRule = ''access rule type is unsupported''"
| "access_error_text ErrDenied = ''pubkey is denied by access rule''"
| "access_error_text ErrNotAllowed = ''pubkey is not allowed by access rule''"
| "access_error_text ErrNoTrustrootsName = ''no Trustroots username profile event found''"
| "access_error_text ErrNoFollowList = ''no NIP-02 follow list found''"
| "access_error_text ErrInvalidFollowRule = ''nostr follow rule must use owner_follows_user''"

fun media_error_text :: "media_error \<Rightarrow> string" where
  "media_error_text ErrNotGranted = ''pubkey is not granted media access''"
| "media_error_text ErrNoGrantPubkeys = ''no media grant pubkeys are configured''"

fun nip42_error_text :: "nip42_error \<Rightarrow> string" where
  "nip42_error_text AuthWrongKind = ''auth event must be kind 22242''"
| "nip42_error_text AuthBadSignature = ''auth event signature is invalid''"
| "nip42_error_text AuthWrongChallenge = ''auth event challenge does not match''"
| "nip42_error_text AuthWrongRelay = ''auth event relay does not match''"
| "nip42_error_text AuthStaleEvent = ''auth event timestamp is outside allowed age''"

fun error_text :: "goerr \<Rightarrow> string" where
  "error_text (AdminErr e) = admin_error_text e"
| "error_text (AdminWrap e t) = admin_error_text e @ '': '' @ t"
| "error_text (AccessErr e) = access_error_text e"
| "error_text (MediaErr e) = media_error_text e"
| "error_text (Nip42Err e) = nip42_error_text e"
| "error_text (Nip42Wrap e t) = nip42_error_text e @ '': '' @ t"
| "error_text Nip05NoMatch = ''nip05 pubkey does not match''"
| "error_text (TextErr t) = t"

text \<open>\<open>errors.Is(err, sentinel)\<close>.\<close>

definition is_admin_error :: "goerr \<Rightarrow> admin_error \<Rightarrow> bool" where
  "is_admin_error e s \<longleftrightarrow> (case e of AdminErr s' \<Rightarrow> s' = s | AdminWrap s' _ \<Rightarrow> s' = s | _ \<Rightarrow> False)"

section \<open>Events\<close>

record event =
  ev_id :: string
  ev_pubkey :: string
  ev_created_at :: int
  ev_kind :: int
  ev_tags :: "string list list"
  ev_content :: string
  ev_sig :: string

definition empty_event :: event where
  "empty_event = \<lparr>ev_id = [], ev_pubkey = [], ev_created_at = 0, ev_kind = 0, ev_tags = [],
     ev_content = [], ev_sig = []\<rparr>"

text \<open>\<open>nostr.Event\<close>'s own JSON decoder, \<open>CheckSignature\<close>, \<open>GetID\<close>,
  \<open>IsValidPublicKeyHex\<close>; \<open>nip19.Decode\<close> of an \<open>nsec\<close> belongs to a later theory.\<close>

record nostr_lib =
  nl_decode_event :: "json \<Rightarrow> event option"
  nl_check_signature :: "event \<Rightarrow> string + bool"
  nl_get_id :: "event \<Rightarrow> string"
  nl_valid_pubkey :: "string \<Rightarrow> bool"

text \<open>Documented behaviour: a checked signature is one of a public key given in hex, never empty.\<close>

definition nostr_lib_ok :: "nostr_lib \<Rightarrow> bool" where
  "nostr_lib_ok L \<longleftrightarrow> (\<forall>e. nl_check_signature L e = Inr True \<longrightarrow> ev_pubkey e \<noteq> [])"

definition sig_ok :: "nostr_lib \<Rightarrow> event \<Rightarrow> bool" where
  "sig_ok L e \<longleftrightarrow> nl_check_signature L e = Inr True"

lemma sig_ok_pubkey: "nostr_lib_ok L \<Longrightarrow> sig_ok L e \<Longrightarrow> ev_pubkey e \<noteq> []"
  by (simp add: nostr_lib_ok_def sig_ok_def)

end
