(* ===== verification/AuthCache.thy ===== *)
theory AuthCache
  imports Nostr
begin

text \<open>
  The authentication cache, \<open>internal/store/store.go\<close>: the SQLite table \<open>auth_cache\<close>
  and its statements. The table is the list of its rows; a statement that the database
  refuses is the argument \<open>fail\<close> (the text of the driver's error) of the operation.
\<close>

section \<open>The table and its operations\<close>

record cache_row =
  cr_pubkey :: string
  cr_username :: string
  cr_verified_at :: int
  cr_expires_at :: int

record cache_entry =
  en_pubkey :: string
  en_username :: string
  en_expires_at :: go_time

record cache_summary =
  cs_total :: int
  cs_valid :: int
  cs_expired :: int
  cs_oldest_unix :: int
  cs_newest_unix :: int

text \<open>The database file: \<open>None\<close> before the table is created.\<close>

type_synonym auth_db = "cache_row list option"

definition cache_init :: "string option \<Rightarrow> auth_db \<Rightarrow> goerr option \<times> auth_db" where
  "cache_init fail db = (case fail of
     Some e \<Rightarrow> (Some (TextErr e), db)
   | None \<Rightarrow> (None, case db of None \<Rightarrow> Some [] | Some rows \<Rightarrow> Some rows))"

text \<open>\<open>Open\<close>: the handle is open (\<open>True\<close>) unless connecting or \<open>init\<close> fails.\<close>

definition cache_open :: "string option \<Rightarrow> string option \<Rightarrow> auth_db \<Rightarrow> (goerr + bool) \<times> auth_db" where
  "cache_open connect_fail exec_fail db = (case connect_fail of
     Some e \<Rightarrow> (Inl (TextErr e), db)
   | None \<Rightarrow> (case cache_init exec_fail db of
        (Some e, db') \<Rightarrow> (Inl e, db')
      | (None, db') \<Rightarrow> (Inr True, db')))"

definition find_row :: "cache_row list \<Rightarrow> string \<Rightarrow> cache_row option" where
  "find_row rows pk = find (\<lambda>r. cr_pubkey r = pk) rows"

definition get_valid :: "string option \<Rightarrow> cache_row list \<Rightarrow> string \<Rightarrow> go_time \<Rightarrow> goerr + cache_entry option" where
  "get_valid fail rows pubkey now = (case fail of
     Some e \<Rightarrow> Inl (TextErr e)
   | None \<Rightarrow> (case find (\<lambda>r. cr_pubkey r = pubkey \<and> cr_expires_at r > unix_of_time now) rows of
        None \<Rightarrow> Inr None
      | Some r \<Rightarrow> Inr (Some \<lparr>en_pubkey = cr_pubkey r, en_username = cr_username r,
                           en_expires_at = time_unix (cr_expires_at r)\<rparr>)))"

text \<open>\<open>INSERT ... ON CONFLICT(pubkey) DO UPDATE\<close>.\<close>

fun upsert_row :: "cache_row \<Rightarrow> cache_row list \<Rightarrow> cache_row list" where
  "upsert_row row [] = [row]"
| "upsert_row row (r # rows) =
     (if cr_pubkey r = cr_pubkey row
      then r\<lparr>cr_username := cr_username row, cr_verified_at := cr_verified_at row, cr_expires_at := cr_expires_at row\<rparr> # rows
      else r # upsert_row row rows)"

definition cache_put :: "string option \<Rightarrow> string \<Rightarrow> string \<Rightarrow> go_time \<Rightarrow> go_time \<Rightarrow> cache_row list \<Rightarrow> goerr option \<times> cache_row list" where
  "cache_put fail pubkey username verified_at expires_at rows = (case fail of
     Some e \<Rightarrow> (Some (TextErr e), rows)
   | None \<Rightarrow> (None, upsert_row \<lparr>cr_pubkey = pubkey, cr_username = username,
        cr_verified_at = unix_of_time verified_at, cr_expires_at = unix_of_time expires_at\<rparr> rows))"

definition count_rows :: "(cache_row \<Rightarrow> bool) \<Rightarrow> cache_row list \<Rightarrow> int" where
  "count_rows p rows = sum_list (map (\<lambda>r. if p r then 1 else 0) rows)"

definition cache_summarize :: "string option \<Rightarrow> cache_row list \<Rightarrow> go_time \<Rightarrow> goerr + cache_summary" where
  "cache_summarize fail rows now = (case fail of
     Some e \<Rightarrow> Inl (TextErr e)
   | None \<Rightarrow> Inr
      \<lparr>cs_total = int (length rows),
       cs_valid = count_rows (\<lambda>r. cr_expires_at r > unix_of_time now) rows,
       cs_expired = count_rows (\<lambda>r. cr_expires_at r \<le> unix_of_time now) rows,
       cs_oldest_unix = (if rows = [] then 0 else Min (set (map cr_verified_at rows))),
       cs_newest_unix = (if rows = [] then 0 else Max (set (map cr_verified_at rows)))\<rparr>)"

section \<open>The contract of a keyed store\<close>

locale keyed_store =
  fixes empty :: 's and put :: "'k \<Rightarrow> 'v \<Rightarrow> 's \<Rightarrow> 's" and get :: "'s \<Rightarrow> 'k \<Rightarrow> 'v option"
  assumes get_empty: "get empty k = None"
    and get_put: "get (put k v s) k' = (if k' = k then Some v else get s k')"
begin

definition run :: "('k \<times> 'v) list \<Rightarrow> 's \<Rightarrow> 's" where
  "run kvs s = fold (\<lambda>(k, v). put k v) kvs s"

lemma get_run: "get (run kvs s) k = (case map_of (rev kvs) k of Some v \<Rightarrow> Some v | None \<Rightarrow> get s k)"
  by (induction kvs arbitrary: s) (auto simp: run_def get_put map_add_def split: option.splits prod.splits)

lemma run_abs: "get (run kvs empty) = map_of (rev kvs)"
  by (rule ext) (simp add: get_run get_empty split: option.splits)

lemma get_run_was_put: "get (run kvs empty) k = Some v \<Longrightarrow> (k, v) \<in> set kvs"
  unfolding run_abs using map_of_SomeD by fastforce

end

section \<open>The table as a map\<close>

text \<open>The primary key: no two rows have the same public key.\<close>

definition cache_wf :: "cache_row list \<Rightarrow> bool" where
  "cache_wf rows \<longleftrightarrow> distinct (map cr_pubkey rows)"

text \<open>The data of a key: name, verification time and expiry.\<close>

definition cache_abs :: "cache_row list \<Rightarrow> string \<Rightarrow> (string \<times> int \<times> int) option" where
  "cache_abs rows pk = map_option (\<lambda>r. (cr_username r, cr_verified_at r, cr_expires_at r)) (find_row rows pk)"

definition mk_row :: "string \<Rightarrow> string \<times> int \<times> int \<Rightarrow> cache_row" where
  "mk_row pk d = \<lparr>cr_pubkey = pk, cr_username = fst d, cr_verified_at = fst (snd d), cr_expires_at = snd (snd d)\<rparr>"

lemma upsert_row_pubkeys: "cr_pubkey ` set (upsert_row row rows) = insert (cr_pubkey row) (cr_pubkey ` set rows)"
  by (induction rows) auto

lemma upsert_row_wf: "cache_wf rows \<Longrightarrow> cache_wf (upsert_row row rows)"
  unfolding cache_wf_def
proof (induction rows)
  case Nil
  then show ?case by simp
next
  case (Cons r rows)
  then show ?case
    using upsert_row_pubkeys [of row rows] by (auto simp: image_iff)
qed

lemma upsert_row_abs:
  "cache_abs (upsert_row (mk_row pk d) rows) pk' = (if pk' = pk then Some d else cache_abs rows pk')"
  by (induction rows) (auto simp: cache_abs_def find_row_def mk_row_def)

interpretation ac: keyed_store "[] :: cache_row list" "\<lambda>pk d. upsert_row (mk_row pk d)" cache_abs
  by unfold_locales (auto simp: upsert_row_abs, simp add: cache_abs_def find_row_def)

lemma find_wf:
  assumes "cache_wf rows"
  shows "find (\<lambda>r. cr_pubkey r = pk \<and> P r) rows = (case find_row rows pk of Some r \<Rightarrow> if P r then Some r else None | None \<Rightarrow> None)"
  using assms
proof (induction rows)
  case Nil
  then show ?case by (simp add: find_row_def)
next
  case (Cons r rows)
  then have ih: "find (\<lambda>r. cr_pubkey r = pk \<and> P r) rows = (case find_row rows pk of Some r \<Rightarrow> if P r then Some r else None | None \<Rightarrow> None)"
    by (simp add: cache_wf_def)
  show ?case
  proof (cases "cr_pubkey r = pk")
    case False
    with ih show ?thesis by (simp add: find_row_def)
  next
    case True
    with Cons.prems have "find (\<lambda>r. cr_pubkey r = pk \<and> P r) rows = None"
      by (auto simp: cache_wf_def find_None_iff image_iff)
    with True show ?thesis by (simp add: find_row_def)
  qed
qed

text \<open>\<open>GetValid\<close> is the lookup in the abstract map, cut off at the expiry.\<close>

lemma get_valid_abs:
  assumes "cache_wf rows"
  shows "get_valid None rows pk now = Inr (case cache_abs rows pk of
      None \<Rightarrow> None
    | Some (name, v, x) \<Rightarrow> if unix_of_time now < x
        then Some \<lparr>en_pubkey = pk, en_username = name, en_expires_at = time_unix x\<rparr> else None)"
proof (cases "find_row rows pk")
  case None
  with find_wf [OF assms] show ?thesis by (simp add: get_valid_def cache_abs_def)
next
  case (Some r)
  then have "cr_pubkey r = pk" by (auto simp: find_row_def find_Some_iff)
  with Some find_wf [OF assms] show ?thesis by (simp add: get_valid_def cache_abs_def)
qed

lemma get_valid_after_put:
  assumes "cache_wf rows"
  shows "get_valid None (snd (cache_put None pk name v x rows)) pk' now =
     (if pk' = pk then Inr (if unix_of_time now < unix_of_time x
          then Some \<lparr>en_pubkey = pk, en_username = name, en_expires_at = time_unix (unix_of_time x)\<rparr> else None)
      else get_valid None rows pk' now)"
proof -
  let ?d = "(name, unix_of_time v, unix_of_time x)"
  have e: "snd (cache_put None pk name v x rows) = upsert_row (mk_row pk ?d) rows"
    by (simp add: cache_put_def mk_row_def)
  show ?thesis
    unfolding e get_valid_abs [OF upsert_row_wf [OF assms]] get_valid_abs [OF assms] ac.get_put by simp
qed

text \<open>A lookup that fails answers an error, never an entry.\<close>

lemma get_valid_found:
  assumes "get_valid fail rows pk now = Inr (Some e)"
  shows "en_pubkey e = pk \<and> (\<exists>r \<in> set rows. cr_pubkey r = pk \<and> cr_username r = en_username e
     \<and> unix_of_time now < cr_expires_at r \<and> en_expires_at e = time_unix (cr_expires_at r))"
  using assms by (auto simp: get_valid_def find_Some_iff split: option.splits)

lemma count_rows_partition: "count_rows p rows + count_rows (\<lambda>r. \<not> p r) rows = int (length rows)"
  by (induction rows) (auto simp: count_rows_def)

lemma cache_summary_counts:
  assumes "cache_summarize fail rows now = Inr s"
  shows "cs_valid s + cs_expired s = cs_total s \<and> cs_valid s = int (length (filter (\<lambda>r. unix_of_time now < cr_expires_at r) rows))"
proof -
  have "count_rows p rows = int (length (filter p rows))" for p
    by (induction rows) (auto simp: count_rows_def)
  with assms count_rows_partition [of "\<lambda>r. unix_of_time now < cr_expires_at r" rows] show ?thesis
    by (auto simp: cache_summarize_def not_less split: option.splits)
qed

section \<open>The table over time\<close>

text \<open>What may happen to the file: the program is started again, or a row is written.\<close>

inductive cache_step :: "auth_db \<Rightarrow> auth_db \<Rightarrow> bool" where
  step_open: "cache_step db (snd (cache_open cf xf db))"
| step_put: "cache_step (Some rows) (Some (snd (cache_put fail pk name v x rows)))"

definition auth_db_wf :: "auth_db \<Rightarrow> bool" where
  "auth_db_wf db \<longleftrightarrow> (case db of None \<Rightarrow> True | Some rows \<Rightarrow> cache_wf rows)"

lemma cache_open_db: "snd (cache_open cf xf db) = db \<or> (db = None \<and> snd (cache_open cf xf db) = Some [])"
  by (auto simp: cache_open_def cache_init_def split: option.splits)

interpretation acs: step_invariant "\<lambda>db. db = None" cache_step auth_db_wf
proof
  fix db :: auth_db
  show "db = None \<Longrightarrow> auth_db_wf db" by (simp add: auth_db_wf_def)
next
  fix s t
  assume w: "auth_db_wf s" and "cache_step s t"
  from this(2) show "auth_db_wf t"
  proof cases
    case (step_open cf xf)
    with w cache_open_db [of cf xf s] show ?thesis by (auto simp: auth_db_wf_def cache_wf_def)
  next
    case (step_put rows fail pk name v x)
    with w show ?thesis
      by (auto simp: auth_db_wf_def cache_put_def upsert_row_wf split: option.splits)
  qed
qed

end
