(* ===== verification/Nip05.thy ===== *)
theory Nip05
  imports Nostr
begin

text \<open>
  The NIP-05 lookup, \<open>internal/nip05/nip05.go\<close>. The HTTP client is the argument
  \<open>transport\<close>; the result comes with the requests that were sent.
\<close>

section \<open>The answer document\<close>

text \<open>
  Decoding into \<open>struct { Names map[string]string; Error string }\<close>: a repeated \<open>names\<close>
  member adds to the map, \<open>null\<close> clears it; a value of a wrong type is an error.
\<close>

fun names_members :: "(string \<times> json) list \<Rightarrow> (string \<Rightarrow> string) \<Rightarrow> (string \<Rightarrow> string) option" where
  "names_members [] m = Some m"
| "names_members ((k, v) # kvs) m =
     (case unmarshal_string v of None \<Rightarrow> None | Some s \<Rightarrow> names_members kvs (m(k := s)))"

fun nip05_members :: "(string \<times> json) list \<Rightarrow> (string \<Rightarrow> string) \<times> string \<Rightarrow> ((string \<Rightarrow> string) \<times> string) option" where
  "nip05_members [] acc = Some acc"
| "nip05_members ((k, v) # kvs) (m, e) =
     (if struct_field [''names'', ''error''] k = Some ''names'' then
        (case v of JObj ms \<Rightarrow> (case names_members ms m of None \<Rightarrow> None | Some m' \<Rightarrow> nip05_members kvs (m', e))
         | JNull \<Rightarrow> nip05_members kvs ((\<lambda>_. []), e)
         | _ \<Rightarrow> None)
      else if struct_field [''names'', ''error''] k = Some ''error'' then
        (case v of JStr s \<Rightarrow> nip05_members kvs (m, s)
         | JNull \<Rightarrow> nip05_members kvs (m, e)
         | _ \<Rightarrow> None)
      else nip05_members kvs (m, e))"

definition nip05_decode :: "string \<Rightarrow> ((string \<Rightarrow> string) \<times> string) option" where
  "nip05_decode body = (case json_decode_first body of
     Some (JObj kvs) \<Rightarrow> nip05_members kvs ((\<lambda>_. []), [])
   | Some JNull \<Rightarrow> Some ((\<lambda>_. []), [])
   | _ \<Rightarrow> None)"

section \<open>Verify\<close>

definition nip05_lookup_url :: "string \<Rightarrow> string \<Rightarrow> string option" where
  "nip05_lookup_url base_url username = (case url_parse base_url of None \<Rightarrow> None
     | Some u \<Rightarrow> Some (url_string (u\<lparr>u_raw_query := values_encode (values_set ''name'' username (url_query u))\<rparr>)))"

definition get_request :: "string \<Rightarrow> out_req" where
  "get_request url = \<lparr>oq_method = ''GET'', oq_url = url, oq_header = no_header, oq_body = None\<rparr>"

definition nip05_answer :: "up_resp \<Rightarrow> string \<Rightarrow> string \<Rightarrow> goerr option" where
  "nip05_answer resp username pubkey =
     (if up_code resp < 200 \<or> up_code resp > 299
      then Some (TextErr (''nip05 lookup returned HTTP '' @ int_str (up_code resp)))
      else (case nip05_decode (up_body resp) of
         None \<Rightarrow> Some (TextErr ''nip05 answer is not valid JSON'')
       | Some (names, err) \<Rightarrow>
           if err \<noteq> [] then Some (TextErr err)
           else if equal_fold (names username) pubkey then None
           else Some Nip05NoMatch))"

definition nip05_verify :: "http_do \<Rightarrow> string \<Rightarrow> string \<Rightarrow> string \<Rightarrow> goerr option \<times> out_req list" where
  "nip05_verify transport base_url name pubkey =
     (let username = to_lower (trim_space name)
      in if username = [] then (Some (TextErr ''username is empty''), [])
         else (case nip05_lookup_url base_url username of
            None \<Rightarrow> (Some (TextErr ''parse NIP-05 base URL''), [])
          | Some url \<Rightarrow>
              (case url_parse url of
                 None \<Rightarrow> (Some (TextErr ''parse NIP-05 lookup URL''), [])
               | Some _ \<Rightarrow>
                  (let q = get_request url
                   in (case transport q of
                        Inl e \<Rightarrow> (Some (TextErr (client_error q e)), [q])
                      | Inr resp \<Rightarrow> (nip05_answer resp username pubkey, [q]))))))"

section \<open>What a successful lookup means\<close>

text \<open>The server at the base URL said that the name belongs to the key.\<close>

definition nip05_confirms :: "http_do \<Rightarrow> string \<Rightarrow> string \<Rightarrow> string \<Rightarrow> bool" where
  "nip05_confirms transport base_url name pubkey \<longleftrightarrow>
     (\<exists>url resp names. nip05_lookup_url base_url (to_lower (trim_space name)) = Some url
        \<and> transport (get_request url) = Inr resp \<and> 200 \<le> up_code resp \<and> up_code resp \<le> 299
        \<and> nip05_decode (up_body resp) = Some (names, [])
        \<and> equal_fold (names (to_lower (trim_space name))) pubkey)"

lemma nip05_answer_None:
  "nip05_answer resp u p = None \<longleftrightarrow> 200 \<le> up_code resp \<and> up_code resp \<le> 299
     \<and> (\<exists>names. nip05_decode (up_body resp) = Some (names, []) \<and> equal_fold (names u) p)"
  by (auto simp: nip05_answer_def split: option.splits if_splits)

lemma nip05_verify_sound:
  "fst (nip05_verify transport base name pk) = None \<Longrightarrow>
     trim_space name \<noteq> [] \<and> nip05_confirms transport base name pk"
  unfolding nip05_verify_def nip05_confirms_def
  by (fastforce simp: Let_def nip05_answer_None split: option.splits sum.splits if_splits)

lemma nip05_verify_requests: "length (snd (nip05_verify transport base name pk)) \<le> 1"
  by (auto simp: nip05_verify_def Let_def split: option.splits sum.splits)

end
