(* ===== verification/Profile.thy ===== *)
theory Profile
  imports Nostr
begin

text \<open>
  Trustroots usernames: \<open>internal/relay/profile.go\<close> and \<open>internal/relay/upstream.go\<close>.

  A websocket connection to a relay is given by what its peer does: the messages that
  arrive in answer to the request before reading fails (a closed connection, the read
  deadline), the error that ends them, and the error of writing, if any. So the read loop is a recursion over the
  messages, and it ends because the deadline bounds them.
\<close>

section \<open>Usernames\<close>

definition trustroots_profile_kind :: int where "trustroots_profile_kind = 10390"
definition trustroots_username_label_namespace :: string where
  "trustroots_username_label_namespace = ''org.trustroots:username''"
definition trustroots_username_minimum_rune_count :: nat where
  "trustroots_username_minimum_rune_count = 3"

text \<open>\<open>len([]rune(s))\<close> of UTF-8 text: the bytes that do not continue a sequence.\<close>

definition rune_count :: "string \<Rightarrow> nat" where
  "rune_count s = length (filter (\<lambda>c. \<not> (128 \<le> (of_char c :: nat) \<and> (of_char c :: nat) < 192)) s)"

definition normalize_username :: "string \<Rightarrow> string option" where
  "normalize_username username =
     (let u = to_lower (trim_space username)
      in if rune_count u < trustroots_username_minimum_rune_count then None else Some u)"

text \<open>The first loop: the first label tag decides. \<open>None\<close>: no such tag.\<close>

fun label_tag :: "string list list \<Rightarrow> string option" where
  "label_tag [] = None"
| "label_tag (tag # tags) =
     (case tag of a # b # c # _ \<Rightarrow>
        if a = ''l'' \<and> c = trustroots_username_label_namespace then Some b else label_tag tags
      | _ \<Rightarrow> label_tag tags)"

definition nip05_suffix :: string where
  "nip05_suffix = ''@trustroots.org''"

text \<open>The name in a decoded kind-0 profile.\<close>

definition profile_username :: "(string \<Rightarrow> string) \<Rightarrow> string option" where
  "profile_username p =
     (case normalize_username (p ''trustrootsUsername'') of
        Some username \<Rightarrow> Some username
      | None \<Rightarrow>
         if has_suffix (to_lower (p ''nip05'')) nip05_suffix
         then normalize_username (trim_suffix (to_lower (p ''nip05'')) nip05_suffix)
         else None)"

definition profile_fields :: "string list" where
  "profile_fields = [''trustrootsUsername'', ''nip05'']"

definition content_username :: "string \<Rightarrow> string option" where
  "content_username content =
     Option.bind (json_parse content) (\<lambda>j. Option.bind (unmarshal_struct profile_fields j) profile_username)"

definition trustroots_username_from_event :: "event \<Rightarrow> string option" where
  "trustroots_username_from_event e =
     (case (if ev_kind e = trustroots_profile_kind then label_tag (ev_tags e) else None) of
        Some v \<Rightarrow> normalize_username v
      | None \<Rightarrow> if ev_kind e = 0 then content_username (ev_content e) else None)"

section \<open>Upstream lookups\<close>

datatype ws_frame = FrameJson json | FrameText string

record ws_peer =
  wp_write_error :: "string option"
  wp_inbox :: "ws_frame \<Rightarrow> string list"
  wp_read_error :: string

text \<open>Dialling: the error, or the peer that answers at the URL.\<close>

type_synonym ws_net = "string \<Rightarrow> string + ws_peer"

record upstream =
  up_url :: string
  up_lookup :: duration
  up_profile_relays :: "string list"

definition public_profile_relays :: "string list" where
  "public_profile_relays = [''wss://relay.trustroots.org'', ''wss://relay.nomadwiki.org'']"

fun dedup_urls :: "string list \<Rightarrow> string list \<Rightarrow> string list" where
  "dedup_urls seen [] = []"
| "dedup_urls seen (url # urls) =
     (let normalized = trim_space (to_lower url)
      in if normalized = [] then dedup_urls seen urls
         else if normalized \<in> set seen then dedup_urls seen urls
         else normalized # dedup_urls (normalized # seen) urls)"

definition profile_relay_urls :: "upstream \<Rightarrow> string list" where
  "profile_relay_urls u =
     dedup_urls [] ((if trim_space (up_url u) \<noteq> [] then [up_url u] else []) @ up_profile_relays u @ public_profile_relays)"

definition profile_sub_id :: string where
  "profile_sub_id = ''wrapster-profile''"

definition profile_request :: "string \<Rightarrow> json" where
  "profile_request pubkey = JArr [JStr ''REQ'', JStr profile_sub_id,
     JObj [(''authors'', JArr [JStr pubkey]),
           (''kinds'', JArr [JNum (int_str trustroots_profile_kind), JNum (int_str 0)]),
           (''limit'', JNum (int_str 10))]]"

definition profile_message :: "nostr_lib \<Rightarrow> string \<Rightarrow> (goerr + string) option" where
  "profile_message L message =
     (case unmarshal_raws message of None \<Rightarrow> None
      | Some [] \<Rightarrow> None
      | Some (r0 # rest) \<Rightarrow> (case unmarshal_string r0 of None \<Rightarrow> None
        | Some typ \<Rightarrow>
            if typ = ''EVENT'' then
              (case rest of r1 # r2 # _ \<Rightarrow>
                 if unmarshal_string r1 \<noteq> Some profile_sub_id then None
                 else (case nl_decode_event L r2 of None \<Rightarrow> None
                    | Some e \<Rightarrow> map_option Inr (trustroots_username_from_event e))
               | _ \<Rightarrow> None)
            else if typ = ''EOSE'' then Some (Inl (TextErr ''no Trustroots username profile event found''))
            else if typ = ''CLOSED'' then Some (Inl (TextErr ''upstream closed profile subscription''))
            else None))"

text \<open>The read loop; a message that decides nothing is \<open>continue\<close>.\<close>

fun profile_read_loop :: "nostr_lib \<Rightarrow> string \<Rightarrow> string list \<Rightarrow> goerr + string" where
  "profile_read_loop L read_error [] = Inl (TextErr read_error)"
| "profile_read_loop L read_error (m # ms) =
     (case profile_message L m of Some res \<Rightarrow> res | None \<Rightarrow> profile_read_loop L read_error ms)"

definition find_trustroots_username_on_relay :: "nostr_lib \<Rightarrow> ws_net \<Rightarrow> string \<Rightarrow> string \<Rightarrow> goerr + string" where
  "find_trustroots_username_on_relay L net relay_url pubkey =
     (case net relay_url of Inl e \<Rightarrow> Inl (TextErr e)
      | Inr peer \<Rightarrow> (case wp_write_error peer of Some e \<Rightarrow> Inl (TextErr e)
         | None \<Rightarrow> profile_read_loop L (wp_read_error peer) (wp_inbox peer (FrameJson (profile_request pubkey)))))"

fun find_on_relays :: "nostr_lib \<Rightarrow> ws_net \<Rightarrow> string \<Rightarrow> string list \<Rightarrow> string list \<Rightarrow> goerr + string" where
  "find_on_relays L net pubkey [] errs =
     Inl (TextErr (''no Trustroots username profile event found on any relay: '' @ join '' | '' errs))"
| "find_on_relays L net pubkey (r # rs) errs =
     (case find_trustroots_username_on_relay L net r pubkey of
        Inr username \<Rightarrow> Inr username
      | Inl e \<Rightarrow> find_on_relays L net pubkey rs (errs @ [r @ '': '' @ error_text e]))"

definition find_trustroots_username :: "nostr_lib \<Rightarrow> ws_net \<Rightarrow> upstream \<Rightarrow> string \<Rightarrow> goerr + string" where
  "find_trustroots_username L net u pubkey = find_on_relays L net pubkey (profile_relay_urls u) []"

section \<open>Facts\<close>

lemma normalize_username_props:
  assumes "normalize_username s = Some u"
  shows "3 \<le> rune_count u \<and> to_lower u = u \<and> trim_space u = u \<and> u \<noteq> []"
proof -
  from assms have u: "u = to_lower (trim_space s)" "3 \<le> rune_count u"
    by (auto simp: normalize_username_def Let_def trustroots_username_minimum_rune_count_def split: if_splits)
  then show ?thesis by (auto simp: trim_space_to_lower rune_count_def)
qed

lemma normalize_username_idem:
  assumes "normalize_username s = Some u"
  shows "normalize_username u = Some u"
proof -
  from normalize_username_props [OF assms] have e: "to_lower (trim_space u) = u" and n: "\<not> rune_count u < 3"
    by simp_all
  show ?thesis
    unfolding normalize_username_def Let_def e trustroots_username_minimum_rune_count_def if_not_P [OF n] ..
qed

lemma profile_username_source: "profile_username p = Some u \<Longrightarrow> \<exists>v. normalize_username v = Some u"
  by (auto simp: profile_username_def split: option.split_asm if_split_asm)

lemma trustroots_username_from_event_source:
  "trustroots_username_from_event e = Some u \<Longrightarrow> \<exists>v. normalize_username v = Some u"
  unfolding trustroots_username_from_event_def content_username_def
  by (auto simp: bind_eq_Some_conv dest: profile_username_source split: option.split_asm if_split_asm)

lemma trustroots_username_normal:
  "trustroots_username_from_event e = Some u \<Longrightarrow> normalize_username u = Some u"
  using trustroots_username_from_event_source normalize_username_idem by blast

lemma profile_message_name:
  "profile_message L m = Some (Inr u) \<Longrightarrow> normalize_username u = Some u"
  unfolding profile_message_def
  by (auto split: option.split_asm list.split_asm if_split_asm intro: trustroots_username_normal)

lemma profile_read_loop_name:
  "profile_read_loop L e ms = Inr u \<Longrightarrow> normalize_username u = Some u \<and> (\<exists>m \<in> set ms. profile_message L m = Some (Inr u))"
  by (induction ms) (auto dest: profile_message_name split: option.splits)

lemma find_on_relay_name:
  "find_trustroots_username_on_relay L net r pk = Inr u \<Longrightarrow> normalize_username u = Some u"
  by (auto simp: find_trustroots_username_on_relay_def dest: profile_read_loop_name split: sum.splits option.splits)

lemma find_on_relays_name:
  "find_on_relays L net pk rs errs = Inr u \<Longrightarrow>
     normalize_username u = Some u \<and> (\<exists>r \<in> set rs. find_trustroots_username_on_relay L net r pk = Inr u)"
  by (induction rs arbitrary: errs) (auto dest: find_on_relay_name split: sum.splits)

text \<open>A failing relay never hides an answer of a later one, and earlier relays win.\<close>

lemma find_on_relays_first:
  "find_on_relays L net pk rs errs = Inr u \<longleftrightarrow>
     (case List.find (\<lambda>r. is_ok (find_trustroots_username_on_relay L net r pk)) rs of
        Some r \<Rightarrow> find_trustroots_username_on_relay L net r pk = Inr u
      | None \<Rightarrow> False)"
  by (induction rs arbitrary: errs) (auto split: sum.splits)

subsection \<open>The relays that are asked\<close>

definition clean_relay_url :: "string \<Rightarrow> string option" where
  "clean_relay_url url = (if trim_space (to_lower url) = [] then None else Some (trim_space (to_lower url)))"

lemma dedup_urls_dedup_on: "dedup_urls seen urls = dedup_on id seen (List.map_filter clean_relay_url urls)"
  by (induction urls arbitrary: seen) (auto simp: Let_def clean_relay_url_def List.map_filter_simps)

interpretation pr: unique_list "dedup_urls []" clean_relay_url id
  by unfold_locales (rule dedup_urls_dedup_on)

lemma profile_relay_urls_distinct: "distinct (profile_relay_urls u)"
  using pr.ul_distinct by (simp add: profile_relay_urls_def)

lemma profile_relay_urls_set:
  "set (profile_relay_urls u) = {r. r \<noteq> [] \<and>
     r \<in> (\<lambda>x. trim_space (to_lower x)) ` (set (up_url u # up_profile_relays u @ public_profile_relays))}"
proof -
  have "set (dedup_urls [] xs) = {r. r \<noteq> [] \<and> r \<in> (\<lambda>x. trim_space (to_lower x)) ` set xs}" for xs
    using pr.ul_keys [of xs] by (auto simp: clean_relay_url_def split: if_splits)
  then show ?thesis
    by (auto simp: profile_relay_urls_def trim_space_to_lower)
qed

end
