(* ===== verification/Bech32.thy ===== *)
theory Bech32
  imports Prelude "HOL-Library.Char_ord"
begin

unbundle bit_operations_syntax

text \<open>
  Public keys of \<open>internal/admin/auth.go\<close>: \<open>NormalizePubkey\<close> and the bech32 decoder it
  uses for \<open>npub\<close> values. Machine integers are words of their Go width: the checksum a
  \<open>uint32\<close>, the bit accumulator a \<open>uint\<close> of 64 bits, a data symbol a byte.
\<close>

section \<open>The decoder\<close>

definition bech32_charset :: string where
  "bech32_charset = ''qpzry9x8gf2tvdw0s3jn54khce6mua7l''"

definition bech32_generator :: "32 word list" where
  "bech32_generator = [0x3b6a57b2, 0x26508e6d, 0x1ea119fa, 0x3d4233dd, 0x2a1462b3]"

definition bech32_mix :: "32 word \<Rightarrow> 32 word" where
  "bech32_mix tp = fold (\<lambda>i chk. if drop_bit i tp AND 1 = 1 then chk XOR bech32_generator ! i else chk)
     [0..<length bech32_generator] 0"

text \<open>
  One round of the loop of \<open>bech32Polymod\<close>: the high bits select the generators that are
  added to the shifted checksum.
\<close>

definition bech32_round :: "32 word \<Rightarrow> 8 word \<Rightarrow> 32 word" where
  "bech32_round chk value =
     (let tp = drop_bit 25 chk;
          chk1 = push_bit 5 (chk AND 0x1ffffff) XOR ucast value
      in fold (\<lambda>i c. if drop_bit i tp AND 1 = 1 then c XOR bech32_generator ! i else c)
           [0..<length bech32_generator] chk1)"

definition bech32_polymod :: "8 word list \<Rightarrow> 32 word" where
  "bech32_polymod values = foldl bech32_round 1 values"

definition char_word :: "char \<Rightarrow> 8 word" where
  "char_word c = of_nat (of_char c)"

definition bech32_checksum_ok :: "string \<Rightarrow> 8 word list \<Rightarrow> bool" where
  "bech32_checksum_ok hrp data =
     (if list_ex (\<lambda>c. (of_char c :: nat) < 33 \<or> (of_char c :: nat) > 126) hrp then False
      else bech32_polymod (map (\<lambda>c. drop_bit 5 (char_word c)) hrp @ [0]
             @ map (\<lambda>c. char_word c AND 31) hrp @ data) = 1)"

fun index_of :: "char \<Rightarrow> string \<Rightarrow> nat option" where
  "index_of c [] = None"
| "index_of c (x # xs) = (if x = c then Some 0 else map_option Suc (index_of c xs))"

fun map_opt :: "('a \<Rightarrow> 'b option) \<Rightarrow> 'a list \<Rightarrow> 'b list option" where
  "map_opt f [] = Some []"
| "map_opt f (x # xs) = (case f x of None \<Rightarrow> None | Some y \<Rightarrow> map_option (\<lambda>ys. y # ys) (map_opt f xs))"

definition bech32_symbol :: "char \<Rightarrow> 8 word option" where
  "bech32_symbol c = map_option of_nat (index_of c bech32_charset)"

definition decode_bech32 :: "string \<Rightarrow> (string \<times> 8 word list) option" where
  "decode_bech32 value =
     (if value \<noteq> to_lower value then None
      else (case last_cut (CHR ''1'') value of None \<Rightarrow> None
       | Some (hrp, raw_data) \<Rightarrow>
          if length hrp < 1 \<or> length hrp + 7 > length value then None
          else (case map_opt bech32_symbol raw_data of None \<Rightarrow> None
            | Some data \<Rightarrow> if \<not> bech32_checksum_ok hrp data then None
                          else Some (hrp, take (length data - 6) data))))"

text \<open>
  The inner loop \<open>for bits >= toBits\<close>. The code only asks for groups of 8 bits; for
  groups of 0 bits the Go loop would not stop, and the model stops at once.
\<close>

function emit_groups :: "nat \<Rightarrow> 64 word \<Rightarrow> 64 word \<Rightarrow> nat \<Rightarrow> 8 word list \<Rightarrow> nat \<times> 8 word list" where
  "emit_groups to_bits max_value acc bits out =
     (if to_bits = 0 \<or> bits < to_bits then (bits, out)
      else emit_groups to_bits max_value acc (bits - to_bits)
             (out @ [ucast (drop_bit (bits - to_bits) acc AND max_value)]))"
  by pat_completeness auto
termination
  by (relation "measure (\<lambda>(_, _, _, bits, _). bits)") auto

declare emit_groups.simps [simp del]

fun convert_loop :: "nat \<Rightarrow> nat \<Rightarrow> 8 word list \<Rightarrow> 64 word \<Rightarrow> nat \<Rightarrow> 8 word list \<Rightarrow> (64 word \<times> nat \<times> 8 word list) option" where
  "convert_loop from_bits to_bits [] acc bits out = Some (acc, bits, out)"
| "convert_loop from_bits to_bits (value # data) acc bits out =
     (let v = (ucast value :: 64 word);
          max_value = push_bit to_bits 1 - 1;
          max_acc = push_bit (from_bits + to_bits - 1) 1 - 1
      in if drop_bit from_bits v \<noteq> 0 then None
         else (let acc' = (push_bit from_bits acc OR v) AND max_acc;
                   (bits', out') = emit_groups to_bits max_value acc' (bits + from_bits) out
               in convert_loop from_bits to_bits data acc' bits' out'))"

definition convert_bits :: "8 word list \<Rightarrow> nat \<Rightarrow> nat \<Rightarrow> bool \<Rightarrow> 8 word list option" where
  "convert_bits data from_bits to_bits pad =
     (case convert_loop from_bits to_bits data 0 0 [] of None \<Rightarrow> None
      | Some (acc, bits, out) \<Rightarrow>
          (let max_value = push_bit to_bits 1 - 1;
               last = push_bit (to_bits - bits) acc AND max_value
           in if pad then Some (if bits > 0 then out @ [ucast last] else out)
              else if bits \<ge> from_bits \<or> last \<noteq> 0 then None
              else Some out))"

definition hex_char :: "nat \<Rightarrow> char" where
  "hex_char n = char_of (if n < 10 then n + 48 else n + 87)"

text \<open>\<open>fmt.Sprintf("%x", bytes)\<close>.\<close>

definition hex_bytes :: "8 word list \<Rightarrow> string" where
  "hex_bytes bs = concat (map (\<lambda>b. [hex_char (unat b div 16), hex_char (unat b mod 16)]) bs)"

definition decode_npub :: "string \<Rightarrow> string option" where
  "decode_npub value = (case decode_bech32 value of None \<Rightarrow> None
     | Some (hrp, data) \<Rightarrow>
        if hrp \<noteq> ''npub'' then None
        else (case convert_bits data 5 8 False of None \<Rightarrow> None
          | Some converted \<Rightarrow>
              if length converted < 32 then None else Some (hex_bytes (take 32 converted))))"

definition normalize_pubkey :: "string \<Rightarrow> string" where
  "normalize_pubkey pubkey =
     (let p = to_lower (trim_space pubkey)
      in if has_prefix p ''npub''
         then (case decode_npub p of Some decoded \<Rightarrow> decoded | None \<Rightarrow> p)
         else p)"

section \<open>The checksum\<close>

lemma bech32_positions: "[0..<length bech32_generator] = [0, 1, 2, 3, 4]"
  by (simp add: bech32_generator_def upt_rec)

lemma bech32_round_mix:
  "bech32_round chk v = (push_bit 5 (chk AND 0x1ffffff) XOR ucast v) XOR bech32_mix (drop_bit 25 chk)"
  unfolding bech32_round_def bech32_mix_def bech32_positions Let_def
  by (simp add: ac_simps split: if_splits)

definition gen_if :: "bool \<Rightarrow> nat \<Rightarrow> 32 word" where
  "gen_if b i = (if b then bech32_generator ! i else 0)"

lemma gen_if_xor: "gen_if a i XOR gen_if b i = gen_if (a \<noteq> b) i"
  by (simp add: gen_if_def)

lemma and_one_bit: "(drop_bit i w AND 1 = 1) = bit w i" for w :: "32 word"
  by (simp add: bit_iff_odd_drop_bit and_one_eq odd_iff_mod_2_eq_one)

lemma bech32_mix_gens:
  "bech32_mix t = gen_if (bit t 0) 0 XOR (gen_if (bit t 1) 1 XOR (gen_if (bit t 2) 2 XOR
     (gen_if (bit t 3) 3 XOR gen_if (bit t 4) 4)))"
  unfolding bech32_mix_def bech32_positions and_one_bit
  by (simp add: gen_if_def ac_simps)

lemma bech32_mix_xor:
  "bech32_mix t XOR bech32_mix u = gen_if (bit t 0 \<noteq> bit u 0) 0 XOR (gen_if (bit t 1 \<noteq> bit u 1) 1 XOR
     (gen_if (bit t 2 \<noteq> bit u 2) 2 XOR (gen_if (bit t 3 \<noteq> bit u 3) 3 XOR gen_if (bit t 4 \<noteq> bit u 4) 4)))"
  unfolding bech32_mix_gens gen_if_xor [symmetric] by (simp only: ac_simps)

text \<open>The low five bits of the generators are linearly independent.\<close>

lemma generator_low_independent:
  "(gen_if a 0 XOR (gen_if b 1 XOR (gen_if c 2 XOR (gen_if d 3 XOR gen_if e 4)))) AND 31 = 0
   \<longleftrightarrow> \<not> a \<and> \<not> b \<and> \<not> c \<and> \<not> d \<and> \<not> e"
  by (cases a; cases b; cases c; cases d; cases e) (simp_all add: gen_if_def bech32_generator_def)

lemma bech32_mix_low_inj:
  assumes "bech32_mix t AND 31 = bech32_mix u AND 31" "k < 5"
  shows "bit t k = bit u k"
proof -
  have "(bech32_mix t XOR bech32_mix u) AND 31 = (bech32_mix t AND 31) XOR (bech32_mix u AND 31)"
    by (simp add: bit.conj_xor_distrib2)
  with assms(1) have "(bech32_mix t XOR bech32_mix u) AND 31 = 0" by simp
  then have "bit t 0 = bit u 0 \<and> bit t 1 = bit u 1 \<and> bit t 2 = bit u 2 \<and> bit t 3 = bit u 3 \<and> bit t 4 = bit u 4"
    unfolding bech32_mix_xor generator_low_independent by simp
  moreover have "k = 0 \<or> k = 1 \<or> k = 2 \<or> k = 3 \<or> k = 4" using assms(2) by arith
  ultimately show ?thesis by blast
qed

text \<open>A checksum is a 30-bit value.\<close>

definition small30 :: "32 word \<Rightarrow> bool" where
  "small30 w \<longleftrightarrow> take_bit 30 w = w"

lemma small30_bit: "small30 w \<Longrightarrow> 30 \<le> n \<Longrightarrow> \<not> bit w n"
  unfolding small30_def by (metis bit_take_bit_iff not_less)

lemma low_mask: "(0x1ffffff :: 32 word) = mask 25" "(31 :: 32 word) = mask 5"
  by (simp_all add: mask_eq_decr_exp)

lemma bech32_round_inj:
  assumes s: "small30 a" "small30 b" and eq: "bech32_round a v = bech32_round b v"
  shows "a = b"
proof -
  let ?l = "\<lambda>w. push_bit 5 (w AND mask 25)"
  let ?h = "\<lambda>w. bech32_mix (drop_bit 25 w)"
  have e: "?l a XOR ?h a = ?l b XOR ?h b" (is "?x = ?y")
  proof -
    have "?x = bech32_round a v XOR ucast v" "?y = bech32_round b v XOR ucast v"
      by (simp_all add: bech32_round_mix low_mask ac_simps)
    with eq show ?thesis by simp
  qed
  have p: "(push_bit 5 w XOR m) AND 31 = m AND 31" for w m :: "32 word"
    unfolding low_mask by (intro bit_word_eqI) (auto simp: bit_simps)
  from arg_cong [OF e, of "\<lambda>w. w AND 31"] have "?h a AND 31 = ?h b AND 31"
    unfolding p .
  then have hi: "bit a (25 + k) = bit b (25 + k)" if "k < 5" for k
    using bech32_mix_low_inj [OF _ that, of "drop_bit 25 a" "drop_bit 25 b"] \<open>?h a AND 31 = ?h b AND 31\<close>
    by (simp add: bit_drop_bit_eq)
  have "drop_bit 25 a = drop_bit 25 b"
  proof (rule bit_word_eqI)
    fix n
    show "bit (drop_bit 25 a) n = bit (drop_bit 25 b) n"
      using hi [of n] small30_bit [OF s(1), of "25 + n"] small30_bit [OF s(2), of "25 + n"]
      by (cases "n < 5") (simp_all add: bit_drop_bit_eq)
  qed
  then have "?l a XOR ?h b = ?l b XOR ?h b" using e by (simp only:)
  then have "(?l a XOR ?h b) XOR ?h b = (?l b XOR ?h b) XOR ?h b" by (simp only:)
  then have l: "?l a = ?l b" by (simp only: xor.assoc xor_self_eq xor.right_neutral)
  show ?thesis
  proof (rule bit_word_eqI)
    fix n
    show "bit a n = bit b n"
    proof (cases "n < 25")
      case True
      have "bit (?l a) (n + 5) = bit (?l b) (n + 5)" by (simp only: l)
      with True show ?thesis by (simp add: bit_simps)
    next
      case False
      then show ?thesis
        using hi [of "n - 25"] small30_bit [OF s(1), of n] small30_bit [OF s(2), of n]
        by (cases "n < 30") simp_all
    qed
  qed
qed

lemma small30_xor: "small30 a \<Longrightarrow> small30 b \<Longrightarrow> small30 (a XOR b)"
  by (simp add: small30_def take_bit_xor)

lemma small30_gen: "small30 (gen_if b i)" if "i < 5"
proof -
  have "i = 0 \<or> i = 1 \<or> i = 2 \<or> i = 3 \<or> i = 4" using that by arith
  then show ?thesis by (auto simp: gen_if_def bech32_generator_def small30_def take_bit_eq_mask mask_eq_decr_exp)
qed

lemma small30_mix: "small30 (bech32_mix t)"
  unfolding bech32_mix_gens by (intro small30_xor small30_gen) simp_all

lemma small30_round: "small30 (bech32_round chk v)"
proof -
  have "small30 (push_bit 5 (chk AND mask 25))"
    unfolding small30_def by (intro bit_word_eqI) (auto simp: bit_simps)
  moreover have "small30 (ucast v)"
    unfolding small30_def by (intro bit_word_eqI) (auto simp: bit_simps dest: bit_imp_le_length)
  ultimately show ?thesis
    unfolding bech32_round_mix low_mask by (intro small30_xor small30_mix)
qed

lemma small30_foldl: "small30 c \<Longrightarrow> small30 (foldl bech32_round c vs)"
  by (induction vs arbitrary: c) (simp_all add: small30_round)

lemma small30_one: "small30 1"
  by (simp add: small30_def)

lemma bech32_polymod_small: "small30 (bech32_polymod vs)"
  unfolding bech32_polymod_def by (intro small30_foldl small30_one)

lemma bech32_foldl_inj:
  "small30 c \<Longrightarrow> small30 d \<Longrightarrow> foldl bech32_round c vs = foldl bech32_round d vs \<Longrightarrow> c = d"
proof (induction vs arbitrary: c d)
  case Nil
  then show ?case by simp
next
  case (Cons v vs)
  have "foldl bech32_round (bech32_round c v) vs = foldl bech32_round (bech32_round d v) vs"
    using Cons.prems(3) by (simp only: foldl_Cons)
  then have "bech32_round c v = bech32_round d v"
    by (rule Cons.IH [OF small30_round small30_round])
  then show ?case by (rule bech32_round_inj [OF Cons.prems(1,2)])
qed

lemma bech32_round_value_inj: "bech32_round c v = bech32_round c w \<Longrightarrow> v = w"
proof -
  assume "bech32_round c v = bech32_round c w"
  then have "(push_bit 5 (c AND mask 25) XOR bech32_mix (drop_bit 25 c)) XOR bech32_round c v
    = (push_bit 5 (c AND mask 25) XOR bech32_mix (drop_bit 25 c)) XOR bech32_round c w" by simp
  then have "(ucast v :: 32 word) = ucast w"
    by (simp add: bech32_round_mix low_mask ac_simps)
  then have "bit (ucast v :: 32 word) n = bit (ucast w :: 32 word) n" for n by (simp only:)
  then have "bit v n = bit w n" if "n < 8" for n using that \<open>\<And>n. bit (ucast v :: 32 word) n = bit (ucast w :: 32 word) n\<close> [of n] by (simp add: bit_simps)
  then show "v = w" by (intro bit_word_eqI) simp
qed

lemma bech32_polymod_substitution:
  "bech32_polymod (xs @ v # ys) = bech32_polymod (xs @ w # ys) \<Longrightarrow> v = w"
proof -
  assume "bech32_polymod (xs @ v # ys) = bech32_polymod (xs @ w # ys)"
  then have "bech32_round (foldl bech32_round 1 xs) v = bech32_round (foldl bech32_round 1 xs) w"
    unfolding bech32_polymod_def foldl_append foldl_Cons
    by (rule bech32_foldl_inj [OF small30_round small30_round])
  then show ?thesis by (rule bech32_round_value_inj)
qed

lemma bech32_checksum_substitution:
  "bech32_checksum_ok hrp (xs @ v # ys) \<Longrightarrow> bech32_checksum_ok hrp (xs @ w # ys) \<Longrightarrow> v = w"
proof -
  assume "bech32_checksum_ok hrp (xs @ v # ys)" "bech32_checksum_ok hrp (xs @ w # ys)"
  then have "bech32_polymod ((map (\<lambda>c. drop_bit 5 (char_word c)) hrp @ [0]
             @ map (\<lambda>c. char_word c AND 31) hrp @ xs) @ v # ys)
           = bech32_polymod ((map (\<lambda>c. drop_bit 5 (char_word c)) hrp @ [0]
             @ map (\<lambda>c. char_word c AND 31) hrp @ xs) @ w # ys)"
    by (simp add: bech32_checksum_ok_def split: if_splits)
  then show "v = w" by (rule bech32_polymod_substitution)
qed

lemma map_opt_append:
  "map_opt f (xs @ ys) = (case map_opt f xs of None \<Rightarrow> None
     | Some us \<Rightarrow> map_option (\<lambda>vs. us @ vs) (map_opt f ys))"
  by (induction xs; cases "map_opt f ys") (auto split: option.splits)

lemma map_opt_Some_all: "map_opt f xs = Some ys \<longleftrightarrow> list_all2 (\<lambda>x y. f x = Some y) xs ys"
proof (induction xs arbitrary: ys)
  case Nil
  then show ?case by auto
next
  case (Cons x xs)
  then show ?case by (cases ys) (auto split: option.splits)
qed

lemma index_of_nth: "index_of c s = Some i \<Longrightarrow> i < length s \<and> s ! i = c"
  by (induction s arbitrary: i) (auto split: if_splits)

lemma bech32_symbol_inj: "bech32_symbol c = Some v \<Longrightarrow> bech32_symbol d = Some v \<Longrightarrow> c = d"
proof -
  assume "bech32_symbol c = Some v" "bech32_symbol d = Some v"
  then obtain i j where ij: "index_of c bech32_charset = Some i" "index_of d bech32_charset = Some j"
    "(of_nat i :: 8 word) = of_nat j" by (auto simp: bech32_symbol_def)
  have "length bech32_charset = 32" by (simp add: bech32_charset_def)
  with ij index_of_nth have "i < 256" "j < 256" by force+
  with ij(3) have "i = j" by (simp add: word_unat_eq_iff unat_of_nat)
  with ij index_of_nth show "c = d" by metis
qed

lemma decode_bech32_data:
  assumes "decode_bech32 (h @ CHR ''1'' # d) = Some r" "CHR ''1'' \<notin> set d"
  shows "\<exists>vs. map_opt bech32_symbol d = Some vs \<and> bech32_checksum_ok h vs"
proof -
  have "last_cut (CHR ''1'') (h @ CHR ''1'' # d) = Some (h, d)"
    using assms(2) by (simp add: last_cut_Some_iff)
  with assms(1) show ?thesis
    by (auto simp: decode_bech32_def split: if_splits option.splits)
qed

lemma decode_bech32_substitution:
  assumes "decode_bech32 (h @ CHR ''1'' # p @ c # q) = Some r"
    and "CHR ''1'' \<notin> set (p @ c # q)" "e \<noteq> CHR ''1''" "e \<noteq> c"
  shows "decode_bech32 (h @ CHR ''1'' # p @ e # q) = None"
proof (rule ccontr)
  assume "decode_bech32 (h @ CHR ''1'' # p @ e # q) \<noteq> None"
  then obtain r' where r': "decode_bech32 (h @ CHR ''1'' # p @ e # q) = Some r'" by blast
  from decode_bech32_data [OF assms(1,2)] obtain us x ws where 1:
    "map_opt bech32_symbol p = Some us" "bech32_symbol c = Some x" "map_opt bech32_symbol q = Some ws"
    "bech32_checksum_ok h (us @ x # ws)"
    by (auto simp: map_opt_append split: option.splits)
  have "CHR ''1'' \<notin> set (p @ e # q)" using assms(2,3) by auto
  from decode_bech32_data [OF r' this] 1 obtain y where
    "bech32_symbol e = Some y" "bech32_checksum_ok h (us @ y # ws)"
    by (auto simp: map_opt_append split: option.splits)
  with 1 bech32_checksum_substitution have "bech32_symbol e = Some x" by blast
  with 1(2) assms(4) bech32_symbol_inj show False by blast
qed

section \<open>Regrouping bits\<close>

text \<open>The \<open>k\<close> low bits of a word, most significant first.\<close>

definition word_bits :: "nat \<Rightarrow> 'a::len word \<Rightarrow> bool list" where
  "word_bits k w = map (bit w) (rev [0..<k])"

lemma word_bits_split: "word_bits (m + k) w = word_bits m (drop_bit k w) @ word_bits k w"
proof -
  have "[0..<m + k] = [0..<k] @ [k..<m + k]"
    using upt_add_eq_append [of 0 k m] by (simp add: add.commute)
  also have "[k..<m + k] = map (\<lambda>i. k + i) [0..<m]"
    using map_add_upt [of k m] by (simp add: add.commute)
  finally have "rev [0..<m + k] = map (\<lambda>i. k + i) (rev [0..<m]) @ rev [0..<k]"
    by (simp add: rev_map)
  then show ?thesis by (simp add: word_bits_def bit_drop_bit_eq)
qed

lemma length_word_bits [simp]: "length (word_bits k w) = k"
  by (simp add: word_bits_def)

lemma word_bits_cong: "(\<And>i. i < k \<Longrightarrow> bit v i = bit w i) \<Longrightarrow> word_bits k v = word_bits k w"
  by (simp add: word_bits_def)

lemma mask64: "(push_bit n 1 - 1 :: 64 word) = mask n"
  by (simp add: mask_eq_decr_exp)

text \<open>Shifting a symbol of \<open>f\<close> bits into the accumulator appends its bits.\<close>

lemma shift_in_bits:
  fixes acc :: "64 word" and v :: "8 word"
  assumes "b + f \<le> n" "n \<le> 64" "f \<le> 8" "drop_bit f (ucast v :: 64 word) = 0"
  shows "word_bits (b + f) ((push_bit f acc OR ucast v) AND mask n) = word_bits b acc @ word_bits f v"
proof -
  let ?w = "(push_bit f acc OR ucast v) AND mask n"
  have hi: "\<not> bit v i" if "f \<le> i" for i
  proof
    assume "bit v i"
    moreover from this have "i < 8" using bit_imp_le_length [of v i] by simp
    ultimately have "bit (drop_bit f (ucast v :: 64 word)) (i - f)"
      using that by (simp add: bit_drop_bit_eq bit_simps)
    with assms(4) show False by simp
  qed
  have "word_bits b (drop_bit f ?w) = word_bits b acc"
    using assms(1,2) hi by (intro word_bits_cong) (auto simp: bit_simps)
  moreover have "word_bits f ?w = word_bits f v"
    using assms(1-3) by (intro word_bits_cong) (auto simp: bit_simps)
  ultimately show ?thesis by (simp add: word_bits_split)
qed

text \<open>Emitting a byte takes the upper bits off the accumulator.\<close>

lemma byte_bits:
  fixes acc :: "64 word"
  assumes "k \<le> 56"
  shows "word_bits 8 (ucast (drop_bit k acc AND mask 8) :: 8 word) = word_bits 8 (drop_bit k acc)"
  using assms by (intro word_bits_cong) (auto simp: bit_simps)

lemma emit_groups_bits:
  assumes "bits < 16"
  shows "case emit_groups 8 (mask 8) acc bits out of (bits', out') \<Rightarrow>
     bits' < 8 \<and> length out' * 8 + bits' = length out * 8 + bits \<and>
     concat (map (word_bits 8) out') @ word_bits bits' acc
       = concat (map (word_bits 8) out) @ word_bits bits acc"
proof (cases "bits < 8")
  case True
  then show ?thesis by (simp add: emit_groups.simps)
next
  case False
  with assms have "bits - 8 < 8" by simp
  with False have "emit_groups 8 (mask 8) acc bits out
      = (bits - 8, out @ [ucast (drop_bit (bits - 8) acc AND mask 8)])"
    by (simp add: emit_groups.simps [of _ _ _ bits] emit_groups.simps [of _ _ _ "bits - 8"])
  moreover have "word_bits bits acc = word_bits 8 (drop_bit (bits - 8) acc) @ word_bits (bits - 8) acc"
    using word_bits_split [of 8 "bits - 8" acc] False by simp
  ultimately show ?thesis using False assms by (simp add: byte_bits)
qed

lemma convert_loop_bits:
  "convert_loop 5 8 data acc bits out = Some (acc', bits', out') \<Longrightarrow> bits < 8 \<Longrightarrow>
   bits' < 8 \<and> length out' * 8 + bits' = length out * 8 + bits + 5 * length data \<and>
   concat (map (word_bits 8) out') @ word_bits bits' acc'
     = concat (map (word_bits 8) out) @ word_bits bits acc @ concat (map (word_bits 5) data)"
proof (induction data arbitrary: acc bits out)
  case Nil
  then show ?case by simp
next
  case (Cons v data)
  let ?acc = "(push_bit 5 acc OR ucast v) AND mask 12"
  obtain b o' where e: "emit_groups 8 (mask 8) ?acc (bits + 5) out = (b, o')" by fastforce
  from Cons.prems(1) have v: "drop_bit 5 (ucast v :: 64 word) = 0"
    by (simp add: Let_def split: if_splits)
  with Cons.prems(1) e have l: "convert_loop 5 8 data ?acc b o' = Some (acc', bits', out')"
    by (simp add: Let_def mask64 [of 12, simplified] mask64 [of 8, simplified])
  from emit_groups_bits [where bits = "bits + 5" and acc = ?acc and out = out] e Cons.prems(2)
  have g: "b < 8" "length o' * 8 + b = length out * 8 + (bits + 5)"
    "concat (map (word_bits 8) o') @ word_bits b ?acc = concat (map (word_bits 8) out) @ word_bits (bits + 5) ?acc"
    by auto
  have "word_bits (bits + 5) ?acc = word_bits bits acc @ word_bits 5 v"
    using Cons.prems(2) v by (intro shift_in_bits) simp_all
  with g(3) Cons.IH [OF l g(1)] g(2) show ?case by simp
qed

text \<open>
  What \<open>convertBits(data, 5, 8, false)\<close> accepts is exactly a regrouping of the bits of
  its input: the bytes followed by fewer than five zero bits of padding.
\<close>

lemma convert_bits_regroup:
  assumes "convert_bits data 5 8 False = Some out"
  shows "\<exists>k < 5. concat (map (word_bits 5) data) = concat (map (word_bits 8) out) @ replicate k False"
proof -
  from assms obtain acc bits where l: "convert_loop 5 8 data 0 0 [] = Some (acc, bits, out)"
    and k: "bits < 5" and z: "push_bit (8 - bits) acc AND mask 8 = 0"
    by (auto simp: convert_bits_def Let_def mask64 [of 8, simplified] not_le split: option.splits if_splits)
  from convert_loop_bits [OF l]
  have c: "concat (map (word_bits 8) out) @ word_bits bits acc = concat (map (word_bits 5) data)"
    by (simp add: word_bits_def)
  have "\<not> bit acc i" if "i < bits" for i
  proof
    assume "bit acc i"
    with that k have "bit (push_bit (8 - bits) acc AND mask 8) (i + (8 - bits))"
      by (auto simp: bit_simps)
    with z show False by simp
  qed
  then have "word_bits bits acc = replicate bits False"
    by (auto simp: word_bits_def list_eq_iff_nth_eq rev_nth)
  with c k show ?thesis by metis
qed


section \<open>Normalized public keys\<close>

text \<open>The characters \<open>fmt.Sprintf("%x")\<close> writes.\<close>

definition hex_lower_digit :: "char \<Rightarrow> bool" where
  "hex_lower_digit c \<longleftrightarrow> c \<in> set ''0123456789abcdef''"

lemma hex_char_digit_all: "list_all (\<lambda>n. hex_lower_digit (hex_char n)) [0..<16]"
  by code_simp

lemma hex_char_digit: "n < 16 \<Longrightarrow> hex_lower_digit (hex_char n)"
  using hex_char_digit_all by (simp add: list_all_iff)

lemma hex_bytes_digits: "list_all hex_lower_digit (hex_bytes bs)"
proof -
  have "hex_lower_digit (hex_char (unat b div 16)) \<and> hex_lower_digit (hex_char (unat b mod 16))" for b :: "8 word"
  proof -
    have "(unat b :: nat) < 256" using unsigned_less [of b] by simp
    then have "unat b div 16 < 16" by (simp add: less_mult_imp_div_less)
    then show ?thesis by (simp add: hex_char_digit)
  qed
  then show ?thesis by (auto simp: hex_bytes_def list_all_iff)
qed

lemma length_hex_bytes: "length (hex_bytes bs) = 2 * length bs"
  by (induction bs) (auto simp: hex_bytes_def)

lemma hex_lower_digit_facts_all:
  "list_all (\<lambda>c. char_lower c = c \<and> \<not> is_space c \<and> c \<noteq> CHR ''n'') ''0123456789abcdef''"
  by code_simp

lemma hex_lower_digit_facts:
  "hex_lower_digit c \<Longrightarrow> char_lower c = c \<and> \<not> is_space c \<and> c \<noteq> CHR ''n''"
  using hex_lower_digit_facts_all by (auto simp: list_all_iff hex_lower_digit_def)

lemma decode_npub_hex:
  assumes "decode_npub v = Some k"
  shows "length k = 64 \<and> list_all hex_lower_digit k"
proof -
  obtain hrp data where d: "decode_bech32 v = Some (hrp, data)"
    using assms by (cases "decode_bech32 v") (auto simp: decode_npub_def)
  then have h: "hrp = ''npub''" using assms by (simp add: decode_npub_def split: if_splits)
  obtain out where c: "convert_bits data 5 8 False = Some out"
    using assms d h by (cases "convert_bits data 5 8 False") (auto simp: decode_npub_def)
  with assms d h have l: "32 \<le> length out" and k: "k = hex_bytes (take 32 out)"
    by (simp_all add: decode_npub_def split: if_splits)
  from k show ?thesis by (simp only: length_hex_bytes hex_bytes_digits length_take) (use l in simp)
qed

lemma hex_normal_lower: "list_all hex_lower_digit k \<Longrightarrow> to_lower k = k"
  by (induction k) (simp_all add: to_lower_def hex_lower_digit_facts)

lemma hex_normal_trim:
  assumes "list_all hex_lower_digit k"
  shows "trim_space k = k"
proof (rule trim_space_id)
  show "k = [] \<or> \<not> is_space (hd k) \<and> \<not> is_space (last k)"
  proof (cases "k = []")
    case False
    then have "hd k \<in> set k" "last k \<in> set k" by simp_all
    with assms show ?thesis unfolding list_all_iff using hex_lower_digit_facts by blast
  qed simp
qed

lemma hex_normal_npub:
  assumes "list_all hex_lower_digit k"
  shows "\<not> has_prefix k ''npub''"
proof
  assume "has_prefix k ''npub''"
  then have "CHR ''n'' \<in> set k" unfolding has_prefix_def by (auto simp: prefix_def)
  with assms hex_lower_digit_facts show False unfolding list_all_iff by blast
qed

lemmas hex_normal = hex_normal_lower hex_normal_trim hex_normal_npub

lemma normalize_pubkey_hex: "list_all hex_lower_digit k \<Longrightarrow> normalize_pubkey k = k"
  by (simp add: normalize_pubkey_def hex_normal)

text \<open>Normalization is idempotent: what is stored compares equal to what is looked up.\<close>

lemma normalize_pubkey_idempotent: "normalize_pubkey (normalize_pubkey s) = normalize_pubkey s"
proof -
  let ?p = "to_lower (trim_space s)"
  have p: "to_lower (trim_space ?p) = ?p" by (simp add: trim_space_to_lower)
  show ?thesis
  proof (cases "has_prefix ?p ''npub''")
    case False
    then have "normalize_pubkey s = ?p" by (simp add: normalize_pubkey_def Let_def)
    with False p show ?thesis by (simp add: normalize_pubkey_def Let_def)
  next
    case True
    show ?thesis
    proof (cases "decode_npub ?p")
      case None
      with True have "normalize_pubkey s = ?p" by (simp add: normalize_pubkey_def Let_def)
      with True p None show ?thesis by (simp add: normalize_pubkey_def Let_def)
    next
      case (Some k)
      with True have "normalize_pubkey s = k" by (simp add: normalize_pubkey_def Let_def)
      with decode_npub_hex [OF Some] show ?thesis by (simp add: normalize_pubkey_hex)
    qed
  qed
qed

lemma normalize_pubkey_lower: "to_lower (normalize_pubkey s) = normalize_pubkey s"
  using decode_npub_hex by (auto simp: normalize_pubkey_def Let_def hex_normal split: option.splits)

section \<open>Properties\<close>

text \<open>
  C37: the checksum of an \<open>npub\<close> catches every mistyped character: from a string that
  \<open>decodeBech32\<close> accepts, replacing one character of the data part by another (not the
  separator) gives a string that it refuses.
\<close>

theorem bech32_detects_substitution:
  assumes "decode_bech32 (h @ CHR ''1'' # p @ c # q) = Some r"
    and "CHR ''1'' \<notin> set (p @ c # q)" "e \<noteq> CHR ''1''" "e \<noteq> c"
  shows "decode_bech32 (h @ CHR ''1'' # p @ e # q) = None"
  using assms by (rule decode_bech32_substitution)

theorem bech32_detects_substitution_witness:
  "decode_bech32 ''a12uel5l'' = Some (''a'', []) \<and> decode_bech32 ''a12uelql'' = None"
proof -
  have d: "decode_bech32 ''a12uel5l'' = Some (''a'', [])" by code_simp
  have "decode_bech32 (''a'' @ CHR ''1'' # ''2uel'' @ CHR ''q'' # ''l'') = None"
    by (rule bech32_detects_substitution [where c = "CHR ''5''" and r = "(''a'', [])"]) (simp_all add: d)
  with d show ?thesis by simp
qed

text \<open>
  \<open>convertBits(data, 5, 8, false)\<close> loses and invents nothing: what it returns are the
  bits of the symbols in order, regrouped into bytes, followed by fewer than five zero bits.
\<close>

theorem bech32_bits_regrouped:
  assumes "convert_bits data 5 8 False = Some out"
  shows "\<exists>k < 5. concat (map (word_bits 5) data) = concat (map (word_bits 8) out) @ replicate k False"
  using assms by (rule convert_bits_regroup)

theorem bech32_bits_regrouped_witness:
  "convert_bits [31, 28] 5 8 False = Some [255]
   \<and> (\<exists>k < 5. concat (map (word_bits 5) [31 :: 8 word, 28]) = concat (map (word_bits 8) [255 :: 8 word]) @ replicate k False)"
proof -
  have c: "convert_bits [31, 28] 5 8 False = Some [255]"
    by (simp add: convert_bits_def emit_groups.simps mask_eq_exp_minus_1 Let_def)
  show ?thesis by (rule conjI [OF c bech32_bits_regrouped [OF c]])
qed

text \<open>
  \<open>NormalizePubkey\<close> gives a normal form: normalizing again changes nothing, the
  result is in lower case, and a decoded \<open>npub\<close> is 64 lower-case hexadecimal digits, so
  the keys of a configuration and of a request compare as equal strings.
\<close>

theorem pubkey_normal_form:
  "normalize_pubkey (normalize_pubkey s) = normalize_pubkey s
   \<and> to_lower (normalize_pubkey s) = normalize_pubkey s
   \<and> (case decode_npub v of None \<Rightarrow> True | Some k \<Rightarrow> length k = 64 \<and> list_all hex_lower_digit k)"
  using normalize_pubkey_idempotent normalize_pubkey_lower decode_npub_hex by (auto split: option.split)

end
