(* ===== verification/Nip98.thy ===== *)
theory Nip98
  imports Nostr Bech32
begin

text \<open>
  HTTP authorization with signed events (NIP-98), \<open>internal/admin/auth.go\<close>: the
  \<open>Authorizer\<close>, the reading of an \<open>Authorization\<close> header, the checks on the event,
  and the request URL the event must name. The clock \<open>Now\<close> is the argument \<open>now\<close>.
\<close>

section \<open>Tags and times\<close>

definition nip98_event_kind :: int where
  "nip98_event_kind = 27235"

fun tag_value :: "string list list \<Rightarrow> string \<Rightarrow> string" where
  "tag_value [] name = []"
| "tag_value (tag # tags) name =
     (case tag of a # b # _ \<Rightarrow> if a = name then b else tag_value tags name | _ \<Rightarrow> tag_value tags name)"

text \<open>\<open>event.CreatedAt.Time()\<close>, and the two-sided window the event must lie in.\<close>

definition event_time :: "event \<Rightarrow> go_time" where
  "event_time e = time_unix (ev_created_at e)"

definition outside_age :: "event \<Rightarrow> duration \<Rightarrow> go_time \<Rightarrow> bool" where
  "outside_age e max_age now \<longleftrightarrow> event_time e < now - max_age \<or> now + max_age < event_time e"

section \<open>Checking an event\<close>

definition verify_nip98_event :: "nostr_lib \<Rightarrow> event \<Rightarrow> string \<Rightarrow> string \<Rightarrow> duration \<Rightarrow> go_time \<Rightarrow> goerr + string" where
  "verify_nip98_event L event url rmethod max_age now =
     (if ev_kind event \<noteq> nip98_event_kind then Inl (AdminErr ErrWrongKind)
      else (case nl_check_signature L event of
         Inl err \<Rightarrow> Inl (AdminWrap ErrBadSignature err)
       | Inr ok \<Rightarrow>
          if \<not> ok then Inl (AdminErr ErrBadSignature)
          else (let age = (if max_age \<le> 0 then minute else max_age)
            in if outside_age event age now then Inl (AdminErr ErrStaleEvent)
               else if tag_value (ev_tags event) ''u'' \<noteq> url then Inl (AdminErr ErrWrongURL)
               else if \<not> equal_fold (tag_value (ev_tags event) ''method'') rmethod then Inl (AdminErr ErrWrongMethod)
               else Inr (to_lower (ev_pubkey event)))))"

definition event_from_authorization :: "nostr_lib \<Rightarrow> string \<Rightarrow> goerr + event" where
  "event_from_authorization L hdr =
     (let h = trim_space hdr
      in if h = [] then Inl (AdminErr ErrMissingAuthorization)
         else (case cut (CHR '' '') h of
            None \<Rightarrow> Inl (AdminErr ErrWrongScheme)
          | Some (scheme, encoded) \<Rightarrow>
              if \<not> equal_fold scheme ''Nostr'' \<or> trim_space encoded = [] then Inl (AdminErr ErrWrongScheme)
              else (case base64_decode (trim_space encoded) of
                 None \<Rightarrow> Inl (AdminErr ErrBadEncoding)
               | Some raw \<Rightarrow> (case json_parse raw of
                    None \<Rightarrow> Inl (AdminErr ErrBadEncoding)
                  | Some j \<Rightarrow> (case nl_decode_event L j of
                       None \<Rightarrow> Inl (AdminErr ErrBadEncoding)
                     | Some e \<Rightarrow> Inr e)))))"

section \<open>The URL of a request\<close>

text \<open>The first element of \<open>strings.SplitN(strings.TrimSpace(value), ",", 2)\<close>, trimmed.\<close>

definition first_forwarded :: "string \<Rightarrow> string" where
  "first_forwarded value =
     (let v = trim_space value in trim_space (case cut (CHR '','') v of None \<Rightarrow> v | Some (a, _) \<Rightarrow> a))"

definition sanitize_forwarded_proto :: "string \<Rightarrow> string" where
  "sanitize_forwarded_proto value =
     (let scheme = to_lower (first_forwarded value)
      in if scheme \<noteq> ''http'' \<and> scheme \<noteq> ''https'' then [] else scheme)"

definition forwarded_host_stop :: string where
  "forwarded_host_stop = [CHR '' '', CHR 0x09, CHR 0x0D, CHR 0x0A, CHR ''/'', CHR ''?'', CHR ''#'', CHR ''@'']"

definition sanitize_forwarded_host :: "string \<Rightarrow> string" where
  "sanitize_forwarded_host value =
     (let host = first_forwarded value
      in if host = [] \<or> contains_any host forwarded_host_stop then []
         else (case url_parse (''http://'' @ host) of
            None \<Rightarrow> []
          | Some parsed \<Rightarrow> if url_hostname parsed = [] then [] else host))"

definition absolute_request_scheme :: "http_req \<Rightarrow> string" where
  "absolute_request_scheme r =
     (if rq_tls r then ''https''
      else (let scheme = sanitize_forwarded_proto (hdr_get (rq_header r) ''X-Forwarded-Proto'')
            in if scheme \<noteq> [] then scheme else ''http''))"

definition absolute_request_url :: "http_req \<Rightarrow> string" where
  "absolute_request_url r =
     (let forwarded = sanitize_forwarded_host (hdr_get (rq_header r) ''X-Forwarded-Host'');
          host = (if forwarded \<noteq> [] then forwarded else rq_host r)
      in url_string (empty_url\<lparr>u_scheme := absolute_request_scheme r, u_host := host,
           u_path := u_path (rq_url r), u_raw_path := escaped_path (rq_url r),
           u_raw_query := u_raw_query (rq_url r)\<rparr>))"

section \<open>The authorizer\<close>

record authorizer =
  az_admins :: "string set"
  az_max_age :: duration

definition new_authorizer :: "string list \<Rightarrow> duration \<Rightarrow> authorizer" where
  "new_authorizer admin_pubkeys max_age =
     \<lparr>az_admins = set (filter (\<lambda>p. p \<noteq> []) (map normalize_pubkey admin_pubkeys)), az_max_age = max_age\<rparr>"

definition az_verify_event :: "nostr_lib \<Rightarrow> authorizer \<Rightarrow> event \<Rightarrow> string \<Rightarrow> string \<Rightarrow> go_time \<Rightarrow> goerr + string" where
  "az_verify_event L a event url rmethod now =
     bind_res (verify_nip98_event L event url rmethod (az_max_age a) now)
       (\<lambda>pubkey. if pubkey \<notin> az_admins a then Inl (AdminErr ErrNotAdmin) else Inr pubkey)"

definition az_verify_header :: "nostr_lib \<Rightarrow> authorizer \<Rightarrow> string \<Rightarrow> string \<Rightarrow> string \<Rightarrow> go_time \<Rightarrow> goerr + string" where
  "az_verify_header L a hdr url rmethod now =
     bind_res (event_from_authorization L hdr) (\<lambda>event. az_verify_event L a event url rmethod now)"

definition az_verify_request :: "nostr_lib \<Rightarrow> authorizer \<Rightarrow> http_req \<Rightarrow> go_time \<Rightarrow> goerr + string" where
  "az_verify_request L a r now =
     az_verify_header L a (hdr_get (rq_header r) ''Authorization'') (absolute_request_url r) (rq_method r) now"

section \<open>What verification establishes\<close>

text \<open>The age that is applied: a configured age of zero or less means one minute.\<close>

definition effective_age :: "duration \<Rightarrow> duration" where
  "effective_age max_age = (if max_age \<le> 0 then minute else max_age)"

text \<open>
  The specification of an acceptable event, independent of the order of the checks.
\<close>

definition nip98_valid :: "nostr_lib \<Rightarrow> event \<Rightarrow> string \<Rightarrow> string \<Rightarrow> duration \<Rightarrow> go_time \<Rightarrow> bool" where
  "nip98_valid L e url rmethod max_age now \<longleftrightarrow>
     ev_kind e = nip98_event_kind \<and> sig_ok L e
     \<and> \<bar>event_time e - now\<bar> \<le> effective_age max_age
     \<and> tag_value (ev_tags e) ''u'' = url \<and> equal_fold (tag_value (ev_tags e) ''method'') rmethod"

lemma outside_age_iff: "outside_age e a now \<longleftrightarrow> \<not> \<bar>event_time e - now\<bar> \<le> a"
  by (auto simp: outside_age_def abs_le_iff)

lemma verify_nip98_event_Inr:
  "verify_nip98_event L e url m a now = Inr p \<longleftrightarrow> nip98_valid L e url m a now \<and> p = to_lower (ev_pubkey e)"
  by (auto simp: verify_nip98_event_def nip98_valid_def sig_ok_def outside_age_iff effective_age_def
      Let_def split: sum.splits)

lemma verify_nip98_event_Inl:
  "verify_nip98_event L e url m a now = Inl err \<Longrightarrow> \<exists>s. is_admin_error err s \<and> s \<noteq> ErrNotAdmin"
  by (auto simp: verify_nip98_event_def is_admin_error_def Let_def split: sum.splits if_splits)

lemma az_verify_event_Inr:
  "az_verify_event L a e url m now = Inr p \<longleftrightarrow>
     nip98_valid L e url m (az_max_age a) now \<and> p = to_lower (ev_pubkey e) \<and> p \<in> az_admins a"
  by (auto simp: az_verify_event_def bind_res_Inr verify_nip98_event_Inr split: if_splits)

lemma az_verify_header_Inr:
  "az_verify_header L a hdr url m now = Inr p \<longleftrightarrow>
     (\<exists>e. event_from_authorization L hdr = Inr e \<and> nip98_valid L e url m (az_max_age a) now
        \<and> p = to_lower (ev_pubkey e) \<and> p \<in> az_admins a)"
  by (auto simp: az_verify_header_def bind_res_Inr az_verify_event_Inr)

lemma new_authorizer_admins:
  "p \<in> az_admins (new_authorizer ks age) \<longleftrightarrow> p \<noteq> [] \<and> p \<in> normalize_pubkey ` set ks"
  by (auto simp: new_authorizer_def)

lemma sanitize_forwarded_proto_range: "sanitize_forwarded_proto v \<in> {[], ''http'', ''https''}"
  by (simp add: sanitize_forwarded_proto_def Let_def)

lemma absolute_request_scheme_range: "absolute_request_scheme r \<in> {''http'', ''https''}"
  using sanitize_forwarded_proto_range [of "hdr_get (rq_header r) ''X-Forwarded-Proto''"]
  by (auto simp: absolute_request_scheme_def Let_def)

lemma sanitize_forwarded_host_safe:
  "c \<in> set (sanitize_forwarded_host v) \<Longrightarrow> c \<notin> set forwarded_host_stop"
  by (auto simp: sanitize_forwarded_host_def contains_any_def Let_def split: if_splits option.splits)

text \<open>An event without a \<open>u\<close> tag never verifies against a real request.\<close>

lemma tag_value_cases: "tag_value tags n = [] \<or> (\<exists>t \<in> set tags. \<exists>r. t = n # tag_value tags n # r)"
  by (induction tags) (auto split: list.splits)

end
