(* ===== verification/Nip42.thy ===== *)
theory Nip42
  imports Nip98
begin

text \<open>
  NIP-42 authentication of a websocket client, \<open>internal/auth/auth.go\<close>.
\<close>

section \<open>The code\<close>

definition auth_event_kind :: int where
  "auth_event_kind = 22242"

text \<open>\<open>NewChallenge\<close>: 32 random bytes (or the failure to read them) in hexadecimal.\<close>

definition new_challenge :: "string + 8 word list \<Rightarrow> goerr + string" where
  "new_challenge random = (case random of Inl e \<Rightarrow> Inl (TextErr e) | Inr b \<Rightarrow> Inr (hex_bytes b))"

fun auth_tag_value :: "string list list \<Rightarrow> string \<Rightarrow> string" where
  "auth_tag_value [] name = []"
| "auth_tag_value (tag # tags) name =
     (case tag of a # b # _ \<Rightarrow> if a = name then b else auth_tag_value tags name | _ \<Rightarrow> auth_tag_value tags name)"

definition normalize_relay_url_for_auth :: "string \<Rightarrow> string" where
  "normalize_relay_url_for_auth relay_url = trim_right (CHR ''/'') relay_url"

definition auth_verify :: "nostr_lib \<Rightarrow> event \<Rightarrow> string \<Rightarrow> string \<Rightarrow> duration \<Rightarrow> go_time \<Rightarrow> goerr + string" where
  "auth_verify L event challenge relay_url max_age now =
     (if ev_kind event \<noteq> auth_event_kind then Inl (Nip42Err AuthWrongKind)
      else (case nl_check_signature L event of
         Inl err \<Rightarrow> Inl (Nip42Wrap AuthBadSignature err)
       | Inr ok \<Rightarrow>
          if \<not> ok then Inl (Nip42Err AuthBadSignature)
          else if auth_tag_value (ev_tags event) ''challenge'' \<noteq> challenge then Inl (Nip42Err AuthWrongChallenge)
          else if normalize_relay_url_for_auth (auth_tag_value (ev_tags event) ''relay'')
                    \<noteq> normalize_relay_url_for_auth relay_url then Inl (Nip42Err AuthWrongRelay)
          else if outside_age event max_age now then Inl (Nip42Err AuthStaleEvent)
          else Inr (ev_pubkey event)))"

section \<open>What verification establishes\<close>

definition nip42_valid :: "nostr_lib \<Rightarrow> event \<Rightarrow> string \<Rightarrow> string \<Rightarrow> duration \<Rightarrow> go_time \<Rightarrow> bool" where
  "nip42_valid L e challenge relay_url max_age now \<longleftrightarrow>
     ev_kind e = auth_event_kind \<and> sig_ok L e
     \<and> auth_tag_value (ev_tags e) ''challenge'' = challenge
     \<and> normalize_relay_url_for_auth (auth_tag_value (ev_tags e) ''relay'') = normalize_relay_url_for_auth relay_url
     \<and> \<bar>event_time e - now\<bar> \<le> max_age"

lemma auth_verify_Inr:
  "auth_verify L e c u a now = Inr p \<longleftrightarrow> nip42_valid L e c u a now \<and> p = ev_pubkey e"
  by (auto simp: auth_verify_def nip42_valid_def sig_ok_def outside_age_iff split: sum.splits)

lemma auth_tag_value_eq: "auth_tag_value tags n = tag_value tags n"
  by (induction tags) (auto split: list.splits)

text \<open>Two URLs that differ only in trailing slashes are the same relay.\<close>

lemma normalize_relay_url_append_slash: "normalize_relay_url_for_auth (u @ ''/'') = normalize_relay_url_for_auth u"
  by (simp add: normalize_relay_url_for_auth_def trim_right_def)

lemma new_challenge_shape:
  assumes "new_challenge r = Inr c"
  shows "list_all hex_lower_digit c"
  using assms by (auto simp: new_challenge_def hex_bytes_digits split: sum.splits)

section \<open>The contract of a signed-event check\<close>

text \<open>
  Both protocols decide on an event, an expected context and the clock, and promise that
  what they accept is signed. Their clients only use this.
\<close>

locale event_check =
  fixes check :: "nostr_lib \<Rightarrow> event \<Rightarrow> 'c \<Rightarrow> go_time \<Rightarrow> goerr + string"
    and kind :: int
    and age :: "'c \<Rightarrow> duration"
  assumes accepted_kind: "check L e c now = Inr p \<Longrightarrow> ev_kind e = kind"
    and accepted_signed: "check L e c now = Inr p \<Longrightarrow> sig_ok L e"
    and accepted_age: "check L e c now = Inr p \<Longrightarrow> \<bar>event_time e - now\<bar> \<le> age c"
    and accepted_pubkey: "check L e c now = Inr p \<Longrightarrow> equal_fold p (ev_pubkey e)"
begin

text \<open>The accepted key is never empty.\<close>

lemma accepted_ne: "nostr_lib_ok L \<Longrightarrow> check L e c now = Inr p \<Longrightarrow> p \<noteq> []"
  using accepted_pubkey [of L e c now p] sig_ok_pubkey [OF _ accepted_signed [of L e c now p]]
  unfolding equal_fold_def by (metis to_lower_eq_Nil)

text \<open>An accepted event cannot be replayed twice its age later.\<close>

lemma accepted_not_later:
  "check L e c now = Inr p \<Longrightarrow> check L e c later = Inr q \<Longrightarrow> \<bar>later - now\<bar> \<le> 2 * age c"
  using accepted_age [of L e c now p] accepted_age [of L e c later q] by linarith

end

interpretation nip98: event_check
  "\<lambda>L e (url, m, a) now. verify_nip98_event L e url m a now" nip98_event_kind "\<lambda>(url, m, a). effective_age a"
  by unfold_locales (auto simp: verify_nip98_event_Inr nip98_valid_def equal_fold_def)

interpretation nip42: event_check
  "\<lambda>L e (c, url, a) now. auth_verify L e c url a now" auth_event_kind "\<lambda>(c, url, a). a"
  by unfold_locales (auto simp: auth_verify_Inr nip42_valid_def)

end
