(* ===== verification/RelayMessages.thy ===== *)
theory RelayMessages
  imports Nostr
begin

text \<open>Relay messages, \<open>internal/relay/messages.go\<close>: reading client messages, and the check of an unauthenticated profile event.\<close>

section \<open>Reading messages\<close>

text \<open>\<open>None\<close> is an error of the decoder or the named error; callers only test for it.\<close>

definition message_type :: "string \<Rightarrow> string option" where
  "message_type message = (case unmarshal_raws message of
     None \<Rightarrow> None | Some [] \<Rightarrow> None | Some (r0 # _) \<Rightarrow> unmarshal_string r0)"

definition event_id_from_message :: "string \<Rightarrow> string" where
  "event_id_from_message message = (case unmarshal_raws message of
     Some (_ # r1 # _) \<Rightarrow> (case unmarshal_struct [''id''] r1 of None \<Rightarrow> [] | Some e \<Rightarrow> e ''id'')
   | _ \<Rightarrow> [])"

definition pubkey_from_event_message :: "string \<Rightarrow> string option" where
  "pubkey_from_event_message message = (case unmarshal_raws message of
     Some (_ # r1 # _) \<Rightarrow> (case unmarshal_struct [''pubkey''] r1 of None \<Rightarrow> None | Some e \<Rightarrow> Some (e ''pubkey''))
   | _ \<Rightarrow> None)"

definition parse_event_message :: "nostr_lib \<Rightarrow> string \<Rightarrow> event option" where
  "parse_event_message L message = (case unmarshal_raws message of
     Some (_ # r1 # _) \<Rightarrow> nl_decode_event L r1
   | _ \<Rightarrow> None)"

definition parse_req_message :: "string \<Rightarrow> (string \<times> json list) option" where
  "parse_req_message message = (case unmarshal_raws message of
     Some (r0 # r1 # r2 # rest) \<Rightarrow>
       (case unmarshal_string r0 of None \<Rightarrow> None
        | Some typ \<Rightarrow> if typ \<noteq> ''REQ'' then None
            else (case unmarshal_string r1 of None \<Rightarrow> None | Some sub_id \<Rightarrow> Some (sub_id, r2 # rest)))
   | _ \<Rightarrow> None)"

section \<open>Unauthenticated profile events\<close>

definition validate_unauthenticated_kind0 :: "nostr_lib \<Rightarrow> event \<Rightarrow> goerr option" where
  "validate_unauthenticated_kind0 L e =
     (if ev_kind e \<noteq> 0 then Some (TextErr ''only kind 0 is allowed before auth'')
      else if \<not> nl_valid_pubkey L (ev_pubkey e) then Some (TextErr ''invalid pubkey'')
      else if nl_get_id L e \<noteq> ev_id e then Some (TextErr ''event id does not match event payload'')
      else if nl_check_signature L e \<noteq> Inr True then Some (TextErr ''invalid event signature'')
      else None)"

lemma validate_unauthenticated_kind0_None:
  "validate_unauthenticated_kind0 L e = None \<longleftrightarrow>
     ev_kind e = 0 \<and> nl_valid_pubkey L (ev_pubkey e) \<and> nl_get_id L e = ev_id e \<and> sig_ok L e"
  by (auto simp: validate_unauthenticated_kind0_def sig_ok_def)

lemma parse_req_message_type: "parse_req_message m = Some r \<Longrightarrow> message_type m = Some ''REQ''"
  unfolding parse_req_message_def message_type_def
  by (auto split: option.split_asm list.split_asm if_split_asm)

lemma parse_req_message_filters: "parse_req_message m = Some (s, fs) \<Longrightarrow> fs \<noteq> []"
  unfolding parse_req_message_def by (auto split: option.split_asm list.split_asm if_split_asm)

end
