(* ===== verification/RelayServer.thy ===== *)
theory RelayServer
  imports AuthCache Nip05 Profile Nip42 RelayMessages
begin

text \<open>
  The relay gate, \<open>internal/relay/server.go\<close>: the HTTP dispatch, the websocket session of
  a client with its upstream connections, authentication, and the log of recent queries.

  A client message is handled by one call of \<open>client_message\<close> on the session and on the
  state the sessions share. What the call meets outside the program (clocks, the relays, the
  NIP-05 server, whether a write or a database statement succeeds) is its \<open>ws_env\<close>. The
  goroutine that copies upstream messages is a second actor of the session. Every execution
  is an interleaving of these calls over any number of sessions: the relation \<open>ws_step\<close>.
\<close>

section \<open>State\<close>

record recent_query =
  rr_at :: int
  rr_pubkey :: string
  rr_sub_id :: string
  rr_filters :: "json list"

definition recent_relay_query_limit :: nat where
  "recent_relay_query_limit = 25"

text \<open>Configuration of the server, and what its sessions share: the cache table (\<open>None\<close>: no cache) and the query log.\<close>

record relay_server =
  sv_public_relay_url :: string
  sv_upstream :: upstream
  sv_nip05_base_url :: string
  sv_auth_cache_ttl :: duration
  sv_auth_event_max_age :: duration

record relay_shared =
  sh_cache :: "cache_row list option"
  sh_recent :: "recent_query list"

text \<open>
  A session: its challenge, the variables \<open>pubkey\<close> and \<open>upstream\<close> of the handler, the
  upstream connections it has opened (numbered in order), those not closed, those with a
  running copy goroutine, and what was written: to the client, to the upstream of an
  authenticated key, and over the short connections of unauthenticated profile events.
\<close>

record ws_session =
  ss_running :: bool
  ss_challenge :: string
  ss_pubkey :: string
  ss_upstream :: "nat option"
  ss_dialled :: nat
  ss_live :: "nat list"
  ss_pipes :: "nat list"
  ss_to_client :: "json list"
  ss_forwarded :: "(string \<times> string) list"
  ss_bootstrap :: "string list"

record ws_env =
  we_verify_now :: go_time
  we_now :: go_time
  we_query_now :: go_time
  we_get_fail :: "string option"
  we_put_fail :: "string option"
  we_net :: ws_net
  we_transport :: http_do
  we_client_write :: bool
  we_upstream_write :: bool

section \<open>The log of recent queries\<close>

definition push_query :: "recent_query \<Rightarrow> recent_query list \<Rightarrow> recent_query list" where
  "push_query entry qs =
     (let qs' = entry # qs
      in if length qs' > recent_relay_query_limit then take recent_relay_query_limit qs' else qs')"

definition record_relay_query :: "go_time \<Rightarrow> string \<Rightarrow> string \<Rightarrow> relay_shared \<Rightarrow> relay_shared" where
  "record_relay_query now pubkey message sh =
     (case parse_req_message message of
        None \<Rightarrow> sh
      | Some (sub_id, filters) \<Rightarrow>
          sh\<lparr>sh_recent := push_query \<lparr>rr_at = unix_of_time now, rr_pubkey = pubkey,
                rr_sub_id = sub_id, rr_filters = filters\<rparr> (sh_recent sh)\<rparr>)"

definition recent_relay_queries :: "relay_shared \<Rightarrow> recent_query list" where
  "recent_relay_queries sh = sh_recent sh"

section \<open>Authentication\<close>

text \<open>
  The second half of \<open>authenticate\<close>: the cache, else the name of the key on the relays
  and its confirmation by the NIP-05 server, which is then cached.
\<close>

definition confirm_key :: "nostr_lib \<Rightarrow> relay_server \<Rightarrow> ws_env \<Rightarrow> string \<Rightarrow> cache_row list option
    \<Rightarrow> goerr option \<times> cache_row list option" where
  "confirm_key L srv env pubkey cache =
     (case (case cache of None \<Rightarrow> Inr None | Some rows \<Rightarrow> get_valid (we_get_fail env) rows pubkey (we_now env)) of
        Inl err \<Rightarrow> (Some err, cache)
      | Inr (Some _) \<Rightarrow> (None, cache)
      | Inr None \<Rightarrow>
         (case find_trustroots_username L (we_net env) (sv_upstream srv) pubkey of
            Inl err \<Rightarrow> (Some err, cache)
          | Inr username \<Rightarrow>
             (case fst (nip05_verify (we_transport env) (sv_nip05_base_url srv) username pubkey) of
                Some err \<Rightarrow> (Some err, cache)
              | None \<Rightarrow>
                 (case cache of
                    None \<Rightarrow> (None, None)
                  | Some rows \<Rightarrow>
                     apsnd Some (cache_put (we_put_fail env) pubkey username (we_now env)
                       (we_now env + sv_auth_cache_ttl srv) rows)))))"

text \<open>
  The result is Go's \<open>(pubkey, event id, err)\<close>; a message with fewer than two elements
  gives empty strings and the \<open>nil\<close> error of the successful decoding.
\<close>

definition authenticate :: "nostr_lib \<Rightarrow> relay_server \<Rightarrow> ws_env \<Rightarrow> string \<Rightarrow> string \<Rightarrow> cache_row list option
    \<Rightarrow> (string \<times> string \<times> goerr option) \<times> cache_row list option" where
  "authenticate L srv env challenge message cache =
     (case unmarshal_raws message of
        None \<Rightarrow> (([], [], Some (TextErr ''invalid character'')), cache)
      | Some (_ # r1 # _) \<Rightarrow>
         (case nl_decode_event L r1 of
            None \<Rightarrow> (([], [], Some (TextErr ''invalid event'')), cache)
          | Some e \<Rightarrow>
             (case auth_verify L e challenge (sv_public_relay_url srv) (sv_auth_event_max_age srv) (we_verify_now env) of
                Inl err \<Rightarrow> (([], ev_id e, Some err), cache)
              | Inr pubkey \<Rightarrow>
                 (case confirm_key L srv env pubkey cache of
                    (Some err, cache') \<Rightarrow> (([], ev_id e, Some err), cache')
                  | (None, cache') \<Rightarrow> ((pubkey, ev_id e, None), cache'))))
      | Some _ \<Rightarrow> (([], [], None), cache))"

section \<open>Unauthenticated messages\<close>

text \<open>The wait for the answer of the upstream relay: the loop over its messages.\<close>

definition ok_answer :: "string \<Rightarrow> string \<Rightarrow> (goerr + json) option" where
  "ok_answer event_id message =
     (case unmarshal_raws message of
        Some (r0 # rest) \<Rightarrow> (case unmarshal_string r0 of None \<Rightarrow> None
          | Some typ \<Rightarrow>
             (case rest of
                r1 # r2 # r3 # _ \<Rightarrow>
                  if typ \<noteq> ''OK'' then None
                  else if unmarshal_string r1 \<noteq> Some event_id then None
                  else (case unmarshal_bool r2 of
                     None \<Rightarrow> Some (Inl (TextErr ''invalid upstream OK response''))
                   | Some accepted \<Rightarrow> (case unmarshal_string r3 of
                        None \<Rightarrow> Some (Inl (TextErr ''invalid upstream OK reason''))
                      | Some reason \<Rightarrow>
                          Some (Inr (JArr [JStr ''OK'', JStr event_id, JBool accepted, JStr reason]))))
              | _ \<Rightarrow> None))
      | _ \<Rightarrow> None)"

fun wait_ok_loop :: "string \<Rightarrow> string \<Rightarrow> string list \<Rightarrow> goerr + json" where
  "wait_ok_loop event_id read_error [] = Inl (TextErr read_error)"
| "wait_ok_loop event_id read_error (m # ms) =
     (case ok_answer event_id m of Some res \<Rightarrow> res | None \<Rightarrow> wait_ok_loop event_id read_error ms)"

text \<open>The answer, and whether the message was written to the upstream relay.\<close>

definition forward_to_upstream_and_wait_ok :: "relay_server \<Rightarrow> ws_env \<Rightarrow> string \<Rightarrow> string \<Rightarrow> (goerr + json) \<times> bool" where
  "forward_to_upstream_and_wait_ok srv env message event_id =
     (case we_net env (up_url (sv_upstream srv)) of
        Inl e \<Rightarrow> (Inl (TextErr e), False)
      | Inr peer \<Rightarrow>
         (case wp_write_error peer of
            Some e \<Rightarrow> (Inl (TextErr e), False)
          | None \<Rightarrow> (wait_ok_loop event_id (wp_read_error peer) (wp_inbox peer (FrameText message)), True)))"

definition ok_msg :: "string \<Rightarrow> bool \<Rightarrow> string \<Rightarrow> json" where
  "ok_msg event_id accepted reason = JArr [JStr ''OK'', JStr event_id, JBool accepted, JStr reason]"

definition notice_msg :: "string \<Rightarrow> json" where
  "notice_msg text = JArr [JStr ''NOTICE'', JStr text]"

text \<open>The reply to the client, and the messages forwarded on the way.\<close>

definition handle_unauthenticated :: "nostr_lib \<Rightarrow> relay_server \<Rightarrow> ws_env \<Rightarrow> string \<Rightarrow> string \<Rightarrow> json \<times> string list" where
  "handle_unauthenticated L srv env typ message =
     (if typ = ''REQ'' then
        ((case unmarshal_raws message of
            Some (_ # r1 # _) \<Rightarrow>
              JArr [JStr ''CLOSED'', JStr (case unmarshal_string r1 of None \<Rightarrow> [] | Some sub_id \<Rightarrow> sub_id),
                    JStr ''auth-required: NIP-42 authentication required'']
          | _ \<Rightarrow> notice_msg ''auth-required: NIP-42 authentication required''), [])
      else if typ = ''EVENT'' then
        (case parse_event_message L message of
           None \<Rightarrow> (ok_msg (event_id_from_message message) False ''invalid: malformed EVENT payload'', [])
         | Some e \<Rightarrow>
            (case validate_unauthenticated_kind0 L e of
               Some _ \<Rightarrow> (ok_msg (ev_id e) False
                  ''auth-required: NIP-42 required except self-signed kind 0 bootstrap'', [])
             | None \<Rightarrow>
                (case forward_to_upstream_and_wait_ok srv env message (ev_id e) of
                   (Inl _, sent) \<Rightarrow> (ok_msg (ev_id e) False ''error: upstream unavailable'', if sent then [message] else [])
                 | (Inr reply, sent) \<Rightarrow> (reply, if sent then [message] else []))))
      else (notice_msg ''auth-required: NIP-42 authentication required'', []))"

section \<open>The session loop\<close>

text \<open>Leaving the handler: the deferred calls close the client and the current upstream.\<close>

definition end_session :: "ws_session \<Rightarrow> ws_session" where
  "end_session s = s\<lparr>ss_running := False,
     ss_live := (case ss_upstream s of None \<Rightarrow> ss_live s | Some c \<Rightarrow> filter (\<lambda>x. x \<noteq> c) (ss_live s))\<rparr>"

text \<open>\<open>if !writeClient(v) { return }; continue\<close>.\<close>

definition write_or_end :: "ws_env \<Rightarrow> json \<Rightarrow> ws_session \<Rightarrow> ws_session" where
  "write_or_end env v s = (if we_client_write env then s\<lparr>ss_to_client := ss_to_client s @ [v]\<rparr> else end_session s)"

text \<open>The branch for \<open>AUTH\<close> while no key is authenticated.\<close>

definition auth_message :: "nostr_lib \<Rightarrow> relay_server \<Rightarrow> ws_env \<Rightarrow> string \<Rightarrow> ws_session \<times> relay_shared \<Rightarrow> ws_session \<times> relay_shared" where
  "auth_message L srv env message st =
     (case st of (s, sh) \<Rightarrow>
       (case authenticate L srv env (ss_challenge s) message (sh_cache sh) of
          ((pubkey, event_id, err), cache) \<Rightarrow>
            (let sh' = sh\<lparr>sh_cache := cache\<rparr>
             in case err of
                Some e \<Rightarrow> (write_or_end env (ok_msg event_id False (''restricted: '' @ error_text e)) s, sh')
              | None \<Rightarrow>
                 (case we_net env (up_url (sv_upstream srv)) of
                    Inl _ \<Rightarrow> (write_or_end env (ok_msg event_id False ''error: upstream unavailable'') s, sh')
                  | Inr _ \<Rightarrow>
                     (let c = ss_dialled s;
                          s1 = s\<lparr>ss_upstream := Some c, ss_pubkey := pubkey, ss_dialled := Suc c,
                                 ss_live := c # ss_live s\<rparr>
                      in (if we_client_write env
                          then s1\<lparr>ss_to_client := ss_to_client s1 @ [ok_msg event_id True []],
                                  ss_pipes := c # ss_pipes s1\<rparr>
                          else end_session s1, sh'))))))"

definition upstream_write :: "ws_env \<Rightarrow> string \<Rightarrow> ws_session \<Rightarrow> ws_session" where
  "upstream_write env message s =
     (if ss_upstream s = None \<or> \<not> we_upstream_write env then end_session s
      else s\<lparr>ss_forwarded := ss_forwarded s @ [(ss_pubkey s, message)]\<rparr>)"

text \<open>One round of the loop of \<open>websocket\<close>.\<close>

definition client_message :: "nostr_lib \<Rightarrow> relay_server \<Rightarrow> ws_env \<Rightarrow> string \<Rightarrow> ws_session \<times> relay_shared \<Rightarrow> ws_session \<times> relay_shared" where
  "client_message L srv env message st =
     (case st of (s, sh) \<Rightarrow>
       (case message_type message of
          None \<Rightarrow> (write_or_end env (notice_msg ''invalid: malformed Nostr message'') s, sh)
        | Some typ \<Rightarrow>
           if ss_pubkey s = [] then
             (if typ = ''AUTH'' then auth_message L srv env message (s, sh)
              else (case handle_unauthenticated L srv env typ message of (reply, sent) \<Rightarrow>
                (write_or_end env reply (s\<lparr>ss_bootstrap := ss_bootstrap s @ sent\<rparr>), sh)))
           else if typ = ''EVENT'' \<and> pubkey_from_event_message message \<noteq> Some (ss_pubkey s) then
             (write_or_end env (ok_msg (event_id_from_message message) False
                ''restricted: authenticated pubkey does not match event pubkey'') s, sh)
           else (upstream_write env message s,
                 if typ = ''REQ'' then record_relay_query (we_query_now env) (ss_pubkey s) message sh else sh)))"

text \<open>One round of \<open>pipeUpstreamToClient\<close> on connection \<open>c\<close>: a message, or the read error.\<close>

definition pipe_message :: "bool \<Rightarrow> nat \<Rightarrow> string option \<Rightarrow> ws_session \<Rightarrow> ws_session" where
  "pipe_message write_ok c received s =
     (case received of
        None \<Rightarrow> s\<lparr>ss_pipes := filter (\<lambda>x. x \<noteq> c) (ss_pipes s)\<rparr>
      | Some m \<Rightarrow> (case json_parse m of
           None \<Rightarrow> s
         | Some v \<Rightarrow> if write_ok then s\<lparr>ss_to_client := ss_to_client s @ [v]\<rparr>
                     else s\<lparr>ss_pipes := filter (\<lambda>x. x \<noteq> c) (ss_pipes s)\<rparr>))"

section \<open>Opening a session\<close>

definition is_allowed_websocket_origin :: "http_req \<Rightarrow> bool" where
  "is_allowed_websocket_origin r =
     (let origin = trim_space (hdr_get (rq_header r) ''Origin'')
      in if origin = [] then True
         else (case url_parse origin of None \<Rightarrow> False
            | Some o_url \<Rightarrow>
               if url_hostname o_url = [] then False
               else if rq_host r = [] then False
               else (case url_parse (''http://'' @ rq_host r) of None \<Rightarrow> False
                  | Some r_url \<Rightarrow>
                     if url_hostname r_url = [] then False
                     else equal_fold (url_hostname o_url) (url_hostname r_url))))"

text \<open>
  The start of \<open>websocket\<close>: \<open>upgrade\<close> is the library's upgrade given the origin check,
  \<open>random\<close> the bytes of the challenge. \<open>None\<close>: the handler returned.
\<close>

definition open_session :: "((http_req \<Rightarrow> bool) \<Rightarrow> http_req \<Rightarrow> bool) \<Rightarrow> string + 8 word list \<Rightarrow> bool \<Rightarrow> http_req \<Rightarrow> ws_session option" where
  "open_session upgrade random write_ok r =
     (if \<not> upgrade is_allowed_websocket_origin r then None
      else (case new_challenge random of
         Inl _ \<Rightarrow> None
       | Inr challenge \<Rightarrow>
          if \<not> write_ok then None
          else Some \<lparr>ss_running = True, ss_challenge = challenge, ss_pubkey = [], ss_upstream = None,
                 ss_dialled = 0, ss_live = [], ss_pipes = [],
                 ss_to_client = [JArr [JStr ''AUTH'', JStr challenge]], ss_forwarded = [], ss_bootstrap = []\<rparr>))"

section \<open>Dispatch, health and the relay document\<close>

datatype relay_route =
    RouteFavicon | RouteServiceBrowser | RouteAdminIndex | RouteAdminAPI | RouteMedia
  | RouteHealth | RouteProxy | RouteNoProxy | RouteNip11 | RouteWebsocket | RouteNotFound

text \<open>\<open>ServeHTTP\<close>: \<open>upgrade\<close> is the library's \<open>IsWebSocketUpgrade\<close>.\<close>

definition relay_route_of :: "(http_req \<Rightarrow> bool) \<Rightarrow> bool \<Rightarrow> http_req \<Rightarrow> relay_route" where
  "relay_route_of upgrade has_proxy r =
     (let p = u_path (rq_url r)
      in if p = ''/favicon.svg'' \<or> p = ''/favicon.ico'' then RouteFavicon
         else if p = ''/examples/service-directory.html'' then RouteServiceBrowser
         else if p = ''/admin'' \<or> p = ''/admin/'' then RouteAdminIndex
         else if has_prefix p ''/admin/api/'' then RouteAdminAPI
         else if has_prefix p ''/media/api/'' then RouteMedia
         else if p = ''/healthz'' then RouteHealth
         else if p = ''/proxy'' \<or> has_prefix p ''/proxy/'' then (if has_proxy then RouteProxy else RouteNoProxy)
         else if p = ''/'' \<and> hdr_get (rq_header r) ''Accept'' = ''application/nostr+json'' then RouteNip11
         else if upgrade r then RouteWebsocket
         else RouteNotFound)"

text \<open>\<open>health\<close>: \<open>ping\<close> is the cache's answer (\<open>None\<close>: no cache), \<open>proxy_status\<close> that of the proxy.\<close>

definition relay_health :: "relay_server \<Rightarrow> ws_net \<Rightarrow> bool option \<Rightarrow> (string \<times> json) list option \<Rightarrow> http_resp" where
  "relay_health srv net ping proxy_status =
     (let cache_ok = (case ping of None \<Rightarrow> True | Some b \<Rightarrow> b);
          upstream_ok = (case net (up_url (sv_upstream srv)) of Inl _ \<Rightarrow> False | Inr _ \<Rightarrow> True);
          proxy_obj = (case proxy_status of None \<Rightarrow> [(''enabled'', JBool False)]
                       | Some st \<Rightarrow> st @ [(''enabled'', JBool True)])
      in \<lparr>rs_status = (if \<not> cache_ok \<or> \<not> upstream_ok then 503 else 200),
          rs_header = hdr_set ''Content-Type'' ''application/json'' no_header,
          rs_body = BodyJson (JObj [(''proxy'', JObj proxy_obj),
            (''relay'', JObj [(''cache'', JBool cache_ok), (''upstream'', JBool upstream_ok)]),
            (''service'', JStr ''wrapster'')])\<rparr>)"

definition relay_nip11 :: http_resp where
  "relay_nip11 = \<lparr>rs_status = 200,
     rs_header = hdr_set ''Content-Type'' ''application/nostr+json'' no_header,
     rs_body = BodyJson (JObj
       [(''description'', JStr ''NIP-42 authenticated Trustroots NIP-05 relay gate''),
        (''limitation'', JObj [(''auth_required'', JBool True), (''unauthenticated_kind0_only'', JBool True)]),
        (''name'', JStr ''wrapster''),
        (''supported_nips'', JArr (map (\<lambda>n. JNum (int_str n)) [1, 5, 11, 42]))])\<rparr>"

definition hidden_nip_numbers_in_admin :: "int list" where
  "hidden_nip_numbers_in_admin = [1, 5, 2, 4, 9, 11, 28, 40, 45, 70, 77, 42]"

fun filter_nips_from :: "int list \<Rightarrow> int list \<Rightarrow> int list" where
  "filter_nips_from seen [] = []"
| "filter_nips_from seen (nip # nips) =
     (if nip \<in> set hidden_nip_numbers_in_admin then filter_nips_from seen nips
      else if nip \<in> set seen then filter_nips_from seen nips
      else nip # filter_nips_from (nip # seen) nips)"

definition filter_nips_for_admin :: "int list \<Rightarrow> int list" where
  "filter_nips_for_admin nips = filter_nips_from [] nips"

text \<open>\<open>serviceAdvertBrowser\<close>; \<open>page\<close> is the embedded file with the escaped relay URL filled in.\<close>

definition service_advert_browser :: "(string \<Rightarrow> string) \<Rightarrow> string \<Rightarrow> http_req \<Rightarrow> http_resp" where
  "service_advert_browser page public_relay_url r =
     (if rq_method r \<noteq> ''GET'' \<and> rq_method r \<noteq> ''HEAD''
      then http_error (hdr_set ''Allow'' ''GET, HEAD'' no_header) ''method not allowed'' 405
      else (let h = hdr_set ''Content-Type'' ''text/html; charset=utf-8'' no_header
        in if rq_method r = ''HEAD'' then \<lparr>rs_status = 200, rs_header = h, rs_body = BodyEmpty\<rparr>
           else \<lparr>rs_status = 200, rs_header = h,
             rs_body = BodyText (page (if public_relay_url = [] then ''ws://localhost:5542'' else public_relay_url))\<rparr>))"

end
