(* ===== verification/RelaySafety.thy ===== *)
theory RelaySafety
  imports RelayServer
begin

text \<open>
  What the relay gate guarantees, over every interleaving of any number of sessions: the
  system, its steps, the invariant and its consequences.
\<close>

section \<open>The system\<close>

record relay_system =
  sy_sessions :: "nat \<Rightarrow> ws_session option"
  sy_shared :: relay_shared

definition put_session :: "nat \<Rightarrow> ws_session \<Rightarrow> relay_system \<Rightarrow> relay_system" where
  "put_session i s y = y\<lparr>sy_sessions := (sy_sessions y)(i \<mapsto> s)\<rparr>"

definition relay_init :: "relay_system \<Rightarrow> bool" where
  "relay_init y \<longleftrightarrow> sy_sessions y = (\<lambda>_. None) \<and> (sh_cache (sy_shared y) = None \<or> sh_cache (sy_shared y) = Some [])
     \<and> sh_recent (sy_shared y) = []"

text \<open>
  \<open>W\<close> restricts what the outside may do: a hypothesis about the relays, the NIP-05 server
  or the clock is a choice of \<open>W\<close>, and \<open>\<lambda>_. True\<close> is no restriction at all. The program may
  be started again at any moment: sessions and query log are gone, the table of the cache stays.
\<close>

inductive ws_step :: "nostr_lib \<Rightarrow> relay_server \<Rightarrow> (ws_env \<Rightarrow> bool) \<Rightarrow> relay_system \<Rightarrow> relay_system \<Rightarrow> bool"
  for L :: nostr_lib and srv :: relay_server and W :: "ws_env \<Rightarrow> bool" where
  step_connect: "sy_sessions y i = None \<Longrightarrow> open_session upgrade random wr r = Some s \<Longrightarrow>
     ws_step L srv W y (put_session i s y)"
| step_client: "sy_sessions y i = Some s \<Longrightarrow> ss_running s \<Longrightarrow> W env \<Longrightarrow>
     client_message L srv env m (s, sy_shared y) = (s', sh') \<Longrightarrow>
     ws_step L srv W y (put_session i s' (y\<lparr>sy_shared := sh'\<rparr>))"
| step_client_gone: "sy_sessions y i = Some s \<Longrightarrow> ss_running s \<Longrightarrow>
     ws_step L srv W y (put_session i (end_session s) y)"
| step_pipe: "sy_sessions y i = Some s \<Longrightarrow> c \<in> set (ss_pipes s) \<Longrightarrow> (wr \<longrightarrow> ss_running s) \<Longrightarrow>
     ws_step L srv W y (put_session i (pipe_message wr c received s) y)"
| step_restart: "ws_step L srv W y \<lparr>sy_sessions = (\<lambda>_. None), sy_shared = (sy_shared y)\<lparr>sh_recent := []\<rparr>\<rparr>"

section \<open>What makes a key genuine\<close>

text \<open>The relays name the key and the NIP-05 server confirms the name, in one world.\<close>

definition key_confirmed :: "nostr_lib \<Rightarrow> relay_server \<Rightarrow> ws_env \<Rightarrow> string \<Rightarrow> bool" where
  "key_confirmed L srv env p \<longleftrightarrow>
     (\<exists>u. find_trustroots_username L (we_net env) (sv_upstream srv) p = Inr u
        \<and> nip05_confirms (we_transport env) (sv_nip05_base_url srv) u p)"

definition ever_confirmed :: "nostr_lib \<Rightarrow> relay_server \<Rightarrow> (ws_env \<Rightarrow> bool) \<Rightarrow> string \<Rightarrow> bool" where
  "ever_confirmed L srv W p \<longleftrightarrow> (\<exists>env. W env \<and> key_confirmed L srv env p)"

text \<open>The key has signed the challenge of the session for this relay, in time.\<close>

definition key_signed :: "nostr_lib \<Rightarrow> relay_server \<Rightarrow> (ws_env \<Rightarrow> bool) \<Rightarrow> string \<Rightarrow> string \<Rightarrow> bool" where
  "key_signed L srv W challenge p \<longleftrightarrow>
     (\<exists>e env. W env \<and> ev_pubkey e = p
        \<and> nip42_valid L e challenge (sv_public_relay_url srv) (sv_auth_event_max_age srv) (we_verify_now env))"

section \<open>Authentication\<close>

text \<open>Every cached key was confirmed.\<close>

definition cache_good :: "nostr_lib \<Rightarrow> relay_server \<Rightarrow> (ws_env \<Rightarrow> bool) \<Rightarrow> cache_row list option \<Rightarrow> bool" where
  "cache_good L srv W cache \<longleftrightarrow>
     (case cache of None \<Rightarrow> True | Some rows \<Rightarrow> cache_wf rows \<and> list_all (\<lambda>r. ever_confirmed L srv W (cr_pubkey r)) rows)"

lemma cache_put_pubkeys:
  "cr_pubkey ` set (snd (cache_put fail pk u v x rows)) \<subseteq> insert pk (cr_pubkey ` set rows)"
  by (auto simp: cache_put_def upsert_row_pubkeys split: option.splits)

lemma cache_put_wf: "cache_wf rows \<Longrightarrow> cache_wf (snd (cache_put fail pk u v x rows))"
  by (auto simp: cache_put_def upsert_row_wf split: option.splits)

lemma cache_put_good:
  assumes "cache_good L srv W (Some rows)" "ever_confirmed L srv W pk"
  shows "cache_good L srv W (Some (snd (cache_put fail pk u v x rows)))"
proof -
  have "ever_confirmed L srv W (cr_pubkey r)" if "r \<in> set (snd (cache_put fail pk u v x rows))" for r
    using cache_put_pubkeys [of fail pk u v x rows] that assms by (auto simp: cache_good_def list_all_iff)
  then show ?thesis using assms(1) by (auto simp: cache_good_def list_all_iff cache_put_wf)
qed

text \<open>A key passes only if it is in the cache or confirmed now; what is stored is confirmed.\<close>

lemma confirm_key_good:
  assumes c: "confirm_key L srv env pk cache = (err, cache')" and W: "W env" and g: "cache_good L srv W cache"
  shows "cache_good L srv W cache' \<and> (err = None \<longrightarrow> ever_confirmed L srv W pk)"
proof (cases "case cache of None \<Rightarrow> Inr None | Some rows \<Rightarrow> get_valid (we_get_fail env) rows pk (we_now env)")
  case (Inl x)
  with c g show ?thesis by (auto simp: confirm_key_def)
next
  case look: (Inr hit)
  show ?thesis
  proof (cases hit)
    case (Some entry)
    with look obtain rows where rows: "cache = Some rows"
      and e: "get_valid (we_get_fail env) rows pk (we_now env) = Inr (Some entry)" by (cases cache) auto
    from get_valid_found [OF e] g rows have "ever_confirmed L srv W pk"
      by (auto simp: cache_good_def list_all_iff)
    with c g look Some show ?thesis by (auto simp: confirm_key_def)
  next
    case None
    show ?thesis
    proof (cases "\<exists>u. find_trustroots_username L (we_net env) (sv_upstream srv) pk = Inr u
        \<and> fst (nip05_verify (we_transport env) (sv_nip05_base_url srv) u pk) = None")
      case False
      with c g look None show ?thesis by (auto simp: confirm_key_def split: sum.splits option.splits)
    next
      case True
      then obtain u where u: "find_trustroots_username L (we_net env) (sv_upstream srv) pk = Inr u"
        and n: "fst (nip05_verify (we_transport env) (sv_nip05_base_url srv) u pk) = None" by blast
      from nip05_verify_sound [OF n] u W have k: "ever_confirmed L srv W pk"
        unfolding ever_confirmed_def key_confirmed_def by blast
      show ?thesis
      proof (cases cache)
        case None
        with c g look \<open>hit = None\<close> u n k show ?thesis by (auto simp: confirm_key_def)
      next
        case (Some rows)
        let ?put = "cache_put (we_put_fail env) pk u (we_now env) (we_now env + sv_auth_cache_ttl srv) rows"
        from c look \<open>hit = None\<close> u n Some have "cache' = Some (snd ?put)"
          by (auto simp: confirm_key_def apsnd_def map_prod_def split: prod.splits)
        with cache_put_good [OF g [unfolded Some] k] k show ?thesis by simp
      qed
    qed
  qed
qed

text \<open>A key that \<open>authenticate\<close> returns has passed both halves.\<close>

lemma authenticate_ok:
  assumes "authenticate L srv env c m cache = ((p, i, err), cache')" "p \<noteq> []"
  shows "\<exists>e. ev_pubkey e = p \<and> err = None \<and> confirm_key L srv env p cache = (None, cache') \<and>
     nip42_valid L e c (sv_public_relay_url srv) (sv_auth_event_max_age srv) (we_verify_now env)"
  using assms
  by (auto simp: authenticate_def auth_verify_Inr split: option.splits list.splits sum.splits prod.splits)

lemma authenticate_cache:
  "authenticate L srv env c m cache = (r, cache') \<Longrightarrow>
     cache' = cache \<or> (\<exists>pk err. confirm_key L srv env pk cache = (err, cache'))"
  by (auto simp: authenticate_def split: option.splits list.splits sum.splits prod.splits)

lemma authenticate_good:
  assumes a: "authenticate L srv env c m cache = ((p, i, err), cache')"
    and W: "W env" and g: "cache_good L srv W cache"
  shows "cache_good L srv W cache'"
    and "p \<noteq> [] \<Longrightarrow> ever_confirmed L srv W p \<and> key_signed L srv W c p"
proof -
  show "cache_good L srv W cache'"
    using authenticate_cache [OF a] confirm_key_good [OF _ W g] g by blast
  show "ever_confirmed L srv W p \<and> key_signed L srv W c p" if "p \<noteq> []"
    using authenticate_ok [OF a that] confirm_key_good [OF _ W g] W unfolding key_signed_def by blast
qed

section \<open>The invariant of a session\<close>

text \<open>A message sent for a key: if it is an \<open>EVENT\<close>, its author (as the gate reads it) is the key.\<close>

definition forward_ok :: "string \<Rightarrow> string \<times> string \<Rightarrow> bool" where
  "forward_ok p km \<longleftrightarrow> fst km = p \<and> p \<noteq> []
     \<and> (message_type (snd km) = Some ''EVENT'' \<longrightarrow> pubkey_from_event_message (snd km) = Some p)"

text \<open>A message of an unauthenticated client: a profile event signed by its own key.\<close>

definition bootstrap_ok :: "nostr_lib \<Rightarrow> string \<Rightarrow> bool" where
  "bootstrap_ok L m \<longleftrightarrow> message_type m = Some ''EVENT'' \<and>
     (\<exists>e. parse_event_message L m = Some e \<and> validate_unauthenticated_kind0 L e = None)"

definition session_ok :: "nostr_lib \<Rightarrow> relay_server \<Rightarrow> (ws_env \<Rightarrow> bool) \<Rightarrow> ws_session \<Rightarrow> bool" where
  "session_ok L srv W s \<longleftrightarrow>
     (ss_pubkey s \<noteq> [] \<longrightarrow> ss_upstream s \<noteq> None
        \<and> ever_confirmed L srv W (ss_pubkey s) \<and> key_signed L srv W (ss_challenge s) (ss_pubkey s))
     \<and> list_all (forward_ok (ss_pubkey s)) (ss_forwarded s)
     \<and> list_all (bootstrap_ok L) (ss_bootstrap s)"

lemma session_ok_end: "session_ok L srv W (end_session s) = session_ok L srv W s"
  by (simp add: session_ok_def end_session_def)

lemma session_ok_write: "session_ok L srv W (write_or_end env v s) = session_ok L srv W s"
  by (simp add: write_or_end_def session_ok_end) (simp add: session_ok_def)

lemma session_ok_pipe: "session_ok L srv W (pipe_message wr c r s) = session_ok L srv W s"
  by (auto simp: pipe_message_def session_ok_def split: option.splits)

lemmas session_ok_simps = session_ok_end session_ok_write session_ok_pipe

lemma session_ok_opened: "open_session up rnd wr r = Some s \<Longrightarrow> session_ok L srv W s"
  by (auto simp: open_session_def session_ok_def split: if_splits sum.splits)

lemma handle_unauthenticated_sent:
  assumes "handle_unauthenticated L srv env ty m = (reply, sent)" "message_type m = Some ty"
  shows "list_all (bootstrap_ok L) sent"
proof (cases "ty = ''EVENT'' \<and> (\<exists>e. parse_event_message L m = Some e \<and> validate_unauthenticated_kind0 L e = None)")
  case True
  then have "bootstrap_ok L m" using assms(2) unfolding bootstrap_ok_def by simp
  with True assms(1) show ?thesis
    by (auto simp: handle_unauthenticated_def split: prod.splits sum.splits)
next
  case False
  with assms(1) show ?thesis
    by (auto simp: handle_unauthenticated_def split: option.splits if_splits)
qed

lemma session_ok_bootstrap:
  "session_ok L srv W s \<Longrightarrow> list_all (bootstrap_ok L) sent \<Longrightarrow>
     session_ok L srv W (s\<lparr>ss_bootstrap := ss_bootstrap s @ sent\<rparr>)"
  by (simp add: session_ok_def)

lemma auth_message_ok:
  assumes "auth_message L srv env m (s, sh) = (s', sh')" "W env" "session_ok L srv W s" "ss_pubkey s = []"
    and g: "cache_good L srv W (sh_cache sh)"
  shows "session_ok L srv W s' \<and> cache_good L srv W (sh_cache sh') \<and> sh_recent sh' = sh_recent sh"
proof -
  obtain p i err cache where a: "authenticate L srv env (ss_challenge s) m (sh_cache sh) = ((p, i, err), cache)"
    by (metis prod.collapse)
  note good = authenticate_good [OF a assms(2) g]
  from assms(3,4) have f: "ss_forwarded s = []"
    by (cases "ss_forwarded s") (auto simp: session_ok_def forward_ok_def)
  show ?thesis
  proof (cases "err = None \<and> (\<exists>peer. we_net env (up_url (sv_upstream srv)) = Inr peer)")
    case False
    with assms(1) a good(1) assms(3) show ?thesis
      by (auto simp: auth_message_def Let_def session_ok_simps split: option.splits sum.splits)
  next
    case True
    then obtain peer where n: "err = None" "we_net env (up_url (sv_upstream srv)) = Inr peer" by blast
    define s1 where "s1 = s\<lparr>ss_upstream := Some (ss_dialled s), ss_pubkey := p, ss_dialled := Suc (ss_dialled s),
                                 ss_live := ss_dialled s # ss_live s\<rparr>"
    from good(2) assms(3) f have "session_ok L srv W s1"
      by (cases "p = []") (auto simp: s1_def session_ok_def)
    moreover from this have "session_ok L srv W (s1\<lparr>ss_to_client := x, ss_pipes := y\<rparr>)" for x y
      by (simp add: session_ok_def)
    ultimately show ?thesis
      using assms(1) a n good(1) by (auto simp: auth_message_def Let_def s1_def [symmetric] session_ok_simps split: if_splits)
  qed
qed

lemma upstream_write_ok:
  assumes "session_ok L srv W s" "ss_pubkey s \<noteq> []"
    and "message_type m = Some ''EVENT'' \<Longrightarrow> pubkey_from_event_message m = Some (ss_pubkey s)"
  shows "session_ok L srv W (upstream_write env m s)"
  using assms by (auto simp: upstream_write_def session_ok_end) (auto simp: session_ok_def forward_ok_def)

lemma record_relay_query_cache [simp]: "sh_cache (record_relay_query now p m sh) = sh_cache sh"
  by (auto simp: record_relay_query_def split: option.splits)

lemma client_message_ok:
  assumes c: "client_message L srv env m (s, sh) = (s', sh')" and W: "W env" and ok: "session_ok L srv W s"
    and g: "cache_good L srv W (sh_cache sh)"
  shows "session_ok L srv W s' \<and> cache_good L srv W (sh_cache sh')"
proof (cases "message_type m")
  case None
  with c ok g show ?thesis by (auto simp: client_message_def session_ok_simps)
next
  case (Some ty)
  show ?thesis
  proof (cases "ss_pubkey s = []")
    case True
    show ?thesis
    proof (cases "ty = ''AUTH''")
      case auth: True
      with c Some True have "auth_message L srv env m (s, sh) = (s', sh')" by (simp add: client_message_def)
      from auth_message_ok [OF this W ok True g] show ?thesis by simp
    next
      case False
      obtain reply sent where h: "handle_unauthenticated L srv env ty m = (reply, sent)" by fastforce
      from session_ok_bootstrap [OF ok handle_unauthenticated_sent [OF h Some]] c Some True False h g
      show ?thesis by (auto simp: client_message_def session_ok_simps)
    qed
  next
    case False
    show ?thesis
    proof (cases "ty = ''EVENT'' \<and> pubkey_from_event_message m \<noteq> Some (ss_pubkey s)")
      case True
      with c Some False ok g show ?thesis by (auto simp: client_message_def session_ok_simps)
    next
      case pass: False
      from c Some False pass have e: "s' = upstream_write env m s" "sh_cache sh' = sh_cache sh"
        by (auto simp: client_message_def split: if_splits)
      have "session_ok L srv W (upstream_write env m s)"
        using pass Some by (intro upstream_write_ok [OF ok False]) auto
      with e g show ?thesis by simp
    qed
  qed
qed

section \<open>The query log\<close>

definition log_ok :: "nostr_lib \<Rightarrow> relay_server \<Rightarrow> (ws_env \<Rightarrow> bool) \<Rightarrow> recent_query list \<Rightarrow> bool" where
  "log_ok L srv W qs \<longleftrightarrow> length qs \<le> recent_relay_query_limit
     \<and> list_all (\<lambda>q. ever_confirmed L srv W (rr_pubkey q) \<and> rr_filters q \<noteq> []) qs"

lemma push_query_take: "push_query q qs = take recent_relay_query_limit (q # qs)"
  by (simp add: push_query_def Let_def)

lemma push_query_ok:
  "log_ok L srv W qs \<Longrightarrow> ever_confirmed L srv W (rr_pubkey q) \<Longrightarrow> rr_filters q \<noteq> [] \<Longrightarrow> log_ok L srv W (push_query q qs)"
  unfolding log_ok_def push_query_take using set_take_subset [of recent_relay_query_limit "q # qs"]
  by (auto simp: list_all_iff)

lemma record_relay_query_ok:
  "log_ok L srv W (sh_recent sh) \<Longrightarrow> ever_confirmed L srv W p \<Longrightarrow>
     log_ok L srv W (sh_recent (record_relay_query now p m sh))"
  by (auto simp: record_relay_query_def parse_req_message_filters intro!: push_query_ok split: option.splits)

lemma client_message_log:
  assumes c: "client_message L srv env m (s, sh) = (s', sh')" and W: "W env" and ok: "session_ok L srv W s"
    and g: "cache_good L srv W (sh_cache sh)" and l: "log_ok L srv W (sh_recent sh)"
  shows "log_ok L srv W (sh_recent sh')"
proof (cases "ss_pubkey s = []")
  case True
  have "sh_recent sh' = sh_recent sh"
  proof (cases "message_type m = Some ''AUTH''")
    case auth: True
    with c True have "auth_message L srv env m (s, sh) = (s', sh')" by (simp add: client_message_def)
    from auth_message_ok [OF this W ok True g] show ?thesis by simp
  next
    case False
    with c True show ?thesis by (auto simp: client_message_def split: option.splits prod.splits)
  qed
  with l show ?thesis by simp
next
  case False
  with ok have "ever_confirmed L srv W (ss_pubkey s)" by (simp add: session_ok_def)
  with c l False show ?thesis
    by (auto simp: client_message_def record_relay_query_ok split: option.splits if_splits)
qed

section \<open>The invariant of the system\<close>

definition system_ok :: "nostr_lib \<Rightarrow> relay_server \<Rightarrow> (ws_env \<Rightarrow> bool) \<Rightarrow> relay_system \<Rightarrow> bool" where
  "system_ok L srv W y \<longleftrightarrow>
     (\<forall>i s. sy_sessions y i = Some s \<longrightarrow> session_ok L srv W s) \<and> cache_good L srv W (sh_cache (sy_shared y))
     \<and> log_ok L srv W (sh_recent (sy_shared y))"

lemma system_ok_put:
  "system_ok L srv W y \<Longrightarrow> session_ok L srv W s \<Longrightarrow> system_ok L srv W (put_session i s y)"
  by (simp add: system_ok_def put_session_def)

interpretation ws: step_invariant relay_init "ws_step L srv W" "system_ok L srv W" for L srv W
proof
  fix y
  assume "relay_init y"
  then show "system_ok L srv W y"
    by (auto simp: relay_init_def system_ok_def cache_good_def cache_wf_def log_ok_def)
next
  fix y z
  assume ok: "system_ok L srv W y" and "ws_step L srv W y z"
  from this(2) show "system_ok L srv W z"
  proof cases
    case (step_connect i up rnd wr r s)
    with ok show ?thesis by (auto intro: system_ok_put session_ok_opened)
  next
    case (step_client i s env m s' sh')
    with ok client_message_ok [of L srv env m s "sy_shared y" s' sh' W]
      client_message_log [of L srv env m s "sy_shared y" s' sh' W]
    have "session_ok L srv W s' \<and> cache_good L srv W (sh_cache sh') \<and> log_ok L srv W (sh_recent sh')"
      by (auto simp: system_ok_def)
    with step_client(1) ok show ?thesis by (simp add: system_ok_def put_session_def)
  next
    case (step_client_gone i s)
    with ok have "session_ok L srv W s" by (simp add: system_ok_def)
    then show ?thesis unfolding step_client_gone(1) by (intro system_ok_put [OF ok]) (simp add: session_ok_simps)
  next
    case (step_pipe i s c wr received)
    with ok have "session_ok L srv W s" by (simp add: system_ok_def)
    then show ?thesis unfolding step_pipe(1) by (intro system_ok_put [OF ok]) (simp add: session_ok_simps)
  next
    case step_restart
    with ok show ?thesis by (simp add: system_ok_def log_ok_def)
  qed
qed

lemma reach_session_ok:
  "reach relay_init (ws_step L srv W) y \<Longrightarrow> sy_sessions y i = Some s \<Longrightarrow> session_ok L srv W s"
  using ws.inv_reach unfolding system_ok_def by blast


lemma reach_cache_good:
  "reach relay_init (ws_step L srv W) y \<Longrightarrow> cache_good L srv W (sh_cache (sy_shared y))"
  using ws.inv_reach unfolding system_ok_def by blast

lemma reach_log_ok:
  "reach relay_init (ws_step L srv W) y \<Longrightarrow> log_ok L srv W (sh_recent (sy_shared y))"
  using ws.inv_reach unfolding system_ok_def by blast

section \<open>Sessions only grow\<close>

text \<open>
  What a step may change in a session: nothing that was written is taken back, the
  challenge stays, and so does the key once there is one.
\<close>

definition session_le :: "ws_session \<Rightarrow> ws_session \<Rightarrow> bool" where
  "session_le s t \<longleftrightarrow> ss_challenge t = ss_challenge s
     \<and> prefix (ss_to_client s) (ss_to_client t) \<and> prefix (ss_forwarded s) (ss_forwarded t)
     \<and> prefix (ss_bootstrap s) (ss_bootstrap t)
     \<and> (ss_pubkey s \<noteq> [] \<longrightarrow> ss_pubkey t = ss_pubkey s \<and> ss_bootstrap t = ss_bootstrap s)
     \<and> (\<not> ss_running s \<longrightarrow> \<not> ss_running t \<and> ss_to_client t = ss_to_client s
          \<and> ss_forwarded t = ss_forwarded s \<and> ss_bootstrap t = ss_bootstrap s)"

lemma session_le_refl: "session_le s s"
  by (simp add: session_le_def)

lemma session_le_trans: "session_le s t \<Longrightarrow> session_le t u \<Longrightarrow> session_le s u"
  unfolding session_le_def by (auto dest: prefix_order.trans)

lemma session_le_end: "ss_running s \<Longrightarrow> session_le s (end_session s)"
  by (simp add: session_le_def end_session_def)

lemma session_le_write: "ss_running s \<Longrightarrow> session_le s (write_or_end env v s)"
  by (simp add: write_or_end_def session_le_end) (simp add: session_le_def)

lemma session_le_pipe: "(wr \<longrightarrow> ss_running s) \<Longrightarrow> session_le s (pipe_message wr c r s)"
  by (auto simp: pipe_message_def session_le_def split: option.splits)

lemma session_le_auth:
  "ss_running s \<Longrightarrow> ss_pubkey s = [] \<Longrightarrow> auth_message L srv env m (s, sh) = (s', sh') \<Longrightarrow> session_le s s'"
  by (auto simp: auth_message_def Let_def session_le_write split: prod.splits option.splits sum.splits if_splits)
    (auto simp: session_le_def end_session_def)

lemma session_le_client:
  assumes r: "ss_running s" and c: "client_message L srv env m (s, sh) = (s', sh')"
  shows "session_le s s'"
proof (cases "ss_pubkey s = []")
  case True
  show ?thesis
  proof (cases "message_type m = Some ''AUTH''")
    case auth: True
    with c True have "auth_message L srv env m (s, sh) = (s', sh')" by (simp add: client_message_def)
    with r True show ?thesis by (rule session_le_auth)
  next
    case False
    have "session_le s (write_or_end env v (s\<lparr>ss_bootstrap := ss_bootstrap s @ sent\<rparr>))" for v sent
      using r True by (intro session_le_trans [OF _ session_le_write]) (simp_all add: session_le_def)
    with c True False r show ?thesis
      by (auto simp: client_message_def session_le_write split: option.splits prod.splits if_splits)
  qed
next
  case False
  have "session_le s (upstream_write env m s)"
    using r by (simp add: upstream_write_def session_le_end) (simp add: session_le_def)
  with c False r show ?thesis
    by (auto simp: client_message_def session_le_write split: option.splits if_splits)
qed

lemma ws_step_session_le:
  assumes "ws_step L srv W y z" "sy_sessions y i = Some s"
  shows "sy_sessions z = (\<lambda>_. None) \<or> (\<exists>t. sy_sessions z i = Some t \<and> session_le s t)"
  using assms(1)
proof cases
  case (step_connect j up rnd wr r s')
  with assms(2) show ?thesis by (auto simp: put_session_def session_le_refl)
next
  case (step_client j s0 env m s' sh')
  then have "session_le s0 s'" using session_le_client by blast
  with step_client assms(2) show ?thesis by (auto simp: put_session_def session_le_refl)
next
  case (step_client_gone j s0)
  with assms(2) show ?thesis by (auto simp: put_session_def session_le_refl session_le_end)
next
  case (step_pipe j s0 c wr received)
  with assms(2) show ?thesis by (auto simp: put_session_def session_le_refl session_le_pipe)
qed simp

end
