(* ===== verification/RelayClaims.thy ===== *)
theory RelayClaims
  imports RelaySafety
begin

text \<open>The properties of the relay gate and of authentication, each with a concrete instance.\<close>

section \<open>A concrete world\<close>

text \<open>
  A key \<open>k1\<close> whose events are told by their wire form; a relay that answers the profile
  request; a NIP-05 server that confirms the name.
\<close>

definition demo_auth_event :: event where
  "demo_auth_event = \<lparr>ev_id = ''a1'', ev_pubkey = ''k1'', ev_created_at = 5, ev_kind = 22242,
     ev_tags = [[''relay'', ''wss://r/''], [''challenge'', ''00'']], ev_content = [], ev_sig = ''ok''\<rparr>"

definition demo_profile_event :: event where
  "demo_profile_event = \<lparr>ev_id = ''p1'', ev_pubkey = ''k1'', ev_created_at = 1, ev_kind = 10390,
     ev_tags = [[''l'', ''alice'', ''org.trustroots:username'']], ev_content = [], ev_sig = ''ok''\<rparr>"

definition demo_kind0_event :: event where
  "demo_kind0_event = \<lparr>ev_id = ''z1'', ev_pubkey = ''k1'', ev_created_at = 1, ev_kind = 0,
     ev_tags = [], ev_content = [], ev_sig = ''ok''\<rparr>"

definition demo_lib :: nostr_lib where
  "demo_lib = \<lparr>nl_decode_event = (\<lambda>j. case j of
       JStr s \<Rightarrow> if s = ''auth'' then Some demo_auth_event else if s = ''profile'' then Some demo_profile_event
                 else if s = ''zero'' then Some demo_kind0_event else None
     | _ \<Rightarrow> None),
     nl_check_signature = (\<lambda>e. Inr (ev_sig e = ''ok'' \<and> ev_pubkey e \<noteq> [])),
     nl_get_id = ev_id, nl_valid_pubkey = (\<lambda>p. p \<noteq> [])\<rparr>"

lemma demo_lib_ok: "nostr_lib_ok demo_lib"
  by (simp add: nostr_lib_ok_def demo_lib_def)

definition demo_peer :: ws_peer where
  "demo_peer = \<lparr>wp_write_error = None,
     wp_inbox = (\<lambda>_. [''[\"EVENT\",\"wrapster-profile\",\"profile\"]'', ''[\"OK\",\"z1\",true,\"\"]'']), wp_read_error = ''eof''\<rparr>"

definition demo_env :: ws_env where
  "demo_env = \<lparr>we_verify_now = 5 * second, we_now = 5 * second, we_query_now = 5 * second,
     we_get_fail = None, we_put_fail = None, we_net = (\<lambda>_. Inr demo_peer),
     we_transport = (\<lambda>_. Inr \<lparr>up_code = 200, up_status = [], up_header = no_header,
        up_body = ''{\"names\":{\"alice\":\"k1\"}}''\<rparr>),
     we_client_write = True, we_upstream_write = True\<rparr>"

definition demo_server :: relay_server where
  "demo_server = \<lparr>sv_public_relay_url = ''wss://r'',
     sv_upstream = \<lparr>up_url = ''ws://u'', up_lookup = 0, up_profile_relays = []\<rparr>,
     sv_nip05_base_url = ''http://n'', sv_auth_cache_ttl = hour, sv_auth_event_max_age = minute\<rparr>"

definition demo_session :: ws_session where
  "demo_session = \<lparr>ss_running = True, ss_challenge = ''00'', ss_pubkey = [], ss_upstream = None,
     ss_dialled = 0, ss_live = [], ss_pipes = [],
     ss_to_client = [JArr [JStr ''AUTH'', JStr ''00'']], ss_forwarded = [], ss_bootstrap = []\<rparr>"

definition demo_shared :: relay_shared where
  "demo_shared = \<lparr>sh_cache = Some [], sh_recent = []\<rparr>"

definition demo_say :: "string \<Rightarrow> ws_session \<times> relay_shared \<Rightarrow> ws_session \<times> relay_shared" where
  "demo_say m st = client_message demo_lib demo_server demo_env m st"

definition demo_authed :: "ws_session \<times> relay_shared" where
  "demo_authed = demo_say ''[\"AUTH\",\"auth\"]'' (demo_session, demo_shared)"


lemma demo_find: "find_trustroots_username demo_lib (we_net demo_env) (sv_upstream demo_server) ''k1'' = Inr ''alice''"
  by code_simp

lemma demo_authed_eq: "demo_authed =
   (demo_session\<lparr>ss_pubkey := ''k1'', ss_upstream := Some 0, ss_dialled := 1, ss_live := [0], ss_pipes := [0],
      ss_to_client := [JArr [JStr ''AUTH'', JStr ''00''], JArr [JStr ''OK'', JStr ''a1'', JBool True, JStr []]]\<rparr>,
    demo_shared\<lparr>sh_cache := Some [\<lparr>cr_pubkey = ''k1'', cr_username = ''alice'', cr_verified_at = 5, cr_expires_at = 3605\<rparr>]\<rparr>)"
  by code_simp

definition demo_event_message :: string where
  "demo_event_message = ''[\"EVENT\",{\"pubkey\":\"k1\"}]''"

definition demo_req_message :: string where
  "demo_req_message = ''[\"REQ\",\"s\",{}]''"

definition demo_published :: "ws_session \<times> relay_shared" where
  "demo_published = demo_say demo_req_message (demo_say demo_event_message demo_authed)"

lemma demo_published_eq: "demo_published =
   ((fst demo_authed)\<lparr>ss_forwarded := [(''k1'', demo_event_message), (''k1'', demo_req_message)]\<rparr>,
    (snd demo_authed)\<lparr>sh_recent := [\<lparr>rr_at = 5, rr_pubkey = ''k1'', rr_sub_id = ''s'', rr_filters = [JObj []]\<rparr>]\<rparr>)"
  unfolding demo_published_def demo_authed_eq by code_simp

definition demo_bootstrapped :: "ws_session \<times> relay_shared" where
  "demo_bootstrapped = demo_say ''[\"EVENT\",\"zero\"]'' (demo_session, demo_shared)"

lemma demo_bootstrapped_eq: "demo_bootstrapped =
   (demo_session\<lparr>ss_bootstrap := [''[\"EVENT\",\"zero\"]''],
      ss_to_client := [JArr [JStr ''AUTH'', JStr ''00''], JArr [JStr ''OK'', JStr ''z1'', JBool True, JStr []]]\<rparr>, demo_shared)"
  by code_simp

text \<open>The system with the one session \<open>0\<close>.\<close>

definition demo_system :: "ws_session \<times> relay_shared \<Rightarrow> relay_system" where
  "demo_system st = \<lparr>sy_sessions = (\<lambda>_. None)(0 \<mapsto> fst st), sy_shared = snd st\<rparr>"

lemma demo_opened: "open_session (\<lambda>ok r. True) (Inr [0]) True r = Some demo_session"
proof -
  have "new_challenge (Inr [0]) = Inr ''00''" by code_simp
  then show ?thesis by (simp add: open_session_def demo_session_def)
qed

lemma demo_reach_open: "reach relay_init (ws_step demo_lib demo_server W) (demo_system (demo_session, demo_shared))"
proof -
  let ?y = "\<lparr>sy_sessions = (\<lambda>_. None), sy_shared = demo_shared\<rparr>"
  have "reach relay_init (ws_step demo_lib demo_server W) ?y"
    by (rule reach_init) (simp add: relay_init_def demo_shared_def)
  moreover have "ws_step demo_lib demo_server W ?y (put_session 0 demo_session ?y)"
    by (rule step_connect [OF _ demo_opened]) simp
  moreover have "put_session 0 demo_session ?y = demo_system (demo_session, demo_shared)"
    by (simp add: put_session_def demo_system_def)
  ultimately show ?thesis by (metis reach_step)
qed

lemma demo_reach_say:
  assumes "reach relay_init (ws_step demo_lib demo_server (\<lambda>e. e = demo_env)) (demo_system st)" "ss_running (fst st)"
  shows "reach relay_init (ws_step demo_lib demo_server (\<lambda>e. e = demo_env)) (demo_system (demo_say m st))"
proof -
  obtain s sh s' sh' where st: "st = (s, sh)" and c: "demo_say m st = (s', sh')" by (metis prod.collapse)
  have "ws_step demo_lib demo_server (\<lambda>e. e = demo_env) (demo_system st)
     (put_session 0 s' ((demo_system st)\<lparr>sy_shared := sh'\<rparr>))"
    by (rule step_client [where env = demo_env and m = m and s = s])
      (use assms(2) st c in \<open>simp_all add: demo_system_def demo_say_def\<close>)
  moreover have "put_session 0 s' ((demo_system st)\<lparr>sy_shared := sh'\<rparr>) = demo_system (demo_say m st)"
    by (simp add: put_session_def demo_system_def c)
  ultimately show ?thesis using assms(1) by (metis reach_step)
qed

lemma demo_reach_authed: "reach relay_init (ws_step demo_lib demo_server (\<lambda>e. e = demo_env)) (demo_system demo_authed)"
  unfolding demo_authed_def by (intro demo_reach_say demo_reach_open) (simp add: demo_session_def)

lemma demo_reach_published: "reach relay_init (ws_step demo_lib demo_server (\<lambda>e. e = demo_env)) (demo_system demo_published)"
proof -
  have "ss_running (fst demo_authed)" by (simp add: demo_authed_eq demo_session_def)
  moreover have "ss_running (fst (demo_say demo_event_message demo_authed))"
    unfolding demo_authed_eq by code_simp
  ultimately show ?thesis unfolding demo_published_def by (intro demo_reach_say demo_reach_authed)
qed

lemma demo_reach_bootstrapped: "reach relay_init (ws_step demo_lib demo_server (\<lambda>e. e = demo_env)) (demo_system demo_bootstrapped)"
  unfolding demo_bootstrapped_def by (intro demo_reach_say demo_reach_open) (simp add: demo_session_def)

lemma demo_session_at: "sy_sessions (demo_system st) 0 = Some (fst st)"
  by (simp add: demo_system_def)

section \<open>The relay gate\<close>

text \<open>
  C2: over every interleaving of sessions, a message that the gate has forwarded to the
  upstream relay for a key belongs to a key that signed this session's challenge for this
  relay within the allowed age and whose name the relays and the NIP-05 server confirmed;
  and if the message is an EVENT, the author the gate reads in it is that key.
\<close>

theorem relay_forwards_only_authenticated:
  assumes "reach relay_init (ws_step L srv W) y" "sy_sessions y i = Some s" "(k, m) \<in> set (ss_forwarded s)"
  shows "k \<noteq> [] \<and> k = ss_pubkey s \<and> key_signed L srv W (ss_challenge s) k \<and> ever_confirmed L srv W k
     \<and> (if message_type m = Some ''EVENT'' then pubkey_from_event_message m = Some k else True)"
  using reach_session_ok [OF assms(1,2)] assms(3) by (auto simp: session_ok_def list_all_iff forward_ok_def)

theorem relay_forwards_only_authenticated_witness:
  "key_signed demo_lib demo_server (\<lambda>e. e = demo_env) ''00'' ''k1''
   \<and> pubkey_from_event_message demo_event_message = Some ''k1''"
proof -
  have f: "(''k1'', demo_event_message) \<in> set (ss_forwarded (fst demo_published))" by (simp add: demo_published_eq)
  have t: "message_type demo_event_message = Some ''EVENT''" by code_simp
  have c: "ss_challenge (fst demo_published) = ''00''" by (simp add: demo_published_eq demo_authed_eq demo_session_def)
  have k: "ss_pubkey (fst demo_published) = ''k1''" by (simp add: demo_published_eq demo_authed_eq)
  from relay_forwards_only_authenticated [OF demo_reach_published demo_session_at f] show ?thesis
    unfolding c t k by simp
qed

text \<open>
  C13: a message forwarded for a client that is not authenticated is an EVENT message whose
  event is a profile (kind 0) with a valid author key, the right id and a valid signature.
\<close>

theorem relay_bootstrap_only_profiles:
  assumes "reach relay_init (ws_step L srv W) y" "sy_sessions y i = Some s" "m \<in> set (ss_bootstrap s)"
  shows "message_type m = Some ''EVENT'' \<and>
     (\<exists>e. parse_event_message L m = Some e \<and> ev_kind e = 0 \<and> nl_valid_pubkey L (ev_pubkey e)
        \<and> nl_get_id L e = ev_id e \<and> sig_ok L e)"
  using reach_session_ok [OF assms(1,2)] assms(3)
  by (auto simp: session_ok_def list_all_iff bootstrap_ok_def validate_unauthenticated_kind0_None)

theorem relay_bootstrap_only_profiles_witness:
  "\<exists>e. parse_event_message demo_lib ''[\"EVENT\",\"zero\"]'' = Some e \<and> ev_kind e = 0 \<and> sig_ok demo_lib e"
proof -
  have "''[\"EVENT\",\"zero\"]'' \<in> set (ss_bootstrap (fst demo_bootstrapped))" by (simp add: demo_bootstrapped_eq)
  from relay_bootstrap_only_profiles [OF demo_reach_bootstrapped demo_session_at this] show ?thesis by blast
qed

text \<open>
  C12: a key that is confirmed in no world that occurs (no relay names it, or the NIP-05
  server never confirms the name) is locked out: no session is authenticated for it, no
  message is forwarded for it, and neither the cache nor the query log ever mentions it.
\<close>

theorem relay_unconfirmed_key_locked_out:
  assumes "reach relay_init (ws_step L srv W) y" "\<not> ever_confirmed L srv W p" "p \<noteq> []"
  shows "(case sy_sessions y i of None \<Rightarrow> True
      | Some s \<Rightarrow> ss_pubkey s \<noteq> p \<and> p \<notin> fst ` set (ss_forwarded s))
     \<and> (case sh_cache (sy_shared y) of None \<Rightarrow> True | Some rows \<Rightarrow> p \<notin> cr_pubkey ` set rows)
     \<and> p \<notin> rr_pubkey ` set (sh_recent (sy_shared y))"
proof (intro conjI)
  show "case sy_sessions y i of None \<Rightarrow> True | Some s \<Rightarrow> ss_pubkey s \<noteq> p \<and> p \<notin> fst ` set (ss_forwarded s)"
  proof (cases "sy_sessions y i")
    case (Some s)
    from reach_session_ok [OF assms(1) Some] assms(2,3) Some show ?thesis
      by (fastforce simp: session_ok_def list_all_iff forward_ok_def)
  qed simp
  show "case sh_cache (sy_shared y) of None \<Rightarrow> True | Some rows \<Rightarrow> p \<notin> cr_pubkey ` set rows"
    using reach_cache_good [OF assms(1)] assms(2)
    by (auto simp: cache_good_def list_all_iff split: option.splits)
  show "p \<notin> rr_pubkey ` set (sh_recent (sy_shared y))"
    using reach_log_ok [OF assms(1)] assms(2) by (auto simp: log_ok_def list_all_iff)
qed

lemma demo_k2_find: "find_trustroots_username demo_lib (we_net demo_env) (sv_upstream demo_server) ''k2'' = Inr ''alice''"
  by code_simp

lemma demo_nip05_answer: "nip05_answer \<lparr>up_code = 200, up_status = [], up_header = no_header,
        up_body = ''{\"names\":{\"alice\":\"k1\"}}''\<rparr> ''alice'' ''k2'' = Some Nip05NoMatch"
  by code_simp

lemma demo_k2_not_confirmed: "\<not> ever_confirmed demo_lib demo_server (\<lambda>e. e = demo_env) ''k2''"
proof
  have n: "to_lower (trim_space ''alice'') = ''alice''" by code_simp
  assume "ever_confirmed demo_lib demo_server (\<lambda>e. e = demo_env) ''k2''"
  then have "nip05_confirms (we_transport demo_env) (sv_nip05_base_url demo_server) ''alice'' ''k2''"
    by (auto simp: ever_confirmed_def key_confirmed_def demo_k2_find)
  then obtain resp where "we_transport demo_env (get_request x) = Inr resp" "nip05_answer resp ''alice'' ''k2'' = None" for x
    unfolding nip05_confirms_def n nip05_answer_None by (auto simp: demo_env_def)
  then show False using demo_nip05_answer by (simp add: demo_env_def)
qed

theorem relay_unconfirmed_key_locked_out_witness:
  "''k2'' \<notin> rr_pubkey ` set (sh_recent (sy_shared (demo_system demo_published)))"
  using relay_unconfirmed_key_locked_out [OF demo_reach_published demo_k2_not_confirmed, of 0] by simp

text \<open>
  a step of the system never takes anything back, unless the program is started again: a session keeps its challenge, what
  it wrote stays written and in order, an authenticated key is never replaced by another and
  ends the unauthenticated forwarding, and a session that ended writes nothing more.
\<close>

theorem relay_session_monotone:
  assumes "ws_step L srv W y z" "sy_sessions y i = Some s"
  shows "sy_sessions z = (\<lambda>_. None) \<or> (\<exists>t. sy_sessions z i = Some t \<and> ss_challenge t = ss_challenge s
     \<and> prefix (ss_to_client s) (ss_to_client t) \<and> prefix (ss_forwarded s) (ss_forwarded t)
     \<and> prefix (ss_bootstrap s) (ss_bootstrap t)
     \<and> (if ss_pubkey s = [] then True else ss_pubkey t = ss_pubkey s \<and> ss_bootstrap t = ss_bootstrap s)
     \<and> (if ss_running s then True else \<not> ss_running t \<and> ss_to_client t = ss_to_client s
          \<and> ss_forwarded t = ss_forwarded s))"
  using ws_step_session_le [OF assms] by (auto simp: session_le_def)

theorem relay_session_monotone_witness:
  "\<exists>t. sy_sessions (put_session 0 (end_session (fst demo_authed)) (demo_system demo_authed)) 0 = Some t
     \<and> ss_pubkey t = ''k1''"
proof -
  have r: "ss_running (fst demo_authed)" and p: "ss_pubkey (fst demo_authed) = ''k1''"
    by (simp_all add: demo_authed_eq demo_session_def)
  have "sy_sessions (put_session 0 (end_session (fst demo_authed)) (demo_system demo_authed)) \<noteq> (\<lambda>_. None)"
    by (auto simp: put_session_def fun_eq_iff)
  with relay_session_monotone [OF step_client_gone [OF demo_session_at r] demo_session_at] show ?thesis
    by (auto simp: p)
qed

text \<open>
  the log of recent queries is exactly the newest 25 of the REQ messages that were
  recorded, newest first; messages that are not well-formed REQ messages leave no trace.
\<close>

theorem relay_query_log_newest:
  "sh_recent (fold (\<lambda>(now, p, m). record_relay_query now p m) qs (sh\<lparr>sh_recent := []\<rparr>))
   = take 25 (rev (List.map_filter (\<lambda>(now, p, m). map_option (\<lambda>(sub, fs).
        \<lparr>rr_at = unix_of_time now, rr_pubkey = p, rr_sub_id = sub, rr_filters = fs\<rparr>) (parse_req_message m)) qs))"
proof (induction qs rule: rev_induct)
  case Nil
  then show ?case by (simp add: List.map_filter_simps)
next
  case (snoc q qs)
  obtain now p m where q: "q = (now, p, m)" by (cases q)
  have "take 25 (x # take 25 xs) = take 25 (x # xs)" for x and xs :: "recent_query list"
    by (simp add: take_Suc_Cons [of 24, simplified] min_def)
  with snoc show ?case
    by (auto simp: q record_relay_query_def push_query_take recent_relay_query_limit_def
        List.map_filter_def split: option.splits)
qed

text \<open>
  while no key is authenticated, an AUTH message without an event (a JSON array of one
  element) is answered with OK true: an upstream connection is dialled and piped to the
  client although nobody authenticated, the session stays unauthenticated, and every
  repetition opens one more connection, of which only the last is closed in the end.
\<close>

theorem relay_short_auth_opens_upstream:
  assumes "ss_pubkey s = []" "message_type m = Some ''AUTH''" "unmarshal_raws m = Some [r]"
    and "we_net env (up_url (sv_upstream srv)) = Inr peer" "we_client_write env"
  shows "client_message L srv env m (s, sh) =
    (s\<lparr>ss_upstream := Some (ss_dialled s), ss_dialled := Suc (ss_dialled s), ss_live := ss_dialled s # ss_live s,
       ss_pipes := ss_dialled s # ss_pipes s, ss_to_client := ss_to_client s @ [ok_msg [] True []]\<rparr>, sh)"
  using assms by (cases s) (simp add: client_message_def auth_message_def authenticate_def Let_def)

theorem relay_short_auth_opens_upstream_witness:
  "case demo_say ''[\"AUTH\"]'' (demo_say ''[\"AUTH\"]'' (demo_session, demo_shared)) of
     (s, sh) \<Rightarrow> ss_pubkey s = [] \<and> ss_live s = [1, 0] \<and> ss_pipes s = [1, 0] \<and> ss_live (end_session s) = [0]
       \<and> ss_to_client s = [JArr [JStr ''AUTH'', JStr ''00''], ok_msg [] True [], ok_msg [] True []]"
proof -
  have m: "message_type ''[\"AUTH\"]'' = Some ''AUTH''" "unmarshal_raws ''[\"AUTH\"]'' = Some [JStr ''AUTH'']" by code_simp+
  have n: "we_net demo_env (up_url (sv_upstream demo_server)) = Inr demo_peer" by (simp add: demo_env_def)
  have w: "we_client_write demo_env" by (simp add: demo_env_def)
  have p: "ss_pubkey demo_session = []" by (simp add: demo_session_def)
  show ?thesis
    unfolding demo_say_def
    by (simp add: relay_short_auth_opens_upstream [OF _ m n w] p) (simp add: demo_session_def end_session_def)
qed

text \<open>
  the author check of the gate reads the event with the struct decoder of Go, which
  matches member names up to case and lets the last one win: an EVENT whose member
  \<open>pubkey\<close> names another key passes for a client that repeats the member as \<open>Pubkey\<close>.
\<close>

theorem relay_author_check_case_variant:
  "message_type ''[\"EVENT\",{\"pubkey\":\"k9\",\"Pubkey\":\"k1\"}]'' = Some ''EVENT''
   \<and> pubkey_from_event_message ''[\"EVENT\",{\"pubkey\":\"k9\",\"Pubkey\":\"k1\"}]'' = Some ''k1''
   \<and> ss_forwarded (fst (demo_say ''[\"EVENT\",{\"pubkey\":\"k9\",\"Pubkey\":\"k1\"}]'' demo_authed))
       = [(''k1'', ''[\"EVENT\",{\"pubkey\":\"k9\",\"Pubkey\":\"k1\"}]'')]"
  unfolding demo_authed_eq by (intro conjI; code_simp)

lemma ok_answer_shape:
  "ok_answer i m = Some (Inr reply) \<Longrightarrow> \<exists>a t. reply = ok_msg i a t"
  by (auto simp: ok_answer_def ok_msg_def split: option.split_asm list.split_asm if_split_asm)

lemma wait_ok_loop_shape: "wait_ok_loop i e ms = Inr reply \<Longrightarrow> \<exists>a t. reply = ok_msg i a t"
  by (induction ms) (auto dest: ok_answer_shape split: option.splits)

lemma forward_reply_shape:
  "forward_to_upstream_and_wait_ok srv env m i = (Inr reply, sent) \<Longrightarrow> sent \<and> (\<exists>a t. reply = ok_msg i a t)"
  by (auto simp: forward_to_upstream_and_wait_ok_def dest: wait_ok_loop_shape split: sum.splits option.splits)

text \<open>
  an unauthenticated EVENT that decodes is answered by an OK message for that very
  event, whatever else the upstream relay sends; an event that is not a valid profile is
  refused with OK false and nothing is forwarded.
\<close>

theorem relay_unauthenticated_event_reply:
  "case parse_event_message L m of
     None \<Rightarrow> handle_unauthenticated L srv env ''EVENT'' m
       = (ok_msg (event_id_from_message m) False ''invalid: malformed EVENT payload'', [])
   | Some e \<Rightarrow> (\<exists>a t sent. handle_unauthenticated L srv env ''EVENT'' m = (ok_msg (ev_id e) a t, sent)
       \<and> (if validate_unauthenticated_kind0 L e = None then set sent \<subseteq> {m} else \<not> a \<and> sent = []))"
proof (cases "parse_event_message L m")
  case None
  then show ?thesis by (simp add: handle_unauthenticated_def)
next
  case (Some e)
  obtain r b where f: "forward_to_upstream_and_wait_ok srv env m (ev_id e) = (r, b)" by fastforce
  show ?thesis
  proof (cases r)
    case (Inl x)
    with Some f show ?thesis
      by (cases "validate_unauthenticated_kind0 L e") (auto simp: handle_unauthenticated_def)
  next
    case (Inr reply)
    with forward_reply_shape f Some show ?thesis
      by (cases "validate_unauthenticated_kind0 L e") (fastforce simp: handle_unauthenticated_def)+
  qed
qed

section \<open>Signed events\<close>

text \<open>
  C18: \<open>auth.Verify\<close> accepts an event exactly when it is a signed kind-22242 event for
  this challenge and this relay (trailing slashes apart) whose time is within the allowed
  age of the clock, before or after; and it returns the key of the event.
\<close>

theorem nip42_verify_exact:
  "auth_verify L e challenge relay_url max_age now = Inr p \<longleftrightarrow>
     ev_kind e = 22242 \<and> nl_check_signature L e = Inr True
     \<and> auth_tag_value (ev_tags e) ''challenge'' = challenge
     \<and> trim_right (CHR ''/'') (auth_tag_value (ev_tags e) ''relay'') = trim_right (CHR ''/'') relay_url
     \<and> now - max_age \<le> event_time e \<and> event_time e \<le> now + max_age \<and> p = ev_pubkey e"
  unfolding auth_verify_Inr nip42_valid_def sig_ok_def auth_event_kind_def normalize_relay_url_for_auth_def
  by (auto simp: abs_le_iff)

text \<open>
  C19: the admin \<open>Authorizer\<close> accepts a request exactly when its Authorization header
  carries a signed kind-27235 event that names the request's absolute URL and (up to case)
  its method, whose time is within the effective age (one minute when none is configured),
  and whose lower-cased key is one of the normalized, non-empty configured keys.
\<close>

theorem admin_request_exact:
  "az_verify_request L (new_authorizer ks age) r now = Inr p \<longleftrightarrow>
     (\<exists>e. event_from_authorization L (hdr_get (rq_header r) ''Authorization'') = Inr e
        \<and> ev_kind e = 27235 \<and> nl_check_signature L e = Inr True
        \<and> tag_value (ev_tags e) ''u'' = absolute_request_url r
        \<and> equal_fold (tag_value (ev_tags e) ''method'') (rq_method r)
        \<and> \<bar>event_time e - now\<bar> \<le> (if age \<le> 0 then minute else age)
        \<and> p = to_lower (ev_pubkey e)) \<and> p \<noteq> [] \<and> p \<in> normalize_pubkey ` set ks"
proof -
  have "az_max_age (new_authorizer ks age) = age" by (simp add: new_authorizer_def)
  then show ?thesis
    unfolding az_verify_request_def az_verify_header_Inr new_authorizer_admins
    by (auto simp: nip98_valid_def sig_ok_def nip98_event_kind_def effective_age_def)
qed

text \<open>
  C20: an authorization event cannot be used twice further apart than two effective ages:
  whenever the same event is accepted at two times, they are at most that far apart.
\<close>

theorem nip98_replay_window:
  "(case verify_nip98_event L e url m age now of Inl _ \<Rightarrow> True | Inr _ \<Rightarrow>
     (case verify_nip98_event L e url m age later of Inl _ \<Rightarrow> True | Inr _ \<Rightarrow>
        \<bar>later - now\<bar> \<le> 2 * effective_age age))"
  using nip98.accepted_not_later [of L e "(url, m, age)" now _ later]
  by (auto split: sum.splits)

section \<open>Opening a session\<close>

text \<open>
  a websocket is only opened for a request without an Origin header, or with one whose
  host is the host the request was sent to (up to case, ports apart).
\<close>

theorem websocket_origin_exact:
  "is_allowed_websocket_origin r \<longleftrightarrow>
     trim_space (hdr_get (rq_header r) ''Origin'') = []
     \<or> (rq_host r \<noteq> [] \<and> (\<exists>o_url r_url. url_parse (trim_space (hdr_get (rq_header r) ''Origin'')) = Some o_url
          \<and> url_parse (''http://'' @ rq_host r) = Some r_url
          \<and> url_hostname o_url \<noteq> [] \<and> to_lower (url_hostname o_url) = to_lower (url_hostname r_url)))"
  unfolding is_allowed_websocket_origin_def Let_def equal_fold_def
  by (auto split: option.splits)

section \<open>The authentication cache\<close>

text \<open>
  C22: the SQLite table refines a map from keys: after any sequence of successful writes to
  an empty table, a lookup answers the last write of that key, and only while it has not
  expired.
\<close>

theorem auth_cache_last_write:
  "get_valid None (fold (\<lambda>(pk, name, v, x) rows. snd (cache_put None pk name v x rows)) ws []) pk now =
     Inr (case map_of (rev ws) pk of
        None \<Rightarrow> None
      | Some (name, v, x) \<Rightarrow>
          if unix_of_time now < unix_of_time x
          then Some \<lparr>en_pubkey = pk, en_username = name, en_expires_at = time_unix (unix_of_time x)\<rparr> else None)"
proof (induction ws rule: rev_induct)
  case Nil
  then show ?case by (simp add: get_valid_def)
next
  case (snoc w ws)
  obtain k n v x where w: "w = (k, n, v, x)" by (cases w)
  have "cache_wf (fold (\<lambda>(pk, name, v, x) rows. snd (cache_put None pk name v x rows)) us [])" for us
    by (induction us rule: rev_induct) (auto simp: cache_wf_def [of "[]"] cache_put_wf split: prod.splits)
  from get_valid_after_put [OF this] snoc show ?case by (simp add: w)
qed

text \<open>
  in every history of starts and writes the table has one row per key, and its summary
  counts each row once, as valid or as expired.
\<close>

theorem auth_cache_summary_partition:
  assumes "reach (\<lambda>db. db = None) cache_step (Some rows)"
  shows "card (cr_pubkey ` set rows) = length rows
     \<and> (case cache_summarize None rows now of Inl _ \<Rightarrow> False
        | Inr s \<Rightarrow> cs_total s = int (card (cr_pubkey ` set rows)) \<and> cs_valid s + cs_expired s = cs_total s)"
proof -
  from acs.inv_reach [OF assms] have "distinct (map cr_pubkey rows)" by (simp add: auth_db_wf_def cache_wf_def)
  then have c: "card (cr_pubkey ` set rows) = length rows"
    using distinct_card [of "map cr_pubkey rows"] by simp
  obtain s where s: "cache_summarize None rows now = Inr s" by (simp add: cache_summarize_def)
  then have "cs_total s = int (length rows)" by (auto simp: cache_summarize_def)
  with c s cache_summary_counts [OF s] show ?thesis by simp
qed

theorem auth_cache_summary_partition_witness:
  "card (cr_pubkey ` set [\<lparr>cr_pubkey = ''k'', cr_username = ''u'', cr_verified_at = 1, cr_expires_at = 2\<rparr>]) = 1"
proof -
  let ?init = "\<lambda>db :: auth_db. db = None"
  have "reach ?init cache_step None" by (rule reach_init) simp
  from reach_step [OF this step_open [of None None None]] have "reach ?init cache_step (Some [])"
    by (simp add: cache_open_def cache_init_def)
  from reach_step [OF this step_put [of "[]" None "''k''" "''u''" second "2 * second"]]
  have "reach ?init cache_step (Some [\<lparr>cr_pubkey = ''k'', cr_username = ''u'', cr_verified_at = 1, cr_expires_at = 2\<rparr>])"
    by (simp add: cache_put_def unix_of_time_def)
  from auth_cache_summary_partition [OF this] show ?thesis by simp
qed

section \<open>Delivery\<close>

text \<open>
  A message that an authenticated client may send: its type can be read, and if it is an EVENT,
  the author read in it is the client's key.
\<close>

definition deliverable :: "string \<Rightarrow> string \<Rightarrow> bool" where
  "deliverable k m \<longleftrightarrow> (case message_type m of None \<Rightarrow> False
     | Some typ \<Rightarrow> \<not> (typ = ''EVENT'' \<and> pubkey_from_event_message m \<noteq> Some k))"

text \<open>
  C34: The gate delivers: while the connections of an authenticated session work, exactly its
  deliverable messages reach the upstream, each once, in the order they were sent and under its
  key, whatever other messages (malformed ones, events of another or an unreadable key) come
  in between; and the session goes on.
\<close>

theorem relay_delivers_in_order:
  assumes "ss_pubkey s = k" "k \<noteq> []" "ss_upstream s \<noteq> None"
    and "list_all (\<lambda>(env, m). we_upstream_write env \<and> we_client_write env) ems"
  shows "ss_forwarded (fst (fold (\<lambda>(env, m). client_message L srv env m) ems (s, sh)))
      = ss_forwarded s @ map (\<lambda>(env, m). (k, m)) (filter (\<lambda>(env, m). deliverable k m) ems)
    \<and> ss_running (fst (fold (\<lambda>(env, m). client_message L srv env m) ems (s, sh))) = ss_running s"
  using assms
proof (induction ems arbitrary: s sh)
  case (Cons em ems)
  obtain env m where em: "em = (env, m)" by (cases em)
  obtain s' sh' where c: "client_message L srv env m (s, sh) = (s', sh')" by (cases "client_message L srv env m (s, sh)")
  have w: "we_upstream_write env" "we_client_write env" using Cons.prems(4) em by simp_all
  have f: "ss_forwarded s' = ss_forwarded s @ (if deliverable k m then [(k, m)] else [])"
      "ss_pubkey s' = k" "ss_upstream s' \<noteq> None" "ss_running s' = ss_running s"
    using c w Cons.prems(1-3)
    by (auto simp: client_message_def deliverable_def write_or_end_def upstream_write_def split: option.splits if_splits)
  from Cons.IH [OF f(2) Cons.prems(2) f(3)] Cons.prems(4) f em c show ?case by simp
qed simp

lemma relay_delivers_in_order_witness:
  "ss_forwarded (fst (fold (\<lambda>(env, m). client_message demo_lib demo_server env m)
      [(demo_env, ''[\"REQ\",\"s\"]''), (demo_env, ''x''), (demo_env, ''[\"CLOSE\",\"s\"]'')]
      (demo_session\<lparr>ss_pubkey := ''k1'', ss_upstream := Some 0\<rparr>, demo_shared)))
   = [(''k1'', ''[\"REQ\",\"s\"]''), (''k1'', ''[\"CLOSE\",\"s\"]'')]"
proof -
  have d: "deliverable ''k1'' ''[\"REQ\",\"s\"]''" "\<not> deliverable ''k1'' ''x''" "deliverable ''k1'' ''[\"CLOSE\",\"s\"]''"
    by code_simp+
  have w: "we_upstream_write demo_env" "we_client_write demo_env" by (simp_all add: demo_env_def)
  have "ss_forwarded demo_session = []" by (simp add: demo_session_def)
  with relay_delivers_in_order [of "demo_session\<lparr>ss_pubkey := ''k1'', ss_upstream := Some 0\<rparr>" "''k1''"
      "[(demo_env, ''[\"REQ\",\"s\"]''), (demo_env, ''x''), (demo_env, ''[\"CLOSE\",\"s\"]'')]" demo_lib demo_server demo_shared]
    d w show ?thesis by simp
qed

end
