(* ===== verification/RelaySessions.thy ===== *)
theory RelaySessions
  imports RelayClaims
begin

text \<open>
  The connections of the sessions of the relay gate: which upstream connections a session
  has open, which of them are copied to the client, and what is left when it ends. The
  well-formedness of a session's connection variables holds in every reachable state.
\<close>

section \<open>Well-formed sessions\<close>

text \<open>
  Connections are numbered in the order they were dialled. The variable \<open>upstream\<close> is the
  newest one; only the newest one is closed when the handler returns.
\<close>

definition connections_wf :: "ws_session \<Rightarrow> bool" where
  "connections_wf s \<longleftrightarrow>
     ss_upstream s = (if ss_dialled s = 0 then None else Some (ss_dialled s - 1))
     \<and> distinct (ss_live s) \<and> set (ss_live s) = {..<(if ss_running s then ss_dialled s else ss_dialled s - 1)}
     \<and> distinct (ss_pipes s) \<and> set (ss_pipes s) \<subseteq> {..<ss_dialled s}"

lemma connections_wf_opened: "open_session up rnd wr r = Some s \<Longrightarrow> connections_wf s"
  by (auto simp: open_session_def connections_wf_def split: if_splits sum.splits)

lemma connections_wf_end: "connections_wf s \<Longrightarrow> ss_running s \<Longrightarrow> connections_wf (end_session s)"
  by (cases "ss_dialled s") (auto simp: connections_wf_def end_session_def)

lemma connections_wf_update [simp]:
  "connections_wf (s\<lparr>ss_to_client := x\<rparr>) = connections_wf s" "connections_wf (s\<lparr>ss_forwarded := f\<rparr>) = connections_wf s"
  "connections_wf (s\<lparr>ss_bootstrap := b\<rparr>) = connections_wf s"
  by (simp_all add: connections_wf_def)

lemma connections_wf_write: "connections_wf s \<Longrightarrow> ss_running s \<Longrightarrow> connections_wf (write_or_end env v s)"
  by (simp add: write_or_end_def connections_wf_end)

lemma connections_wf_pipe: "connections_wf s \<Longrightarrow> connections_wf (pipe_message wr c received s)"
  by (auto simp: pipe_message_def split: option.split) (auto simp: connections_wf_def)

lemma connections_wf_dial:
  fixes p :: string
  assumes "connections_wf s" "ss_running s"
  defines "s1 \<equiv> s\<lparr>ss_upstream := Some (ss_dialled s), ss_pubkey := p, ss_dialled := Suc (ss_dialled s),
     ss_live := ss_dialled s # ss_live s\<rparr>"
  shows "connections_wf s1" "connections_wf (s1\<lparr>ss_to_client := x, ss_pipes := ss_dialled s # ss_pipes s\<rparr>)" "ss_running s1"
  using assms by (auto simp: connections_wf_def)

lemma connections_wf_auth:
  assumes "connections_wf s" "ss_running s" "auth_message L srv env m (s, sh) = (s', sh')"
  shows "connections_wf s'"
  using assms connections_wf_dial [OF assms(1,2)] connections_wf_end [OF connections_wf_dial(1,3) [OF assms(1,2)]]
  by (auto simp: auth_message_def Let_def connections_wf_write split: prod.splits option.splits sum.splits if_splits)

lemma connections_wf_client:
  assumes "connections_wf s" "ss_running s" "client_message L srv env m (s, sh) = (s', sh')"
  shows "connections_wf s'"
proof (cases "ss_pubkey s = [] \<and> message_type m = Some ''AUTH''")
  case True
  with assms show ?thesis using connections_wf_auth [OF assms(1,2)] by (simp add: client_message_def)
next
  case False
  have "connections_wf (upstream_write env m s)"
    using assms by (simp add: upstream_write_def connections_wf_end)
  with False assms show ?thesis
    by (auto simp: client_message_def connections_wf_write split: option.splits prod.splits if_splits)
qed

definition all_wf :: "relay_system \<Rightarrow> bool" where
  "all_wf y \<longleftrightarrow> (\<forall>i s. sy_sessions y i = Some s \<longrightarrow> connections_wf s)"

lemma all_wf_put: "all_wf y \<Longrightarrow> connections_wf s \<Longrightarrow> all_wf (put_session i s y)"
  by (simp add: all_wf_def put_session_def)

interpretation wsc: step_invariant relay_init "ws_step L srv W" all_wf for L srv W
proof
  fix y
  show "relay_init y \<Longrightarrow> all_wf y" by (simp add: relay_init_def all_wf_def)
next
  fix y z
  assume wf: "all_wf y" and "ws_step L srv W y z"
  from this(2) show "all_wf z"
  proof cases
    case (step_connect i up rnd wr r s)
    with wf show ?thesis by (auto intro: all_wf_put connections_wf_opened)
  next
    case (step_client i s env m s' sh')
    with wf connections_wf_client [of s L srv env m "sy_shared y" s' sh'] have "connections_wf s'" by (auto simp: all_wf_def)
    with step_client(1) wf show ?thesis by (simp add: all_wf_def put_session_def)
  next
    case (step_client_gone i s)
    with wf have "connections_wf s" by (simp add: all_wf_def)
    with step_client_gone wf show ?thesis by (simp add: all_wf_put connections_wf_end)
  next
    case (step_pipe i s c wr received)
    with wf have "connections_wf s" by (simp add: all_wf_def)
    with step_pipe wf show ?thesis by (simp add: all_wf_put connections_wf_pipe)
  qed (simp add: all_wf_def)
qed

section \<open>Claims\<close>

text \<open>
  C35: In every reachable state the connection variables of a session fit together: the upstream
  variable is the connection dialled last (and none before the first); a session that runs
  has all its connections open, each once; one that ended has closed the last, so that all
  are closed exactly if it never dialled more than once; and what is copied to the client
  comes from connections of the session. An authenticated session has a connection.
\<close>

theorem relay_session_connections:
  assumes "reach relay_init (ws_step L srv W) y" "sy_sessions y i = Some s"
  shows "ss_upstream s = (if ss_dialled s = 0 then None else Some (ss_dialled s - 1))
    \<and> distinct (ss_live s) \<and> set (ss_live s) = {..<(if ss_running s then ss_dialled s else ss_dialled s - 1)}
    \<and> distinct (ss_pipes s) \<and> set (ss_pipes s) \<subseteq> {..<ss_dialled s}
    \<and> (ss_running s \<or> (ss_live s = [] \<longleftrightarrow> ss_dialled s \<le> 1))
    \<and> (ss_pubkey s = [] \<or> 0 < ss_dialled s)"
proof -
  have wf: "connections_wf s" using wsc.inv_reach [OF assms(1)] assms(2) by (simp add: all_wf_def)
  have "ss_live s = [] \<longleftrightarrow> set (ss_live s) = {}" by simp
  with wf have "ss_running s \<or> (ss_live s = [] \<longleftrightarrow> ss_dialled s \<le> 1)"
    unfolding connections_wf_def by (auto simp: lessThan_empty_iff)
  moreover have "ss_pubkey s = [] \<or> 0 < ss_dialled s"
    using reach_session_ok [OF assms] wf by (auto simp: session_ok_def connections_wf_def split: if_splits)
  ultimately show ?thesis using wf by (simp add: connections_wf_def)
qed

lemma relay_session_connections_witness:
  "ss_upstream (fst demo_authed) = Some 0 \<and> set (ss_live (fst demo_authed)) = {..<1}"
proof -
  have "ss_dialled (fst demo_authed) = 1" "ss_running (fst demo_authed)" by (simp_all add: demo_authed_eq demo_session_def)
  with relay_session_connections [OF demo_reach_authed demo_session_at] show ?thesis by simp
qed

text \<open>The replies of the gate: an \<open>OK\<close>, a \<open>NOTICE\<close> or a \<open>CLOSED\<close>.\<close>

definition is_reply :: "json \<Rightarrow> bool" where
  "is_reply v \<longleftrightarrow> (\<exists>i a t. v = ok_msg i a t) \<or> (\<exists>t. v = notice_msg t) \<or> (\<exists>i t. v = JArr [JStr ''CLOSED'', JStr i, JStr t])"

text \<open>What became of one message: answered, forwarded, or the session ended on a failed write.\<close>

definition handled :: "ws_env \<Rightarrow> string \<Rightarrow> ws_session \<Rightarrow> ws_session \<Rightarrow> bool" where
  "handled env m s t \<longleftrightarrow>
     (ss_running t \<and> (\<exists>v. is_reply v \<and> ss_to_client t = ss_to_client s @ [v]) \<and> ss_forwarded t = ss_forwarded s)
     \<or> (ss_running t \<and> ss_to_client t = ss_to_client s \<and> ss_forwarded t = ss_forwarded s @ [(ss_pubkey s, m)])
     \<or> (\<not> ss_running t \<and> ss_to_client t = ss_to_client s \<and> ss_forwarded t = ss_forwarded s
          \<and> \<not> (we_client_write env \<and> we_upstream_write env))"

lemma is_reply_simps [simp]: "is_reply (ok_msg i a t)" "is_reply (notice_msg t)" "is_reply (JArr [JStr ''CLOSED'', JStr i, JStr t])"
  by (auto simp: is_reply_def)

lemma handled_write: "ss_running s \<Longrightarrow> is_reply v \<Longrightarrow> handled env m s (write_or_end env v s)"
  by (auto simp: handled_def write_or_end_def end_session_def)

lemma handled_write_bootstrap: "ss_running s \<Longrightarrow> is_reply v \<Longrightarrow> handled env m s (write_or_end env v (s\<lparr>ss_bootstrap := b\<rparr>))"
  by (auto simp: handled_def write_or_end_def end_session_def)

lemma handle_unauthenticated_reply: "is_reply (fst (handle_unauthenticated L srv env ty m))"
  by (auto simp: handle_unauthenticated_def split: option.split list.split prod.split sum.split dest!: forward_reply_shape)

lemma handled_auth:
  "ss_running s \<Longrightarrow> auth_message L srv env m (s, sh) = (s', sh') \<Longrightarrow> handled env m s s'"
  by (auto simp: auth_message_def Let_def handled_write split: prod.splits option.splits sum.splits if_splits)
    (auto simp: handled_def end_session_def)

text \<open>
  C14: No message of a client is dropped silently. Each message that a running session of a
  reachable state receives is either answered by exactly one OK, NOTICE or CLOSED, or
  forwarded exactly once under the session's key, with nothing else written; only when the
  connection to the client or to the upstream fails does it end the session instead.
\<close>

theorem relay_handles_every_message:
  assumes "reach relay_init (ws_step L srv W) y" "sy_sessions y i = Some s" "ss_running s"
    and c: "client_message L srv env m (s, sy_shared y) = (s', sh')"
  shows "handled env m s s'"
proof (cases "message_type m")
  case None
  with c assms(3) show ?thesis by (auto simp: client_message_def intro: handled_write)
next
  case (Some ty)
  show ?thesis
  proof (cases "ss_pubkey s = []")
    case True
    show ?thesis
    proof (cases "ty = ''AUTH''")
      case auth: True
      with c Some True have "auth_message L srv env m (s, sy_shared y) = (s', sh')" by (simp add: client_message_def)
      with assms(3) show ?thesis by (rule handled_auth)
    next
      case False
      obtain reply sent where h: "handle_unauthenticated L srv env ty m = (reply, sent)" by fastforce
      then have "is_reply reply" using handle_unauthenticated_reply [of L srv env ty m] by simp
      with c Some True False h assms(3) show ?thesis
        by (auto simp: client_message_def intro: handled_write_bootstrap)
    qed
  next
    case False
    with reach_session_ok [OF assms(1,2)] have "ss_upstream s \<noteq> None" by (simp add: session_ok_def)
    then have "handled env m s (upstream_write env m s)"
      using assms(3) by (auto simp: upstream_write_def handled_def end_session_def)
    with c Some False assms(3) show ?thesis
      by (auto simp: client_message_def handled_write split: if_splits)
  qed
qed

lemma relay_handles_every_message_witness:
  "handled demo_env demo_event_message (fst demo_authed) (fst (demo_say demo_event_message demo_authed))"
proof -
  have "ss_running (fst demo_authed)" by (simp add: demo_authed_eq demo_session_def)
  moreover have "client_message demo_lib demo_server demo_env demo_event_message (fst demo_authed, sy_shared (demo_system demo_authed))
      = (fst (demo_say demo_event_message demo_authed), snd (demo_say demo_event_message demo_authed))"
    by (simp add: demo_say_def demo_system_def)
  ultimately show ?thesis by (rule relay_handles_every_message [OF demo_reach_authed demo_session_at])
qed

end
