(* ===== verification/RelayRefinement.thy ===== *)
theory RelayRefinement
  imports RelaySessions
begin

text \<open>
  What the relay gate promises, as an abstract machine with four rules, and the proof that
  every session of \<open>internal/relay/server.go\<close> implements it, whatever the other sessions
  do. The machine knows no message formats, replies, caches, relays or connections: a
  guest waits, may have profile events published, is admitted under one genuine key, speaks
  under that key, and leaves.
\<close>

section \<open>The abstract gate\<close>

datatype gate = Waiting | Member string | Gone

text \<open>A phase is below another when it can become it.\<close>

instantiation gate :: order
begin

fun less_eq_gate where "g \<le> h \<longleftrightarrow> g = Waiting \<or> h = Gone \<or> g = (h :: gate)"

definition "g < (h :: gate) \<longleftrightarrow> g \<le> h \<and> \<not> h \<le> g"

instance
  by standard (auto simp: less_gate_def)

end

record gate_state =
  gt_challenge :: string
  gt_phase :: gate
  gt_said :: "(string \<times> string) list"
  gt_profiles :: "string list"

definition gate_start :: "gate_state \<Rightarrow> bool" where
  "gate_start v \<longleftrightarrow> gt_phase v = Waiting \<and> gt_said v = [] \<and> gt_profiles v = []"

inductive gate_step :: "nostr_lib \<Rightarrow> relay_server \<Rightarrow> (ws_env \<Rightarrow> bool) \<Rightarrow> gate_state \<Rightarrow> gate_state \<Rightarrow> bool"
  for L :: nostr_lib and srv :: relay_server and W :: "ws_env \<Rightarrow> bool" where
  gate_profile: "gt_phase v = Waiting \<Longrightarrow> bootstrap_ok L m \<Longrightarrow>
     gate_step L srv W v (v\<lparr>gt_profiles := gt_profiles v @ [m]\<rparr>)"
| gate_admit: "gt_phase v = Waiting \<Longrightarrow> k \<noteq> [] \<Longrightarrow> ever_confirmed L srv W k \<Longrightarrow>
     key_signed L srv W (gt_challenge v) k \<Longrightarrow> gate_step L srv W v (v\<lparr>gt_phase := Member k\<rparr>)"
| gate_speak: "gt_phase v = Member k \<Longrightarrow>
     (message_type m = Some ''EVENT'' \<longrightarrow> pubkey_from_event_message m = Some k) \<Longrightarrow>
     gate_step L srv W v (v\<lparr>gt_said := gt_said v @ [(k, m)]\<rparr>)"
| gate_leave: "gt_phase v \<noteq> Gone \<Longrightarrow> gate_step L srv W v (v\<lparr>gt_phase := Gone\<rparr>)"

inductive_cases gate_step_cases: "gate_step L srv W v w"

lemma gate_step_phase: "gate_step L srv W v w \<Longrightarrow> gt_phase v \<le> gt_phase w"
  by (erule gate_step_cases) auto

section \<open>Consequences of the abstract machine\<close>

text \<open>
  In each state everything was said under one genuine key, and nothing before admission; the
  invariant names the key, which the phase \<open>Gone\<close> forgets.
\<close>

definition gate_key_ok :: "nostr_lib \<Rightarrow> relay_server \<Rightarrow> (ws_env \<Rightarrow> bool) \<Rightarrow> gate_state \<Rightarrow> string \<Rightarrow> bool" where
  "gate_key_ok L srv W v k \<longleftrightarrow> k \<noteq> [] \<and> ever_confirmed L srv W k \<and> key_signed L srv W (gt_challenge v) k
     \<and> list_all (forward_ok k) (gt_said v)"

definition gate_inv :: "nostr_lib \<Rightarrow> relay_server \<Rightarrow> (ws_env \<Rightarrow> bool) \<Rightarrow> gate_state \<Rightarrow> bool" where
  "gate_inv L srv W v \<longleftrightarrow> list_all (bootstrap_ok L) (gt_profiles v) \<and>
     (case gt_phase v of
        Waiting \<Rightarrow> gt_said v = []
      | Member k \<Rightarrow> gate_key_ok L srv W v k
      | Gone \<Rightarrow> gt_said v = [] \<or> (\<exists>k. gate_key_ok L srv W v k))"

interpretation gate: step_invariant gate_start "gate_step L srv W" "gate_inv L srv W" for L srv W
proof
  show "gate_inv L srv W v" if "gate_start v" for v
    using that by (simp add: gate_start_def gate_inv_def)
  show "gate_inv L srv W w" if "gate_inv L srv W v" "gate_step L srv W v w" for v w
    using that(2,1)
    by cases (auto simp: gate_inv_def gate_key_ok_def forward_ok_def split: gate.splits)
qed

section \<open>The refinement\<close>

definition gate_of :: "ws_session \<Rightarrow> gate" where
  "gate_of s = (if \<not> ss_running s then Gone else if ss_pubkey s = [] then Waiting else Member (ss_pubkey s))"

definition gate_view :: "ws_session \<Rightarrow> gate_state" where
  "gate_view s = \<lparr>gt_challenge = ss_challenge s, gt_phase = gate_of s, gt_said = ss_forwarded s,
     gt_profiles = ss_bootstrap s\<rparr>"

abbreviation gate_steps :: "nostr_lib \<Rightarrow> relay_server \<Rightarrow> (ws_env \<Rightarrow> bool) \<Rightarrow> gate_state \<Rightarrow> gate_state \<Rightarrow> bool" where
  "gate_steps L srv W \<equiv> (gate_step L srv W)\<^sup>*\<^sup>*"

text \<open>One lemma per operation of the handler: the abstract steps it takes.\<close>

lemma gate_view_end: "ss_running s \<Longrightarrow> gate_step L srv W (gate_view s) (gate_view (end_session s))"
  using gate_leave [of "gate_view s" L srv W] by (simp add: gate_view_def gate_of_def end_session_def)

lemma gate_view_client [simp]:
  "gate_view (s\<lparr>ss_to_client := x\<rparr>) = gate_view s" "gate_view (s\<lparr>ss_pipes := p\<rparr>) = gate_view s"
  by (simp_all add: gate_view_def gate_of_def)

lemma gate_view_write: "ss_running s \<Longrightarrow> gate_steps L srv W (gate_view s) (gate_view (write_or_end env v s))"
  by (simp add: write_or_end_def r_into_rtranclp gate_view_end)

lemma gate_view_pipe [simp]: "gate_view (pipe_message wr c received s) = gate_view s"
  by (auto simp: pipe_message_def split: option.split)

lemma gate_view_upstream:
  assumes "ss_running s" "ss_pubkey s \<noteq> []"
    and "message_type m = Some ''EVENT'' \<Longrightarrow> pubkey_from_event_message m = Some (ss_pubkey s)"
  shows "gate_steps L srv W (gate_view s) (gate_view (upstream_write env m s))"
proof (cases "ss_upstream s = None \<or> \<not> we_upstream_write env")
  case True
  then show ?thesis by (auto simp: upstream_write_def gate_view_end [OF assms(1)] intro: r_into_rtranclp)
next
  case False
  have "gate_step L srv W (gate_view s) ((gate_view s)\<lparr>gt_said := gt_said (gate_view s) @ [(ss_pubkey s, m)]\<rparr>)"
    using assms by (intro gate_speak) (simp_all add: gate_view_def gate_of_def)
  with False show ?thesis by (auto simp: upstream_write_def gate_view_def gate_of_def intro: r_into_rtranclp)
qed

lemma gate_view_bootstrap:
  assumes "ss_running s" "ss_pubkey s = []" "list_all (bootstrap_ok L) sent"
  shows "gate_steps L srv W (gate_view s) (gate_view (s\<lparr>ss_bootstrap := ss_bootstrap s @ sent\<rparr>))"
  using assms(3)
proof (induction sent rule: rev_induct)
  case Nil
  then show ?case by (simp add: gate_view_def gate_of_def)
next
  case (snoc m sent)
  let ?v = "gate_view (s\<lparr>ss_bootstrap := ss_bootstrap s @ sent\<rparr>)"
  have "gate_step L srv W ?v (?v\<lparr>gt_profiles := gt_profiles ?v @ [m]\<rparr>)"
    using snoc.prems assms(1,2) by (intro gate_profile) (simp_all add: gate_view_def gate_of_def)
  with snoc show ?case by (auto simp: gate_view_def gate_of_def intro: rtranclp.rtrancl_into_rtrancl)
qed

lemma gate_view_admit:
  fixes p :: string and u and d and l
  assumes "ss_running s" "ss_pubkey s = []" "p \<noteq> [] \<Longrightarrow> ever_confirmed L srv W p \<and> key_signed L srv W (ss_challenge s) p"
  defines "s1 \<equiv> s\<lparr>ss_upstream := u, ss_pubkey := p, ss_dialled := d, ss_live := l\<rparr>"
  shows "gate_steps L srv W (gate_view s) (gate_view s1)"
proof (cases "p = []")
  case True
  with assms show ?thesis by (simp add: gate_view_def gate_of_def)
next
  case False
  have "gate_step L srv W (gate_view s) ((gate_view s)\<lparr>gt_phase := Member p\<rparr>)"
    using assms False by (intro gate_admit) (simp_all add: gate_view_def gate_of_def)
  with assms False show ?thesis by (auto simp: gate_view_def gate_of_def intro: r_into_rtranclp)
qed

lemma gate_view_auth:
  assumes a: "auth_message L srv env m (s, sh) = (s', sh')" and W: "W env"
    and run: "ss_running s" "ss_pubkey s = []" and g: "cache_good L srv W (sh_cache sh)"
  shows "gate_steps L srv W (gate_view s) (gate_view s')"
proof -
  obtain p i err cache where au: "authenticate L srv env (ss_challenge s) m (sh_cache sh) = ((p, i, err), cache)"
    by (metis prod.collapse)
  define s1 where "s1 = s\<lparr>ss_upstream := Some (ss_dialled s), ss_pubkey := p, ss_dialled := Suc (ss_dialled s),
     ss_live := ss_dialled s # ss_live s\<rparr>"
  have admit: "gate_steps L srv W (gate_view s) (gate_view s1)"
    unfolding s1_def by (rule gate_view_admit [OF run authenticate_good(2) [OF au W g]])
  moreover have "gate_step L srv W (gate_view s1) (gate_view (end_session s1))"
    by (rule gate_view_end) (simp add: s1_def run)
  ultimately have leave: "gate_steps L srv W (gate_view s) (gate_view (end_session s1))" by simp
  show ?thesis
    using a au admit leave
    by (auto simp: auth_message_def Let_def s1_def [symmetric] gate_view_write run split: option.splits sum.splits if_splits)
qed

lemma gate_view_message:
  assumes c: "client_message L srv env m (s, sh) = (s', sh')" and W: "W env"
    and run: "ss_running s" and g: "cache_good L srv W (sh_cache sh)"
  shows "gate_steps L srv W (gate_view s) (gate_view s')"
proof (cases "message_type m")
  case None
  with c run show ?thesis by (auto simp: client_message_def gate_view_write)
next
  case (Some ty)
  consider (auth) "ss_pubkey s = []" "ty = ''AUTH''" | (guest) "ss_pubkey s = []" "ty \<noteq> ''AUTH''"
    | (other) "ss_pubkey s \<noteq> []" "ty = ''EVENT'' \<and> pubkey_from_event_message m \<noteq> Some (ss_pubkey s)"
    | (speak) "ss_pubkey s \<noteq> []" "ty = ''EVENT'' \<longrightarrow> pubkey_from_event_message m = Some (ss_pubkey s)" by blast
  then show ?thesis
  proof cases
    case auth
    with c Some have "auth_message L srv env m (s, sh) = (s', sh')" by (simp add: client_message_def)
    from gate_view_auth [OF this W run auth(1) g] show ?thesis .
  next
    case guest
    obtain reply sent where h: "handle_unauthenticated L srv env ty m = (reply, sent)" by fastforce
    let ?b = "s\<lparr>ss_bootstrap := ss_bootstrap s @ sent\<rparr>"
    have "gate_steps L srv W (gate_view s) (gate_view ?b)"
      by (rule gate_view_bootstrap [OF run guest(1) handle_unauthenticated_sent [OF h Some]])
    moreover have "gate_steps L srv W (gate_view ?b) (gate_view (write_or_end env reply ?b))"
      by (rule gate_view_write) (simp add: run)
    ultimately show ?thesis using c Some guest h by (auto simp: client_message_def)
  next
    case other
    with c Some run show ?thesis by (auto simp: client_message_def gate_view_write)
  next
    case speak
    with c Some have "s' = upstream_write env m s" by (auto simp: client_message_def)
    moreover have "gate_steps L srv W (gate_view s) (gate_view (upstream_write env m s))"
      using speak(2) Some by (intro gate_view_upstream [OF run speak(1)]) simp
    ultimately show ?thesis by simp
  qed
qed

definition session_view :: "nat \<Rightarrow> relay_system \<Rightarrow> gate_state option" where
  "session_view i y = map_option gate_view (sy_sessions y i)"

lemma session_view_put:
  "session_view i (put_session j s y) = (if i = j then Some (gate_view s) else session_view i y)"
  "session_view i (y\<lparr>sy_shared := sh\<rparr>) = session_view i y"
  by (simp_all add: session_view_def put_session_def)

interpretation gate_ref: refinement relay_init "ws_step L srv W" session_view gate_start "gate_step L srv W" for L srv W
proof
  show "session_view i y = None" if "relay_init y" for i y
    using that by (simp add: relay_init_def session_view_def)
next
  fix i y z v
  assume "ws_step L srv W y z" "session_view i y = None" "session_view i z = Some v"
  then show "gate_start v"
  proof cases
    case (step_connect j up rnd wr r s)
    from \<open>session_view i z = Some v\<close> \<open>session_view i y = None\<close> step_connect(1) have "v = gate_view s"
      by (simp add: session_view_put split: if_splits)
    with step_connect(3) show ?thesis
      by (auto simp: open_session_def gate_start_def gate_view_def gate_of_def split: if_splits sum.splits)
  qed (auto simp: session_view_def put_session_def split: if_splits)
next
  fix i y z v
  assume r: "reach relay_init (ws_step L srv W) y" and "ws_step L srv W y z" and v: "session_view i y = Some v"
  from this(2) show "session_view i z = None \<or> (\<exists>w. session_view i z = Some w \<and> gate_steps L srv W v w)"
  proof cases
    case (step_client j s env m s' sh')
    with gate_view_message [OF step_client(5,4,3) reach_cache_good [OF r]] v show ?thesis
      by (auto simp: session_view_def put_session_def)
  next
    case (step_client_gone j s)
    with gate_view_end v show ?thesis
      by (auto simp: session_view_def put_session_def)
  qed (use v in \<open>auto simp: session_view_def put_session_def\<close>)
qed

section \<open>Claims\<close>

text \<open>
  C3: every session of the relay gate is a run of the abstract gate: in a reachable state of
  any number of interleaved sessions, what a session has published as a guest, the key it
  speaks under and all it has forwarded are reached from a fresh gate by steps that publish
  a signed profile, admit one genuine key, forward a message of that key, or leave for good.
  So everything was forwarded under a single key, one that had signed this session's
  challenge and was confirmed.
\<close>

theorem relay_session_refines_gate:
  assumes "reach relay_init (ws_step L srv W) y" "sy_sessions y i = Some s"
  shows "reach gate_start (gate_step L srv W) (gate_view s)
    \<and> (ss_forwarded s = [] \<or> (\<exists>k. gate_key_ok L srv W (gate_view s) k))"
proof -
  from assms(2) have "session_view i y = Some (gate_view s)" by (simp add: session_view_def)
  with gate_ref.refines [OF assms(1)] have r: "reach gate_start (gate_step L srv W) (gate_view s)" by blast
  from gate.inv_reach [OF r] have "gate_inv L srv W (gate_view s)" .
  then have "gt_said (gate_view s) = [] \<or> (\<exists>k. gate_key_ok L srv W (gate_view s) k)"
    by (auto simp: gate_inv_def split: gate.splits)
  with r show ?thesis by (simp add: gate_view_def)
qed

lemma relay_session_refines_gate_witness:
  "\<exists>k. gate_key_ok demo_lib demo_server (\<lambda>e. e = demo_env) (gate_view (fst demo_published)) k"
proof -
  have "ss_forwarded (fst demo_published) \<noteq> []" by (simp add: demo_published_eq)
  with relay_session_refines_gate [OF demo_reach_published demo_session_at] show ?thesis by blast
qed

end
