(* ===== verification/Access.thy ===== *)
theory Access
  imports Nip98 Nip05 Profile
begin

text \<open>
  Access rules, \<open>internal/access/access.go\<close>: who may use a proxied site. A request is
  signed (NIP-98); its public key is then checked against named rules, each a lookup of the
  key's Trustroots name or of an owner's follow list on Nostr relays.
\<close>

section \<open>Rules and the authorizer\<close>

definition rule_trustroots_nip05 :: string where "rule_trustroots_nip05 = ''trustroots_nip05''"
definition rule_nostr_follow :: string where "rule_nostr_follow = ''nostr_follow''"
definition default_relay_url :: string where "default_relay_url = ''wss://nip42.trustroots.org''"
definition nip02_follow_list_kind :: int where "nip02_follow_list_kind = 3"

definition access_public_relays :: "string list" where
  "access_public_relays = [''wss://relay.trustroots.org'', ''wss://relay.nomadwiki.org'']"

record rule =
  rl_type :: string
  rl_relay_url :: string
  rl_relay_urls :: "string list"
  rl_nip05_base_url :: string
  rl_owner_pubkey :: string
  rl_relationship :: string
  rl_deny_pubkeys :: "string set"

record access_authorizer =
  aa_rules :: "string \<Rightarrow> rule option"
  aa_max_age :: duration
  aa_http_client :: http_do
  aa_dial_url :: ws_net
  aa_trustroots_verifier :: "(rule \<Rightarrow> string \<Rightarrow> goerr option) option"
  aa_follow_verifier :: "(rule \<Rightarrow> string \<Rightarrow> goerr option) option"

section \<open>Relays of a rule\<close>

definition rule_relay_url :: "rule \<Rightarrow> string" where
  "rule_relay_url r = (if trim_space (rl_relay_url r) = [] then default_relay_url else trim_space (rl_relay_url r))"

fun unique_relays :: "string list \<Rightarrow> string list \<Rightarrow> string list" where
  "unique_relays seen [] = []"
| "unique_relays seen (candidate # cs) =
     (let trimmed = trim_space candidate;
          key = to_lower trimmed
      in if trimmed = [] then unique_relays seen cs
         else if key \<in> set seen then unique_relays seen cs
         else trimmed # unique_relays (key # seen) cs)"

definition relay_urls_for_rule :: "rule \<Rightarrow> string list" where
  "relay_urls_for_rule r =
     (let candidates = rl_relay_urls r @ (if rl_relay_urls r = [] then [rule_relay_url r] else []) @ access_public_relays;
          out = unique_relays [] candidates
      in if out = [] then [default_relay_url] else out)"

section \<open>Usernames\<close>

definition access_normalize_username :: "string \<Rightarrow> string option" where
  "access_normalize_username username =
     (let u = to_lower (trim_space username) in if rune_count u < 3 then None else Some u)"

fun access_label_tag :: "string list list \<Rightarrow> string option" where
  "access_label_tag [] = None"
| "access_label_tag (tag # tags) =
     (case tag of a # b # c # _ \<Rightarrow>
        if a = ''l'' \<and> c = ''org.trustroots:username'' then Some b else access_label_tag tags
      | _ \<Rightarrow> access_label_tag tags)"

definition access_profile_username :: "(string \<Rightarrow> string) \<Rightarrow> string option" where
  "access_profile_username p =
     (case access_normalize_username (p ''trustrootsUsername'') of
        Some username \<Rightarrow> Some username
      | None \<Rightarrow>
         if has_suffix (to_lower (p ''nip05'')) ''@trustroots.org''
         then access_normalize_username (trim_suffix (to_lower (p ''nip05'')) ''@trustroots.org'')
         else None)"

definition access_username_from_event :: "event \<Rightarrow> string option" where
  "access_username_from_event e =
     (case (if ev_kind e = 10390 then access_label_tag (ev_tags e) else None) of
        Some v \<Rightarrow> access_normalize_username v
      | None \<Rightarrow>
         if ev_kind e = 0 then
           Option.bind (json_parse (ev_content e)) (\<lambda>j.
             Option.bind (unmarshal_struct [''trustrootsUsername'', ''nip05''] j) access_profile_username)
         else None)"

section \<open>Subscriptions\<close>

text \<open>What one message of a subscription is: an error, or an event and whether the stored events ended.\<close>

definition read_subscription_event :: "nostr_lib \<Rightarrow> string \<Rightarrow> string \<Rightarrow> goerr + event \<times> bool" where
  "read_subscription_event L sub_id message =
     (case unmarshal_raws message of None \<Rightarrow> Inr (empty_event, False)
      | Some [] \<Rightarrow> Inr (empty_event, False)
      | Some (r0 # rest) \<Rightarrow> (case unmarshal_string r0 of None \<Rightarrow> Inr (empty_event, False)
        | Some typ \<Rightarrow>
            if typ = ''EVENT'' then
              (case rest of r1 # r2 # _ \<Rightarrow>
                 if unmarshal_string r1 \<noteq> Some sub_id then Inr (empty_event, False)
                 else (case nl_decode_event L r2 of None \<Rightarrow> Inr (empty_event, False) | Some e \<Rightarrow> Inr (e, False))
               | _ \<Rightarrow> Inr (empty_event, False))
            else if typ = ''EOSE'' then Inr (empty_event, True)
            else if typ = ''CLOSED'' then Inl (TextErr ''relay closed access subscription'')
            else Inr (empty_event, False)))"

definition valid_event_author :: "nostr_lib \<Rightarrow> event \<Rightarrow> string \<Rightarrow> bool" where
  "valid_event_author L e pubkey \<longleftrightarrow> equal_fold (ev_pubkey e) pubkey \<and> nl_check_signature L e = Inr True"

definition has_pubkey_tags :: "event \<Rightarrow> bool" where
  "has_pubkey_tags e \<longleftrightarrow>
     list_ex (\<lambda>tag. case tag of a # b # _ \<Rightarrow> a = ''p'' \<and> trim_space b \<noteq> [] | _ \<Rightarrow> False) (ev_tags e)"

definition sub_request :: "string \<Rightarrow> int list \<Rightarrow> string \<Rightarrow> int \<Rightarrow> json" where
  "sub_request sub_id kinds author limit = JArr [JStr ''REQ'', JStr sub_id,
     JObj [(''authors'', JArr [JStr author]), (''kinds'', JArr (map (\<lambda>k. JNum (int_str k)) kinds)),
           (''limit'', JNum (int_str limit))]]"

text \<open>A subscription on one relay: dial, send the request, then read.\<close>

definition on_relay :: "ws_net \<Rightarrow> string \<Rightarrow> json \<Rightarrow> (string \<Rightarrow> string list \<Rightarrow> goerr + 'a) \<Rightarrow> goerr + 'a" where
  "on_relay net relay_url request read_loop =
     (case net relay_url of Inl e \<Rightarrow> Inl (TextErr e)
      | Inr peer \<Rightarrow> (case wp_write_error peer of Some e \<Rightarrow> Inl (TextErr e)
         | None \<Rightarrow> read_loop (wp_read_error peer) (wp_inbox peer (FrameJson request))))"

text \<open>
  The time a relay gets: \<open>relayContext\<close> and the read deadline \<open>deadlineDuration\<close>, as
  functions of what remains of the context's deadline, if it has one.
\<close>

definition per_relay_timeout :: duration where
  "per_relay_timeout = 4 * second"

definition relay_timeout :: "duration option \<Rightarrow> duration" where
  "relay_timeout remaining =
     (case remaining of
        Some d \<Rightarrow> if 0 < d \<and> d < per_relay_timeout then d else per_relay_timeout
      | None \<Rightarrow> per_relay_timeout)"

definition deadline_duration :: "duration option \<Rightarrow> duration" where
  "deadline_duration remaining = (case remaining of Some d \<Rightarrow> if 0 < d then d else 5 * second | None \<Rightarrow> 5 * second)"

text \<open>
  A relay that has been dialled in time is read from for at most what is left of its four
  seconds, and never past the deadline of the request.
\<close>

lemma relay_read_budget:
  assumes "0 \<le> elapsed" "elapsed < relay_timeout remaining"
  shows "0 < deadline_duration (Some (relay_timeout remaining - elapsed))"
    and "deadline_duration (Some (relay_timeout remaining - elapsed)) + elapsed \<le> per_relay_timeout"
    and "remaining = Some d \<Longrightarrow> 0 < d \<Longrightarrow> deadline_duration (Some (relay_timeout remaining - elapsed)) + elapsed \<le> d"
  using assms by (auto simp: deadline_duration_def relay_timeout_def per_relay_timeout_def split: option.splits if_splits)

subsection \<open>Names\<close>

fun access_profile_loop :: "nostr_lib \<Rightarrow> string \<Rightarrow> string \<Rightarrow> string list \<Rightarrow> goerr + string" where
  "access_profile_loop L pubkey read_error [] = Inl (TextErr read_error)"
| "access_profile_loop L pubkey read_error (m # ms) =
     (case read_subscription_event L ''wrapster-access-profile'' m of
        Inl e \<Rightarrow> Inl e
      | Inr (e, done_reading) \<Rightarrow>
          if done_reading then Inl (AccessErr ErrNoTrustrootsName)
          else (case (if valid_event_author L e pubkey then access_username_from_event e else None) of
                 Some username \<Rightarrow> Inr username
               | None \<Rightarrow> access_profile_loop L pubkey read_error ms))"

definition access_username_on_relay :: "nostr_lib \<Rightarrow> ws_net \<Rightarrow> string \<Rightarrow> string \<Rightarrow> goerr + string" where
  "access_username_on_relay L net relay_url pubkey =
     on_relay net relay_url (sub_request ''wrapster-access-profile'' [10390, 0] pubkey 10)
       (access_profile_loop L pubkey)"

text \<open>
  The loops of \<open>findTrustrootsUsername\<close> and \<open>findFollowList\<close> over the relays: the first
  success; otherwise the "not found" error if some relay answered so, else the last error.
\<close>

fun first_relay :: "access_error \<Rightarrow> (string \<Rightarrow> goerr + 'a) \<Rightarrow> string list \<Rightarrow> bool \<Rightarrow> goerr option \<Rightarrow> goerr + 'a" where
  "first_relay nf look [] nf_seen last_err =
     Inl (if nf_seen then AccessErr nf else (case last_err of None \<Rightarrow> AccessErr nf | Some e \<Rightarrow> e))"
| "first_relay nf look (r # rs) nf_seen last_err =
     (case look r of
        Inr x \<Rightarrow> Inr x
      | Inl e \<Rightarrow> first_relay nf look rs (nf_seen \<or> e = AccessErr nf) (Some e))"

definition access_find_username :: "nostr_lib \<Rightarrow> ws_net \<Rightarrow> string list \<Rightarrow> string \<Rightarrow> goerr + string" where
  "access_find_username L net relay_urls pubkey =
     first_relay ErrNoTrustrootsName (\<lambda>r. access_username_on_relay L net r pubkey) relay_urls False None"

subsection \<open>Follow lists\<close>

text \<open>\<open>!has || event.CreatedAt > best.CreatedAt\<close>.\<close>

definition newer :: "event \<Rightarrow> event option \<Rightarrow> bool" where
  "newer e best = (case best of None \<Rightarrow> True | Some b \<Rightarrow> ev_created_at e > ev_created_at b)"

fun follow_list_loop :: "nostr_lib \<Rightarrow> string \<Rightarrow> event option \<Rightarrow> event option \<Rightarrow> string \<Rightarrow> string list \<Rightarrow> goerr + event" where
  "follow_list_loop L owner latest with_contacts read_error [] = Inl (TextErr read_error)"
| "follow_list_loop L owner latest with_contacts read_error (m # ms) =
     (case read_subscription_event L ''wrapster-access-follow'' m of
        Inl e \<Rightarrow> Inl e
      | Inr (e, done_reading) \<Rightarrow>
          if done_reading then
            (case with_contacts of Some x \<Rightarrow> Inr x
             | None \<Rightarrow> (case latest of Some x \<Rightarrow> Inr x | None \<Rightarrow> Inl (AccessErr ErrNoFollowList)))
          else if ev_kind e = nip02_follow_list_kind \<and> valid_event_author L e owner then
            follow_list_loop L owner (if newer e latest then Some e else latest)
              (if has_pubkey_tags e \<and> newer e with_contacts then Some e else with_contacts) read_error ms
          else follow_list_loop L owner latest with_contacts read_error ms)"

definition follow_list_on_relay :: "nostr_lib \<Rightarrow> ws_net \<Rightarrow> string \<Rightarrow> string \<Rightarrow> goerr + event" where
  "follow_list_on_relay L net relay_url owner =
     on_relay net relay_url (sub_request ''wrapster-access-follow'' [nip02_follow_list_kind] owner 25)
       (follow_list_loop L owner None None)"

definition find_follow_list :: "nostr_lib \<Rightarrow> ws_net \<Rightarrow> string list \<Rightarrow> string \<Rightarrow> goerr + event" where
  "find_follow_list L net relay_urls owner =
     first_relay ErrNoFollowList (\<lambda>r. follow_list_on_relay L net r owner) relay_urls False None"

section \<open>Checking rules\<close>

definition check_trustroots_nip05 :: "nostr_lib \<Rightarrow> access_authorizer \<Rightarrow> rule \<Rightarrow> string \<Rightarrow> goerr option" where
  "check_trustroots_nip05 L a r pubkey =
     (case access_find_username L (aa_dial_url a) (relay_urls_for_rule r) pubkey of
        Inl e \<Rightarrow> Some e
      | Inr username \<Rightarrow>
          (let base_url = trim_space (rl_nip05_base_url r)
           in if base_url = [] then Some (TextErr ''trustroots NIP-05 base URL is empty'')
              else fst (nip05_verify (aa_http_client a) base_url username pubkey)))"

definition follows_tag :: "string \<Rightarrow> string list \<Rightarrow> bool" where
  "follows_tag pubkey tag = (case tag of a # b # _ \<Rightarrow> a = ''p'' \<and> equal_fold b pubkey | _ \<Rightarrow> False)"

definition check_owner_follows :: "nostr_lib \<Rightarrow> access_authorizer \<Rightarrow> rule \<Rightarrow> string \<Rightarrow> goerr option" where
  "check_owner_follows L a r pubkey =
     (let owner = to_lower (trim_space (rl_owner_pubkey r))
      in if owner = [] then Some (TextErr ''nostr follow owner pubkey is empty'')
         else (case find_follow_list L (aa_dial_url a) (relay_urls_for_rule r) owner of
            Inl e \<Rightarrow> Some e
          | Inr e \<Rightarrow> if list_ex (follows_tag pubkey) (ev_tags e) then None else Some (AccessErr ErrNotAllowed)))"

definition check_rule :: "nostr_lib \<Rightarrow> access_authorizer \<Rightarrow> string \<Rightarrow> string \<Rightarrow> goerr option" where
  "check_rule L a rule_name pubkey =
     (case aa_rules a rule_name of
        None \<Rightarrow> Some (AccessErr ErrNoRule)
      | Some r \<Rightarrow>
          if to_lower pubkey \<in> rl_deny_pubkeys r then Some (AccessErr ErrDenied)
          else if rl_type r = rule_trustroots_nip05 then
            (case aa_trustroots_verifier a of Some f \<Rightarrow> f r pubkey | None \<Rightarrow> check_trustroots_nip05 L a r pubkey)
          else if rl_type r = rule_nostr_follow then
            (if rl_relationship r \<noteq> [] \<and> rl_relationship r \<noteq> ''owner_follows_user''
             then Some (AccessErr ErrInvalidFollowRule)
             else (case aa_follow_verifier a of Some f \<Rightarrow> f r pubkey | None \<Rightarrow> check_owner_follows L a r pubkey))
          else Some (AccessErr ErrUnsupportedRule))"

definition compact_rule_names :: "string list \<Rightarrow> string list" where
  "compact_rule_names names = filter (\<lambda>n. n \<noteq> []) (map trim_space names)"

definition verified_pubkey :: "nostr_lib \<Rightarrow> access_authorizer \<Rightarrow> http_req \<Rightarrow> go_time \<Rightarrow> goerr + string" where
  "verified_pubkey L a r now =
     bind_res (event_from_authorization L (hdr_get (rq_header r) ''Authorization''))
       (\<lambda>event. verify_nip98_event L event (absolute_request_url r) (rq_method r) (aa_max_age a) now)"

fun any_rule :: "nostr_lib \<Rightarrow> access_authorizer \<Rightarrow> string \<Rightarrow> string list \<Rightarrow> goerr option \<Rightarrow> goerr + string" where
  "any_rule L a pubkey [] last_err = Inl (case last_err of None \<Rightarrow> AccessErr ErrNoRule | Some e \<Rightarrow> e)"
| "any_rule L a pubkey (n # ns) last_err =
     (case check_rule L a n pubkey of None \<Rightarrow> Inr pubkey | Some e \<Rightarrow> any_rule L a pubkey ns (Some e))"

fun all_rules :: "nostr_lib \<Rightarrow> access_authorizer \<Rightarrow> string \<Rightarrow> string list \<Rightarrow> goerr + string" where
  "all_rules L a pubkey [] = Inr pubkey"
| "all_rules L a pubkey (n # ns) =
     (case check_rule L a n pubkey of None \<Rightarrow> all_rules L a pubkey ns | Some e \<Rightarrow> Inl e)"

definition verify_any_request :: "nostr_lib \<Rightarrow> access_authorizer \<Rightarrow> http_req \<Rightarrow> string list \<Rightarrow> go_time \<Rightarrow> goerr + string" where
  "verify_any_request L a r names now =
     bind_res (verified_pubkey L a r now) (\<lambda>pubkey.
       if compact_rule_names names = [] then Inl (AccessErr ErrNoRule)
       else any_rule L a pubkey (compact_rule_names names) None)"

definition verify_all_request :: "nostr_lib \<Rightarrow> access_authorizer \<Rightarrow> http_req \<Rightarrow> string list \<Rightarrow> go_time \<Rightarrow> goerr + string" where
  "verify_all_request L a r names now =
     (if compact_rule_names names = [] then Inl (AccessErr ErrNoRule)
      else bind_res (verified_pubkey L a r now) (\<lambda>pubkey. all_rules L a pubkey (compact_rule_names names)))"

definition access_verify_request :: "nostr_lib \<Rightarrow> access_authorizer \<Rightarrow> http_req \<Rightarrow> string \<Rightarrow> go_time \<Rightarrow> goerr + string" where
  "access_verify_request L a r rule_name now = verify_any_request L a r [rule_name] now"

definition access_check_pubkey :: "nostr_lib \<Rightarrow> access_authorizer \<Rightarrow> string \<Rightarrow> string \<Rightarrow> goerr option" where
  "access_check_pubkey L a rule_name pubkey = check_rule L a rule_name (to_lower (trim_space pubkey))"

definition access_normalize_pubkey :: "nostr_lib \<Rightarrow> string \<Rightarrow> goerr + string" where
  "access_normalize_pubkey L value =
     (let normalized = normalize_pubkey value
      in if normalized = [] then Inr []
         else if \<not> nl_valid_pubkey L normalized
         then Inl (TextErr (''pubkey '' @ value @ '' is not valid hex or npub''))
         else Inr normalized)"

definition access_http_status :: "goerr option \<Rightarrow> int" where
  "access_http_status err = (case err of
     None \<Rightarrow> 200
   | Some e \<Rightarrow>
      if is_admin_error e ErrMissingAuthorization \<or> is_admin_error e ErrWrongScheme
         \<or> is_admin_error e ErrBadEncoding \<or> is_admin_error e ErrWrongKind
         \<or> is_admin_error e ErrBadSignature \<or> is_admin_error e ErrStaleEvent
         \<or> is_admin_error e ErrWrongURL \<or> is_admin_error e ErrWrongMethod
      then 401 else 403)"


section \<open>The relays that are tried\<close>

definition clean_candidate :: "string \<Rightarrow> string option" where
  "clean_candidate c = (if trim_space c = [] then None else Some (trim_space c))"

lemma unique_relays_dedup_on: "unique_relays seen cs = dedup_on to_lower seen (List.map_filter clean_candidate cs)"
  by (induction cs arbitrary: seen) (auto simp: Let_def clean_candidate_def List.map_filter_simps)

interpretation ur: unique_list "unique_relays []" clean_candidate to_lower
  by unfold_locales (rule unique_relays_dedup_on)

lemma public_relays_trimmed: "list_all (\<lambda>r. trim_space r = r \<and> r \<noteq> []) access_public_relays"
  by code_simp

text \<open>The last resort of the code is never needed: the public relays are always candidates.\<close>

lemma relay_urls_for_rule_eq:
  "relay_urls_for_rule r = unique_relays []
     (rl_relay_urls r @ (if rl_relay_urls r = [] then [rule_relay_url r] else []) @ access_public_relays)"
proof -
  let ?c = "rl_relay_urls r @ (if rl_relay_urls r = [] then [rule_relay_url r] else []) @ access_public_relays"
  have "hd access_public_relays \<in> set access_public_relays" by (simp add: access_public_relays_def)
  moreover from this have "clean_candidate (hd access_public_relays) \<noteq> None"
    using public_relays_trimmed unfolding list_all_iff clean_candidate_def by auto
  ultimately have "unique_relays [] ?c \<noteq> []"
    unfolding ur.ul_empty by (metis Un_iff set_append)
  then show ?thesis by (simp add: relay_urls_for_rule_def Let_def)
qed

lemma relay_urls_for_rule_distinct: "distinct (map to_lower (relay_urls_for_rule r))"
  unfolding relay_urls_for_rule_eq by (rule ur.ul_distinct)

lemma relay_urls_for_rule_keys:
  "to_lower ` set (relay_urls_for_rule r) = {to_lower (trim_space c) | c.
     c \<in> set (rl_relay_urls r @ (if rl_relay_urls r = [] then [rule_relay_url r] else []) @ access_public_relays)
       \<and> trim_space c \<noteq> []}"
  unfolding relay_urls_for_rule_eq ur.ul_keys by (auto simp: clean_candidate_def split: if_splits)

section \<open>The two copies of the username rules agree\<close>

lemma access_normalize_username_eq: "access_normalize_username = normalize_username"
  by (rule ext) (simp add: access_normalize_username_def normalize_username_def
      trustroots_username_minimum_rune_count_def)

lemma access_label_tag_eq: "access_label_tag tags = label_tag tags"
  by (induction tags) (auto simp: trustroots_username_label_namespace_def split: list.splits)

lemma access_username_from_event_eq: "access_username_from_event e = trustroots_username_from_event e"
proof -
  have "access_profile_username = profile_username"
    by (rule ext) (simp only: access_profile_username_def profile_username_def
        access_normalize_username_eq nip05_suffix_def)
  then show ?thesis
    by (simp only: access_username_from_event_def trustroots_username_from_event_def access_label_tag_eq
        access_normalize_username_eq content_username_def profile_fields_def trustroots_profile_kind_def)
qed

section \<open>What the lookups establish\<close>

lemma first_relay_Inr: "first_relay nf look rs b e = Inr x \<Longrightarrow> \<exists>r \<in> set rs. look r = Inr x"
  by (induction rs arbitrary: b e) (auto split: sum.splits)

lemma on_relay_Inr:
  "on_relay net url req f = Inr x \<Longrightarrow> \<exists>peer. net url = Inr peer \<and> wp_write_error peer = None
     \<and> f (wp_read_error peer) (wp_inbox peer (FrameJson req)) = Inr x"
  by (auto simp: on_relay_def split: sum.splits option.splits)

lemma access_profile_loop_sound:
  "access_profile_loop L pk re ms = Inr u \<Longrightarrow>
     \<exists>e. valid_event_author L e pk \<and> access_username_from_event e = Some u"
  by (induction ms) (auto split: sum.splits prod.splits if_splits option.splits)

text \<open>A name is only taken from an event that the key itself has signed.\<close>

lemma access_find_username_sound:
  assumes "access_find_username L net rs pk = Inr u"
  shows "\<exists>e. valid_event_author L e pk \<and> access_username_from_event e = Some u"
proof -
  from first_relay_Inr [OF assms [unfolded access_find_username_def]]
  obtain r where "access_username_on_relay L net r pk = Inr u" by blast
  then show ?thesis
    unfolding access_username_on_relay_def by (blast dest: on_relay_Inr access_profile_loop_sound)
qed

subsection \<open>The newest follow list\<close>

text \<open>The events of a subscription before it ends; \<open>None\<close> when it does not end regularly.\<close>

fun stored_events :: "nostr_lib \<Rightarrow> string \<Rightarrow> string list \<Rightarrow> event list option" where
  "stored_events L sub_id [] = None"
| "stored_events L sub_id (m # ms) =
     (case read_subscription_event L sub_id m of
        Inl e \<Rightarrow> None
      | Inr (e, done_reading) \<Rightarrow> if done_reading then Some [] else map_option (\<lambda>es. e # es) (stored_events L sub_id ms))"

definition owner_lists :: "nostr_lib \<Rightarrow> string \<Rightarrow> event list \<Rightarrow> event list" where
  "owner_lists L owner es = filter (\<lambda>e. ev_kind e = nip02_follow_list_kind \<and> valid_event_author L e owner) es"

lemma owner_lists_simps [simp]:
  "owner_lists L owner [] = []"
  "owner_lists L owner (e # es) =
     (if ev_kind e = nip02_follow_list_kind \<and> valid_event_author L e owner then e # owner_lists L owner es
      else owner_lists L owner es)"
  by (simp_all add: owner_lists_def)

text \<open>The first of the newest events of a list.\<close>

definition newest_from :: "event option \<Rightarrow> event list \<Rightarrow> event option" where
  "newest_from best es = foldl (\<lambda>b e. if newer e b then Some e else b) best es"

lemma newest_from_simps [simp]:
  "newest_from b [] = b" "newest_from b (e # es) = newest_from (if newer e b then Some e else b) es"
  by (simp_all add: newest_from_def)

lemma newest_from_best:
  "newest_from b es = Some x \<Longrightarrow>
     (b = Some x \<or> x \<in> set es) \<and> (\<forall>e \<in> set es \<union> set_option b. ev_created_at e \<le> ev_created_at x)"
proof (induction es arbitrary: b)
  case Nil
  then show ?case by simp
next
  case (Cons e es)
  then have ih: "((if newer e b then Some e else b) = Some x \<or> x \<in> set es) \<and>
     (\<forall>y \<in> set es \<union> set_option (if newer e b then Some e else b). ev_created_at y \<le> ev_created_at x)" by simp
  show ?case
  proof (cases "newer e b")
    case True
    with ih show ?thesis by (auto simp: newer_def dest: order_less_imp_le order_trans split: option.splits)
  next
    case False
    with ih show ?thesis by (auto simp: newer_def not_less dest: order_trans split: option.splits)
  qed
qed

lemma newest_from_None: "newest_from b es = None \<longleftrightarrow> b = None \<and> es = []"
  by (induction es arbitrary: b) (auto simp: newer_def split: option.splits)

lemma follow_list_loop_eq:
  "follow_list_loop L owner latest contacts re ms =
     (case stored_events L ''wrapster-access-follow'' ms of
        None \<Rightarrow> follow_list_loop L owner latest contacts re ms
      | Some es \<Rightarrow>
          (case newest_from contacts (filter has_pubkey_tags (owner_lists L owner es)) of
             Some x \<Rightarrow> Inr x
           | None \<Rightarrow> (case newest_from latest (owner_lists L owner es) of
                Some x \<Rightarrow> Inr x | None \<Rightarrow> Inl (AccessErr ErrNoFollowList))))"
proof (induction ms arbitrary: latest contacts)
  case Nil
  then show ?case by simp
next
  case (Cons m ms)
  show ?case
  proof (cases "read_subscription_event L ''wrapster-access-follow'' m")
    case (Inl err)
    then show ?thesis by simp
  next
    case (Inr ed)
    obtain e d where ed: "ed = (e, d)" by fastforce
    show ?thesis
    proof (cases d)
      case True
      with Inr ed show ?thesis by (simp split: option.split)
    next
      case False
      show ?thesis
      proof (cases "stored_events L ''wrapster-access-follow'' ms")
        case None
        with Inr ed False show ?thesis by simp
      next
        case (Some es)
        with Inr ed False Cons.IH show ?thesis
          by (cases "ev_kind e = nip02_follow_list_kind \<and> valid_event_author L e owner"; cases "has_pubkey_tags e")
            (auto cong: option.case_cong)
      qed
    qed
  qed
qed

lemma follow_list_loop_Inr_ends:
  "follow_list_loop L owner latest contacts re ms = Inr x \<Longrightarrow> stored_events L ''wrapster-access-follow'' ms \<noteq> None"
  by (induction ms arbitrary: latest contacts) (auto split: sum.splits prod.splits if_splits)

text \<open>What is chosen: the newest list with contacts, or the newest list if none has contacts.\<close>

definition best_follow_list :: "nostr_lib \<Rightarrow> string \<Rightarrow> event list \<Rightarrow> event \<Rightarrow> bool" where
  "best_follow_list L owner es x \<longleftrightarrow>
     (let ls = owner_lists L owner es;
          cs = filter has_pubkey_tags ls;
          pool = (if cs = [] then ls else cs)
      in x \<in> set pool \<and> list_all (\<lambda>e. ev_created_at e \<le> ev_created_at x) pool)"

lemma follow_list_loop_best:
  assumes "follow_list_loop L owner None None re ms = Inr x"
  shows "\<exists>es. stored_events L ''wrapster-access-follow'' ms = Some es \<and> best_follow_list L owner es x"
proof -
  from follow_list_loop_Inr_ends [OF assms] obtain es where
    es: "stored_events L ''wrapster-access-follow'' ms = Some es" by blast
  let ?ls = "owner_lists L owner es" and ?cs = "filter has_pubkey_tags (owner_lists L owner es)"
  have r: "(case newest_from None ?cs of Some x \<Rightarrow> Inr x
           | None \<Rightarrow> (case newest_from None ?ls of Some x \<Rightarrow> Inr x | None \<Rightarrow> Inl (AccessErr ErrNoFollowList))) = Inr x"
    using follow_list_loop_eq [of L owner None None re ms] es assms by simp
  have "best_follow_list L owner es x"
  proof (cases "newest_from None ?cs")
    case None
    then have "?cs = []" using newest_from_None by blast
    moreover from None r have "newest_from None ?ls = Some x" by (simp split: option.splits)
    from newest_from_best [OF this] have "x \<in> set ?ls \<and> list_all (\<lambda>e. ev_created_at e \<le> ev_created_at x) ?ls"
      by (simp add: list_all_iff)
    ultimately show ?thesis unfolding best_follow_list_def Let_def by (simp only: simp_thms if_True)
  next
    case (Some y)
    with r have "newest_from None ?cs = Some x" by simp
    from newest_from_best [OF this] have c: "x \<in> set ?cs \<and> list_all (\<lambda>e. ev_created_at e \<le> ev_created_at x) ?cs"
      by (simp add: list_all_iff)
    then have "?cs \<noteq> []" by fastforce
    with c show ?thesis unfolding best_follow_list_def Let_def by (simp only: if_False)
  qed
  with es show ?thesis by blast
qed

lemma find_follow_list_sound:
  assumes "find_follow_list L net rs owner = Inr x"
  shows "\<exists>r \<in> set rs. \<exists>peer es. net r = Inr peer
     \<and> stored_events L ''wrapster-access-follow''
          (wp_inbox peer (FrameJson (sub_request ''wrapster-access-follow'' [nip02_follow_list_kind] owner 25))) = Some es
     \<and> best_follow_list L owner es x"
proof -
  from first_relay_Inr [OF assms [unfolded find_follow_list_def]]
  obtain r where r: "r \<in> set rs" "follow_list_on_relay L net r owner = Inr x" by blast
  from on_relay_Inr [OF r(2) [unfolded follow_list_on_relay_def]] obtain peer where
    "net r = Inr peer"
    "follow_list_loop L owner None None (wp_read_error peer)
       (wp_inbox peer (FrameJson (sub_request ''wrapster-access-follow'' [nip02_follow_list_kind] owner 25))) = Inr x" by blast
  with follow_list_loop_best r(1) show ?thesis by blast
qed

lemma best_follow_list_signed:
  "best_follow_list L owner es x \<Longrightarrow> ev_kind x = nip02_follow_list_kind \<and> valid_event_author L x owner"
  by (auto simp: best_follow_list_def owner_lists_def Let_def split: if_splits)

section \<open>What the checks establish\<close>

lemma verified_pubkey_Inr:
  "verified_pubkey L a r now = Inr p \<longleftrightarrow>
     (\<exists>e. event_from_authorization L (hdr_get (rq_header r) ''Authorization'') = Inr e
        \<and> nip98_valid L e (absolute_request_url r) (rq_method r) (aa_max_age a) now
        \<and> p = to_lower (ev_pubkey e))"
  by (auto simp: verified_pubkey_def bind_res_Inr verify_nip98_event_Inr)

lemma any_rule_Inr: "any_rule L a p ns e = Inr q \<longleftrightarrow> q = p \<and> list_ex (\<lambda>n. check_rule L a n p = None) ns"
  by (induction ns arbitrary: e) (auto split: option.splits)

lemma all_rules_Inr: "all_rules L a p ns = Inr q \<longleftrightarrow> q = p \<and> list_all (\<lambda>n. check_rule L a n p = None) ns"
  by (induction ns) (auto split: option.splits)

lemma verify_any_Inr:
  "verify_any_request L a r names now = Inr p \<longleftrightarrow>
     verified_pubkey L a r now = Inr p \<and> list_ex (\<lambda>n. check_rule L a n p = None) (compact_rule_names names)"
  by (auto simp: verify_any_request_def bind_res_Inr any_rule_Inr split: if_splits)

lemma verify_all_Inr:
  "verify_all_request L a r names now = Inr p \<longleftrightarrow>
     compact_rule_names names \<noteq> [] \<and> verified_pubkey L a r now = Inr p
     \<and> list_all (\<lambda>n. check_rule L a n p = None) (compact_rule_names names)"
  by (auto simp: verify_all_request_def bind_res_Inr all_rules_Inr split: if_splits)

text \<open>The deny list wins over every kind of rule.\<close>

lemma check_rule_denied:
  "aa_rules a n = Some r \<Longrightarrow> to_lower p \<in> rl_deny_pubkeys r \<Longrightarrow> check_rule L a n p = Some (AccessErr ErrDenied)"
  by (simp add: check_rule_def)

lemma check_rule_passed:
  assumes "check_rule L a n p = None"
  shows "\<exists>r. aa_rules a n = Some r \<and> to_lower p \<notin> rl_deny_pubkeys r \<and>
     (rl_type r = rule_trustroots_nip05 \<or> rl_type r = rule_nostr_follow)"
  using assms by (auto simp: check_rule_def split: option.splits if_splits)

lemma check_trustroots_nip05_sound:
  assumes "check_trustroots_nip05 L a r p = None"
  shows "\<exists>e u. valid_event_author L e p \<and> access_username_from_event e = Some u
     \<and> nip05_confirms (aa_http_client a) (trim_space (rl_nip05_base_url r)) u p"
proof -
  from assms obtain u where u: "access_find_username L (aa_dial_url a) (relay_urls_for_rule r) p = Inr u"
    and n: "fst (nip05_verify (aa_http_client a) (trim_space (rl_nip05_base_url r)) u p) = None"
    by (auto simp: check_trustroots_nip05_def Let_def split: sum.splits if_splits)
  from access_find_username_sound [OF u] nip05_verify_sound [OF n] show ?thesis by blast
qed

lemma check_owner_follows_sound:
  assumes "check_owner_follows L a r p = None"
  shows "\<exists>x. ev_kind x = nip02_follow_list_kind
     \<and> valid_event_author L x (to_lower (trim_space (rl_owner_pubkey r)))
     \<and> list_ex (follows_tag p) (ev_tags x)
     \<and> find_follow_list L (aa_dial_url a) (relay_urls_for_rule r) (to_lower (trim_space (rl_owner_pubkey r))) = Inr x"
proof -
  from assms obtain x where
    x: "find_follow_list L (aa_dial_url a) (relay_urls_for_rule r) (to_lower (trim_space (rl_owner_pubkey r))) = Inr x"
    "list_ex (follows_tag p) (ev_tags x)"
    by (auto simp: check_owner_follows_def Let_def split: sum.splits if_splits)
  from find_follow_list_sound [OF x(1)] best_follow_list_signed x show ?thesis by blast
qed

lemma access_http_status_401:
  "access_http_status (Some e) = (case e of
     AdminErr s \<Rightarrow> if s = ErrNotAdmin then 403 else 401
   | AdminWrap s _ \<Rightarrow> if s = ErrNotAdmin then 403 else 401
   | _ \<Rightarrow> 403)"
  by (cases e; rule admin_error.exhaust) (auto simp: access_http_status_def is_admin_error_def split: admin_error.splits goerr.splits)

end
