(* ===== verification/Proxy.thy ===== *)
theory Proxy
  imports Access "HOL-Library.AList"
begin

text \<open>
  The generic proxy, \<open>internal/proxy/proxy.go\<close>: configuration, routing by the first path
  segment, cross-origin headers, access rules, forwarding with header, cookie and location
  rewriting, and the status document. The handler returns its response and the requests it
  sent upstream, in order. The target map is an association list.
\<close>

section \<open>Configuration\<close>

record proxy_config =
  pc_prefix :: string
  pc_default_target :: string
  pc_targets :: "(string \<times> string) list"
  pc_allowed_origins :: "string list"
  pc_upstream_timeout :: duration
  pc_max_body_bytes :: int
  pc_access_rules :: "string list"
  pc_target_access_rules :: "(string \<times> string list) list"
  pc_access :: access_authorizer

record proxy =
  px_prefix :: string
  px_default_target :: string
  px_targets :: "(string \<times> string) list"
  px_allowed_origins :: "string list"
  px_upstream_timeout :: duration
  px_max_body_bytes :: int
  px_access_rules :: "string list"
  px_target_access_rules :: "(string \<times> string list) list"
  px_access :: access_authorizer

definition clean_rule_names :: "string list \<Rightarrow> string list" where
  "clean_rule_names names = filter (\<lambda>n. n \<noteq> []) (map trim_space names)"

fun unique_rule_names :: "string list \<Rightarrow> string list \<Rightarrow> string list" where
  "unique_rule_names seen [] = []"
| "unique_rule_names seen (v # vs) =
     (let value = trim_space v
      in if value = [] then unique_rule_names seen vs
         else if value \<in> set seen then unique_rule_names seen vs
         else value # unique_rule_names (value # seen) vs)"

definition append_unique_rule_names :: "string list \<Rightarrow> string list \<Rightarrow> string list" where
  "append_unique_rule_names rules values = unique_rule_names [] (rules @ values)"

definition clean_prefix :: "string \<Rightarrow> string" where
  "clean_prefix pre =
     (let p = trim_right (CHR ''/'') pre
      in if p = [] \<or> p = ''/'' then [] else if \<not> has_prefix p ''/'' then ''/'' @ p else p)"

definition new_proxy :: "proxy_config \<Rightarrow> proxy" where
  "new_proxy c = \<lparr>px_prefix = clean_prefix (pc_prefix c),
     px_default_target = trim_right (CHR ''/'') (pc_default_target c),
     px_targets = map (\<lambda>(k, t). (k, trim_right (CHR ''/'') t)) (pc_targets c),
     px_allowed_origins = pc_allowed_origins c,
     px_upstream_timeout = (if pc_upstream_timeout c \<le> 0 then 15 * second else pc_upstream_timeout c),
     px_max_body_bytes = (if pc_max_body_bytes c \<le> 0 then 10 * 1024 * 1024 else pc_max_body_bytes c),
     px_access_rules = clean_rule_names (pc_access_rules c),
     px_target_access_rules = map (\<lambda>(k, rs). (k, clean_rule_names rs)) (pc_target_access_rules c),
     px_access = pc_access c\<rparr>"

definition allowed_methods :: "string list" where
  "allowed_methods = [''GET'', ''POST'', ''PUT'', ''DELETE'', ''OPTIONS'']"

definition forwarded_headers :: "string list" where
  "forwarded_headers = [''authorization'', ''content-type'', ''accept'', ''cookie'', ''x-grpc-web'', ''x-user-agent'']"

definition allow_headers :: string where
  "allow_headers = ''authorization,content-type,accept,cookie,x-grpc-web,x-user-agent''"

section \<open>Routing\<close>

record proxy_route =
  rt_upstream :: string
  rt_forward_path :: string
  rt_platform :: string
  rt_path_scope :: string
  rt_public_base :: string
  rt_access_rules :: "string list"

definition access_rules_for_target :: "proxy \<Rightarrow> string \<Rightarrow> string list" where
  "access_rules_for_target p platform =
     append_unique_rule_names (px_access_rules p)
       (case map_of (px_target_access_rules p) platform of None \<Rightarrow> [] | Some rs \<Rightarrow> rs)"

definition strip_prefix :: "proxy \<Rightarrow> string \<Rightarrow> string option" where
  "strip_prefix p path =
     (if px_prefix p = [] then Some path
      else if path = px_prefix p then Some ''/''
      else if has_prefix path (px_prefix p @ ''/'') then Some (trim_prefix path (px_prefix p))
      else None)"

definition is_health_path :: "proxy \<Rightarrow> string \<Rightarrow> bool" where
  "is_health_path p path =
     (if px_prefix p = [] then path = ''/healthz'' else path = px_prefix p @ ''/healthz'')"

definition public_path :: "proxy \<Rightarrow> string \<Rightarrow> string" where
  "public_path p path =
     (if px_prefix p = [] then (if path = [] then ''/'' else path)
      else if path = [] \<or> path = ''/'' then px_prefix p
      else px_prefix p @ path)"

definition looks_like_platform :: "string \<Rightarrow> bool" where
  "looks_like_platform segment \<longleftrightarrow>
     segment \<notin> {''api'', ''assets'', ''images'', ''img'', ''static'', ''uploads'', []}"

definition with_query :: "string \<Rightarrow> string \<Rightarrow> string" where
  "with_query forward raw_query = (if raw_query \<noteq> [] then forward @ ''?'' @ raw_query else forward)"

definition first_segment :: "string \<Rightarrow> string" where
  "first_segment trimmed = (case cut (CHR ''/'') trimmed of None \<Rightarrow> trimmed | Some (a, _) \<Rightarrow> a)"

text \<open>The two routes: to a target, with the path after its segment, and to the default target.\<close>

definition target_route :: "proxy \<Rightarrow> string \<Rightarrow> string \<Rightarrow> string \<Rightarrow> string \<Rightarrow> proxy_route" where
  "target_route p raw_query trimmed segment target =
     (let rest = trim_prefix (drop (length segment) trimmed) ''/'';
          forward = (if rest = [] then ''/'' else ''/'' @ rest)
      in \<lparr>rt_upstream = target, rt_forward_path = with_query forward raw_query,
          rt_platform = segment, rt_path_scope = public_path p (''/'' @ segment),
          rt_public_base = public_path p (''/'' @ segment),
          rt_access_rules = access_rules_for_target p segment\<rparr>)"

definition default_route :: "proxy \<Rightarrow> string \<Rightarrow> string \<Rightarrow> proxy_route" where
  "default_route p raw_query path =
     \<lparr>rt_upstream = px_default_target p, rt_forward_path = with_query path raw_query, rt_platform = [],
      rt_path_scope = public_path p [], rt_public_base = public_path p [],
      rt_access_rules = access_rules_for_target p []\<rparr>"

definition proxy_route_of :: "proxy \<Rightarrow> go_url \<Rightarrow> proxy_route option" where
  "proxy_route_of p u =
     (let path0 = escaped_path u
      in (case strip_prefix p (if path0 = [] then ''/'' else path0) of None \<Rightarrow> None
         | Some path \<Rightarrow>
            (let trimmed = trim_prefix path ''/'';
                 segment = first_segment trimmed
             in (case map_of (px_targets p) segment of
                  Some target \<Rightarrow> Some (target_route p (u_raw_query u) trimmed segment target)
                | None \<Rightarrow>
                    if segment \<noteq> [] \<and> looks_like_platform segment then None
                    else if px_default_target p = [] then None
                    else Some (default_route p (u_raw_query u) path)))))"

section \<open>Public assets and embedding\<close>

definition asset_prefixes :: "string list" where
  "asset_prefixes = [''/images/'', ''/image/'', ''/thumb/'', ''/w/images/'', ''/w/image/'', ''/w/thumb/'', ''/static/images/'']"

definition is_public_wiki_asset_request :: "string \<Rightarrow> string \<Rightarrow> bool" where
  "is_public_wiki_asset_request rmethod forward_path =
     (if rmethod \<noteq> ''GET'' \<and> rmethod \<noteq> ''HEAD'' then False
      else (let lp = to_lower forward_path;
                path = (case cut (CHR ''?'') lp of None \<Rightarrow> lp | Some (a, _) \<Rightarrow> a)
            in list_ex (has_prefix path) asset_prefixes))"

definition is_embeddable_content_type :: "string \<Rightarrow> bool" where
  "is_embeddable_content_type content_type =
     (let ct = to_lower (trim_space (hd (split_on (CHR '';'') content_type)))
      in has_prefix ct ''image/'' \<or> has_prefix ct ''font/'' \<or> ct = ''text/css'')"

definition sanitize_embed_headers :: "header \<Rightarrow> string \<Rightarrow> header" where
  "sanitize_embed_headers h content_type =
     (let h' = hdr_del ''Cross-Origin-Opener-Policy'' (hdr_del ''Cross-Origin-Embedder-Policy''
                (hdr_del ''Cross-Origin-Resource-Policy'' h))
      in if is_embeddable_content_type content_type
         then hdr_set ''Cross-Origin-Resource-Policy'' ''cross-origin'' h' else h')"

section \<open>Cross-origin headers\<close>

definition cors_for :: "proxy \<Rightarrow> http_req \<Rightarrow> header \<times> bool" where
  "cors_for p r =
     (let origin = hdr_get (rq_header r) ''Origin'';
          h = hdr_set ''Access-Control-Max-Age'' ''86400''
               (hdr_set ''Access-Control-Expose-Headers'' ''grpc-status,grpc-message''
               (hdr_set ''Access-Control-Allow-Headers'' allow_headers
               (hdr_set ''Access-Control-Allow-Methods'' ''GET,POST,PUT,DELETE,OPTIONS'' no_header)))
      in if origin = [] then (hdr_set ''Access-Control-Allow-Origin'' ''*'' h, True)
         else if px_allowed_origins p \<noteq> [] \<and> origin \<notin> set (px_allowed_origins p) then (h, False)
         else (hdr_set ''Vary'' ''Origin'' (hdr_set ''Access-Control-Allow-Credentials'' ''true''
                (hdr_set ''Access-Control-Allow-Origin'' origin h)), True))"

section \<open>Bodies, locations and cookies\<close>

definition proxy_write_json :: "int \<Rightarrow> header \<Rightarrow> json \<Rightarrow> http_resp" where
  "proxy_write_json status headers body =
     \<lparr>rs_status = status,
      rs_header = hdr_set ''Content-Type'' ''application/json'' (hdr_add_all headers no_header),
      rs_body = BodyJson body\<rparr>"

text \<open>
  \<open>readBody\<close>: at most \<open>max + 1\<close> bytes are read, a sum of 64-bit integers; the reader's
  error is met only if it comes before them. The results are an error, "too large", or the bytes.
\<close>

datatype body_read = BodyError string | BodyTooLarge | BodyRead string

definition read_body :: "string \<times> string option \<Rightarrow> int \<Rightarrow> body_read" where
  "read_body body max_bytes = (case body of (bytes, failure) \<Rightarrow>
     (let limit = wrap64 (max_bytes + 1);
          got = (if limit \<le> 0 then [] else take (nat limit) bytes)
      in case failure of
           Some e \<Rightarrow>
             if 0 < limit \<and> int (length bytes) < limit then BodyError e
             else if int (length got) > max_bytes then BodyTooLarge else BodyRead got
         | None \<Rightarrow> if int (length got) > max_bytes then BodyTooLarge else BodyRead got))"

definition query_suffix :: "go_url \<Rightarrow> string" where
  "query_suffix u = (if u_raw_query u = [] then [] else ''?'' @ u_raw_query u)"

definition rewrite_location :: "string \<Rightarrow> proxy_route \<Rightarrow> string" where
  "rewrite_location location routed =
     (let first = trim_space (hd (split_on (CHR '','') location));
          base = rt_public_base routed
      in if base = [] \<or> (rt_platform routed = [] \<and> base = ''/'') then first
         else (case url_parse first of
            None \<Rightarrow> base @ ''/'' @ trim_prefix first ''/''
          | Some u \<Rightarrow>
             if \<not> url_is_abs u then (if has_prefix first ''/'' then base @ first else base @ ''/'' @ first)
             else base @ escaped_path u @ query_suffix u))"

definition dropped_cookie_attr :: "string \<Rightarrow> bool" where
  "dropped_cookie_attr attr =
     (let lower = to_lower attr
      in lower = [] \<or> has_prefix lower ''domain='' \<or> has_prefix lower ''path=''
         \<or> has_prefix lower ''samesite='' \<or> lower = ''secure'')"

definition rewrite_set_cookie :: "string \<Rightarrow> bool \<Rightarrow> string \<Rightarrow> string" where
  "rewrite_set_cookie path_scope secure_cross_site cookie =
     (let parts = split_on (CHR '';'') cookie;
          attrs = filter (\<lambda>a. \<not> dropped_cookie_attr a) (map trim_space (tl parts));
          scope = (if path_scope = [] then ''/'' else path_scope)
      in join ''; '' (trim_space (hd parts) # attrs @ [''Path='' @ scope]
           @ (if secure_cross_site then [''SameSite=None'', ''Secure''] else [''SameSite=Lax''])))"

definition rewrite_set_cookies :: "string list \<Rightarrow> string \<Rightarrow> bool \<Rightarrow> string list" where
  "rewrite_set_cookies cookies path_scope secure_cross_site =
     map (rewrite_set_cookie path_scope secure_cross_site) cookies"

definition is_https_request :: "http_req \<Rightarrow> bool" where
  "is_https_request r \<longleftrightarrow> rq_tls r \<or> equal_fold (hdr_get (rq_header r) ''X-Forwarded-Proto'') ''https''
     \<or> equal_fold (hdr_get (rq_header r) ''X-Forwarded-Ssl'') ''on''"

definition copy_upstream_header :: "header \<Rightarrow> header \<Rightarrow> string \<Rightarrow> header" where
  "copy_upstream_header dst src name = (if hdr_get src name \<noteq> [] then hdr_set name (hdr_get src name) dst else dst)"

section \<open>Forwarding\<close>

definition is_nostr_authorization :: "string \<Rightarrow> bool" where
  "is_nostr_authorization value =
     (case cut (CHR '' '') (trim_space value) of None \<Rightarrow> False | Some (scheme, _) \<Rightarrow> equal_fold scheme ''Nostr'')"

text \<open>The loop over \<open>forwardedHeaders\<close>.\<close>

fun forward_headers :: "header \<Rightarrow> header \<Rightarrow> string list \<Rightarrow> header" where
  "forward_headers src dst [] = dst"
| "forward_headers src dst (name # names) =
     (let value = hdr_get src name
      in if value = [] then forward_headers src dst names
         else if equal_fold name ''authorization'' \<and> is_nostr_authorization value then forward_headers src dst names
         else forward_headers src (hdr_set name value dst) names)"

text \<open>\<open>SetBasicAuth\<close> from the user part of the target, when it has a password.\<close>

definition inject_basic_auth :: "go_url \<Rightarrow> header \<Rightarrow> header" where
  "inject_basic_auth u h =
     (if hdr_get h ''Authorization'' \<noteq> [] then h
      else (case u_user u of
         Some (name, Some password) \<Rightarrow>
           hdr_set ''Authorization'' (''Basic '' @ base64_encode (name @ '':'' @ password)) h
       | _ \<Rightarrow> h))"

definition gateway_error :: "header \<Rightarrow> string \<Rightarrow> http_resp" where
  "gateway_error cors message =
     proxy_write_json 502 cors (JObj [(''error'', JStr ''gateway_error''), (''message'', JStr message)])"

text \<open>The answer of the upstream as it is passed on.\<close>

definition upstream_answer :: "http_req \<Rightarrow> proxy_route \<Rightarrow> header \<Rightarrow> up_resp \<Rightarrow> http_resp" where
  "upstream_answer r routed cors resp =
     (let uh = up_header resp;
          h1 = copy_upstream_header (copy_upstream_header (copy_upstream_header (copy_upstream_header cors
                 uh ''content-type'') uh ''content-length'') uh ''grpc-status'') uh ''grpc-message'';
          h2 = sanitize_embed_headers h1 (hdr_get uh ''Content-Type'');
          location = hdr_get uh ''location'';
          h3 = (if location \<noteq> [] then hdr_set ''Location'' (rewrite_location location routed) h2 else h2);
          h4 = fold (hdr_add ''Set-Cookie'')
                 (rewrite_set_cookies (hdr_values uh ''Set-Cookie'') (rt_path_scope routed) (is_https_request r)) h3
      in \<lparr>rs_status = up_code resp, rs_header = hdr_add_all h4 no_header, rs_body = BodyBytes (up_body resp)\<rparr>)"

definition proxy_forward :: "proxy \<Rightarrow> http_do \<Rightarrow> http_req \<Rightarrow> proxy_route \<Rightarrow> header \<Rightarrow> http_resp \<times> out_req list" where
  "proxy_forward p transport r routed cors =
     (case (case rq_body r of
              Some b \<Rightarrow> if rq_method r \<noteq> ''GET'' then read_body b (px_max_body_bytes p) else BodyRead []
            | None \<Rightarrow> BodyRead []) of
        BodyError e \<Rightarrow>
          (proxy_write_json 400 cors (JObj [(''error'', JStr ''invalid_body''), (''message'', JStr e)]), [])
      | BodyTooLarge \<Rightarrow> (proxy_write_json 413 cors (json_err ''body_too_large''), [])
      | BodyRead bytes \<Rightarrow>
          (let url = rt_upstream routed @ rt_forward_path routed
           in (case url_parse url of
                None \<Rightarrow> (gateway_error cors (url_parse_error url), [])
              | Some u \<Rightarrow>
                  (let q = \<lparr>oq_method = rq_method r, oq_url = url,
                            oq_header = inject_basic_auth u (forward_headers (rq_header r) no_header forwarded_headers),
                            oq_body = (if bytes = [] then None else Some bytes)\<rparr>
                   in (case transport q of
                        Inl e \<Rightarrow> (gateway_error cors (client_error q e), [q])
                      | Inr resp \<Rightarrow> (upstream_answer r routed cors resp, [q]))))))"

section \<open>Status\<close>

definition redact_url_userinfo :: "string \<Rightarrow> string" where
  "redact_url_userinfo raw = (case url_parse raw of
     None \<Rightarrow> raw
   | Some u \<Rightarrow> if u_user u = None then raw else url_string (u\<lparr>u_user := None\<rparr>))"

definition redact_target_error :: "string \<Rightarrow> string \<Rightarrow> string" where
  "redact_target_error target err =
     (let safe = redact_url_userinfo target
      in if safe = target then err
         else (let m1 = replace_all target safe err
               in (case url_parse target of
                    Some u \<Rightarrow> (case u_user u of
                       Some (name, Some _) \<Rightarrow>
                         replace_all (u_scheme u @ ''://'' @ name @ '':***@'' @ u_host u) safe
                           (replace_all (url_string (u\<lparr>u_user := Some (name, Some ''***'')\<rparr>)) safe m1)
                     | _ \<Rightarrow> m1)
                  | None \<Rightarrow> m1)))"

record target_check =
  tc_url :: string
  tc_ok :: bool
  tc_status :: int
  tc_error :: string

definition head_request :: "string \<Rightarrow> out_req" where
  "head_request url = \<lparr>oq_method = ''HEAD'', oq_url = url, oq_header = no_header, oq_body = None\<rparr>"

definition check_target :: "http_do \<Rightarrow> string \<Rightarrow> target_check" where
  "check_target transport target =
     (case url_parse target of
        None \<Rightarrow> \<lparr>tc_url = redact_url_userinfo target, tc_ok = False, tc_status = 0,
                 tc_error = redact_target_error target (url_parse_error target)\<rparr>
      | Some _ \<Rightarrow>
         (case transport (head_request target) of
            Inl e \<Rightarrow> \<lparr>tc_url = redact_url_userinfo target, tc_ok = False, tc_status = 0,
                      tc_error = redact_target_error target (client_error (head_request target) e)\<rparr>
          | Inr resp \<Rightarrow> \<lparr>tc_url = redact_url_userinfo target, tc_ok = up_code resp < 500,
                         tc_status = up_code resp, tc_error = []\<rparr>))"

definition target_checks :: "proxy \<Rightarrow> http_do \<Rightarrow> (string \<times> target_check) list" where
  "target_checks p transport =
     (let checks = map (\<lambda>(k, t). (k, check_target transport t)) (px_targets p)
      in if px_default_target p \<noteq> []
         then AList.update ''default'' (check_target transport (px_default_target p)) checks else checks)"

definition target_check_json :: "target_check \<Rightarrow> json" where
  "target_check_json c = JObj ([(''url'', JStr (tc_url c)), (''ok'', JBool (tc_ok c))]
     @ (if tc_status c = 0 then [] else [(''status'', JNum (int_str (tc_status c)))])
     @ (if tc_error c = [] then [] else [(''error'', JStr (tc_error c))]))"

definition proxy_status :: "proxy \<Rightarrow> http_do \<Rightarrow> (string \<times> json) list" where
  "proxy_status p transport =
     (let checks = target_checks p transport;
          default_ok = (case map_of checks ''default'' of None \<Rightarrow> False | Some c \<Rightarrow> tc_ok c)
      in [(''service'', JStr ''generic-proxy''), (''prefix'', JStr (px_prefix p)),
          (''targets'', JObj (map (\<lambda>(k, t). (k, JStr (redact_url_userinfo t))) (px_targets p))),
          (''target_health'', JObj (map (\<lambda>(k, c). (k, target_check_json c)) checks)),
          (''default_target_enabled'', JBool (px_default_target p \<noteq> [])),
          (''default_target'', JObj [(''url'', JStr (redact_url_userinfo (px_default_target p))), (''ok'', JBool default_ok)]),
          (''allowed_origins_configured'', JNum (int_str (int (length (remdups (px_allowed_origins p)))))),
          (''max_body_bytes'', JNum (int_str (px_max_body_bytes p))),
          (''upstream_timeout'', JStr (duration_str (px_upstream_timeout p)))])"

definition proxy_health :: "proxy \<Rightarrow> http_do \<Rightarrow> header \<Rightarrow> http_resp" where
  "proxy_health p transport cors = proxy_write_json 200 cors (JObj (proxy_status p transport))"

section \<open>The handler\<close>

definition proxy_serve :: "nostr_lib \<Rightarrow> proxy \<Rightarrow> http_do \<Rightarrow> http_req \<Rightarrow> go_time \<Rightarrow> http_resp \<times> out_req list" where
  "proxy_serve L p transport r now =
     (case cors_for p r of (cors, cors_allowed) \<Rightarrow>
        if is_health_path p (u_path (rq_url r)) then
          (proxy_health p transport cors,
           map head_request (filter (\<lambda>t. url_parse t \<noteq> None)
             (map snd (px_targets p) @ (if px_default_target p \<noteq> [] then [px_default_target p] else []))))
        else if rq_method r = ''OPTIONS'' then
          (if \<not> cors_allowed then (proxy_write_json 403 cors (json_err ''origin_not_allowed''), [])
           else (\<lparr>rs_status = 204, rs_header = hdr_add_all cors no_header, rs_body = BodyEmpty\<rparr>, []))
        else if \<not> cors_allowed then (proxy_write_json 403 cors (json_err ''origin_not_allowed''), [])
        else if rq_method r \<notin> set allowed_methods then
          (proxy_write_json 405 (hdr_set ''Allow'' ''GET,POST,PUT,DELETE,OPTIONS'' cors) (json_err ''method_not_allowed''), [])
        else (case proxy_route_of p (rq_url r) of
            None \<Rightarrow> (proxy_write_json 404 cors (json_err ''no_upstream''), [])
          | Some routed \<Rightarrow>
             (case (if rt_access_rules routed \<noteq> [] \<and> \<not> is_public_wiki_asset_request (rq_method r) (rt_forward_path routed)
                    then verify_all_request L (px_access p) r (rt_access_rules routed) now else Inr []) of
                Inl err \<Rightarrow> (proxy_write_json (access_http_status (Some err)) cors (json_err (error_text err)), [])
              | Inr _ \<Rightarrow> proxy_forward p transport r routed cors)))"


section \<open>Rule names\<close>

definition clean_rule_name :: "string \<Rightarrow> string option" where
  "clean_rule_name v = (if trim_space v = [] then None else Some (trim_space v))"

lemma unique_rule_names_dedup_on: "unique_rule_names seen vs = dedup_on id seen (List.map_filter clean_rule_name vs)"
  by (induction vs arbitrary: seen) (auto simp: Let_def clean_rule_name_def List.map_filter_simps)

interpretation un: unique_list "unique_rule_names []" clean_rule_name id
  by unfold_locales (rule unique_rule_names_dedup_on)

lemma append_unique_rule_names_set:
  "set (append_unique_rule_names rs vs) = {trim_space v | v. v \<in> set rs \<union> set vs \<and> trim_space v \<noteq> []}"
  using un.ul_keys [of "rs @ vs"]
  by (auto simp: append_unique_rule_names_def clean_rule_name_def split: if_splits)

lemma append_unique_rule_names_distinct: "distinct (append_unique_rule_names rs vs)"
  using un.ul_distinct [of "rs @ vs"] by (simp add: append_unique_rule_names_def)

section \<open>The route of a request\<close>

lemma with_query_prefix: "has_prefix f ''/'' \<Longrightarrow> has_prefix (with_query f q) ''/''"
  by (auto simp: with_query_def has_prefix_def)

lemma strip_prefix_absolute:
  assumes "strip_prefix p path = Some q" "has_prefix path ''/''"
  shows "has_prefix q ''/''"
  using assms by (auto simp: strip_prefix_def has_prefix_def trim_prefix_def prefix_def split: if_splits)

text \<open>Where a request goes: to the target of its first segment, or to the default target.\<close>

lemma proxy_route_of_cases:
  assumes "proxy_route_of p u = Some rt"
  obtains
    (target) "map_of (px_targets p) (rt_platform rt) = Some (rt_upstream rt)" "has_prefix (rt_forward_path rt) ''/''"
      "rt_access_rules rt = access_rules_for_target p (rt_platform rt)"
  | (default) path where "rt_upstream rt = px_default_target p" "px_default_target p \<noteq> []" "rt_platform rt = []"
      "strip_prefix p (if escaped_path u = [] then ''/'' else escaped_path u) = Some path"
      "rt_forward_path rt = with_query path (u_raw_query u)"
      "rt_access_rules rt = access_rules_for_target p (rt_platform rt)"
proof -
  from assms obtain path where path:
    "strip_prefix p (if escaped_path u = [] then ''/'' else escaped_path u) = Some path"
    by (auto simp: proxy_route_of_def Let_def split: option.splits)
  let ?trimmed = "trim_prefix path ''/''"
  show thesis
  proof (cases "map_of (px_targets p) (first_segment ?trimmed)")
    case (Some t)
    with assms path have "rt = target_route p (u_raw_query u) ?trimmed (first_segment ?trimmed) t"
      by (simp add: proxy_route_of_def Let_def)
    with Some show thesis
      by (intro target) (auto simp: target_route_def Let_def intro!: with_query_prefix, simp_all add: has_prefix_def)
  next
    case None
    with assms path have "rt = default_route p (u_raw_query u) path" "px_default_target p \<noteq> []"
      by (simp_all add: proxy_route_of_def Let_def split: if_split_asm)
    with path show thesis by (intro default [of path]) (simp_all add: default_route_def)
  qed
qed

section \<open>Headers sent upstream\<close>

lemma forward_headers_other:
  "k \<notin> to_lower ` set ns \<Longrightarrow> forward_headers src dst ns k = dst k"
  by (induction ns arbitrary: dst) (auto simp: Let_def hdr_set_def)

lemma forward_headers_values:
  assumes "to_lower k = k"
  shows "forward_headers src dst ns k = dst k \<or>
     (forward_headers src dst ns k = [hdr_get src k] \<and> \<not> (k = ''authorization'' \<and> is_nostr_authorization (hdr_get src k)))"
proof (induction ns arbitrary: dst)
  case Nil
  then show ?case by simp
next
  case (Cons n ns)
  show ?case
  proof (cases "hdr_get src n = [] \<or> (equal_fold n ''authorization'' \<and> is_nostr_authorization (hdr_get src n))")
    case True
    then have "forward_headers src dst (n # ns) = forward_headers src dst ns" by (auto simp: Let_def)
    with Cons.IH show ?thesis by simp
  next
    case False
    then have e: "forward_headers src dst (n # ns) = forward_headers src (hdr_set n (hdr_get src n) dst) ns"
      by (auto simp: Let_def)
    show ?thesis
    proof (cases "to_lower n = k")
      case True
      then have g: "hdr_get src n = hdr_get src k" using assms by (simp add: hdr_get_def)
      have "\<not> (k = ''authorization'' \<and> is_nostr_authorization (hdr_get src k))"
        using False True g assms by (auto simp: equal_fold_def)
      moreover have "hdr_set n (hdr_get src n) dst k = [hdr_get src k]"
        by (simp add: hdr_set_def True [symmetric]) (simp add: True g)
      ultimately show ?thesis
        using Cons.IH [of "hdr_set n (hdr_get src n) dst"] unfolding e by metis
    next
      case False
      then have "hdr_set n (hdr_get src n) dst k = dst k" by (simp add: hdr_set_def)
      with Cons.IH [of "hdr_set n (hdr_get src n) dst"] show ?thesis unfolding e by metis
    qed
  qed
qed

lemma basic_not_nostr: "\<not> is_nostr_authorization (''Basic '' @ x)"
proof -
  have s: "trim_space (''Basic '' @ x) = ''Basic'' @ rdropWhile is_space (CHR '' '' # x)" (is "_ = _ @ ?r")
  proof -
    have d: "dropWhile is_space (''Basic '' @ x) = ''Basic '' @ x" by (simp add: is_space_def)
    have "rdropWhile is_space (''Basic'' @ y) = ''Basic'' @ rdropWhile is_space y" for y
      by (induction y rule: rev_induct) (simp_all add: rdropWhile_id is_space_def flip: append_assoc append_Cons)
    from this [of "CHR '' '' # x"] show ?thesis unfolding trim_space_def d by simp
  qed
  show ?thesis
  proof
    assume "is_nostr_authorization (''Basic '' @ x)"
    then obtain a b where c: "cut (CHR '' '') (''Basic'' @ ?r) = Some (a, b)" "equal_fold a ''Nostr''"
      unfolding is_nostr_authorization_def s by (auto split: option.splits)
    have "cut (CHR '' '') (''Basic'' @ y) = map_option (\<lambda>(a, b). (''Basic'' @ a, b)) (cut (CHR '' '') y)" for y
      by (cases "cut (CHR '' '') y") auto
    with c(1) obtain a' where "a = ''Basic'' @ a'" by auto
    with c(2) show False by (simp add: equal_fold_def to_lower_def char_lower_def)
  qed
qed

text \<open>Whatever passes as a signed authorization is recognized as one, and so never sent on.\<close>

lemma event_from_authorization_nostr:
  "event_from_authorization L h = Inr e \<Longrightarrow> is_nostr_authorization h"
  by (auto simp: event_from_authorization_def is_nostr_authorization_def Let_def split: option.splits if_splits)

text \<open>The header names the proxy sends: the six forwarded ones.\<close>

definition sent_headers :: "go_url \<Rightarrow> header \<Rightarrow> header" where
  "sent_headers u src = inject_basic_auth u (forward_headers src no_header forwarded_headers)"

lemma forwarded_headers_lower: "map to_lower forwarded_headers = forwarded_headers"
  by code_simp

lemma sent_headers_names:
  assumes "k \<notin> set forwarded_headers" shows "sent_headers u src k = []"
proof -
  have "to_lower ` set forwarded_headers = set forwarded_headers"
    using forwarded_headers_lower by (metis list.set_map)
  with assms have f: "forward_headers src no_header forwarded_headers k = []"
    by (simp add: forward_headers_other no_header_def)
  have "k \<noteq> to_lower ''Authorization''"
  proof -
    have "to_lower ''Authorization'' = ''authorization''" by code_simp
    then show ?thesis using assms by (auto simp: forwarded_headers_def)
  qed
  with f show ?thesis
    by (auto simp: sent_headers_def inject_basic_auth_def hdr_set_def split: option.splits prod.splits)
qed

lemma sent_headers_authorization: "\<not> is_nostr_authorization (hdr_get (sent_headers u src) ''Authorization'')"
proof -
  have l: "to_lower ''Authorization'' = ''authorization''" "to_lower ''authorization'' = ''authorization''" by code_simp+
  have nil: "\<not> is_nostr_authorization []" by (simp add: is_nostr_authorization_def)
  let ?f = "forward_headers src no_header forwarded_headers"
  have f: "\<not> is_nostr_authorization (hdr_get ?f ''Authorization'')"
    using forward_headers_values [OF l(2), of src no_header forwarded_headers]
    unfolding hdr_get_def [of ?f] l by (auto simp: no_header_def nil)
  then show ?thesis
    using basic_not_nostr by (auto simp: sent_headers_def inject_basic_auth_def split: option.splits prod.splits)
qed

text \<open>A signed authorization leaves no trace: what is sent is the target's own credential or nothing.\<close>

lemma sent_headers_signed:
  assumes "is_nostr_authorization (hdr_get src ''Authorization'')"
  shows "hdr_get (sent_headers u src) ''Authorization'' = (case u_user u of
     Some (name, Some password) \<Rightarrow> ''Basic '' @ base64_encode (name @ '':'' @ password) | _ \<Rightarrow> [])"
proof -
  have l: "to_lower ''Authorization'' = ''authorization''" "to_lower ''authorization'' = ''authorization''" by code_simp+
  have g: "hdr_get src ''Authorization'' = hdr_get src ''authorization''" by (simp add: hdr_get_def l)
  have "forward_headers src no_header forwarded_headers ''authorization'' = []"
    using forward_headers_values [OF l(2), of src no_header forwarded_headers] assms g l
    by (auto simp: no_header_def)
  then have "hdr_get (forward_headers src no_header forwarded_headers) ''Authorization'' = []"
    by (simp add: hdr_get_def l)
  then show ?thesis
    by (auto simp: sent_headers_def inject_basic_auth_def split: option.splits prod.splits)
qed

section \<open>What is sent\<close>

lemma proxy_forward_sent:
  assumes "q \<in> set (snd (proxy_forward p transport r routed cors))"
  shows "snd (proxy_forward p transport r routed cors) = [q] \<and> oq_method q = rq_method r
     \<and> oq_url q = rt_upstream routed @ rt_forward_path routed
     \<and> (\<exists>u. url_parse (oq_url q) = Some u \<and> oq_header q = sent_headers u (rq_header r))"
  using assms
  by (auto simp: proxy_forward_def Let_def sent_headers_def split: body_read.splits option.splits sum.splits)

text \<open>The guard of the handler: origin, method, route and rules, in this order.\<close>

definition proxy_guard :: "nostr_lib \<Rightarrow> proxy \<Rightarrow> http_req \<Rightarrow> go_time \<Rightarrow> int + proxy_route" where
  "proxy_guard L p r now =
     (if rq_method r = ''OPTIONS'' then Inl 204
      else if \<not> snd (cors_for p r) then Inl 403
      else if rq_method r \<notin> set allowed_methods then Inl 405
      else (case proxy_route_of p (rq_url r) of None \<Rightarrow> Inl 404
        | Some routed \<Rightarrow>
           if rt_access_rules routed = [] \<or> is_public_wiki_asset_request (rq_method r) (rt_forward_path routed)
           then Inr routed
           else (case verify_all_request L (px_access p) r (rt_access_rules routed) now of
              Inl err \<Rightarrow> Inl (access_http_status (Some err))
            | Inr _ \<Rightarrow> Inr routed)))"

lemma proxy_serve_guard:
  assumes "\<not> is_health_path p (u_path (rq_url r))"
  shows "case proxy_guard L p r now of
     Inl code \<Rightarrow> snd (proxy_serve L p transport r now) = []
       \<and> (rq_method r \<noteq> ''OPTIONS'' \<longrightarrow> rs_status (fst (proxy_serve L p transport r now)) = code)
   | Inr routed \<Rightarrow> proxy_serve L p transport r now = proxy_forward p transport r routed (fst (cors_for p r))"
proof -
  obtain cors ok where c: "cors_for p r = (cors, ok)" by fastforce
  show ?thesis
  proof (cases "rq_method r = ''OPTIONS'' \<or> \<not> ok \<or> rq_method r \<notin> set allowed_methods")
    case True
    with assms c show ?thesis
      by (auto simp: proxy_guard_def proxy_serve_def proxy_write_json_def)
  next
    case False
    show ?thesis
    proof (cases "proxy_route_of p (rq_url r)")
      case None
      with assms c False show ?thesis by (simp add: proxy_guard_def proxy_serve_def proxy_write_json_def)
    next
      case (Some routed)
      let ?open = "rt_access_rules routed = [] \<or> is_public_wiki_asset_request (rq_method r) (rt_forward_path routed)"
      show ?thesis
      proof (cases ?open)
        case True
        with assms c False Some show ?thesis by (auto simp: proxy_guard_def proxy_serve_def)
      next
        case rules: False
        with assms c False Some show ?thesis
          by (cases "verify_all_request L (px_access p) r (rt_access_rules routed) now")
            (simp_all add: proxy_guard_def proxy_serve_def proxy_write_json_def)
      qed
    qed
  qed
qed

interpretation pg: guarded
  "\<lambda>(L, p, transport, r, now). \<not> is_health_path p (u_path (rq_url r))"
  "\<lambda>(L, p, transport, r, now). proxy_guard L p r now"
  "\<lambda>(L, p, transport, r, now). proxy_serve L p transport r now"
proof
  fix x :: "nostr_lib \<times> proxy \<times> http_do \<times> http_req \<times> go_time" and e
  obtain L p t r now where x: "x = (L, p, t, r, now)" by (cases x)
  assume "case x of (L, p, transport, r, now) \<Rightarrow> \<not> is_health_path p (u_path (rq_url r))"
    and "(case x of (L, p, transport, r, now) \<Rightarrow> proxy_guard L p r now) = Inl e"
  with proxy_serve_guard [of p r L t now] show "snd (case x of (L, p, transport, r, now) \<Rightarrow> proxy_serve L p transport r now) = []"
    by (simp add: x)
qed

lemma proxy_guard_Inr:
  assumes "proxy_guard L p r now = Inr routed"
  shows "proxy_route_of p (rq_url r) = Some routed \<and> snd (cors_for p r) \<and> rq_method r \<in> set allowed_methods
     \<and> rq_method r \<noteq> ''OPTIONS''
     \<and> (if rt_access_rules routed = [] \<or> is_public_wiki_asset_request (rq_method r) (rt_forward_path routed) then True
        else \<exists>pk. verify_all_request L (px_access p) r (rt_access_rules routed) now = Inr pk)"
  using assms by (auto simp: proxy_guard_def split: if_split_asm option.split_asm sum.split_asm)

end
