(* ===== verification/ProxyClaims.thy ===== *)
theory ProxyClaims
  imports Proxy
begin

text \<open>The properties of the access rules and of the generic proxy, each with a concrete instance.\<close>

section \<open>Access rules\<close>

text \<open>
  C11: \<open>VerifyAllRequest\<close> succeeds exactly when at least one rule is named, the request is
  signed by the key it returns, and every named rule admits that key; \<open>VerifyAnyRequest\<close>
  when one of the named rules does.
\<close>

theorem access_verify_exact:
  "(verify_all_request L a r names now = Inr p \<longleftrightarrow>
      compact_rule_names names \<noteq> [] \<and> verified_pubkey L a r now = Inr p
      \<and> list_all (\<lambda>n. check_rule L a n p = None) (compact_rule_names names))
   \<and> (verify_any_request L a r names now = Inr p \<longleftrightarrow>
      verified_pubkey L a r now = Inr p \<and> list_ex (\<lambda>n. check_rule L a n p = None) (compact_rule_names names))"
  by (simp add: verify_all_Inr verify_any_Inr)

text \<open>
  C7: without injected verifiers, a rule admits a key only if the rule exists and does not
  deny the key; a Trustroots rule then only if the key itself signed a profile event with a
  name that the rule's NIP-05 server maps to the key; a follow rule only if a follow list
  signed by the owner, the newest with contacts that one of the relays stores, lists the key.
\<close>

theorem access_rule_sound:
  assumes c: "check_rule L a n p = None" and v: "aa_trustroots_verifier a = None" "aa_follow_verifier a = None"
  shows "\<exists>r. aa_rules a n = Some r \<and> to_lower p \<notin> rl_deny_pubkeys r \<and>
     (if rl_type r = ''trustroots_nip05''
      then \<exists>e u. valid_event_author L e p \<and> trustroots_username_from_event e = Some u
             \<and> nip05_confirms (aa_http_client a) (trim_space (rl_nip05_base_url r)) u p
      else rl_type r = ''nostr_follow'' \<and> (let owner = to_lower (trim_space (rl_owner_pubkey r)) in
             \<exists>relay peer es x. aa_dial_url a relay = Inr peer
               \<and> stored_events L ''wrapster-access-follow''
                    (wp_inbox peer (FrameJson (sub_request ''wrapster-access-follow'' [3] owner 25))) = Some es
               \<and> best_follow_list L owner es x \<and> valid_event_author L x owner \<and> list_ex (follows_tag p) (ev_tags x)))"
proof -
  from check_rule_passed [OF c] obtain r where r: "aa_rules a n = Some r" "to_lower p \<notin> rl_deny_pubkeys r"
    "rl_type r = rule_trustroots_nip05 \<or> rl_type r = rule_nostr_follow" by blast
  have ne: "rule_nostr_follow \<noteq> rule_trustroots_nip05" by code_simp
  show ?thesis
  proof (cases "rl_type r = rule_trustroots_nip05")
    case True
    with c v r have "check_trustroots_nip05 L a r p = None" by (simp add: check_rule_def)
    from check_trustroots_nip05_sound [OF this] r True show ?thesis
      by (auto simp: access_username_from_event_eq rule_trustroots_nip05_def)
  next
    case False
    with r have t: "rl_type r = rule_nostr_follow" by simp
    with c v r ne have "check_owner_follows L a r p = None"
      by (auto simp: check_rule_def split: if_splits)
    from check_owner_follows_sound [OF this] obtain x where
      x: "list_ex (follows_tag p) (ev_tags x)" "valid_event_author L x (to_lower (trim_space (rl_owner_pubkey r)))"
      "find_follow_list L (aa_dial_url a) (relay_urls_for_rule r) (to_lower (trim_space (rl_owner_pubkey r))) = Inr x"
      by blast
    from find_follow_list_sound [OF x(3)] x t r ne show ?thesis
      unfolding nip02_follow_list_kind_def Let_def rule_trustroots_nip05_def rule_nostr_follow_def by fastforce
  qed
qed

text \<open>A world with one follow rule: the owner \<open>own\<close> has an old list, a newer one that lists \<open>k1\<close>, and an empty one.\<close>

definition axs_list :: "int \<Rightarrow> string list list \<Rightarrow> event" where
  "axs_list at tags = \<lparr>ev_id = [], ev_pubkey = ''own'', ev_created_at = at, ev_kind = 3, ev_tags = tags,
     ev_content = [], ev_sig = ''ok''\<rparr>"

definition axs_signed :: event where
  "axs_signed = \<lparr>ev_id = [], ev_pubkey = ''K1'', ev_created_at = 5, ev_kind = 27235,
     ev_tags = [[''u'', ''http://h/wiki/x''], [''method'', ''get'']], ev_content = [], ev_sig = ''ok''\<rparr>"

definition axs_lib :: nostr_lib where
  "axs_lib = \<lparr>nl_decode_event = (\<lambda>j. case j of
       JStr s \<Rightarrow> if s = ''old'' then Some (axs_list 1 [[''p'', ''k2'']])
                 else if s = ''new'' then Some (axs_list 2 [[''p'', ''k1'']])
                 else if s = ''nil'' then Some (axs_list 3 []) else if s = ''req'' then Some axs_signed else None
     | _ \<Rightarrow> None),
     nl_check_signature = (\<lambda>e. Inr (ev_sig e = ''ok'' \<and> ev_pubkey e \<noteq> [])),
     nl_get_id = ev_id, nl_valid_pubkey = (\<lambda>p. p \<noteq> [])\<rparr>"

definition axs_peer :: ws_peer where
  "axs_peer = \<lparr>wp_write_error = None, wp_inbox = (\<lambda>_.
     [''[\"EVENT\",\"wrapster-access-follow\",\"old\"]'', ''[\"EVENT\",\"wrapster-access-follow\",\"new\"]'',
      ''[\"EVENT\",\"wrapster-access-follow\",\"nil\"]'', ''[\"EOSE\"]'']), wp_read_error = ''eof''\<rparr>"

definition axs_rule :: rule where
  "axs_rule = \<lparr>rl_type = ''nostr_follow'', rl_relay_url = [], rl_relay_urls = [''wss://a''], rl_nip05_base_url = [],
     rl_owner_pubkey = ''own'', rl_relationship = [], rl_deny_pubkeys = {}\<rparr>"

definition axs_authorizer :: access_authorizer where
  "axs_authorizer = \<lparr>aa_rules = [''friends'' \<mapsto> axs_rule], aa_max_age = 0, aa_http_client = (\<lambda>_. Inl ''none''),
     aa_dial_url = (\<lambda>u. if u = ''wss://a'' then Inr axs_peer else Inl ''refused''),
     aa_trustroots_verifier = None, aa_follow_verifier = None\<rparr>"

lemma axs_check: "check_rule axs_lib axs_authorizer ''friends'' ''k1'' = None"
  by code_simp

theorem access_rule_sound_witness:
  "\<exists>r. aa_rules axs_authorizer ''friends'' = Some r \<and> rl_type r \<noteq> ''trustroots_nip05''
     \<and> (\<exists>x. valid_event_author axs_lib x ''own'' \<and> list_ex (follows_tag ''k1'') (ev_tags x))"
proof -
  have n: "aa_trustroots_verifier axs_authorizer = None" "aa_follow_verifier axs_authorizer = None"
    by (simp_all add: axs_authorizer_def)
  have r: "aa_rules axs_authorizer ''friends'' = Some axs_rule" by (simp add: axs_authorizer_def)
  have o: "to_lower (trim_space (rl_owner_pubkey axs_rule)) = ''own''" by code_simp
  have t: "rl_type axs_rule = ''nostr_follow''" by (simp add: axs_rule_def)
  from access_rule_sound [OF axs_check n] show ?thesis unfolding Let_def by (auto simp: r o t)
qed

text \<open>
  the deny list of a rule wins over everything else in it, so a denied key passes no
  list of rules that contains the rule; and a rule that is not configured admits nobody.
\<close>

theorem access_deny_wins:
  "case aa_rules a n of
     None \<Rightarrow> check_rule L a n p = Some (AccessErr ErrNoRule)
   | Some r \<Rightarrow> (if to_lower p \<in> rl_deny_pubkeys r then check_rule L a n p = Some (AccessErr ErrDenied)
        \<and> (if n \<in> set (compact_rule_names names) then verify_all_request L a q names now \<noteq> Inr p else True)
        else True)"
proof (cases "aa_rules a n")
  case None
  then show ?thesis by (simp add: check_rule_def)
next
  case (Some r)
  show ?thesis
  proof (cases "to_lower p \<in> rl_deny_pubkeys r")
    case True
    from check_rule_denied [OF Some True] have d: "check_rule L a n p = Some (AccessErr ErrDenied)" .
    then have "n \<in> set (compact_rule_names names) \<Longrightarrow> verify_all_request L a q names now \<noteq> Inr p"
      by (auto simp: verify_all_Inr list_all_iff)
    with Some d show ?thesis by simp
  qed (simp add: Some)
qed

text \<open>
  the relays tried for a rule are pairwise different up to case, never empty, and up to
  case exactly the trimmed non-empty configured ones (or the single relay, or the default)
  and the public ones.
\<close>

theorem access_relays_unique:
  "distinct (map to_lower (relay_urls_for_rule r)) \<and> relay_urls_for_rule r \<noteq> []
   \<and> to_lower ` set (relay_urls_for_rule r) = {to_lower (trim_space c) | c.
       c \<in> set (rl_relay_urls r @ (if rl_relay_urls r = [] then [rule_relay_url r] else []) @ access_public_relays)
       \<and> trim_space c \<noteq> []}"
proof -
  have "to_lower (trim_space (hd access_public_relays)) \<in> to_lower ` set (relay_urls_for_rule r)"
    unfolding relay_urls_for_rule_keys using public_relays_trimmed
    by (auto simp: access_public_relays_def intro!: exI [of _ "hd access_public_relays"])
  then have "relay_urls_for_rule r \<noteq> []" by force
  then show ?thesis by (intro conjI relay_urls_for_rule_distinct relay_urls_for_rule_keys)
qed

text \<open>
  the HTTP status of a refused request is 401 exactly for a failed signed authorization
  (and not for a key that is not an admin), and 403 for everything else.
\<close>

theorem access_status_exact:
  "access_http_status err = (case err of None \<Rightarrow> 200
     | Some (AdminErr s) \<Rightarrow> (if s = ErrNotAdmin then 403 else 401)
     | Some (AdminWrap s t) \<Rightarrow> (if s = ErrNotAdmin then 403 else 401)
     | Some _ \<Rightarrow> 403)"
  by (cases err) (auto simp: access_http_status_401 split: goerr.splits, simp_all add: access_http_status_def)

section \<open>The proxy\<close>

text \<open>
  C4: what the proxy sends to an upstream. On its health path it probes the configured targets
  with a bare HEAD, for anybody. On every other path it contacts an upstream only for a
  request that passed every guard, and then exactly once: the origin is allowed, the method is
  one of the five, the path has a route, and, unless the route has no rules or the request
  is for a public asset of a wiki (these need no key), the request is signed by a key
  that all the rules of the route admit. The request goes with its own method to the route's
  target followed by the route's path.
\<close>

theorem proxy_sends_only_admitted:
  assumes "q \<in> set (snd (proxy_serve L p transport r now))"
  shows "if is_health_path p (u_path (rq_url r))
    then \<exists>t. q = head_request t \<and> (t \<in> snd ` set (px_targets p) \<or> t = px_default_target p \<and> t \<noteq> [])
    else snd (proxy_serve L p transport r now) = [q]
      \<and> snd (cors_for p r) \<and> rq_method r \<in> set allowed_methods
      \<and> (\<exists>rt. proxy_route_of p (rq_url r) = Some rt \<and> oq_method q = rq_method r
           \<and> oq_url q = rt_upstream rt @ rt_forward_path rt
           \<and> (rt_access_rules rt = [] \<or> is_public_wiki_asset_request (rq_method r) (rt_forward_path rt)
              \<or> (\<exists>pk. verified_pubkey L (px_access p) r now = Inr pk
                   \<and> list_all (\<lambda>n. check_rule L (px_access p) n pk = None) (compact_rule_names (rt_access_rules rt)))))"
proof (cases "is_health_path p (u_path (rq_url r))")
  case True
  with assms show ?thesis by (auto simp: proxy_serve_def split: prod.splits if_splits)
next
  case False
  from pg.sent_admitted [of "(L, p, transport, r, now)" q] assms False
  obtain rt where g: "proxy_guard L p r now = Inr rt" by auto
  with proxy_serve_guard [OF False, of L transport now]
  have s: "proxy_serve L p transport r now = proxy_forward p transport r rt (fst (cors_for p r))" by simp
  from proxy_forward_sent [OF assms [unfolded s]] proxy_guard_Inr [OF g] False show ?thesis
    unfolding s by (auto simp: verify_all_Inr split: if_splits)
qed

definition axs_request :: http_req where
  "axs_request = \<lparr>rq_method = ''GET'', rq_url = empty_url\<lparr>u_path := ''/wiki/x''\<rparr>, rq_host = ''h'',
     rq_header = hdr_set ''Authorization'' ''Nostr InJlcSI='' no_header, rq_tls = False, rq_remote = [], rq_body = None\<rparr>"

definition axs_proxy :: proxy where
  "axs_proxy = new_proxy \<lparr>pc_prefix = [], pc_default_target = [], pc_targets = [(''wiki'', ''http://u:s@w/'')],
     pc_allowed_origins = [], pc_upstream_timeout = 0, pc_max_body_bytes = 0, pc_access_rules = [''friends''],
     pc_target_access_rules = [], pc_access = axs_authorizer\<rparr>"

definition axs_transport :: http_do where
  "axs_transport q = Inr \<lparr>up_code = 200, up_status = [], up_header = no_header, up_body = ''page''\<rparr>"

lemma axs_forwarded: "(case proxy_serve axs_lib axs_proxy axs_transport axs_request (5 * second) of
    (resp, qs) \<Rightarrow> (rs_status resp, map (\<lambda>q. (oq_method q, oq_url q, hdr_get (oq_header q) ''Authorization'')) qs))
  = (200, [(''GET'', ''http://u:s@w/x'', ''Basic dTpz'')])"
  by code_simp

lemma axs_sent: "\<exists>q. snd (proxy_serve axs_lib axs_proxy axs_transport axs_request (5 * second)) = [q]
   \<and> oq_url q = ''http://u:s@w/x'' \<and> hdr_get (oq_header q) ''Authorization'' = ''Basic dTpz''"
  using axs_forwarded by (auto split: prod.splits)

theorem proxy_sends_only_admitted_witness:
  "\<exists>pk. verified_pubkey axs_lib axs_authorizer axs_request (5 * second) = Inr pk
     \<and> check_rule axs_lib axs_authorizer ''friends'' pk = None"
proof -
  from axs_sent obtain q where q: "q \<in> set (snd (proxy_serve axs_lib axs_proxy axs_transport axs_request (5 * second)))"
    by auto
  have h: "\<not> is_health_path axs_proxy (u_path (rq_url axs_request))" by code_simp
  have rt: "map_option (\<lambda>rt. (rt_access_rules rt, rt_forward_path rt)) (proxy_route_of axs_proxy (rq_url axs_request))
      = Some ([''friends''], ''/x'')" by code_simp
  have a: "px_access axs_proxy = axs_authorizer" by (simp add: axs_proxy_def new_proxy_def)
  have m: "\<not> is_public_wiki_asset_request (rq_method axs_request) ''/x''" by code_simp
  have n: "compact_rule_names [''friends''] = [''friends'']" by code_simp
  from proxy_sends_only_admitted [OF q] h rt m show ?thesis by (auto simp: a n)
qed

text \<open>
  C39: a signed Nostr authorization is consumed by the proxy: no request it sends carries
  one; and where the client sent one, the upstream gets the credential configured in the
  target URL, or none. Only the six listed headers are ever sent.
\<close>

theorem proxy_consumes_authorization:
  assumes "\<not> is_health_path p (u_path (rq_url r))" "q \<in> set (snd (proxy_serve L p transport r now))"
  shows "\<not> is_nostr_authorization (hdr_get (oq_header q) ''Authorization'')
    \<and> (if k \<in> set forwarded_headers then True else oq_header q k = [])
    \<and> (if is_nostr_authorization (hdr_get (rq_header r) ''Authorization'')
       then \<exists>u. url_parse (oq_url q) = Some u \<and> hdr_get (oq_header q) ''Authorization'' = (case u_user u of
         Some (name, Some password) \<Rightarrow> ''Basic '' @ base64_encode (name @ '':'' @ password) | _ \<Rightarrow> [])
       else True)"
proof -
  from pg.sent_admitted [of "(L, p, transport, r, now)" q] assms
  obtain rt where g: "proxy_guard L p r now = Inr rt" by auto
  with proxy_serve_guard [OF assms(1), of L transport now]
  have s: "proxy_serve L p transport r now = proxy_forward p transport r rt (fst (cors_for p r))" by simp
  from proxy_forward_sent [OF assms(2) [unfolded s]] obtain u where
    "url_parse (oq_url q) = Some u" "oq_header q = sent_headers u (rq_header r)" by blast
  then show ?thesis
    using sent_headers_authorization [of u "rq_header r"] sent_headers_names [of k u "rq_header r"]
      sent_headers_signed [of "rq_header r" u] by auto
qed

theorem proxy_consumes_authorization_witness:
  "\<exists>q. q \<in> set (snd (proxy_serve axs_lib axs_proxy axs_transport axs_request (5 * second)))
     \<and> \<not> is_nostr_authorization (hdr_get (oq_header q) ''Authorization'') \<and> oq_header q ''host'' = []"
proof -
  from axs_sent obtain q where q: "q \<in> set (snd (proxy_serve axs_lib axs_proxy axs_transport axs_request (5 * second)))"
    by auto
  have h: "\<not> is_health_path axs_proxy (u_path (rq_url axs_request))" by code_simp
  have k: "''host'' \<notin> set forwarded_headers" by code_simp
  from proxy_consumes_authorization [OF h q, of "''host''"] k q show ?thesis by auto
qed

text \<open>
  a route names a configured target and all the rules that apply to it, the global ones
  and the target's own, each once; and what is appended to the target starts with a slash,
  so the request cannot leave the target's host.
\<close>

theorem proxy_route_target:
  "case proxy_route_of p u of None \<Rightarrow> True | Some rt \<Rightarrow>
     ((rt_platform rt, rt_upstream rt) \<in> set (px_targets p)
        \<or> (rt_platform rt = [] \<and> rt_upstream rt = px_default_target p \<and> rt_upstream rt \<noteq> []))
     \<and> (if escaped_path u = [] \<or> has_prefix (escaped_path u) ''/'' then has_prefix (rt_forward_path rt) ''/'' else True)
     \<and> distinct (rt_access_rules rt)
     \<and> set (rt_access_rules rt) = {trim_space v | v. trim_space v \<noteq> [] \<and> v \<in> set (px_access_rules p) \<union>
          set (case map_of (px_target_access_rules p) (rt_platform rt) of None \<Rightarrow> [] | Some rs \<Rightarrow> rs)}"
proof (cases "proxy_route_of p u")
  case (Some rt)
  have rules: "distinct (access_rules_for_target p k) \<and> set (access_rules_for_target p k) =
     {trim_space v | v. trim_space v \<noteq> [] \<and> v \<in> set (px_access_rules p) \<union>
        set (case map_of (px_target_access_rules p) k of None \<Rightarrow> [] | Some rs \<Rightarrow> rs)}" for k
    by (auto simp: access_rules_for_target_def append_unique_rule_names_distinct append_unique_rule_names_set)
  from Some show ?thesis
  proof (cases rule: proxy_route_of_cases)
    case target
    with Some rules show ?thesis by (simp add: map_of_SomeD)
  next
    case (default path)
    have "has_prefix (rt_forward_path rt) ''/''" if "escaped_path u = [] \<or> has_prefix (escaped_path u) ''/''"
      unfolding default(5)
      by (intro with_query_prefix strip_prefix_absolute [OF default(4)]) (use that in \<open>auto simp: has_prefix_def\<close>)
    with Some default rules show ?thesis by simp
  qed
qed simp

text \<open>
  the exemption for public assets looks at the path as it was sent: a path that climbs
  out of the asset directory with dot segments counts as an asset, so a request without any
  authorization reaches the rule-protected upstream under that path.
\<close>

theorem proxy_asset_exemption_dot_segments:
  "is_public_wiki_asset_request ''GET'' ''/images/../api.php'' = True
   \<and> (case proxy_serve axs_lib axs_proxy axs_transport
        (axs_request\<lparr>rq_header := no_header, rq_url := empty_url\<lparr>u_path := ''/wiki/images/../api.php''\<rparr>\<rparr>) 0 of
      (resp, qs) \<Rightarrow> rs_status resp = 200 \<and> map oq_url qs = [''http://u:s@w/images/../api.php''])
   \<and> (case proxy_serve axs_lib axs_proxy axs_transport
        (axs_request\<lparr>rq_header := no_header, rq_url := empty_url\<lparr>u_path := ''/wiki/api.php''\<rparr>\<rparr>) 0 of
      (resp, qs) \<Rightarrow> rs_status resp = 401 \<and> qs = [])"
  by (intro conjI; code_simp)

text \<open>
  cross-origin access: with an allow list, an Origin outside it is refused; credentials
  are only allowed for the very origin that asked, never together with a missing Origin.
\<close>

theorem proxy_cors_exact:
  "snd (cors_for p r) = (hdr_get (rq_header r) ''Origin'' = [] \<or> px_allowed_origins p = []
      \<or> hdr_get (rq_header r) ''Origin'' \<in> set (px_allowed_origins p))
   \<and> hdr_get (fst (cors_for p r)) ''Access-Control-Allow-Credentials'' =
       (if hdr_get (rq_header r) ''Origin'' \<noteq> [] \<and> snd (cors_for p r) then ''true'' else [])
   \<and> hdr_get (fst (cors_for p r)) ''Access-Control-Allow-Origin'' =
       (if \<not> snd (cors_for p r) then []
        else if hdr_get (rq_header r) ''Origin'' = [] then ''*'' else hdr_get (rq_header r) ''Origin'')"
proof -
  have ne: "to_lower ''Access-Control-Max-Age'' \<noteq> to_lower ''Access-Control-Allow-Origin''"
    "to_lower ''Access-Control-Expose-Headers'' \<noteq> to_lower ''Access-Control-Allow-Origin''"
    "to_lower ''Access-Control-Allow-Headers'' \<noteq> to_lower ''Access-Control-Allow-Origin''"
    "to_lower ''Access-Control-Allow-Methods'' \<noteq> to_lower ''Access-Control-Allow-Origin''"
    "to_lower ''Access-Control-Max-Age'' \<noteq> to_lower ''Access-Control-Allow-Credentials''"
    "to_lower ''Access-Control-Expose-Headers'' \<noteq> to_lower ''Access-Control-Allow-Credentials''"
    "to_lower ''Access-Control-Allow-Headers'' \<noteq> to_lower ''Access-Control-Allow-Credentials''"
    "to_lower ''Access-Control-Allow-Methods'' \<noteq> to_lower ''Access-Control-Allow-Credentials''"
    "to_lower ''Access-Control-Allow-Origin'' \<noteq> to_lower ''Access-Control-Allow-Credentials''"
    "to_lower ''Access-Control-Allow-Credentials'' \<noteq> to_lower ''Access-Control-Allow-Origin''"
    "to_lower ''Vary'' \<noteq> to_lower ''Access-Control-Allow-Credentials''"
    "to_lower ''Vary'' \<noteq> to_lower ''Access-Control-Allow-Origin''" by code_simp+
  consider "hdr_get (rq_header r) ''Origin'' = []"
    | "hdr_get (rq_header r) ''Origin'' \<noteq> []" "px_allowed_origins p = [] \<or> hdr_get (rq_header r) ''Origin'' \<in> set (px_allowed_origins p)"
    | "hdr_get (rq_header r) ''Origin'' \<noteq> []" "px_allowed_origins p \<noteq> []" "hdr_get (rq_header r) ''Origin'' \<notin> set (px_allowed_origins p)"
    by blast
  then show ?thesis by cases (auto simp: cors_for_def Let_def ne)
qed

subsection \<open>Bodies\<close>

text \<open>
  \<open>readBody\<close> returns the whole body or refuses it, for every limit but the largest
  64-bit integer: there \<open>max + 1\<close> wraps around, and every body is read as empty.
\<close>

theorem proxy_read_body_exact:
  assumes "0 \<le> m" "m \<le> int64_max"
  shows "read_body (bytes, None) m = (if m = int64_max then BodyRead []
     else if int (length bytes) \<le> m then BodyRead bytes else BodyTooLarge)"
proof (cases "m = int64_max")
  case True
  have "wrap64 (int64_max + 1) = int64_min" by code_simp
  then show ?thesis using True by (simp add: read_body_def int64_min_def int64_max_def)
next
  case False
  then have w: "wrap64 (m + 1) = m + 1"
    using assms by (intro wrap64_id) (simp_all add: int64_min_def int64_max_def)
  show ?thesis
  proof (cases "int (length bytes) \<le> m")
    case True
    then have "take (nat (m + 1)) bytes = bytes" by simp
    with True False w assms show ?thesis by (simp add: read_body_def)
  next
    case long: False
    then have "length (take (nat (m + 1)) bytes) = nat (m + 1)" by simp
    with long False w assms show ?thesis by (simp add: read_body_def)
  qed
qed

theorem proxy_read_body_exact_witness:
  "read_body (''abc'', None) 3 = BodyRead ''abc'' \<and> read_body (''abcd'', None) 3 = BodyTooLarge
   \<and> read_body (''abcd'', None) int64_max = BodyRead []"
proof -
  have "(0::int) \<le> 3" "3 \<le> int64_max" "3 \<noteq> int64_max" "0 \<le> int64_max" by (simp_all add: int64_max_def)
  then show ?thesis by (simp add: proxy_read_body_exact)
qed

subsection \<open>Cookies and locations\<close>

lemma trim_space_cons_space: "trim_space (CHR '' '' # s) = trim_space s"
  by (simp add: trim_space_def is_space_def)

lemma split_join_attrs:
  "ws \<noteq> [] \<Longrightarrow> \<forall>w\<in>set ws. CHR '';'' \<notin> set w \<Longrightarrow>
     map trim_space (split_on (CHR '';'') (join ''; '' ws)) = map trim_space ws"
proof (induction ws)
  case Nil
  then show ?case by simp
next
  case (Cons w ws)
  show ?case
  proof (cases "ws = []")
    case True
    with Cons.prems show ?thesis by (simp add: split_on_single)
  next
    case False
    obtain x xs where x: "split_on (CHR '';'') (join ''; '' ws) = x # xs" by (meson neq_Nil_conv split_on_ne)
    have "split_on (CHR '';'') (w @ CHR '';'' # CHR '' '' # join ''; '' ws) = w # (CHR '' '' # x) # xs"
      using Cons.prems(2) x by (simp add: split_on_append)
    moreover have "map trim_space (x # xs) = map trim_space ws" using Cons False x by simp
    ultimately show ?thesis using False by (simp add: join_Cons trim_space_cons_space)
  qed
qed

text \<open>
  a rewritten cookie keeps its name and value and every attribute but Domain, Path,
  SameSite and Secure, in order; then exactly one Path, the route's scope, and the SameSite
  policy follow. So no upstream can set a cookie for another target or another domain.
\<close>

theorem proxy_cookie_scoped:
  assumes "CHR '';'' \<notin> set scope"
  shows "map trim_space (split_on (CHR '';'') (rewrite_set_cookie scope secure cookie))
     = trim_space (hd (split_on (CHR '';'') cookie))
       # filter (\<lambda>a. \<not> dropped_cookie_attr a) (map trim_space (tl (split_on (CHR '';'') cookie)))
       @ trim_space (''Path='' @ (if scope = [] then ''/'' else scope))
       # (if secure then [''SameSite=None'', ''Secure''] else [''SameSite=Lax''])"
proof -
  let ?parts = "split_on (CHR '';'') cookie"
  let ?attrs = "filter (\<lambda>a. \<not> dropped_cookie_attr a) (map trim_space (tl ?parts))"
  let ?ws = "trim_space (hd ?parts) # ?attrs @ [''Path='' @ (if scope = [] then ''/'' else scope)]
           @ (if secure then [''SameSite=None'', ''Secure''] else [''SameSite=Lax''])"
  have p: "CHR '';'' \<notin> set (trim_space w)" if "w \<in> set ?parts" for w
    using split_on_no_sep [OF that] set_trim_space by blast
  have "hd ?parts \<in> set ?parts" by simp
  moreover have "set (tl ?parts) \<subseteq> set ?parts" by (cases ?parts) auto
  ultimately have "\<forall>w\<in>set ?ws. CHR '';'' \<notin> set w" using p assms by auto
  then have "map trim_space (split_on (CHR '';'') (join ''; '' ?ws)) = map trim_space ?ws"
    by (intro split_join_attrs) simp_all
  moreover have "map trim_space (filter P (map trim_space xs)) = filter P (map trim_space xs)" for P xs
    by (induction xs) simp_all
  moreover have "trim_space ''SameSite=None'' = ''SameSite=None''" "trim_space ''Secure'' = ''Secure''"
    "trim_space ''SameSite=Lax'' = ''SameSite=Lax''" by code_simp+
  ultimately show ?thesis unfolding rewrite_set_cookie_def Let_def by simp
qed

theorem proxy_cookie_scoped_witness:
  "map trim_space (split_on (CHR '';'') (rewrite_set_cookie ''/wiki'' True ''s=1; Domain=x.org; HttpOnly; path=/''))
     = [''s=1'', ''HttpOnly'', ''Path=/wiki'', ''SameSite=None'', ''Secure'']"
proof -
  have "CHR '';'' \<notin> set ''/wiki''" by simp
  from proxy_cookie_scoped [OF this, of True "''s=1; Domain=x.org; HttpOnly; path=/''"]
  show ?thesis by code_simp
qed

text \<open>
  a redirect of the upstream is rewritten below the route's public base, whatever it
  says, except where the default target is published at the root: there it is passed on.
\<close>

theorem proxy_location_scoped:
  "if rt_public_base rt = [] \<or> (rt_platform rt = [] \<and> rt_public_base rt = ''/'')
   then rewrite_location location rt = trim_space (hd (split_on (CHR '','') location))
   else has_prefix (rewrite_location location rt) (rt_public_base rt)"
  by (auto simp: rewrite_location_def Let_def has_prefix_def split: option.splits)

end
