(* ===== verification/MediaGateway.thy ===== *)
theory MediaGateway
  imports Access "HOL-Library.AList"
begin

text \<open>
  The media gateway, \<open>internal/media/auth.go\<close>, \<open>routes.go\<close> and \<open>gateway.go\<close>: who may
  use it, the paths it understands, and the requests it makes to the private media
  connector. Handlers return their response and the connector requests they sent. The
  map of service rules is an association list, in the order in which it is iterated.
\<close>

section \<open>Grants\<close>

record media_authorizer =
  mz_grants :: "string set"
  mz_max_age :: duration

definition new_media_authorizer :: "string list \<Rightarrow> duration \<Rightarrow> media_authorizer" where
  "new_media_authorizer grant_pubkeys max_age =
     \<lparr>mz_grants = set (filter (\<lambda>p. p \<noteq> []) (map (\<lambda>p. to_lower (trim_space p)) grant_pubkeys)), mz_max_age = max_age\<rparr>"

definition media_verify_event :: "nostr_lib \<Rightarrow> media_authorizer \<Rightarrow> event \<Rightarrow> string \<Rightarrow> string \<Rightarrow> go_time \<Rightarrow> goerr + string" where
  "media_verify_event L a event url rmethod now =
     bind_res (verify_nip98_event L event url rmethod (mz_max_age a) now) (\<lambda>pubkey.
       if mz_grants a = {} then Inl (MediaErr ErrNoGrantPubkeys)
       else if pubkey \<notin> mz_grants a then Inl (MediaErr ErrNotGranted)
       else Inr pubkey)"

definition media_verify_request :: "nostr_lib \<Rightarrow> media_authorizer \<Rightarrow> http_req \<Rightarrow> go_time \<Rightarrow> goerr + string" where
  "media_verify_request L a r now =
     bind_res (event_from_authorization L (hdr_get (rq_header r) ''Authorization''))
       (\<lambda>event. media_verify_event L a event (absolute_request_url r) (rq_method r) now)"

section \<open>Service paths\<close>

record service_route =
  sr_service :: string
  sr_action :: string
  sr_stream_id :: string

definition valid_service :: "string \<Rightarrow> bool" where
  "valid_service service \<longleftrightarrow> service = ''jellyfin'' \<or> service = ''plex''"

definition parse_service_route :: "string \<Rightarrow> string \<Rightarrow> service_route option" where
  "parse_service_route request_path pre =
     (if \<not> has_prefix request_path pre then None
      else (case split_on (CHR ''/'') (trim_prefix request_path pre) of
         service # action # parts \<Rightarrow>
           if \<not> valid_service service then None
           else if action = ''random-song'' \<or> action = ''search'' then
             (if parts \<noteq> [] then None
              else Some \<lparr>sr_service = service, sr_action = action, sr_stream_id = []\<rparr>)
           else if action = ''stream'' then
             (case parts of
                [stream_id] \<Rightarrow> if stream_id = [] then None
                  else Some \<lparr>sr_service = service, sr_action = action, sr_stream_id = stream_id\<rparr>
              | _ \<Rightarrow> None)
           else None
       | _ \<Rightarrow> None))"

section \<open>The gateway\<close>

record gateway =
  gw_connector_base_url :: string
  gw_connector_token :: string
  gw_transport_label :: string
  gw_auth :: media_authorizer
  gw_access :: access_authorizer
  gw_service_access_rules :: "(string \<times> string list) list"
  gw_http_client :: http_do

definition transport_label :: "gateway \<Rightarrow> string" where
  "transport_label g = (let label = trim_space (gw_transport_label g) in if label \<noteq> [] then label else ''private'')"

definition media_clean_rule_names :: "string list \<Rightarrow> string list" where
  "media_clean_rule_names names = filter (\<lambda>n. n \<noteq> []) (map trim_space names)"

fun unique_rule_sets :: "string list \<Rightarrow> (string \<times> string list) list \<Rightarrow> string list list" where
  "unique_rule_sets seen [] = []"
| "unique_rule_sets seen ((service, rules) # rest) =
     (let rs = media_clean_rule_names rules;
          key = join [CHR 0x00] rs
      in if rs = [] then unique_rule_sets seen rest
         else if key \<in> set seen then unique_rule_sets seen rest
         else rs # unique_rule_sets (key # seen) rest)"

definition required_service_rule_sets :: "(string \<times> string list) list \<Rightarrow> string list list" where
  "required_service_rule_sets service_rules = unique_rule_sets [] service_rules"

fun any_rule_set :: "nostr_lib \<Rightarrow> gateway \<Rightarrow> http_req \<Rightarrow> go_time \<Rightarrow> string list list \<Rightarrow> goerr \<Rightarrow> goerr + string" where
  "any_rule_set L g r now [] last_err = Inl last_err"
| "any_rule_set L g r now (rules # rest) last_err =
     (case verify_all_request L (gw_access g) r rules now of
        Inr pubkey \<Rightarrow> Inr pubkey
      | Inl e \<Rightarrow> any_rule_set L g r now rest e)"

definition authorize_status :: "nostr_lib \<Rightarrow> gateway \<Rightarrow> http_req \<Rightarrow> go_time \<Rightarrow> goerr + string" where
  "authorize_status L g r now =
     (case media_verify_request L (gw_auth g) r now of
        Inr pubkey \<Rightarrow> Inr pubkey
      | Inl e \<Rightarrow>
         (let service_rules = required_service_rule_sets (gw_service_access_rules g)
          in if service_rules = [] then media_verify_request L (gw_auth g) r now
             else any_rule_set L g r now service_rules e))"

definition service_rules :: "gateway \<Rightarrow> string \<Rightarrow> string list" where
  "service_rules g service = media_clean_rule_names
     (case map_of (gw_service_access_rules g) service of None \<Rightarrow> [] | Some rs \<Rightarrow> rs)"

definition authorize_service :: "nostr_lib \<Rightarrow> gateway \<Rightarrow> http_req \<Rightarrow> string \<Rightarrow> go_time \<Rightarrow> goerr + string" where
  "authorize_service L g r service now =
     (case media_verify_request L (gw_auth g) r now of
        Inr pubkey \<Rightarrow> Inr pubkey
      | Inl e \<Rightarrow>
         if service_rules g service \<noteq> [] then verify_all_request L (gw_access g) r (service_rules g service) now
         else media_verify_request L (gw_auth g) r now)"

definition media_auth_status :: "goerr \<Rightarrow> int" where
  "media_auth_status err =
     (if access_http_status (Some err) = 401 then 401
      else if err = MediaErr ErrNotGranted \<or> err = MediaErr ErrNoGrantPubkeys then 403 else 403)"

section \<open>Requests to the connector\<close>

definition connector_headers :: "gateway \<Rightarrow> string \<Rightarrow> header" where
  "connector_headers g range_header =
     (let token = trim_space (gw_connector_token g);
          h = (if token \<noteq> [] then hdr_set ''Authorization'' (''Bearer '' @ token) no_header else no_header);
          value = trim_space range_header
      in if value \<noteq> [] then hdr_set ''Range'' value h else h)"

definition connector_url :: "gateway \<Rightarrow> string \<Rightarrow> url_values \<Rightarrow> string option" where
  "connector_url g connector_path query =
     map_option (\<lambda>base. url_string (base\<lparr>u_path := path_join [u_path base, connector_path],
         u_raw_query := values_encode query\<rparr>))
       (url_parse (trim_right (CHR ''/'') (gw_connector_base_url g)))"

definition connector_request :: "gateway \<Rightarrow> string \<Rightarrow> url_values \<Rightarrow> string \<Rightarrow> (goerr + up_resp) \<times> out_req list" where
  "connector_request g connector_path query range_header =
     (case connector_url g connector_path query of
        None \<Rightarrow> (Inl (TextErr (''media connector URL is invalid: '' @ url_parse_error (trim_right (CHR ''/'') (gw_connector_base_url g)))), [])
      | Some url \<Rightarrow>
         (case url_parse url of
            None \<Rightarrow> (Inl (TextErr (url_parse_error url)), [])
          | Some _ \<Rightarrow>
             (let q = \<lparr>oq_method = ''GET'', oq_url = url, oq_header = connector_headers g range_header, oq_body = None\<rparr>
              in (case gw_http_client g q of
                   Inl e \<Rightarrow> (Inl (TextErr (client_error q e)), [q])
                 | Inr resp \<Rightarrow> (Inr resp, [q])))))"

text \<open>A decoded \<open>map[string]any\<close> (\<open>null\<close> is the nil map): of repeated members the last counts. \<open>None\<close> is the error.\<close>

definition decode_object :: "string \<Rightarrow> json option" where
  "decode_object body = (case json_decode_first body of
     Some (JObj kvs) \<Rightarrow> Some (JObj (fold (\<lambda>(k, v). AList.update k v) kvs []))
   | Some JNull \<Rightarrow> Some JNull
   | _ \<Rightarrow> None)"

definition error_json :: "int \<Rightarrow> string \<Rightarrow> http_resp" where
  "error_json status e = httpx_write_json status (json_err e)"

definition proxy_json :: "gateway \<Rightarrow> http_req \<Rightarrow> string \<Rightarrow> string \<Rightarrow> url_values \<Rightarrow> http_resp \<times> out_req list" where
  "proxy_json g r pubkey connector_path query =
     (case connector_request g connector_path query (hdr_get (rq_header r) ''Range'') of
        (Inl e, qs) \<Rightarrow> (error_json 502 (error_text e), qs)
      | (Inr resp, qs) \<Rightarrow>
         (if connector_path = ''/connector/api/status'' \<and> up_code resp = 200 then
            (case decode_object (up_body resp) of
               None \<Rightarrow> (error_json 502 ''connector returned invalid JSON'', qs)
             | Some connector \<Rightarrow>
                (httpx_write_json 200 (JObj [(''authenticated_pubkey'', JStr pubkey),
                   (''connector'', connector),
                   (''grants'', JObj [(''configured_count'', JNum (int_str (int (card (mz_grants (gw_auth g))))))]),
                   (''transport'', JStr (transport_label g))]), qs))
          else (\<lparr>rs_status = up_code resp, rs_header = hdr_set ''Content-Type'' ''application/json'' no_header,
                 rs_body = BodyBytes (up_body resp)\<rparr>, qs)))"

definition proxy_stream :: "gateway \<Rightarrow> http_req \<Rightarrow> string \<Rightarrow> http_resp \<times> out_req list" where
  "proxy_stream g r connector_path =
     (case connector_request g connector_path [] (hdr_get (rq_header r) ''Range'') of
        (Inl e, qs) \<Rightarrow> (error_json 502 (error_text e), qs)
      | (Inr resp, qs) \<Rightarrow>
         (\<lparr>rs_status = up_code resp, rs_header = copy_stream_headers no_header (up_header resp),
           rs_body = BodyBytes (up_body resp)\<rparr>, qs))"

definition add_stream_url :: "string \<Rightarrow> json \<Rightarrow> json" where
  "add_stream_url service body =
     (case body of
        JObj members \<Rightarrow>
          (case map_of members ''item'' of
             Some (JObj item) \<Rightarrow>
               (case map_of (rev item) ''stream_id'' of
                  Some (JStr stream_id) \<Rightarrow>
                    if stream_id \<noteq> []
                    then JObj (AList.update ''stream_url''
                      (JStr (''/media/api/services/'' @ service @ ''/stream/'' @ path_escape stream_id)) members)
                    else body
                | _ \<Rightarrow> body)
           | _ \<Rightarrow> body)
      | _ \<Rightarrow> body)"

definition proxy_random_song :: "gateway \<Rightarrow> http_req \<Rightarrow> string \<Rightarrow> http_resp \<times> out_req list" where
  "proxy_random_song g r service =
     (case connector_request g (''/connector/api/services/'' @ service @ ''/random-song'') [] (hdr_get (rq_header r) ''Range'') of
        (Inl e, qs) \<Rightarrow> (error_json 502 (error_text e), qs)
      | (Inr resp, qs) \<Rightarrow>
         (case decode_object (up_body resp) of
            None \<Rightarrow> (error_json 502 ''connector returned invalid JSON'', qs)
          | Some body \<Rightarrow>
             (httpx_write_json (up_code resp)
                (if up_code resp = 200 then add_stream_url service body else body), qs)))"

section \<open>The handlers\<close>

definition connector_configured :: "gateway \<Rightarrow> bool" where
  "connector_configured g \<longleftrightarrow> trim_space (gw_connector_base_url g) \<noteq> []"

definition serve_service :: "nostr_lib \<Rightarrow> gateway \<Rightarrow> http_req \<Rightarrow> go_time \<Rightarrow> http_resp \<times> out_req list" where
  "serve_service L g r now =
     (case parse_service_route (u_path (rq_url r)) ''/media/api/services/'' of
        None \<Rightarrow> (not_found, [])
      | Some route \<Rightarrow>
         (case authorize_service L g r (sr_service route) now of
            Inl e \<Rightarrow> (error_json (media_auth_status e) (error_text e), [])
          | Inr pubkey \<Rightarrow>
             if \<not> connector_configured g then (error_json 503 ''media connector is not configured'', [])
             else if sr_action route = ''random-song'' then proxy_random_song g r (sr_service route)
             else if sr_action route = ''search'' then
               proxy_json g r pubkey (''/connector/api/services/'' @ sr_service route @ ''/search'') (url_query (rq_url r))
             else if sr_action route = ''stream'' then
               proxy_stream g r (''/connector/api/services/'' @ sr_service route @ ''/stream/'' @ path_escape (sr_stream_id route))
             else (not_found, [])))"

definition serve_status :: "nostr_lib \<Rightarrow> gateway \<Rightarrow> http_req \<Rightarrow> go_time \<Rightarrow> http_resp \<times> out_req list" where
  "serve_status L g r now =
     (case authorize_status L g r now of
        Inl e \<Rightarrow> (error_json (media_auth_status e) (error_text e), [])
      | Inr pubkey \<Rightarrow>
         if \<not> connector_configured g then (error_json 503 ''media connector is not configured'', [])
         else proxy_json g r pubkey ''/connector/api/status'' [])"

definition gateway_serve :: "nostr_lib \<Rightarrow> gateway \<Rightarrow> http_req \<Rightarrow> go_time \<Rightarrow> http_resp \<times> out_req list" where
  "gateway_serve L g r now =
     (case require_method r ''GET'' of
        Some resp \<Rightarrow> (resp, [])
      | None \<Rightarrow>
         if u_path (rq_url r) = ''/media/api/status'' then serve_status L g r now
         else if has_prefix (u_path (rq_url r)) ''/media/api/services/'' then serve_service L g r now
         else (not_found, []))"

text \<open>
  \<open>ConnectorStatus\<close>: the report on the connector, and the request made for it; the two
  clock readings are \<open>checked_at\<close> (as its text) and \<open>latency\<close>.
\<close>

definition connector_status :: "gateway \<Rightarrow> string \<Rightarrow> duration \<Rightarrow> (string \<times> json) list \<times> out_req list" where
  "connector_status g checked_at latency =
     (if \<not> connector_configured g then
        ([(''configured'', JBool False), (''reachable'', JBool False), (''latency_ms'', JNull),
          (''checked_at'', JStr checked_at), (''transport'', JStr (transport_label g)),
          (''last_error'', JStr ''media connector is not configured''), (''status_code'', JNull)], [])
      else (case connector_request g ''/connector/api/status'' [] [] of
         (Inl e, qs) \<Rightarrow>
           ([(''configured'', JBool True), (''reachable'', JBool False), (''latency_ms'', JNull),
             (''checked_at'', JStr checked_at), (''transport'', JStr (transport_label g)),
             (''last_error'', JStr (error_text e)), (''status_code'', JNull)], qs)
       | (Inr resp, qs) \<Rightarrow>
           (let ok = 200 \<le> up_code resp \<and> up_code resp < 300;
                decoded = (if ok then decode_object (up_body resp) else None);
                reachable = (ok \<and> decoded \<noteq> None);
                last_error = (if \<not> ok then up_status resp
                              else if decoded = None then ''connector returned invalid JSON'' else []);
                payload = (case decoded of Some (JObj m) \<Rightarrow> m | _ \<Rightarrow> [])
            in ([(''configured'', JBool True), (''reachable'', JBool reachable),
                 (''latency_ms'', JNum (int_str (latency div 1000000))),
                 (''checked_at'', JStr checked_at), (''transport'', JStr (transport_label g)),
                 (''last_error'', JStr last_error), (''status_code'', JNum (int_str (up_code resp)))]
                @ (if payload = [] then [] else [(''connector'', JObj payload)]), qs))))"

section \<open>Facts\<close>

lemma media_verify_request_Inr:
  "media_verify_request L a r now = Inr p \<longleftrightarrow>
     (\<exists>e. event_from_authorization L (hdr_get (rq_header r) ''Authorization'') = Inr e
        \<and> nip98_valid L e (absolute_request_url r) (rq_method r) (mz_max_age a) now
        \<and> p = to_lower (ev_pubkey e)) \<and> p \<in> mz_grants a"
  by (auto simp: media_verify_request_def media_verify_event_def bind_res_Inr verify_nip98_event_Inr split: if_splits)

lemma any_rule_set_Inr:
  "any_rule_set L g r now rss e = Inr p \<Longrightarrow> \<exists>rs \<in> set rss. verify_all_request L (gw_access g) r rs now = Inr p"
  by (induction rss arbitrary: e) (auto split: sum.splits)

definition clean_rule_set :: "string \<times> string list \<Rightarrow> string list option" where
  "clean_rule_set kv = (if media_clean_rule_names (snd kv) = [] then None else Some (media_clean_rule_names (snd kv)))"

lemma unique_rule_sets_dedup_on:
  "unique_rule_sets seen kvs = dedup_on (join [CHR 0x00]) seen (List.map_filter clean_rule_set kvs)"
  by (induction kvs arbitrary: seen) (auto simp: Let_def clean_rule_set_def List.map_filter_simps)

interpretation rss: unique_list "required_service_rule_sets" clean_rule_set "join [CHR 0x00]"
  by unfold_locales (simp add: required_service_rule_sets_def unique_rule_sets_dedup_on)

lemma required_service_rule_sets_mem:
  "rs \<in> set (required_service_rule_sets m) \<Longrightarrow> \<exists>k rules. (k, rules) \<in> set m \<and> rs = media_clean_rule_names rules \<and> rs \<noteq> []"
  using rss.ul_cleaned [of rs m] by (auto simp: clean_rule_set_def split: if_splits) blast

text \<open>Being authorized: a granted key, or a key that all rules of the service (of some service, for the status) admit.\<close>

lemma authorize_service_Inr:
  "authorize_service L g r service now = Inr p \<Longrightarrow>
     media_verify_request L (gw_auth g) r now = Inr p
     \<or> (service_rules g service \<noteq> [] \<and> verify_all_request L (gw_access g) r (service_rules g service) now = Inr p)"
  by (auto simp: authorize_service_def split: sum.splits if_splits)

lemma authorize_status_Inr:
  assumes "authorize_status L g r now = Inr p"
  shows "media_verify_request L (gw_auth g) r now = Inr p
     \<or> (\<exists>k rules. (k, rules) \<in> set (gw_service_access_rules g) \<and> media_clean_rule_names rules \<noteq> []
          \<and> verify_all_request L (gw_access g) r (media_clean_rule_names rules) now = Inr p)"
proof (cases "media_verify_request L (gw_auth g) r now = Inr p")
  case False
  with assms obtain e where
    "any_rule_set L g r now (required_service_rule_sets (gw_service_access_rules g)) e = Inr p"
    by (auto simp: authorize_status_def Let_def split: sum.splits if_splits)
  from any_rule_set_Inr [OF this] required_service_rule_sets_mem show ?thesis by blast
qed simp

lemma connector_request_sent:
  assumes "q \<in> set (snd (connector_request g path query rng))"
  shows "snd (connector_request g path query rng) = [q] \<and> oq_method q = ''GET'' \<and> oq_body q = None
     \<and> connector_url g path query = Some (oq_url q) \<and> oq_header q = connector_headers g rng"
  using assms by (auto simp: connector_request_def Let_def split: option.splits sum.splits)

lemma gateway_proxies_sent:
  "snd (proxy_json g r pk path query) = snd (connector_request g path query (hdr_get (rq_header r) ''Range''))"
  "snd (proxy_stream g r path) = snd (connector_request g path [] (hdr_get (rq_header r) ''Range''))"
  "snd (proxy_random_song g r service) =
     snd (connector_request g (''/connector/api/services/'' @ service @ ''/random-song'') [] (hdr_get (rq_header r) ''Range''))"
  by (auto simp: proxy_json_def proxy_stream_def proxy_random_song_def split: prod.splits sum.splits option.splits)

text \<open>The connector path and query of a route, and the guard of the gateway.\<close>

definition route_target :: "http_req \<Rightarrow> service_route \<Rightarrow> string \<times> url_values" where
  "route_target r route =
     (let base = ''/connector/api/services/'' @ sr_service route
      in if sr_action route = ''random-song'' then (base @ ''/random-song'', [])
         else if sr_action route = ''search'' then (base @ ''/search'', url_query (rq_url r))
         else (base @ ''/stream/'' @ path_escape (sr_stream_id route), []))"

definition gateway_guard :: "nostr_lib \<Rightarrow> gateway \<Rightarrow> http_req \<Rightarrow> go_time \<Rightarrow> int + (string \<times> string \<times> url_values)" where
  "gateway_guard L g r now =
     (if rq_method r \<noteq> ''GET'' then Inl 405
      else if u_path (rq_url r) = ''/media/api/status'' then
        (case authorize_status L g r now of
           Inl e \<Rightarrow> Inl (media_auth_status e)
         | Inr pk \<Rightarrow> if \<not> connector_configured g then Inl 503 else Inr (pk, ''/connector/api/status'', []))
      else (case parse_service_route (u_path (rq_url r)) ''/media/api/services/'' of
           None \<Rightarrow> Inl 404
         | Some route \<Rightarrow>
            (case authorize_service L g r (sr_service route) now of
               Inl e \<Rightarrow> Inl (media_auth_status e)
             | Inr pk \<Rightarrow> if \<not> connector_configured g then Inl 503 else Inr (pk, route_target r route))))"

lemma parse_service_route_action:
  "parse_service_route p pre = Some route \<Longrightarrow>
     has_prefix p pre \<and> valid_service (sr_service route)
     \<and> (sr_action route = ''random-song'' \<or> sr_action route = ''search'' \<or> sr_action route = ''stream'')"
  by (auto simp: parse_service_route_def split: list.split_asm if_split_asm)

lemma gateway_serve_guard:
  "case gateway_guard L g r now of
     Inl code \<Rightarrow> rs_status (fst (gateway_serve L g r now)) = code \<and> snd (gateway_serve L g r now) = []
   | Inr (pk, path, query) \<Rightarrow>
       snd (gateway_serve L g r now) = snd (connector_request g path query (hdr_get (rq_header r) ''Range''))"
proof (cases "rq_method r = ''GET''")
  case False
  then show ?thesis by (simp add: gateway_guard_def gateway_serve_def require_method_def http_error_def)
next
  case m: True
  then have rm: "require_method r ''GET'' = None" by (simp add: require_method_def)
  have es: "rs_status (error_json c t) = c" for c t by (simp add: error_json_def httpx_write_json_def)
  show ?thesis
  proof (cases "u_path (rq_url r) = ''/media/api/status''")
    case True
    with m rm show ?thesis
      by (cases "authorize_status L g r now")
        (simp_all add: gateway_guard_def gateway_serve_def serve_status_def es gateway_proxies_sent)
  next
    case p: False
    show ?thesis
    proof (cases "parse_service_route (u_path (rq_url r)) ''/media/api/services/''")
      case None
      with m rm p show ?thesis
        by (simp add: gateway_guard_def gateway_serve_def serve_service_def not_found_def http_error_def)
    next
      case (Some route)
      with parse_service_route_action have pre: "has_prefix (u_path (rq_url r)) ''/media/api/services/''"
        and act: "sr_action route = ''random-song'' \<or> sr_action route = ''search'' \<or> sr_action route = ''stream''" by blast+
      from m rm p Some pre have e: "gateway_serve L g r now = serve_service L g r now"
        by (simp add: gateway_serve_def)
      show ?thesis
      proof (cases "authorize_service L g r (sr_service route) now")
        case (Inl x)
        with m p Some show ?thesis unfolding e by (simp add: gateway_guard_def serve_service_def es)
      next
        case (Inr pk)
        with m p Some act show ?thesis
          unfolding e
          by (auto simp: gateway_guard_def serve_service_def es gateway_proxies_sent route_target_def Let_def)
      qed
    qed
  qed
qed

interpretation gg: guarded "\<lambda>_. True" "\<lambda>(L, g, r, now). gateway_guard L g r now" "\<lambda>(L, g, r, now). gateway_serve L g r now"
proof
  fix x :: "nostr_lib \<times> gateway \<times> http_req \<times> go_time" and e
  obtain L g r now where x: "x = (L, g, r, now)" by (cases x)
  assume "(case x of (L, g, r, now) \<Rightarrow> gateway_guard L g r now) = Inl e"
  with gateway_serve_guard [of L g r now] show "snd (case x of (L, g, r, now) \<Rightarrow> gateway_serve L g r now) = []"
    by (simp add: x)
qed

text \<open>Every request to the connector, with what had to hold for it to be made.\<close>

lemma gateway_serve_sent:
  assumes "q \<in> set (snd (gateway_serve L g r now))"
  shows "snd (gateway_serve L g r now) = [q] \<and> rq_method r = ''GET'' \<and> oq_method q = ''GET''
    \<and> oq_header q = connector_headers g (hdr_get (rq_header r) ''Range'')
    \<and> (\<exists>p. if u_path (rq_url r) = ''/media/api/status''
           then connector_url g ''/connector/api/status'' [] = Some (oq_url q)
             \<and> (media_verify_request L (gw_auth g) r now = Inr p
                \<or> (\<exists>k rules. (k, rules) \<in> set (gw_service_access_rules g)
                     \<and> verify_all_request L (gw_access g) r (media_clean_rule_names rules) now = Inr p))
           else \<exists>route. parse_service_route (u_path (rq_url r)) ''/media/api/services/'' = Some route
             \<and> connector_url g (fst (route_target r route)) (snd (route_target r route)) = Some (oq_url q)
             \<and> (media_verify_request L (gw_auth g) r now = Inr p
                \<or> verify_all_request L (gw_access g) r (service_rules g (sr_service route)) now = Inr p))"
proof -
  from gg.sent_admitted [of q "(L, g, r, now)"] assms obtain pk path query where
    g: "gateway_guard L g r now = Inr (pk, path, query)" by auto
  with gateway_serve_guard [of L g r now]
  have s: "snd (gateway_serve L g r now) = snd (connector_request g path query (hdr_get (rq_header r) ''Range''))" by simp
  note sent = connector_request_sent [OF assms [unfolded s]]
  from g have m: "rq_method r = ''GET''" by (simp add: gateway_guard_def split: if_split_asm)
  show ?thesis
  proof (cases "u_path (rq_url r) = ''/media/api/status''")
    case True
    with g m have "authorize_status L g r now = Inr pk" "path = ''/connector/api/status''" "query = []"
      by (auto simp: gateway_guard_def split: sum.split_asm if_split_asm)
    with authorize_status_Inr sent s m True show ?thesis by fastforce
  next
    case False
    with g m obtain route where "parse_service_route (u_path (rq_url r)) ''/media/api/services/'' = Some route"
      "authorize_service L g r (sr_service route) now = Inr pk" "route_target r route = (path, query)"
      by (auto simp: gateway_guard_def split: option.split_asm sum.split_asm if_split_asm)
    with authorize_service_Inr sent s m False show ?thesis by fastforce
  qed
qed

end
