(* ===== verification/MediaClaims.thy ===== *)
theory MediaClaims
  imports MediaGateway
begin

text \<open>The properties of the media gateway, each with a concrete instance.\<close>

section \<open>Concrete values\<close>

definition mdg_signed :: event where
  "mdg_signed = \<lparr>ev_id = [], ev_pubkey = ''K1'', ev_created_at = 5, ev_kind = 27235,
     ev_tags = [[''u'', ''http://h/media/api/services/plex/stream/a%20b''], [''method'', ''GET'']],
     ev_content = [], ev_sig = ''ok''\<rparr>"

definition mdg_lib :: nostr_lib where
  "mdg_lib = \<lparr>nl_decode_event = (\<lambda>j. if j = JStr ''req'' then Some mdg_signed else None),
     nl_check_signature = (\<lambda>e. Inr (ev_sig e = ''ok'' \<and> ev_pubkey e \<noteq> [])),
     nl_get_id = ev_id, nl_valid_pubkey = (\<lambda>p. p \<noteq> [])\<rparr>"

definition mdg_request :: http_req where
  "mdg_request = \<lparr>rq_method = ''GET'', rq_url = empty_url\<lparr>u_path := ''/media/api/services/plex/stream/a b''\<rparr>,
     rq_host = ''h'', rq_header = hdr_set ''Authorization'' ''Nostr InJlcSI='' no_header, rq_tls = False,
     rq_remote = [], rq_body = None\<rparr>"

definition mdg_gateway :: gateway where
  "mdg_gateway = \<lparr>gw_connector_base_url = ''http://c/'', gw_connector_token = ''t'', gw_transport_label = [],
     gw_auth = new_media_authorizer ['' K1''] 0,
     gw_access = \<lparr>aa_rules = (\<lambda>_. None), aa_max_age = 0, aa_http_client = (\<lambda>_. Inl []),
        aa_dial_url = (\<lambda>_. Inl []), aa_trustroots_verifier = None, aa_follow_verifier = None\<rparr>,
     gw_service_access_rules = [],
     gw_http_client = (\<lambda>_. Inr \<lparr>up_code = 200, up_status = ''200 OK'',
        up_header = hdr_set ''Set-Cookie'' ''x'' (hdr_set ''Content-Type'' ''audio/mpeg'' no_header), up_body = ''music''\<rparr>)\<rparr>"

section \<open>Who may use the gateway, and for what\<close>

text \<open>
  C5: the gateway contacts the connector only for a GET request by an authorized key, at
  most once, with the one path that belongs to the requested route, and with no other
  headers than its own bearer token and the Range of the request: neither the client's
  Authorization nor any other header of it reaches the connector. Authorized is a granted
  key, or a key that all the rules of the service (for the status: of some service) admit.
\<close>

theorem gateway_contacts_only_authorized:
  assumes "q \<in> set (snd (gateway_serve L g r now))"
  shows "snd (gateway_serve L g r now) = [q] \<and> rq_method r = ''GET'' \<and> oq_method q = ''GET''
    \<and> oq_header q = connector_headers g (hdr_get (rq_header r) ''Range'')
    \<and> (\<exists>p. if u_path (rq_url r) = ''/media/api/status''
           then connector_url g ''/connector/api/status'' [] = Some (oq_url q)
             \<and> (media_verify_request L (gw_auth g) r now = Inr p
                \<or> (\<exists>k rules. (k, rules) \<in> set (gw_service_access_rules g)
                     \<and> verify_all_request L (gw_access g) r (media_clean_rule_names rules) now = Inr p))
           else \<exists>route. parse_service_route (u_path (rq_url r)) ''/media/api/services/'' = Some route
             \<and> connector_url g (fst (route_target r route)) (snd (route_target r route)) = Some (oq_url q)
             \<and> (media_verify_request L (gw_auth g) r now = Inr p
                \<or> verify_all_request L (gw_access g) r (service_rules g (sr_service route)) now = Inr p))"
  by (rule gateway_serve_sent [OF assms])

lemma mdg_sent: "(case gateway_serve mdg_lib mdg_gateway mdg_request (5 * second) of
    (resp, qs) \<Rightarrow> (rs_status resp, hdr_get (rs_header resp) ''Content-Type'', hdr_get (rs_header resp) ''Set-Cookie'',
      map (\<lambda>q. (oq_url q, hdr_get (oq_header q) ''Authorization'')) qs))
  = (200, ''audio/mpeg'', [], [(''http://c/connector/api/services/plex/stream/a%2520b'', ''Bearer t'')])"
  by code_simp

theorem gateway_contacts_only_authorized_witness:
  "\<exists>p. media_verify_request mdg_lib (gw_auth mdg_gateway) mdg_request (5 * second) = Inr p"
proof -
  from mdg_sent obtain q where q: "q \<in> set (snd (gateway_serve mdg_lib mdg_gateway mdg_request (5 * second)))"
    by (auto split: prod.splits)
  have n: "u_path (rq_url mdg_request) \<noteq> ''/media/api/status''" by code_simp
  have r: "service_rules mdg_gateway s = []" for s
    by (simp add: service_rules_def mdg_gateway_def media_clean_rule_names_def)
  have "verify_all_request L a r [] now \<noteq> Inr p" for L a r now p
    by (simp add: verify_all_Inr compact_rule_names_def)
  with gateway_contacts_only_authorized [OF q] n show ?thesis by (auto simp: r)
qed

text \<open>
  a key is granted exactly when it signed the request (as for the admin API) and is one
  of the trimmed, lower-cased, non-empty grant keys; without grants nobody is.
\<close>

theorem media_grant_exact:
  "media_verify_request L (new_media_authorizer ks age) r now = Inr p \<longleftrightarrow>
     (\<exists>e. event_from_authorization L (hdr_get (rq_header r) ''Authorization'') = Inr e
        \<and> nip98_valid L e (absolute_request_url r) (rq_method r) age now \<and> p = to_lower (ev_pubkey e))
     \<and> p \<noteq> [] \<and> p \<in> (\<lambda>k. to_lower (trim_space k)) ` set ks"
  unfolding media_verify_request_Inr by (auto simp: new_media_authorizer_def)

text \<open>
  the service routes are exactly the five shapes: random-song and search of a service,
  and stream of a service with one non-empty segment as its id.
\<close>

theorem service_route_exact:
  "parse_service_route path pre = Some route \<longleftrightarrow>
     valid_service (sr_service route) \<and>
     ((sr_action route = ''random-song'' \<or> sr_action route = ''search'')
        \<and> sr_stream_id route = [] \<and> path = pre @ sr_service route @ ''/'' @ sr_action route
      \<or> sr_action route = ''stream'' \<and> sr_stream_id route \<noteq> [] \<and> CHR ''/'' \<notin> set (sr_stream_id route)
        \<and> path = pre @ sr_service route @ ''/stream/'' @ sr_stream_id route)"
  (is "?l = ?r")
proof -
  have vs: "CHR ''/'' \<notin> set s" if "valid_service s" for s using that by (auto simp: valid_service_def)
  have ra: "CHR ''/'' \<notin> set ''random-song''" "CHR ''/'' \<notin> set ''search''" "CHR ''/'' \<notin> set ''stream''" by simp_all
  have rec: "route = \<lparr>sr_service = s, sr_action = a, sr_stream_id = i\<rparr> \<longleftrightarrow>
      sr_service route = s \<and> sr_action route = a \<and> sr_stream_id route = i" for s a i
    by (cases route) auto
  show ?thesis
  proof
    assume l: ?l
    then have pre: "has_prefix path pre" by (simp add: parse_service_route_def split: if_split_asm)
    then obtain rest where path: "path = pre @ rest" by (auto simp: has_prefix_def prefix_def)
    obtain s a parts where sp: "split_on (CHR ''/'') rest = s # a # parts"
      using l path by (cases "split_on (CHR ''/'') rest"; cases "tl (split_on (CHR ''/'') rest)")
        (auto simp: parse_service_route_def)
    have j: "rest = join ''/'' (s # a # parts)" using join_split_on [of "CHR ''/''" rest] sp by simp
    show ?r
    proof (cases "a = ''random-song'' \<or> a = ''search''")
      case True
      with l path sp have "valid_service s" "parts = []" "route = \<lparr>sr_service = s, sr_action = a, sr_stream_id = []\<rparr>"
        by (auto simp: parse_service_route_def split: if_split_asm)
      with True path j show ?thesis by simp
    next
      case False
      with l path sp have v: "valid_service s" "a = ''stream''"
        by (auto simp: parse_service_route_def split: if_split_asm)
      with False l path sp obtain i where i: "parts = [i]" "i \<noteq> []" "route = \<lparr>sr_service = s, sr_action = a, sr_stream_id = i\<rparr>"
        by (auto simp: parse_service_route_def split: list.split_asm if_split_asm)
      have "CHR ''/'' \<notin> set i" using split_on_no_sep [of i "CHR ''/''" rest] sp i by simp
      with v i path j show ?thesis by simp
    qed
  next
    assume r: ?r
    then have v: "valid_service (sr_service route)" by simp
    from r consider
      (two) "sr_action route = ''random-song'' \<or> sr_action route = ''search''" "sr_stream_id route = []"
        "path = pre @ sr_service route @ CHR ''/'' # sr_action route"
      | (three) "sr_action route = ''stream''" "sr_stream_id route \<noteq> []" "CHR ''/'' \<notin> set (sr_stream_id route)"
        "path = pre @ sr_service route @ CHR ''/'' # ''stream'' @ CHR ''/'' # sr_stream_id route"
      by auto
    then show ?l
    proof cases
      case two
      with ra have "split_on (CHR ''/'') (sr_service route @ CHR ''/'' # sr_action route) = [sr_service route, sr_action route]"
        unfolding split_on_append [OF vs [OF v]] by (auto simp: split_on_single)
      with two v show ?thesis by (cases route) (auto simp: parse_service_route_def)
    next
      case three
      then have "split_on (CHR ''/'') (sr_service route @ CHR ''/'' # ''stream'' @ CHR ''/'' # sr_stream_id route)
          = [sr_service route, ''stream'', sr_stream_id route]"
        unfolding split_on_append [OF vs [OF v]] split_on_append [OF ra(3)] by (simp add: split_on_single)
      with three v show ?thesis by (cases route) (auto simp: parse_service_route_def)
    qed
  qed
qed

text \<open>
  of a stream, the client gets the status, the body and only the four stream headers
  of the connector's answer; a failure to reach the connector is a 502.
\<close>

theorem gateway_stream_headers:
  "case proxy_stream g r path of (resp, qs) \<Rightarrow>
     (case fst (connector_request g path [] (hdr_get (rq_header r) ''Range'')) of
        Inl e \<Rightarrow> rs_status resp = 502
      | Inr up \<Rightarrow> rs_status resp = up_code up \<and> rs_body resp = BodyBytes (up_body up)
          \<and> (if k \<in> to_lower ` {''Content-Type'', ''Content-Length'', ''Content-Range'', ''Accept-Ranges''} then True
             else rs_header resp k = []))"
proof -
  have "copy_stream_headers no_header h k = []"
    if "k \<notin> to_lower ` {''Content-Type'', ''Content-Length'', ''Content-Range'', ''Accept-Ranges''}" for h
    using copy_stream_headers_only [of h k] that by (auto simp: stream_header_names_def)
  then show ?thesis
    by (auto simp: proxy_stream_def error_json_def httpx_write_json_def split: prod.splits sum.splits)
qed

text \<open>
  the id of a stream is not always passed on as it is: a blank in it is escaped twice,
  and the id \<open>..\<close> is cleaned away together with the segment before it, so the gateway
  asks the connector for another path than the stream's.
\<close>

theorem gateway_stream_id_not_preserved:
  "connector_url mdg_gateway (fst (route_target mdg_request
      \<lparr>sr_service = ''plex'', sr_action = ''stream'', sr_stream_id = ''a b''\<rparr>)) []
     = Some ''http://c/connector/api/services/plex/stream/a%2520b''
   \<and> connector_url mdg_gateway (fst (route_target mdg_request
      \<lparr>sr_service = ''plex'', sr_action = ''stream'', sr_stream_id = ''..''\<rparr>)) []
     = Some ''http://c/connector/api/services/plex''
   \<and> parse_service_route ''/media/api/services/plex/stream/..'' ''/media/api/services/''
     = Some \<lparr>sr_service = ''plex'', sr_action = ''stream'', sr_stream_id = ''..''\<rparr>"
  by code_simp

text \<open>
  when the connector cannot be reached, the error text in the body of the answer names
  the connector's private URL.
\<close>

theorem gateway_error_names_connector:
  "rs_body (fst (gateway_serve mdg_lib (mdg_gateway\<lparr>gw_http_client := (\<lambda>_. Inl ''refused'')\<rparr>) mdg_request (5 * second)))
   = BodyJson (JObj [(''error'', JStr (''Get '' @ [CHR 0x22]
       @ ''http://c/connector/api/services/plex/stream/a%2520b'' @ [CHR 0x22] @ '': refused''))])"
  by code_simp

end
