(* ===== verification/GoNet.thy ===== *)
theory GoNet
  imports GoHttp
begin

text \<open>
  The parts of Go's \<open>net\<close> and \<open>net/netip\<close> packages the program calls:
  \<open>SplitHostPort\<close>, \<open>ParseIP\<close>, \<open>ParseCIDR\<close> and \<open>IPNet.Contains\<close>. An
  address is a list of bytes, a byte an \<open>8 word\<close>. The facts say how long a parsed address
  is and what \<open>Contains\<close> decides for a parsed network.
\<close>

unbundle bit_operations_syntax

section \<open>Host and port\<close>

definition addr_error :: "string \<Rightarrow> string \<Rightarrow> string" where
  "addr_error addr why = (if addr = [] then why else ''address '' @ addr @ '': '' @ why)"

definition split_host_port :: "string \<Rightarrow> string + (string \<times> string)" where
  "split_host_port hp =
     (case last_cut (CHR '':'') hp of
        None \<Rightarrow> Inl (addr_error hp ''missing port in address'')
      | Some (bef, port) \<Rightarrow>
         if has_prefix hp ''['' then
           (case cut (CHR '']'') hp of
              None \<Rightarrow> Inl (addr_error hp (''missing '' @ [CHR 0x27] @ '']'' @ [CHR 0x27] @ '' in address''))
            | Some (inside, after) \<Rightarrow>
               if after = [] then Inl (addr_error hp ''missing port in address'')
               else if inside @ '']'' \<noteq> bef then
                 Inl (addr_error hp (if has_prefix after '':'' then ''too many colons in address'' else ''missing port in address''))
               else if CHR ''['' \<in> set (tl hp) then
                 Inl (addr_error hp (''unexpected '' @ [CHR 0x27] @ ''['' @ [CHR 0x27] @ '' in address''))
               else if CHR '']'' \<in> set after then
                 Inl (addr_error hp (''unexpected '' @ [CHR 0x27] @ '']'' @ [CHR 0x27] @ '' in address''))
               else Inr (tl inside, port))
         else if CHR '':'' \<in> set bef then Inl (addr_error hp ''too many colons in address'')
         else if CHR ''['' \<in> set hp then
           Inl (addr_error hp (''unexpected '' @ [CHR 0x27] @ ''['' @ [CHR 0x27] @ '' in address''))
         else if CHR '']'' \<in> set hp then
           Inl (addr_error hp (''unexpected '' @ [CHR 0x27] @ '']'' @ [CHR 0x27] @ '' in address''))
         else Inr (bef, port))"

section \<open>Addresses\<close>

type_synonym ip_bytes = "8 word list"

text \<open>
  \<open>parseIPv4Fields\<close>: four decimal fields of at most 255, without leading zeros.
\<close>

definition ipv4_field :: "string \<Rightarrow> 8 word option" where
  "ipv4_field s =
     (if all_digits s \<and> (length s = 1 \<or> hd s \<noteq> CHR ''0'') \<and> digits_val s \<le> 255
      then Some (word_of_int (digits_val s)) else None)"

definition parse_ipv4 :: "string \<Rightarrow> ip_bytes option" where
  "parse_ipv4 s =
     (case map ipv4_field (split_on (CHR ''.'') s) of
        [Some a, Some b, Some c, Some d] \<Rightarrow> Some [a, b, c, d]
      | _ \<Rightarrow> None)"

fun hex_value :: "nat \<Rightarrow> string \<Rightarrow> nat" where
  "hex_value acc [] = acc"
| "hex_value acc (c # cs) = hex_value (16 * acc + unhex c) cs"

text \<open>
  The loop of \<open>parseIPv6\<close>: the bytes so far, where the ellipsis is among them, and the
  rest of the text. It returns when the text ends, or after sixteen bytes.
\<close>

function ipv6_groups :: "ip_bytes \<Rightarrow> nat option \<Rightarrow> string \<Rightarrow> (ip_bytes \<times> nat option \<times> string) option" where
  "ipv6_groups acc ell s =
     (if 16 \<le> length acc then Some (acc, ell, s)
      else (let h = takeWhile is_hex s; r = dropWhile is_hex s
       in if h = [] \<or> 4 < length h then None
          else if has_prefix r ''.'' then
            (if ell = None \<and> length acc \<noteq> 12 then None
             else if 16 < length acc + 4 then None
             else (case parse_ipv4 s of None \<Rightarrow> None | Some bs \<Rightarrow> Some (acc @ bs, ell, [])))
          else (let v = hex_value 0 h; acc' = acc @ [word_of_nat (v div 256), word_of_nat (v mod 256)]
            in (case r of
                  [] \<Rightarrow> Some (acc', ell, [])
                | c # t \<Rightarrow>
                   if c \<noteq> CHR '':'' \<or> t = [] then None
                   else if has_prefix t '':'' then
                     (if ell \<noteq> None then None
                      else if tl t = [] then Some (acc', Some (length acc'), [])
                      else ipv6_groups acc' (Some (length acc')) (tl t))
                   else ipv6_groups acc' ell t))))"
  by pat_completeness auto
termination
  by (relation "measure (\<lambda>(acc, _, _). 16 - length acc)") auto

declare ipv6_groups.simps [simp del]

definition ipv6_finish :: "ip_bytes \<Rightarrow> nat option \<Rightarrow> ip_bytes option" where
  "ipv6_finish acc ell =
     (if length acc < 16 then
        (case ell of None \<Rightarrow> None
         | Some e \<Rightarrow> Some (take e acc @ replicate (16 - length acc) 0 @ drop e acc))
      else if ell \<noteq> None then None else Some acc)"

text \<open>Zones are not modelled: an address with a zone is refused, as the callers do.\<close>

definition parse_ipv6 :: "string \<Rightarrow> ip_bytes option" where
  "parse_ipv6 s =
     (if CHR 0x25 \<in> set s then None
      else if has_prefix s ''::'' then
        (if drop 2 s = [] then Some (replicate 16 0)
         else (case ipv6_groups [] (Some 0) (drop 2 s) of
                 Some (acc, ell, []) \<Rightarrow> ipv6_finish acc ell | _ \<Rightarrow> None))
      else (case ipv6_groups [] None s of
              Some (acc, ell, []) \<Rightarrow> ipv6_finish acc ell | _ \<Rightarrow> None))"

text \<open>\<open>netip.ParseAddr\<close>: four bytes or sixteen.\<close>

fun addr_kind :: "string \<Rightarrow> char option" where
  "addr_kind [] = None"
| "addr_kind (c # cs) = (if c \<in> {CHR ''.'', CHR '':'', CHR 0x25} then Some c else addr_kind cs)"

definition parse_addr :: "string \<Rightarrow> ip_bytes option" where
  "parse_addr s = (case addr_kind s of
       Some c \<Rightarrow> if c = CHR ''.'' then parse_ipv4 s else if c = CHR '':'' then parse_ipv6 s else None
     | None \<Rightarrow> None)"

definition v4_in_v6_prefix :: ip_bytes where
  "v4_in_v6_prefix = replicate 10 0 @ [0xFF, 0xFF]"

definition addr_as16 :: "ip_bytes \<Rightarrow> ip_bytes" where
  "addr_as16 a = (if length a = 4 then v4_in_v6_prefix @ a else a)"

definition parse_ip :: "string \<Rightarrow> ip_bytes option" where
  "parse_ip s = map_option addr_as16 (parse_addr s)"

text \<open>\<open>IP.To4\<close>.\<close>

definition ip_to4 :: "ip_bytes \<Rightarrow> ip_bytes option" where
  "ip_to4 ip = (if length ip = 4 then Some ip
     else if length ip = 16 \<and> take 12 ip = v4_in_v6_prefix then Some (drop 12 ip) else None)"

section \<open>Networks\<close>

record ip_net =
  in_ip :: ip_bytes
  in_mask :: ip_bytes

text \<open>\<open>CIDRMask\<close>: \<open>ones\<close> one bits in \<open>len\<close> bytes.\<close>

fun cidr_mask :: "nat \<Rightarrow> nat \<Rightarrow> ip_bytes" where
  "cidr_mask ones 0 = []"
| "cidr_mask ones (Suc len) =
     (if 8 \<le> ones then 0xFF # cidr_mask (ones - 8) len
      else NOT (drop_bit ones 0xFF) # cidr_mask 0 len)"

definition ip_and :: "ip_bytes \<Rightarrow> ip_bytes \<Rightarrow> ip_bytes" where
  "ip_and a m = map2 (AND) a m"

text \<open>
  \<open>net.ParseCIDR\<close>: the network only; \<open>Inl\<close> is the text of the error. The decimal loop
  \<open>dtoi\<close> gives up above 16777215, which is above every admissible length.
\<close>

definition parse_cidr :: "string \<Rightarrow> string + ip_net" where
  "parse_cidr s =
     (case cut (CHR ''/'') s of
        None \<Rightarrow> Inl (''invalid CIDR address: '' @ s)
      | Some (addr, msk) \<Rightarrow>
         (case parse_addr addr of
            None \<Rightarrow> Inl (''invalid CIDR address: '' @ s)
          | Some ip \<Rightarrow>
             if \<not> all_digits msk \<or> int (8 * length ip) < digits_val msk
             then Inl (''invalid CIDR address: '' @ s)
             else (let m = cidr_mask (nat (digits_val msk)) (length ip)
                   in Inr \<lparr>in_ip = ip_and ip m, in_mask = m\<rparr>)))"

definition net_number_and_mask :: "ip_net \<Rightarrow> (ip_bytes \<times> ip_bytes) option" where
  "net_number_and_mask n =
     (case ip_to4 (in_ip n) of
        Some ip \<Rightarrow> if length (in_mask n) = 4 then Some (ip, in_mask n)
          else if length (in_mask n) = 16 then Some (ip, drop 12 (in_mask n)) else None
      | None \<Rightarrow> if length (in_ip n) \<noteq> 16 then None
          else if length (in_mask n) = 16 then Some (in_ip n, in_mask n) else None)"

definition net_contains :: "ip_net \<Rightarrow> ip_bytes \<Rightarrow> bool" where
  "net_contains n ip =
     (let x = (case ip_to4 ip of Some y \<Rightarrow> y | None \<Rightarrow> ip)
      in case net_number_and_mask n of
           None \<Rightarrow> x = []
         | Some (nn, m) \<Rightarrow> length x = length nn \<and> ip_and nn m = ip_and x m)"

section \<open>Facts on addresses\<close>

lemma ipv6_groups_length:
  "ipv6_groups acc ell s = Some (acc', ell', r) \<Longrightarrow> even (length acc) \<Longrightarrow> length acc \<le> 16
     \<Longrightarrow> case ell of None \<Rightarrow> True | Some e \<Rightarrow> e \<le> length acc
     \<Longrightarrow> length acc' \<le> 16 \<and> (case ell' of None \<Rightarrow> True | Some e \<Rightarrow> e \<le> length acc')"
proof (induction acc ell s rule: ipv6_groups.induct)
  case (1 acc ell s)
  show ?case
  proof (cases "16 \<le> length acc")
    case True
    with 1 show ?thesis by (auto simp: ipv6_groups.simps)
  next
    case False
    with "1.prems"(2) have l: "length acc + 2 \<le> 16" by presburger
    let ?h = "takeWhile is_hex s" and ?r = "dropWhile is_hex s"
    let ?a = "acc @ [word_of_nat (hex_value 0 ?h div 256), word_of_nat (hex_value 0 ?h mod 256)]"
    from False "1.prems"(1) have h: "\<not> (?h = [] \<or> 4 < length ?h)"
      by (subst (asm) ipv6_groups.simps) (auto simp: Let_def)
    consider "has_prefix ?r ''.''" | "\<not> has_prefix ?r ''.''" "?r = []"
      | c t where "\<not> has_prefix ?r ''.''" "?r = c # t" by (cases ?r) auto
    then show ?thesis
    proof cases
      case 1
      with False h "1.prems" show ?thesis
        by (subst (asm) ipv6_groups.simps)
          (auto simp: Let_def parse_ipv4_def split: if_splits option.splits list.splits)
    next
      case 2
      with False h "1.prems" l show ?thesis
        by (subst (asm) ipv6_groups.simps) (auto simp: Let_def split: option.splits)
    next
      case (3 c t)
      with False h "1.prems"(1) have ct: "c = CHR '':''" "t \<noteq> []"
        by (subst (asm) ipv6_groups.simps, auto simp: Let_def split: if_splits)+
      show ?thesis
      proof (cases "has_prefix t '':''")
        case False
        have "ipv6_groups acc ell s = ipv6_groups ?a ell t"
          using False 3 ct h \<open>\<not> 16 \<le> length acc\<close>
          by (subst ipv6_groups.simps) (simp add: Let_def del: dropWhile_eq_Nil_conv takeWhile_eq_Nil_iff)
        with "1.IH"(2) [OF \<open>\<not> 16 \<le> length acc\<close> refl refl h 3(1) refl refl 3(2)]
          ct False "1.prems" l
        show ?thesis by (auto split: option.splits)
      next
        case True
        show ?thesis
        proof (cases "ell = None \<and> tl t \<noteq> []")
          case T: True
          have "ipv6_groups acc ell s = ipv6_groups ?a (Some (length ?a)) (tl t)"
            using True T 3 ct h \<open>\<not> 16 \<le> length acc\<close>
            by (subst ipv6_groups.simps) (simp add: Let_def del: dropWhile_eq_Nil_conv takeWhile_eq_Nil_iff)
          with "1.IH"(1) [OF \<open>\<not> 16 \<le> length acc\<close> refl refl h 3(1) refl refl 3(2) _ True]
            ct T "1.prems" l
          show ?thesis by (auto split: option.splits)
        next
          case F: False
          with True 3 ct h \<open>\<not> 16 \<le> length acc\<close> "1.prems"(1) l show ?thesis
            by (subst (asm) ipv6_groups.simps)
              (auto simp: Let_def split: if_splits simp del: dropWhile_eq_Nil_conv takeWhile_eq_Nil_iff)
        qed
      qed
    qed
  qed
qed

lemma ipv6_finish_length:
  "ipv6_finish acc ell = Some b \<Longrightarrow> length acc \<le> 16 \<Longrightarrow> case ell of None \<Rightarrow> True | Some e \<Rightarrow> e \<le> length acc
     \<Longrightarrow> length b = 16"
  by (auto simp: ipv6_finish_def split: if_splits option.splits)

lemma parse_ipv6_length: "parse_ipv6 s = Some b \<Longrightarrow> length b = 16"
  by (auto simp: parse_ipv6_def split: if_splits option.splits list.splits
      dest!: ipv6_groups_length ipv6_finish_length)

lemma parse_ipv4_length: "parse_ipv4 s = Some b \<Longrightarrow> length b = 4"
  by (auto simp: parse_ipv4_def split: list.splits option.splits)

lemma parse_addr_length: "parse_addr s = Some b \<Longrightarrow> length b = 4 \<or> length b = 16"
  by (auto simp: parse_addr_def dest: parse_ipv4_length parse_ipv6_length split: option.splits if_splits)

lemma parse_ip_length: "parse_ip s = Some b \<Longrightarrow> length b = 16"
  by (auto simp: parse_ip_def addr_as16_def v4_in_v6_prefix_def dest: parse_addr_length)

section \<open>What a network contains\<close>

text \<open>The bits of an address, the most significant first.\<close>

definition byte_bits :: "8 word \<Rightarrow> bool list" where
  "byte_bits w = map (bit w) [7, 6, 5, 4, 3, 2, 1, 0]"

definition ip_bits :: "ip_bytes \<Rightarrow> bool list" where
  "ip_bits a = concat (map byte_bits a)"

definition ip_is_v4 :: "ip_bytes \<Rightarrow> bool" where
  "ip_is_v4 ip \<longleftrightarrow> ip_to4 ip \<noteq> None"

lemma length_byte_bits [simp]: "length (byte_bits w) = 8"
  by (simp add: byte_bits_def)

lemma length_ip_bits [simp]: "length (ip_bits a) = 8 * length a"
  by (induction a) (simp_all add: ip_bits_def)

lemma ip_bits_append [simp]: "ip_bits (a @ b) = ip_bits a @ ip_bits b"
  by (simp add: ip_bits_def)

lemma ip_bits_Cons: "ip_bits (w # a) = byte_bits w @ ip_bits a"
  by (simp add: ip_bits_def)

lemma length_ip_and [simp]: "length (ip_and a m) = min (length a) (length m)"
  by (simp add: ip_and_def)

lemma ip_and_Cons [simp]: "ip_and (x # a) (w # m) = (x AND w) # ip_and a m"
  by (simp add: ip_and_def)

lemma ip_and_append: "length a = length m \<Longrightarrow> ip_and (a @ b) (m @ k) = ip_and a m @ ip_and b k"
  by (simp add: ip_and_def)

lemma ip_and_idem: "ip_and (ip_and a m) m = ip_and a m"
  by (rule nth_equalityI) (simp_all add: ip_and_def and.assoc)

lemma length_cidr_mask [simp]: "length (cidr_mask n l) = l"
  by (induction n l rule: cidr_mask.induct) simp_all

lemma byte_eq_iff: "(v :: 8 word) = w \<longleftrightarrow> (\<forall>k < 8. bit v k = bit w k)"
  by (auto intro: bit_word_eqI)

lemma byte_full: "(0xFF :: 8 word) = - 1"
  by simp

lemma byte_and_full [simp]: "(w :: 8 word) AND 0xFF = w"
  by (simp only: byte_full and.right_neutral)

lemma all_below_8: "(\<forall>k < 8. Q k) \<longleftrightarrow> Q 7 \<and> Q 6 \<and> Q 5 \<and> Q 4 \<and> Q 3 \<and> Q 2 \<and> Q 1 \<and> Q (0 :: nat)"
  by (simp add: numeral_eq_Suc All_less_Suc conj_ac)

lemma byte_top_bits:
  fixes v w :: "8 word"
  assumes "n < 8"
  shows "v AND NOT (drop_bit n 0xFF) = w AND NOT (drop_bit n 0xFF)
    \<longleftrightarrow> take n (byte_bits v) = take n (byte_bits w)"
proof -
  have m: "bit (NOT (drop_bit n (0xFF :: 8 word))) k \<longleftrightarrow> 8 - n \<le> k" if "k < 8" for k
  proof -
    have "bit (0xFF :: 8 word) (n + k) \<longleftrightarrow> n + k < 8" by (simp only: byte_full bit_minus_1_iff) simp
    with that show ?thesis by (auto simp: bit_not_iff bit_drop_bit_eq)
  qed
  have "v AND NOT (drop_bit n 0xFF) = w AND NOT (drop_bit n 0xFF)
    \<longleftrightarrow> (\<forall>k < 8. 8 - n \<le> k \<longrightarrow> bit v k = bit w k)"
    unfolding byte_eq_iff using m by (auto simp: bit_and_iff)
  also have "\<dots> \<longleftrightarrow> take n (byte_bits v) = take n (byte_bits w)"
  proof -
    consider "n = 0" | "n = 1" | "n = 2" | "n = 3" | "n = 4" | "n = 5" | "n = 6" | "n = 7"
      using assms by linarith
    then show ?thesis by cases (simp_all add: all_below_8 byte_bits_def)
  qed
  finally show ?thesis .
qed

lemma ip_and_zero_mask: "length a = length b \<Longrightarrow> ip_and a (cidr_mask 0 l) = ip_and b (cidr_mask 0 l)"
proof (induction l arbitrary: a b)
  case 0
  then show ?case by (simp add: ip_and_def)
next
  case (Suc l)
  show ?case
  proof (cases a)
    case Nil
    with Suc show ?thesis by simp
  next
    case (Cons x a')
    then obtain y b' where "b = y # b'" "length a' = length b'" using Suc.prems by (cases b) auto
    moreover have "cidr_mask 0 (Suc l) = NOT (drop_bit 0 0xFF) # cidr_mask 0 l"
      by (simp only: cidr_mask.simps not_numeral_le_zero if_False)
    moreover have "x AND NOT (drop_bit 0 0xFF) = y AND NOT (drop_bit 0 0xFF)"
      by (rule iffD2 [OF byte_top_bits]) simp_all
    ultimately show ?thesis using Cons Suc.IH [of a' b'] by (simp only: ip_and_Cons)
  qed
qed

text \<open>Two addresses agree under the mask of length \<open>n\<close> when their first \<open>n\<close> bits do.\<close>

lemma ip_and_cidr_mask:
  "length a = l \<Longrightarrow> length b = l \<Longrightarrow>
     ip_and a (cidr_mask n l) = ip_and b (cidr_mask n l) \<longleftrightarrow> take n (ip_bits a) = take n (ip_bits b)"
proof (induction n l arbitrary: a b rule: cidr_mask.induct)
  case (1 n)
  then show ?case by (simp add: ip_and_def ip_bits_def)
next
  case (2 n l)
  then obtain x a' y b' where ab: "a = x # a'" "b = y # b'" "length a' = l" "length b' = l"
    by (metis length_Suc_conv)
  show ?case
  proof (cases "8 \<le> n")
    case True
    have "byte_bits x = byte_bits y \<longleftrightarrow> x = y"
      unfolding byte_eq_iff all_below_8 by (simp add: byte_bits_def)
    with True ab "2.IH"(1) [OF True, of a' b'] show ?thesis
      by (simp add: ip_bits_Cons)
  next
    case False
    with ab ip_and_zero_mask [of a' b' l] byte_top_bits [of n x y] show ?thesis
      by (simp add: ip_bits_Cons)
  qed
qed


text \<open>The length of a prefix of \<open>n\<close> bits, counted in the sixteen-byte form.\<close>

definition cidr_len16 :: "ip_bytes \<Rightarrow> nat \<Rightarrow> nat" where
  "cidr_len16 a n = (if length a = 4 then 96 + n else n)"

lemma length_v4_prefix [simp]: "length v4_in_v6_prefix = 12"
  by (simp add: v4_in_v6_prefix_def)

lemma ip_to4_v4 [simp]: "length a = 4 \<Longrightarrow> ip_to4 a = Some a"
  by (simp add: ip_to4_def)

lemma ip_to4_none:
  assumes "length ip = 16"
  shows "ip_to4 ip = None \<or> (\<exists>y. ip = v4_in_v6_prefix @ y \<and> length y = 4 \<and> ip_to4 ip = Some y)"
proof (cases "take 12 ip = v4_in_v6_prefix")
  case True
  then have "ip = v4_in_v6_prefix @ drop 12 ip" by (metis append_take_drop_id)
  with True assms show ?thesis by (auto simp: ip_to4_def)
next
  case False
  with assms show ?thesis by (simp add: ip_to4_def)
qed

lemma net_contains_v4:
  assumes "length a = 4" "length ip = 16" "n \<le> 32"
  shows "net_contains \<lparr>in_ip = ip_and a (cidr_mask n 4), in_mask = cidr_mask n 4\<rparr> ip
    \<longleftrightarrow> ip_is_v4 ip \<and> take (96 + n) (ip_bits ip) = take (96 + n) (ip_bits (addr_as16 a))"
  using ip_to4_none [OF assms(2)]
proof (elim disjE exE conjE)
  assume "ip_to4 ip = None"
  with assms show ?thesis by (simp add: net_contains_def net_number_and_mask_def ip_is_v4_def)
next
  fix y assume y: "ip = v4_in_v6_prefix @ y" "length y = 4" "ip_to4 ip = Some y"
  with assms ip_and_cidr_mask [of a 4 y n] show ?thesis
    by (auto simp: net_contains_def net_number_and_mask_def ip_is_v4_def ip_and_idem addr_as16_def)
qed

lemma net_contains_mask16:
  assumes m: "length m = 16" and b: "length b = 16" "ip_and b m = b" and ip: "length ip = 16"
  shows "net_contains \<lparr>in_ip = b, in_mask = m\<rparr> ip \<longleftrightarrow> ip_is_v4 ip = ip_is_v4 b \<and> ip_and ip m = b"
  using ip_to4_none [OF b(1)] ip_to4_none [OF ip]
proof (elim disjE exE conjE)
  assume "ip_to4 b = None" "ip_to4 ip = None"
  with m b ip show ?thesis by (auto simp: net_contains_def net_number_and_mask_def ip_is_v4_def)
next
  fix y assume "ip_to4 b = None" "ip_to4 ip = Some y" "length y = 4"
  with m b ip show ?thesis by (simp add: net_contains_def net_number_and_mask_def ip_is_v4_def)
next
  fix z assume "ip_to4 b = Some z" "length z = 4" "ip_to4 ip = None"
  with m b ip show ?thesis by (simp add: net_contains_def net_number_and_mask_def ip_is_v4_def)
next
  fix z y assume z: "b = v4_in_v6_prefix @ z" "length z = 4" "ip_to4 b = Some z"
    and y: "ip = v4_in_v6_prefix @ y" "length y = 4" "ip_to4 ip = Some y"
  have spl: "ip_and (v4_in_v6_prefix @ x) m = ip_and v4_in_v6_prefix (take 12 m) @ ip_and x (drop 12 m)" for x
    using ip_and_append [of v4_in_v6_prefix "take 12 m" x "drop 12 m"] m by simp
  have "ip_and v4_in_v6_prefix (take 12 m) @ ip_and z (drop 12 m) = v4_in_v6_prefix @ z"
    using b(2) unfolding z(1) spl .
  then have s: "ip_and v4_in_v6_prefix (take 12 m) = v4_in_v6_prefix" "ip_and z (drop 12 m) = z"
    using m by (simp_all add: append_eq_append_conv)
  have "ip_and ip m = b \<longleftrightarrow> ip_and y (drop 12 m) = z"
    unfolding y(1) z(1) spl s(1) by simp
  with y(2,3) z(2,3) m s(2) show ?thesis
    by (auto simp: net_contains_def net_number_and_mask_def ip_is_v4_def)
qed

lemma net_contains_v6:
  assumes a: "length a = 16" and ip: "length ip = 16"
  shows "net_contains \<lparr>in_ip = ip_and a (cidr_mask n 16), in_mask = cidr_mask n 16\<rparr> ip
    \<longleftrightarrow> ip_is_v4 ip = ip_is_v4 (ip_and a (cidr_mask n 16)) \<and> take n (ip_bits ip) = take n (ip_bits a)"
  using net_contains_mask16 [of "cidr_mask n 16" "ip_and a (cidr_mask n 16)" ip] a ip
    ip_and_cidr_mask [OF ip a] by (simp add: ip_and_idem)

text \<open>
  \<open>IPNet.Contains\<close> for a network read by \<open>ParseCIDR\<close>: the address is of the same
  family (IPv4 and IPv4-mapped addresses being one family) as the network's base address,
  and both begin with the same bits.
\<close>

lemma parse_cidr_contains:
  assumes "parse_cidr (addr @ CHR ''/'' # len) = Inr net" "CHR ''/'' \<notin> set addr" "length ip = 16"
  shows "\<exists>a. parse_addr addr = Some a \<and>
    (net_contains net ip \<longleftrightarrow> ip_is_v4 ip = ip_is_v4 (in_ip net)
       \<and> take (cidr_len16 a (nat (digits_val len))) (ip_bits ip)
         = take (cidr_len16 a (nat (digits_val len))) (ip_bits (addr_as16 a)))"
proof -
  have "cut (CHR ''/'') (addr @ CHR ''/'' # len) = Some (addr, len)" using assms(2) by (simp add: cut_Some_iff)
  with assms(1) obtain a where a: "parse_addr addr = Some a" "digits_val len \<le> int (8 * length a)"
    and net: "net = \<lparr>in_ip = ip_and a (cidr_mask (nat (digits_val len)) (length a)),
      in_mask = cidr_mask (nat (digits_val len)) (length a)\<rparr>"
    by (auto simp: parse_cidr_def Let_def split: option.splits if_splits)
  from parse_addr_length [OF a(1)] show ?thesis
  proof
    assume l: "length a = 4"
    with a(2) have "nat (digits_val len) \<le> 32" by simp
    from net_contains_v4 [OF l assms(3) this] a(1) l show ?thesis
      by (simp add: net cidr_len16_def ip_is_v4_def)
  next
    assume l: "length a = 16"
    from net_contains_v6 [OF l assms(3)] a(1) l show ?thesis
      by (simp add: net cidr_len16_def addr_as16_def)
  qed
qed

end
