(* ===== verification/GoEncode.thy ===== *)
theory GoEncode
  imports GoHttp
begin

text \<open>
  Encoders of Go's standard library the program calls: the unpadded URL alphabet of
  \<open>encoding/base64\<close>, the string literals and indented objects of \<open>encoding/json\<close>, the
  verb \<open>%q\<close> of \<open>fmt\<close>. The facts are the round trips through the decoders.
\<close>

section \<open>Base64, unpadded and with the URL alphabet\<close>

definition b64_url :: "char \<Rightarrow> nat option" where
  "b64_url c = (let n = (of_char c :: nat) in
     if 65 \<le> n \<and> n \<le> 90 then Some (n - 65) else if 97 \<le> n \<and> n \<le> 122 then Some (n - 71)
     else if 48 \<le> n \<and> n \<le> 57 then Some (n + 4) else if c = CHR ''-'' then Some 62
     else if c = CHR ''_'' then Some 63 else None)"

fun b64url_groups :: "string \<Rightarrow> string option" where
  "b64url_groups [] = Some []"
| "b64url_groups [a] = None"
| "b64url_groups [a, b] =
     (case (b64_url a, b64_url b) of
        (Some w, Some x) \<Rightarrow> Some [char_of (w * 4 + x div 16)] | _ \<Rightarrow> None)"
| "b64url_groups [a, b, c] =
     (case (b64_url a, b64_url b, b64_url c) of
        (Some w, Some x, Some y) \<Rightarrow> Some [char_of (w * 4 + x div 16), char_of (x mod 16 * 16 + y div 4)]
      | _ \<Rightarrow> None)"
| "b64url_groups (a # b # c # d # r) =
     (case (b64_url a, b64_url b, b64_url c, b64_url d) of
        (Some w, Some x, Some y, Some z) \<Rightarrow>
          map_option (\<lambda>t. char_of (w * 4 + x div 16) # char_of (x mod 16 * 16 + y div 4) # char_of (y mod 4 * 64 + z) # t)
            (b64url_groups r)
      | _ \<Rightarrow> None)"

definition b64url_decode :: "string \<Rightarrow> string option" where
  "b64url_decode s = b64url_groups (filter (\<lambda>c. c \<noteq> CHR 0x0A \<and> c \<noteq> CHR 0x0D) s)"

definition b64url_char :: "nat \<Rightarrow> char" where
  "b64url_char n = char_of (if n < 26 then n + 65 else if n < 52 then n + 71 else if n < 62 then n - 4
     else if n = 62 then 45 else 95)"

fun b64url_encode :: "string \<Rightarrow> string" where
  "b64url_encode [] = []"
| "b64url_encode [a] = (let x = of_char a in [b64url_char (x div 4), b64url_char (x mod 4 * 16)])"
| "b64url_encode [a, b] = (let x = of_char a; y = of_char b in
     [b64url_char (x div 4), b64url_char (x mod 4 * 16 + y div 16), b64url_char (y mod 16 * 4)])"
| "b64url_encode (a # b # c # s) = (let x = of_char a; y = of_char b; z = of_char c in
     b64url_char (x div 4) # b64url_char (x mod 4 * 16 + y div 16) # b64url_char (y mod 16 * 4 + z div 64)
       # b64url_char (z mod 64) # b64url_encode s)"

section \<open>Writing JSON strings\<close>

definition lower_hex :: "nat \<Rightarrow> char" where
  "lower_hex n = char_of (if n < 10 then n + 48 else n + 87)"

text \<open>
  Strings as \<open>json.Marshal\<close> writes them, HTML characters escaped. Bytes above 127 are copied.
\<close>

definition json_escape_char :: "char \<Rightarrow> string" where
  "json_escape_char c =
     (if c = CHR 0x22 \<or> c = CHR 0x5C then [CHR 0x5C, c]
      else if c = CHR 0x08 then [CHR 0x5C, CHR ''b''] else if c = CHR 0x0C then [CHR 0x5C, CHR ''f'']
      else if c = CHR 0x0A then [CHR 0x5C, CHR ''n''] else if c = CHR 0x0D then [CHR 0x5C, CHR ''r'']
      else if c = CHR 0x09 then [CHR 0x5C, CHR ''t'']
      else if (of_char c :: nat) < 32 \<or> c = CHR ''<'' \<or> c = CHR ''>'' \<or> c = CHR ''&''
      then [CHR 0x5C, CHR ''u'', CHR ''0'', CHR ''0'', lower_hex (of_char c div 16), lower_hex (of_char c mod 16)]
      else [c])"

definition json_quote :: "string \<Rightarrow> string" where
  "json_quote s = CHR 0x22 # concat (map json_escape_char s) @ [CHR 0x22]"

text \<open>\<open>json.MarshalIndent(v, "", "  ")\<close> for a struct of strings that is not empty.\<close>

definition json_line :: "string \<times> string \<Rightarrow> string" where
  "json_line kv = [CHR 0x0A] @ ''  '' @ json_quote (fst kv) @ '': '' @ json_quote (snd kv)"

definition json_indent_strings :: "(string \<times> string) list \<Rightarrow> string" where
  "json_indent_strings kvs = ''{'' @ join '','' (map json_line kvs) @ [CHR 0x0A] @ ''}''"

text \<open>The verb \<open>%q\<close> of \<open>fmt\<close>: printable ASCII is copied, other bytes are escaped.\<close>

definition go_quote_char :: "char \<Rightarrow> string" where
  "go_quote_char c = (let n = (of_char c :: nat) in
     if c = CHR 0x22 \<or> c = CHR 0x5C then [CHR 0x5C, c]
     else if 32 \<le> n \<and> n < 127 then [c]
     else if n = 7 then [CHR 0x5C, CHR ''a''] else if n = 8 then [CHR 0x5C, CHR ''b'']
     else if n = 9 then [CHR 0x5C, CHR ''t''] else if n = 10 then [CHR 0x5C, CHR ''n'']
     else if n = 11 then [CHR 0x5C, CHR ''v''] else if n = 12 then [CHR 0x5C, CHR ''f'']
     else if n = 13 then [CHR 0x5C, CHR ''r'']
     else [CHR 0x5C, CHR ''x'', lower_hex (n div 16), lower_hex (n mod 16)])"

definition go_quote :: "string \<Rightarrow> string" where
  "go_quote s = CHR 0x22 # concat (map go_quote_char s) @ [CHR 0x22]"

section \<open>Facts\<close>

lemma b64url_char_code: "n < 64 \<Longrightarrow> (of_char (b64url_char n) :: nat) =
    (if n < 26 then n + 65 else if n < 52 then n + 71 else if n < 62 then n - 4 else if n = 62 then 45 else 95)"
  by (simp add: b64url_char_def)

lemma char_eq_code: "c = d \<longleftrightarrow> (of_char c :: nat) = of_char d"
  using inj_of_char [where 'a = nat] by (auto simp: inj_def)

lemma b64_url_char [simp]: "n < 64 \<Longrightarrow> b64_url (b64url_char n) = Some n"
  by (auto simp: b64_url_def b64url_char_code char_eq_code Let_def)

text \<open>The characters of an encoding.\<close>

definition id_char :: "char \<Rightarrow> bool" where
  "id_char c \<longleftrightarrow> is_alpha c \<or> is_digit c \<or> c = CHR ''-'' \<or> c = CHR ''_''"

lemma id_char_b64 [simp]: "n < 64 \<Longrightarrow> id_char (b64url_char n)"
  by (auto simp: id_char_def is_alpha_def is_digit_def char_eq_code b64url_char_code Let_def)

lemma byte_lt [simp]: "(of_char c :: nat) < 256"
  by (rule nat_of_char_less_256)

lemma b64_byte_parts [simp]:
  "(of_char c :: nat) div 4 < 64" "(of_char c :: nat) div 16 < 16" "(of_char c :: nat) div 64 < 4"
  using byte_lt [of c] by (simp_all add: less_mult_imp_div_less)

lemma b64_sum_lt [simp]:
  "x < 16 \<Longrightarrow> a mod 4 * 16 + x < (64 :: nat)" "y < 4 \<Longrightarrow> a mod 16 * 4 + y < (64 :: nat)"
  using mod_less_divisor [of 4 a] mod_less_divisor [of 16 a] by linarith+

lemma b64_rejoin: "b < 16 \<Longrightarrow> a div 4 * 4 + (a mod 4 * 16 + b) div 16 = (a :: nat)"
  by (simp only: div_mult_self3 div_less) simp

lemma b64_rejoin2: "b < 256 \<Longrightarrow> c < 4 \<Longrightarrow> (a mod 4 * 16 + b div 16) mod 16 * 16 + (b mod 16 * 4 + c) div 4 = (b :: nat)"
  by (simp only: div_mult_self3 mod_mult_self3 div_less mod_less less_mult_imp_div_less) simp

lemma b64_rejoin3: "c < 256 \<Longrightarrow> (b mod 16 * 4 + c div 64) mod 4 * 64 + c mod 64 = (c :: nat)"
  by (simp only: mod_mult_self3 mod_less less_mult_imp_div_less) simp

lemma b64url_groups_encode: "b64url_groups (b64url_encode s) = Some s"
proof (induction s rule: b64url_encode.induct)
  case (2 a)
  then show ?case using b64_rejoin [of 0 "of_char a"] by (simp add: Let_def)
next
  case (3 a b)
  then show ?case
    using b64_rejoin [of "of_char b div 16" "of_char a"] b64_rejoin2 [of "of_char b" 0 "of_char a"]
    by (simp add: Let_def)
next
  case (4 a b c s)
  then show ?case
    using b64_rejoin [of "of_char b div 16" "of_char a"]
      b64_rejoin2 [of "of_char b" "of_char c div 64" "of_char a"] b64_rejoin3 [of "of_char c" "of_char b"]
    by (simp add: Let_def)
qed simp

lemma b64url_encode_chars: "list_all id_char (b64url_encode s)"
  by (induction s rule: b64url_encode.induct) (simp_all add: Let_def)

lemma b64url_encode_eq_Nil [simp]: "b64url_encode s = [] \<longleftrightarrow> s = []"
  by (cases s rule: b64url_encode.cases) (simp_all add: Let_def)

lemma id_char_not: "id_char c \<Longrightarrow> c \<notin> {CHR ''/'', CHR ''.'', CHR 0x0A, CHR 0x0D, CHR 0x25, CHR ''?''}"
  by (auto simp: id_char_def is_alpha_def is_digit_def)

text \<open>The encoding is decoded again.\<close>

lemma b64url_roundtrip [simp]: "b64url_decode (b64url_encode s) = Some s"
proof -
  have "filter (\<lambda>c. c \<noteq> CHR 0x0A \<and> c \<noteq> CHR 0x0D) (b64url_encode s) = b64url_encode s"
    using b64url_encode_chars [of s] by (auto simp: filter_id_conv list_all_iff dest: id_char_not)
  then show ?thesis by (simp add: b64url_decode_def b64url_groups_encode)
qed

lemma should_escape_dash: "\<not> should_escape m (CHR ''-'')" "\<not> should_escape m (CHR ''_'')"
  by (simp_all add: should_escape_def)

lemma should_escape_id_char: "id_char c \<Longrightarrow> \<not> should_escape m c"
  unfolding id_char_def using should_escape_dash [of m] by (elim disjE) (simp_all add: should_escape_def)

lemma url_escape_id_chars: "list_all id_char s \<Longrightarrow> url_escape m s = s"
proof (induction s)
  case (Cons c s)
  moreover have "\<not> id_char (CHR '' '')" by (simp add: id_char_def is_alpha_def is_digit_def)
  ultimately show ?case by (auto simp: url_escape_def escape_char_def should_escape_id_char)
qed simp

subsection \<open>A written JSON string is read back\<close>

lemma hex_digit_lower [simp]: "n < 16 \<Longrightarrow> hex_digit (lower_hex n) = Some n"
  by (auto simp: hex_digit_def lower_hex_def Let_def)

lemma unicode_escape_byte:
  assumes "(of_char c :: nat) < 128"
  shows "unicode_escape (CHR ''0'' # CHR ''0'' # lower_hex (of_char c div 16) # lower_hex (of_char c mod 16) # r) = Some ([c], r)"
proof -
  have "hex_digit (CHR ''0'') = Some 0" by (simp add: hex_digit_def)
  moreover have "(of_char c :: nat) div 16 * 16 + of_char c mod 16 = of_char c" by simp
  ultimately show ?thesis using assms by (simp add: unicode_escape_def utf8_def)
qed

lemma parse_str_steps:
  "parse_str (CHR 0x22 # r) = Some ([], r)"
  "e \<noteq> CHR ''u'' \<Longrightarrow> simple_escape e = Some d \<Longrightarrow>
     parse_str (CHR 0x5C # e # r) = map_option (\<lambda>(x, r'). (d # x, r')) (parse_str r)"
  "unicode_escape s = Some (w, r) \<Longrightarrow>
     parse_str (CHR 0x5C # CHR ''u'' # s) = map_option (\<lambda>(x, r'). (w @ x, r')) (parse_str r)"
  "c \<noteq> CHR 0x22 \<Longrightarrow> c \<noteq> CHR 0x5C \<Longrightarrow> \<not> (of_char c :: nat) < 32 \<Longrightarrow>
     parse_str (c # r) = map_option (\<lambda>(x, r'). (c # x, r')) (parse_str r)"
  by (subst parse_str.simps, simp)+

lemma simple_escapes:
  "simple_escape (CHR 0x22) = Some (CHR 0x22)" "simple_escape (CHR 0x5C) = Some (CHR 0x5C)"
  "simple_escape (CHR ''b'') = Some (CHR 0x08)" "simple_escape (CHR ''f'') = Some (CHR 0x0C)"
  "simple_escape (CHR ''n'') = Some (CHR 0x0A)" "simple_escape (CHR ''r'') = Some (CHR 0x0D)"
  "simple_escape (CHR ''t'') = Some (CHR 0x09)"
  by (simp_all add: simple_escape_def)

lemma parse_str_escape: "parse_str (json_escape_char c @ r) = map_option (\<lambda>(x, r'). (c # x, r')) (parse_str r)"
proof (cases "c \<in> {CHR 0x22, CHR 0x5C, CHR 0x08, CHR 0x0C, CHR 0x0A, CHR 0x0D, CHR 0x09}")
  case True
  then show ?thesis
    by (elim insertE emptyE) (simp_all add: json_escape_char_def simple_escapes parse_str_steps(2))
next
  case False
  show ?thesis
  proof (cases "(of_char c :: nat) < 32 \<or> c = CHR ''<'' \<or> c = CHR ''>'' \<or> c = CHR ''&''")
    case True
    then have "(of_char c :: nat) < 128" by auto
    from parse_str_steps(3) [OF unicode_escape_byte [OF this]] True False show ?thesis
      by (simp add: json_escape_char_def)
  next
    case u: False
    with False have "json_escape_char c = [c]" by (simp add: json_escape_char_def)
    with u False parse_str_steps(4) [of c r] show ?thesis by simp
  qed
qed

lemma parse_str_quoted: "parse_str (concat (map json_escape_char s) @ CHR 0x22 # r) = Some (s, r)"
  by (induction s) (simp_all add: parse_str_escape parse_str_steps(1))

end
