(* ===== verification/Connector.thy ===== *)
theory Connector
  imports MediaGateway GoNet GoEncode
begin

text \<open>
  The private media connector, \<open>internal/media/connector.go\<close>: the service behind the
  gateway, which talks to Jellyfin and Plex. A handler returns its response and the requests
  it sent to the media servers. The locked fields of the \<open>Connector\<close> are read as one
  \<open>ConnectorMediaConfig\<close>. The XML tokenizer, the texts of decoding errors and the clock are
  parameters; the mapping of an XML tree to the response structs is modelled.
\<close>

section \<open>Configuration\<close>

record media_config =
  mc_jellyfin_base_url :: string
  mc_jellyfin_api_key :: string
  mc_plex_base_url :: string
  mc_plex_token :: string
  mc_fips_peer_npub :: string
  mc_fips_peer_addr :: string

record connector =
  cn_allowed_cidrs :: "ip_net list"
  cn_shared_token :: string
  cn_jellyfin_base_url :: string
  cn_jellyfin_api_key :: string
  cn_plex_base_url :: string
  cn_plex_token :: string
  cn_fips_peer_npub :: string
  cn_fips_peer_addr :: string
  cn_http_client :: http_do

definition normalized_media_config :: "media_config \<Rightarrow> media_config" where
  "normalized_media_config cfg =
     \<lparr>mc_jellyfin_base_url = trim_right (CHR ''/'') (trim_space (mc_jellyfin_base_url cfg)),
      mc_jellyfin_api_key = trim_space (mc_jellyfin_api_key cfg),
      mc_plex_base_url = trim_right (CHR ''/'') (trim_space (mc_plex_base_url cfg)),
      mc_plex_token = trim_space (mc_plex_token cfg),
      mc_fips_peer_npub = trim_space (mc_fips_peer_npub cfg),
      mc_fips_peer_addr = trim_space (mc_fips_peer_addr cfg)\<rparr>"

definition set_media_config :: "media_config \<Rightarrow> connector \<Rightarrow> connector" where
  "set_media_config cfg0 c =
     (let cfg = normalized_media_config cfg0
      in c\<lparr>cn_jellyfin_base_url := mc_jellyfin_base_url cfg, cn_jellyfin_api_key := mc_jellyfin_api_key cfg,
           cn_plex_base_url := mc_plex_base_url cfg, cn_plex_token := mc_plex_token cfg,
           cn_fips_peer_npub := mc_fips_peer_npub cfg, cn_fips_peer_addr := mc_fips_peer_addr cfg\<rparr>)"

definition media_config_of :: "connector \<Rightarrow> media_config" where
  "media_config_of c =
     \<lparr>mc_jellyfin_base_url = cn_jellyfin_base_url c, mc_jellyfin_api_key = cn_jellyfin_api_key c,
      mc_plex_base_url = cn_plex_base_url c, mc_plex_token = cn_plex_token c,
      mc_fips_peer_npub = cn_fips_peer_npub c, mc_fips_peer_addr = cn_fips_peer_addr c\<rparr>"

text \<open>\<open>ParseCIDRs\<close>: \<open>Inl\<close> is the text of the first error.\<close>

fun parse_cidrs :: "string list \<Rightarrow> string + ip_net list" where
  "parse_cidrs [] = Inr []"
| "parse_cidrs (v # vs) =
     (let value = trim_space v
      in if value = [] then parse_cidrs vs
         else (case parse_cidr value of
            Inl err \<Rightarrow> Inl (''invalid CIDR '' @ go_quote value @ '': '' @ err)
          | Inr network \<Rightarrow> bind_res (parse_cidrs vs) (\<lambda>ns. Inr (network # ns))))"

section \<open>Items and errors\<close>

record media_item =
  mi_id :: string
  mi_name :: string
  mi_type :: string
  mi_summary :: string
  mi_stream_id :: string

definition empty_item :: media_item where
  "empty_item = \<lparr>mi_id = [], mi_name = [], mi_type = [], mi_summary = [], mi_stream_id = []\<rparr>"

definition omit_empty :: "string \<Rightarrow> string \<Rightarrow> (string \<times> json) list" where
  "omit_empty k v = (if v = [] then [] else [(k, JStr v)])"

definition media_item_json :: "media_item \<Rightarrow> json" where
  "media_item_json i = JObj ([(''id'', JStr (mi_id i)), (''name'', JStr (mi_name i)), (''type'', JStr (mi_type i))]
     @ omit_empty ''summary'' (mi_summary i) @ omit_empty ''stream_id'' (mi_stream_id i))"

record random_song_test =
  rt_service :: string
  rt_item :: media_item
  rt_stream_url :: string
  rt_debug :: "json list"

definition random_song_json :: "random_song_test \<Rightarrow> json" where
  "random_song_json t = JObj ([(''service'', JStr (rt_service t)), (''item'', media_item_json (rt_item t))]
     @ omit_empty ''stream_url'' (rt_stream_url t) @ [(''debug'', JArr (rt_debug t))])"

datatype media_error = ServiceNotConfigured | MediaMsg string

definition media_error_text :: "media_error \<Rightarrow> string" where
  "media_error_text e = (case e of ServiceNotConfigured \<Rightarrow> ''service is not configured'' | MediaMsg s \<Rightarrow> s)"

text \<open>The status of an error, given the one for errors other than a missing configuration.\<close>

definition service_error_status :: "int \<Rightarrow> media_error \<Rightarrow> int" where
  "service_error_status other e = (if e = ServiceNotConfigured then 503 else other)"

section \<open>Parameters\<close>

datatype xml_elem = XElem (x_name: string) (x_attrs: "(string \<times> string) list") (x_children: "xml_elem list")

record media_lib =
  ml_json_error :: "string \<Rightarrow> string"
  ml_xml_parse :: "string \<Rightarrow> string + xml_elem"
  ml_step_ms :: "string \<Rightarrow> int"
  ml_nanos :: nat

section \<open>Sending\<close>

text \<open>\<open>http.NewRequestWithContext\<close> for a GET, and \<open>client().Do\<close>.\<close>

definition media_get :: "string \<Rightarrow> header \<Rightarrow> media_error + out_req" where
  "media_get url h = (case url_parse url of
       None \<Rightarrow> Inl (MediaMsg (url_parse_error url))
     | Some _ \<Rightarrow> Inr \<lparr>oq_method = ''GET'', oq_url = url, oq_header = h, oq_body = None\<rparr>)"

definition client_do :: "connector \<Rightarrow> out_req \<Rightarrow> media_error + up_resp" where
  "client_do c q = (case cn_http_client c q of
       Inl cause \<Rightarrow> Inl (MediaMsg (client_error q cause)) | Inr resp \<Rightarrow> Inr resp)"

definition success_status :: "int \<Rightarrow> bool" where
  "success_status code \<longleftrightarrow> 200 \<le> code \<and> code < 300"

definition emby_header :: "media_config \<Rightarrow> header" where
  "emby_header cfg = (if mc_jellyfin_api_key cfg \<noteq> [] then hdr_set ''X-Emby-Token'' (mc_jellyfin_api_key cfg) no_header else no_header)"

definition set_all :: "(string \<times> string) list \<Rightarrow> url_values \<Rightarrow> url_values" where
  "set_all kvs q = fold (\<lambda>(k, v). values_set k v) kvs q"

text \<open>\<open>u.Path = path.Join(u.Path, ...)\<close> followed by setting query values.\<close>

definition with_path_query :: "go_url \<Rightarrow> string list \<Rightarrow> (string \<times> string) list \<Rightarrow> go_url" where
  "with_path_query u ps kvs = u\<lparr>u_path := path_join (u_path u # ps), u_raw_query := values_encode (set_all kvs (url_query u))\<rparr>"

definition add_media_debug_step :: "media_lib \<Rightarrow> json list \<Rightarrow> string \<Rightarrow> bool \<Rightarrow> string \<Rightarrow> media_error option \<Rightarrow> json list" where
  "add_media_debug_step M steps name ok detail err =
     steps @ [JObj ([(''name'', JStr name), (''ok'', JBool ok), (''detail'', JStr detail),
        (''duration_ms'', JNum (int_str (ml_step_ms M name)))]
        @ (case err of None \<Rightarrow> [] | Some e \<Rightarrow> [(''error'', JStr (media_error_text e))]))]"

definition redacted_keys :: "string list" where
  "redacted_keys = [''api_key'', ''X-Emby-Token'', ''X-Plex-Token'']"

definition redacted_url :: "go_url option \<Rightarrow> string" where
  "redacted_url uo = (case uo of None \<Rightarrow> []
     | Some u \<Rightarrow> url_string (u\<lparr>u_raw_query := values_encode
         (fold (\<lambda>k q. if values_has q k then values_set k ''redacted'' q else q) redacted_keys (url_query u))\<rparr>))"

section \<open>Jellyfin\<close>

text \<open>
  \<open>jellyfinSearchResponse\<close>: the items, and the error of the decoder. A repeated
  \<open>Items\<close> member is decoded over the earlier one; a value of the wrong type is an error but
  does not stop the decoding.
\<close>

definition jellyfin_item_fields :: "string list" where
  "jellyfin_item_fields = [''Id'', ''Name'', ''Type'', ''Overview'']"

fun decode_items :: "(string \<Rightarrow> string) list \<Rightarrow> json list \<Rightarrow> (string \<Rightarrow> string) list \<times> bool" where
  "decode_items old [] = ([], True)"
| "decode_items old (x # xs) =
     (let m0 = (case old of m # _ \<Rightarrow> m | [] \<Rightarrow> (\<lambda>_. []));
          (m, ok) = (case x of JObj kvs \<Rightarrow> set_fields jellyfin_item_fields kvs (m0, True)
                     | JNull \<Rightarrow> (m0, True) | _ \<Rightarrow> (m0, False));
          (ms, oks) = decode_items (tl old) xs
      in (m # ms, ok \<and> oks))"

fun decode_search_members :: "(string \<times> json) list \<Rightarrow> (string \<Rightarrow> string) list \<times> bool \<Rightarrow> (string \<Rightarrow> string) list \<times> bool" where
  "decode_search_members [] acc = acc"
| "decode_search_members ((k, v) # kvs) (items, ok) =
     decode_search_members kvs
       (if struct_field [''Items''] k = None then (items, ok)
        else (case v of
            JArr xs \<Rightarrow> (case decode_items items xs of (ms, oks) \<Rightarrow> (ms, ok \<and> oks))
          | JNull \<Rightarrow> ([], ok)
          | _ \<Rightarrow> (items, False)))"

definition decode_jellyfin_search :: "media_lib \<Rightarrow> string \<Rightarrow> (string \<Rightarrow> string) list \<times> media_error option" where
  "decode_jellyfin_search M body =
     (let err = Some (MediaMsg (ml_json_error M body))
      in (case json_decode_first body of
            Some (JObj kvs) \<Rightarrow> (case decode_search_members kvs ([], True) of
                (items, ok) \<Rightarrow> (items, if ok then None else err))
          | Some JNull \<Rightarrow> ([], None)
          | _ \<Rightarrow> ([], err)))"

definition jellyfin_item :: "(string \<Rightarrow> string) \<Rightarrow> media_item" where
  "jellyfin_item m = \<lparr>mi_id = m ''Id'', mi_name = m ''Name'', mi_type = m ''Type'',
     mi_summary = m ''Overview'', mi_stream_id = m ''Id''\<rparr>"

definition search_jellyfin :: "media_lib \<Rightarrow> connector \<Rightarrow> string \<Rightarrow> (media_error + media_item list) \<times> out_req list" where
  "search_jellyfin M c query =
     (let cfg = media_config_of c
      in if mc_jellyfin_base_url cfg = [] then (Inl ServiceNotConfigured, [])
         else (case url_parse (mc_jellyfin_base_url cfg) of
            None \<Rightarrow> (Inl (MediaMsg (url_parse_error (mc_jellyfin_base_url cfg))), [])
          | Some u \<Rightarrow>
             (case media_get (url_string (with_path_query u [''/Items'']
                   [(''SearchTerm'', query), (''Recursive'', ''true''), (''Limit'', ''20''),
                    (''IncludeItemTypes'', ''Movie,Series,Episode,Audio,MusicAlbum,MusicArtist'')])) (emby_header cfg) of
                Inl e \<Rightarrow> (Inl e, [])
              | Inr q \<Rightarrow>
                 (case client_do c q of
                    Inl e \<Rightarrow> (Inl e, [q])
                  | Inr resp \<Rightarrow>
                     (if \<not> success_status (up_code resp)
                      then (Inl (MediaMsg (''jellyfin search returned '' @ up_status resp)), [q])
                      else (case decode_jellyfin_search M (up_body resp) of
                         (_, Some e) \<Rightarrow> (Inl e, [q])
                       | (items, None) \<Rightarrow> (Inr (map jellyfin_item items), [q])))))))"

definition not_configured_debug :: "string \<Rightarrow> json" where
  "not_configured_debug what = JObj [(''name'', JStr ''config''), (''ok'', JBool False),
     (''detail'', JStr (what @ '' is not configured'')), (''error'', JStr (media_error_text ServiceNotConfigured))]"

definition random_jellyfin_song :: "media_lib \<Rightarrow> connector \<Rightarrow> media_config \<Rightarrow> (random_song_test \<times> media_error option) \<times> out_req list" where
  "random_jellyfin_song M c cfg =
     (let result = \<lparr>rt_service = ''jellyfin'', rt_item = empty_item, rt_stream_url = [], rt_debug = []\<rparr>
      in if mc_jellyfin_base_url cfg = [] then
           ((result\<lparr>rt_debug := [not_configured_debug ''jellyfin_base_url'']\<rparr>, Some ServiceNotConfigured), [])
         else (case url_parse (mc_jellyfin_base_url cfg) of
            None \<Rightarrow>
              (let e = Some (MediaMsg (url_parse_error (mc_jellyfin_base_url cfg)))
               in ((result\<lparr>rt_debug := add_media_debug_step M [] ''parse_base_url'' False (mc_jellyfin_base_url cfg) e\<rparr>, e), []))
          | Some u0 \<Rightarrow>
             (let d1 = add_media_debug_step M [] ''parse_base_url'' True (mc_jellyfin_base_url cfg) None;
                  u = with_path_query u0 [''/Items''] [(''Recursive'', ''true''), (''IncludeItemTypes'', ''Audio''),
                        (''SortBy'', ''Random''), (''Limit'', ''1'')]
              in (case media_get (url_string u) (emby_header cfg) of
                    Inl e \<Rightarrow> ((result\<lparr>rt_debug := d1\<rparr>, Some e), [])
                  | Inr q \<Rightarrow>
                     (case client_do c q of
                        Inl e \<Rightarrow> ((result\<lparr>rt_debug := add_media_debug_step M d1 ''query_random_audio'' False (redacted_url (Some u)) (Some e)\<rparr>, Some e), [q])
                      | Inr resp \<Rightarrow>
                         (let d2 = add_media_debug_step M d1 ''query_random_audio'' True (redacted_url (Some u)) None
                          in if \<not> success_status (up_code resp) then
                               (let e = Some (MediaMsg (''jellyfin random song returned '' @ up_status resp))
                                in ((result\<lparr>rt_debug := add_media_debug_step M d2 ''http_status'' False (up_status resp) e\<rparr>, e), [q]))
                             else (case decode_jellyfin_search M (up_body resp) of (items, err) \<Rightarrow>
                               (let d3 = add_media_debug_step M d2 ''decode_response'' (err = None) (int_str (int (length items)) @ '' item(s)'') err
                                in if err \<noteq> None then ((result\<lparr>rt_debug := d3\<rparr>, err), [q])
                                   else (case items of
                                      [] \<Rightarrow> (let e = Some (MediaMsg ''jellyfin returned no audio items'')
                                             in ((result\<lparr>rt_debug := add_media_debug_step M d3 ''select_song'' False ''no Audio item returned'' e\<rparr>, e), [q]))
                                    | item # _ \<Rightarrow> ((result\<lparr>rt_item := jellyfin_item item, rt_debug := d3\<rparr>, None), [q]))))))))))"

definition jellyfin_id_ok :: "string \<Rightarrow> bool" where
  "jellyfin_id_ok s \<longleftrightarrow> s \<noteq> [] \<and> list_all (\<lambda>c. is_alpha c \<or> is_digit c \<or> c = CHR ''_'' \<or> c = CHR ''-'') s"

definition jellyfin_stream_request_with_config :: "media_config \<Rightarrow> string \<Rightarrow> media_error + out_req" where
  "jellyfin_stream_request_with_config cfg0 stream_id =
     (let cfg = normalized_media_config cfg0
      in if mc_jellyfin_base_url cfg = [] then Inl ServiceNotConfigured
         else if \<not> jellyfin_id_ok stream_id then Inl (MediaMsg ''invalid jellyfin stream id'')
         else (case url_parse (mc_jellyfin_base_url cfg) of
            None \<Rightarrow> Inl (MediaMsg (url_parse_error (mc_jellyfin_base_url cfg)))
          | Some u \<Rightarrow>
             (let v = u\<lparr>u_path := path_join [u_path u, ''/Items'', stream_id, ''Download'']\<rparr>
              in media_get (url_string (if mc_jellyfin_api_key cfg \<noteq> []
                    then v\<lparr>u_raw_query := values_encode (values_set ''api_key'' (mc_jellyfin_api_key cfg) (url_query v))\<rparr>
                    else v)) no_header)))"

definition jellyfin_stream_request :: "connector \<Rightarrow> string \<Rightarrow> media_error + out_req" where
  "jellyfin_stream_request c stream_id = jellyfin_stream_request_with_config (media_config_of c) stream_id"

definition jellyfin_browser_audio_request_with_config :: "media_config \<Rightarrow> string \<Rightarrow> media_error + out_req" where
  "jellyfin_browser_audio_request_with_config cfg0 stream_id =
     (let cfg = normalized_media_config cfg0
      in if mc_jellyfin_base_url cfg = [] then Inl ServiceNotConfigured
         else if \<not> jellyfin_id_ok stream_id then Inl (MediaMsg ''invalid jellyfin stream id'')
         else (case url_parse (mc_jellyfin_base_url cfg) of
            None \<Rightarrow> Inl (MediaMsg (url_parse_error (mc_jellyfin_base_url cfg)))
          | Some u \<Rightarrow>
             media_get (url_string (with_path_query u [''/Audio'', stream_id, ''universal'']
                ([(''AudioCodec'', ''mp3''), (''Container'', ''mp3''), (''MaxStreamingBitrate'', ''192000''),
                  (''TranscodingContainer'', ''mp3''), (''TranscodingProtocol'', ''http'')]
                 @ (if mc_jellyfin_api_key cfg \<noteq> [] then [(''api_key'', mc_jellyfin_api_key cfg)] else []))))
               (hdr_set ''Accept'' ''audio/mpeg'' (emby_header cfg))))"

end
