(* ===== verification/Plex.thy ===== *)
theory Plex
  imports Connector
begin

text \<open>
  The Plex half of \<open>internal/media/connector.go\<close>: search, the random song, and stream
  identifiers, which are the base64 form of a part path of the Plex server. The response
  structs are filled from an XML tree by the rules of \<open>encoding/xml\<close>: an attribute by its
  name (the last of repeated ones), a slice from the child elements of its name.
\<close>

section \<open>Responses\<close>

record plex_part =
  pp_key :: string

record plex_media =
  pe_parts :: "plex_part list"

record plex_metadata =
  pm_rating_key :: string
  pm_key :: string
  pm_title :: string
  pm_type :: string
  pm_summary :: string
  pm_media :: "plex_media list"

record plex_hub =
  ph_metadata :: "plex_metadata list"

record plex_search_response =
  ps_hubs :: "plex_hub list"
  ps_metadata :: "plex_metadata list"

definition xml_attr :: "xml_elem \<Rightarrow> string \<Rightarrow> string" where
  "xml_attr x n = (case map_of (rev (x_attrs x)) n of None \<Rightarrow> [] | Some v \<Rightarrow> v)"

definition xml_named :: "string \<Rightarrow> xml_elem \<Rightarrow> xml_elem list" where
  "xml_named n x = filter (\<lambda>y. x_name y = n) (x_children x)"

definition xml_plex_part :: "xml_elem \<Rightarrow> plex_part" where
  "xml_plex_part x = \<lparr>pp_key = xml_attr x ''key''\<rparr>"

definition xml_plex_media :: "xml_elem \<Rightarrow> plex_media" where
  "xml_plex_media x = \<lparr>pe_parts = map xml_plex_part (xml_named ''Part'' x)\<rparr>"

definition xml_plex_metadata :: "xml_elem \<Rightarrow> plex_metadata" where
  "xml_plex_metadata x =
     \<lparr>pm_rating_key = xml_attr x ''ratingKey'', pm_key = xml_attr x ''key'', pm_title = xml_attr x ''title'',
      pm_type = xml_attr x ''type'', pm_summary = xml_attr x ''summary'',
      pm_media = map xml_plex_media (xml_named ''Media'' x)\<rparr>"

definition xml_plex_hub :: "xml_elem \<Rightarrow> plex_hub" where
  "xml_plex_hub x = \<lparr>ph_metadata = map xml_plex_metadata (xml_named ''Metadata'' x)\<rparr>"

definition decode_plex_search :: "media_lib \<Rightarrow> string \<Rightarrow> media_error + plex_search_response" where
  "decode_plex_search M body =
     (case ml_xml_parse M body of
        Inl e \<Rightarrow> Inl (MediaMsg e)
      | Inr x \<Rightarrow>
         if x_name x \<noteq> ''MediaContainer''
         then Inl (MediaMsg (''expected element type <MediaContainer> but have <'' @ x_name x @ ''>''))
         else Inr \<lparr>ps_hubs = map xml_plex_hub (xml_named ''Hub'' x),
                   ps_metadata = map xml_plex_metadata (xml_named ''Metadata'' x)\<rparr>)"

section \<open>Part paths\<close>

fun first_non_empty :: "string list \<Rightarrow> string" where
  "first_non_empty [] = []"
| "first_non_empty (v # vs) = (if v \<noteq> [] then v else first_non_empty vs)"

definition first_plex_part_key :: "plex_metadata \<Rightarrow> string" where
  "first_plex_part_key item =
     (case find (\<lambda>p. pp_key p \<noteq> []) (concat (map pe_parts (pm_media item))) of
        None \<Rightarrow> [] | Some p \<Rightarrow> pp_key p)"

text \<open>The pattern \<open>^/library/parts/[0-9]+/[0-9]+/[^/?#]+$\<close>.\<close>

definition valid_plex_part_path :: "string \<Rightarrow> bool" where
  "valid_plex_part_path s \<longleftrightarrow>
     (case split_on (CHR ''/'') s of
        [e, l, p, a, b, f] \<Rightarrow> e = [] \<and> l = ''library'' \<and> p = ''parts'' \<and> all_digits a \<and> all_digits b
          \<and> f \<noteq> [] \<and> CHR ''?'' \<notin> set f \<and> CHR ''#'' \<notin> set f
      | _ \<Rightarrow> False)"

definition plex_item :: "plex_metadata \<Rightarrow> media_item" where
  "plex_item m =
     (let part_key = first_plex_part_key m
      in \<lparr>mi_id = first_non_empty [pm_rating_key m, pm_key m], mi_name = pm_title m, mi_type = pm_type m,
          mi_summary = pm_summary m,
          mi_stream_id = (if valid_plex_part_path part_key then b64url_encode part_key else [])\<rparr>)"

section \<open>Search and random song\<close>

definition plex_search_url :: "go_url \<Rightarrow> media_config \<Rightarrow> string \<Rightarrow> string \<Rightarrow> go_url" where
  "plex_search_url u cfg query token =
     with_path_query u [''/hubs/search''] ([(''query'', query), (''limit'', ''20'')]
       @ (if mc_plex_token cfg \<noteq> [] then [(''X-Plex-Token'', token)] else []))"

definition search_plex_with_config :: "media_lib \<Rightarrow> connector \<Rightarrow> media_config \<Rightarrow> string \<Rightarrow> (media_error + media_item list) \<times> out_req list" where
  "search_plex_with_config M c cfg0 query =
     (let cfg = normalized_media_config cfg0
      in if mc_plex_base_url cfg = [] then (Inl ServiceNotConfigured, [])
         else (case url_parse (mc_plex_base_url cfg) of
            None \<Rightarrow> (Inl (MediaMsg (url_parse_error (mc_plex_base_url cfg))), [])
          | Some u \<Rightarrow>
             (case media_get (url_string (plex_search_url u cfg query (mc_plex_token cfg))) no_header of
                Inl e \<Rightarrow> (Inl e, [])
              | Inr q \<Rightarrow>
                 (case client_do c q of
                    Inl e \<Rightarrow> (Inl e, [q])
                  | Inr resp \<Rightarrow>
                     (if \<not> success_status (up_code resp)
                      then (Inl (MediaMsg (''plex search returned '' @ up_status resp)), [q])
                      else (case decode_plex_search M (up_body resp) of
                         Inl e \<Rightarrow> (Inl e, [q])
                       | Inr body \<Rightarrow>
                          (Inr (map plex_item (ps_metadata body)
                             @ concat (map (\<lambda>h. map plex_item (ph_metadata h)) (ps_hubs body))), [q])))))))"

definition search_plex :: "media_lib \<Rightarrow> connector \<Rightarrow> string \<Rightarrow> (media_error + media_item list) \<times> out_req list" where
  "search_plex M c query = search_plex_with_config M c (media_config_of c) query"

text \<open>
  The clock picks one of the audio items. The first request of the Go code, to
  \<open>http://localhost/\<close>, only carries the context and is not sent.
\<close>

definition random_plex_song :: "media_lib \<Rightarrow> connector \<Rightarrow> media_config \<Rightarrow> (random_song_test \<times> media_error option) \<times> out_req list" where
  "random_plex_song M c cfg0 =
     (let cfg = normalized_media_config cfg0;
          result = \<lparr>rt_service = ''plex'', rt_item = empty_item, rt_stream_url = [], rt_debug = []\<rparr>
      in if mc_plex_base_url cfg = [] then
           ((result\<lparr>rt_debug := [not_configured_debug ''plex_base_url'']\<rparr>, Some ServiceNotConfigured), [])
         else (case search_plex_with_config M c cfg ''a'' of (candidates, qs) \<Rightarrow>
            (let err = (case candidates of Inl e \<Rightarrow> Some e | Inr _ \<Rightarrow> None);
                 detail = redacted_url (map_option (\<lambda>u. plex_search_url u cfg ''a'' ''redacted'') (url_parse (mc_plex_base_url cfg)));
                 d1 = add_media_debug_step M [] ''query_random_audio'' (err = None) detail err
             in (case candidates of
                   Inl e \<Rightarrow> ((result\<lparr>rt_debug := d1\<rparr>, Some e), qs)
                 | Inr items \<Rightarrow>
                    (let audio = filter (\<lambda>i. mi_stream_id i \<noteq> [] \<and> equal_fold (mi_type i) ''track'') items
                     in if audio = [] then
                          (let e = Some (MediaMsg ''plex returned no audio items'')
                           in ((result\<lparr>rt_debug := add_media_debug_step M d1 ''select_song'' False ''no track items returned'' e\<rparr>, e), qs))
                        else
                          (let item = audio ! (ml_nanos M mod length audio)
                           in ((result\<lparr>rt_item := item,
                                  rt_debug := add_media_debug_step M d1 ''select_song'' True (mi_name item) None\<rparr>, None), qs)))))))"

section \<open>Streams\<close>

definition plex_stream_request_with_config :: "media_config \<Rightarrow> string \<Rightarrow> media_error + out_req" where
  "plex_stream_request_with_config cfg0 stream_id =
     (let cfg = normalized_media_config cfg0
      in if mc_plex_base_url cfg = [] then Inl ServiceNotConfigured
         else (case b64url_decode stream_id of
            None \<Rightarrow> Inl (MediaMsg ''invalid plex stream id'')
          | Some part_path \<Rightarrow>
             if \<not> valid_plex_part_path part_path then Inl (MediaMsg ''invalid plex stream path'')
             else (case url_parse (mc_plex_base_url cfg) of
                None \<Rightarrow> Inl (MediaMsg (url_parse_error (mc_plex_base_url cfg)))
              | Some u \<Rightarrow>
                 (let v = u\<lparr>u_path := path_join [u_path u, part_path]\<rparr>
                  in media_get (url_string (if mc_plex_token cfg \<noteq> []
                        then v\<lparr>u_raw_query := values_encode (values_set ''X-Plex-Token'' (mc_plex_token cfg) (url_query v))\<rparr>
                        else v)) no_header))))"

definition plex_stream_request :: "connector \<Rightarrow> string \<Rightarrow> media_error + out_req" where
  "plex_stream_request c stream_id = plex_stream_request_with_config (media_config_of c) stream_id"

end
