(* ===== verification/ConnectorServe.thy ===== *)
theory ConnectorServe
  imports Plex
begin

text \<open>
  The HTTP interface of the connector: \<open>ServeHTTP\<close> and the handlers of
  \<open>internal/media/connector.go\<close>. A caller is admitted by its address, then by the shared
  token, then by the method.
\<close>

section \<open>Admission\<close>

definition allowed_remote :: "connector \<Rightarrow> string \<Rightarrow> bool" where
  "allowed_remote c remote_addr =
     (if cn_allowed_cidrs c = [] then True
      else (let host = (case split_host_port remote_addr of Inl _ \<Rightarrow> remote_addr | Inr (h, _) \<Rightarrow> h)
            in (case parse_ip host of
                  None \<Rightarrow> False
                | Some ip \<Rightarrow> list_ex (\<lambda>network. net_contains network ip) (cn_allowed_cidrs c))))"

definition allowed_token :: "connector \<Rightarrow> string \<Rightarrow> bool" where
  "allowed_token c hdr =
     (let token = trim_space (cn_shared_token c)
      in if token = [] then True else trim_space hdr = ''Bearer '' @ token)"

text \<open>The guards of \<open>ServeHTTP\<close> in their order: \<open>Inl\<close> is the response that was written.\<close>

definition connector_guard :: "connector \<Rightarrow> http_req \<Rightarrow> http_resp + unit" where
  "connector_guard c r =
     (if \<not> allowed_remote c (rq_remote r) then Inl (error_json 403 ''remote address is not allowed'')
      else if \<not> allowed_token c (hdr_get (rq_header r) ''Authorization'') then Inl (error_json 401 ''connector token is required'')
      else (case require_method r ''GET'' of Some resp \<Rightarrow> Inl resp | None \<Rightarrow> Inr ()))"

section \<open>Handlers\<close>

definition service_configured_json :: "string \<Rightarrow> json" where
  "service_configured_json base = JObj [(''configured'', JBool (base \<noteq> []))]"

definition cn_status :: "connector \<Rightarrow> http_resp" where
  "cn_status c =
     (let cfg = media_config_of c
      in httpx_write_json 200 (JObj [(''services'', JObj
           [(''jellyfin'', service_configured_json (mc_jellyfin_base_url cfg)),
            (''plex'', service_configured_json (mc_plex_base_url cfg))])]))"

definition cn_random_song :: "media_lib \<Rightarrow> connector \<Rightarrow> string \<Rightarrow> http_resp \<times> out_req list" where
  "cn_random_song M c service =
     (let answer = (\<lambda>((result, err), qs).
        (case err of
           Some e \<Rightarrow> (httpx_write_json (service_error_status 502 e)
              (JObj [(''error'', JStr (media_error_text e)), (''debug'', JArr (rt_debug result))]), qs)
         | None \<Rightarrow> (httpx_write_json 200 (random_song_json result), qs)))
      in if service = ''jellyfin'' then answer (random_jellyfin_song M c (media_config_of c))
         else if service = ''plex'' then answer (random_plex_song M c (media_config_of c))
         else (not_found, []))"

definition cn_search :: "media_lib \<Rightarrow> connector \<Rightarrow> http_req \<Rightarrow> string \<Rightarrow> http_resp \<times> out_req list" where
  "cn_search M c r service =
     (let query = trim_space (values_get (url_query (rq_url r)) ''q'')
      in if query = [] then (error_json 400 ''q is required'', [])
         else (case (if service = ''jellyfin'' then search_jellyfin M c query
                     else if service = ''plex'' then search_plex M c query else (Inr [], [])) of
            (Inl e, qs) \<Rightarrow> (error_json (service_error_status 502 e) (media_error_text e), qs)
          | (Inr items, qs) \<Rightarrow>
             (httpx_write_json 200 (JObj [(''service'', JStr service), (''items'', JArr (map media_item_json items))]), qs)))"

definition cn_stream :: "connector \<Rightarrow> http_req \<Rightarrow> string \<Rightarrow> string \<Rightarrow> http_resp \<times> out_req list" where
  "cn_stream c r service stream_id =
     (case (if service = ''jellyfin'' then jellyfin_stream_request c stream_id else plex_stream_request c stream_id) of
        Inl e \<Rightarrow> (error_json (service_error_status 400 e) (media_error_text e), [])
      | Inr q0 \<Rightarrow>
         (let value = hdr_get (rq_header r) ''Range'';
              q = (if value \<noteq> [] then q0\<lparr>oq_header := hdr_set ''Range'' value (oq_header q0)\<rparr> else q0)
          in (case client_do c q of
                Inl e \<Rightarrow> (error_json 502 (media_error_text e), [q])
              | Inr resp \<Rightarrow>
                 (\<lparr>rs_status = up_code resp, rs_header = copy_stream_headers no_header (up_header resp),
                   rs_body = BodyBytes (up_body resp)\<rparr>, [q]))))"

definition cn_service_route :: "media_lib \<Rightarrow> connector \<Rightarrow> http_req \<Rightarrow> http_resp \<times> out_req list" where
  "cn_service_route M c r =
     (case parse_service_route (u_path (rq_url r)) ''/connector/api/services/'' of
        None \<Rightarrow> (not_found, [])
      | Some route \<Rightarrow>
         if sr_action route = ''random-song'' then cn_random_song M c (sr_service route)
         else if sr_action route = ''search'' then cn_search M c r (sr_service route)
         else if sr_action route = ''stream'' then cn_stream c r (sr_service route) (sr_stream_id route)
         else (not_found, []))"

definition connector_serve :: "media_lib \<Rightarrow> connector \<Rightarrow> http_req \<Rightarrow> http_resp \<times> out_req list" where
  "connector_serve M c r =
     (case connector_guard c r of
        Inl resp \<Rightarrow> (resp, [])
      | Inr _ \<Rightarrow>
         if u_path (rq_url r) = ''/connector/api/status'' then (cn_status c, [])
         else if has_prefix (u_path (rq_url r)) ''/connector/api/services/'' then cn_service_route M c r
         else (not_found, []))"

end
