(* ===== verification/ConnectorClaims.thy ===== *)
theory ConnectorClaims
  imports ConnectorServe
begin

text \<open>
  What the media connector guarantees: which callers it admits and where its requests go,
  what the address allow-list means, and that stream identifiers lead back to the file they
  were made for, through the gateway as well.
\<close>

section \<open>Where requests go\<close>

text \<open>A bodyless GET to the scheme, user and host of a base URL.\<close>

definition goes_to :: "string \<Rightarrow> out_req \<Rightarrow> bool" where
  "goes_to base q \<longleftrightarrow> oq_method q = ''GET'' \<and> oq_body q = None \<and>
     (case url_parse base of None \<Rightarrow> False
      | Some b \<Rightarrow> (\<exists>u. oq_url q = url_string u \<and> u_scheme u = u_scheme b \<and> u_user u = u_user b \<and> u_host u = u_host b))"

definition media_bases :: "connector \<Rightarrow> string list" where
  "media_bases c = [cn_jellyfin_base_url c, mc_jellyfin_base_url (normalized_media_config (media_config_of c)),
     mc_plex_base_url (normalized_media_config (media_config_of c)),
     mc_plex_base_url (normalized_media_config (normalized_media_config (media_config_of c)))]"

lemma media_get_Inr: "media_get url h = Inr q \<Longrightarrow> q = \<lparr>oq_method = ''GET'', oq_url = url, oq_header = h, oq_body = None\<rparr>"
  by (auto simp: media_get_def split: option.splits)

lemma goes_toI:
  "url_parse base = Some b \<Longrightarrow> media_get (url_string u) h = Inr q \<Longrightarrow>
     u_scheme u = u_scheme b \<Longrightarrow> u_user u = u_user b \<Longrightarrow> u_host u = u_host b \<Longrightarrow> goes_to base q"
  by (drule media_get_Inr) (force simp: goes_to_def)

lemma goes_to_header: "goes_to base (q\<lparr>oq_header := h\<rparr>) = goes_to base q"
  by (simp add: goes_to_def split: option.split)

lemma with_path_query_fields [simp]:
  "u_scheme (with_path_query u ps kvs) = u_scheme u" "u_user (with_path_query u ps kvs) = u_user u"
  "u_host (with_path_query u ps kvs) = u_host u"
  by (simp_all add: with_path_query_def)

lemma plex_search_url_fields [simp]:
  "u_scheme (plex_search_url u cfg x t) = u_scheme u" "u_user (plex_search_url u cfg x t) = u_user u"
  "u_host (plex_search_url u cfg x t) = u_host u"
  by (simp_all add: plex_search_url_def)

lemma search_jellyfin_sent: "q \<in> set (snd (search_jellyfin M c query)) \<Longrightarrow> goes_to (cn_jellyfin_base_url c) q"
  by (auto simp: search_jellyfin_def media_config_of_def Let_def intro: goes_toI split: if_splits option.splits sum.splits prod.splits)

lemma random_jellyfin_song_sent: "q \<in> set (snd (random_jellyfin_song M c cfg)) \<Longrightarrow> goes_to (mc_jellyfin_base_url cfg) q"
  by (auto simp: random_jellyfin_song_def Let_def intro: goes_toI split: if_splits option.splits sum.splits prod.splits list.splits)

lemma search_plex_sent:
  "q \<in> set (snd (search_plex_with_config M c cfg query)) \<Longrightarrow> goes_to (mc_plex_base_url (normalized_media_config cfg)) q"
  by (auto simp: search_plex_with_config_def Let_def intro: goes_toI split: if_splits option.splits sum.splits prod.splits)

lemma random_plex_song_sent:
  "q \<in> set (snd (random_plex_song M c cfg)) \<Longrightarrow>
     goes_to (mc_plex_base_url (normalized_media_config (normalized_media_config cfg))) q"
  using search_plex_sent [of q M c "normalized_media_config cfg" "''a''"]
  by (simp add: random_plex_song_def Let_def split: if_splits sum.splits prod.splits)

lemma jellyfin_stream_request_to:
  "jellyfin_stream_request_with_config cfg s = Inr q \<Longrightarrow> goes_to (mc_jellyfin_base_url (normalized_media_config cfg)) q"
  by (auto simp: jellyfin_stream_request_with_config_def Let_def intro: goes_toI split: if_splits option.splits)

lemma jellyfin_browser_request_to:
  "jellyfin_browser_audio_request_with_config cfg s = Inr q \<Longrightarrow> goes_to (mc_jellyfin_base_url (normalized_media_config cfg)) q"
  by (auto simp: jellyfin_browser_audio_request_with_config_def Let_def intro: goes_toI split: if_splits option.splits)

lemma plex_stream_request_to:
  "plex_stream_request_with_config cfg s = Inr q \<Longrightarrow> goes_to (mc_plex_base_url (normalized_media_config cfg)) q"
  by (auto simp: plex_stream_request_with_config_def Let_def intro: goes_toI split: if_splits option.splits)


lemma random_jellyfin_base: "mc_jellyfin_base_url (media_config_of c) = cn_jellyfin_base_url c"
  by (simp add: media_config_of_def)

lemma connector_serve_sent:
  assumes "q \<in> set (snd (connector_serve M c r))"
  shows "list_ex (\<lambda>base. goes_to base q) (media_bases c)"
proof -
  have js: "jellyfin_stream_request c s = Inr q0 \<Longrightarrow> goes_to (mc_jellyfin_base_url (normalized_media_config (media_config_of c))) q0"
    and ps: "plex_stream_request c s = Inr q0 \<Longrightarrow> goes_to (mc_plex_base_url (normalized_media_config (media_config_of c))) q0" for s q0
    by (simp_all add: jellyfin_stream_request_def plex_stream_request_def jellyfin_stream_request_to plex_stream_request_to)
  have stream: "q' \<in> set (snd (cn_stream c r service s)) \<Longrightarrow> list_ex (\<lambda>base. goes_to base q') (media_bases c)" for q' service s
    by (auto simp: cn_stream_def media_bases_def Let_def goes_to_header split: if_splits sum.splits dest!: js ps)
  have search: "q' \<in> set (snd (cn_search M c r service)) \<Longrightarrow> list_ex (\<lambda>base. goes_to base q') (media_bases c)" for q' service
  proof -
    assume q': "q' \<in> set (snd (cn_search M c r service))"
    let ?q = "trim_space (values_get (url_query (rq_url r)) ''q'')"
    have "service = ''jellyfin'' \<and> q' \<in> set (snd (search_jellyfin M c ?q))
      \<or> service = ''plex'' \<and> q' \<in> set (snd (search_plex M c ?q))"
      using q' by (auto simp: cn_search_def Let_def split: if_splits sum.splits prod.splits)
    then show ?thesis
      using search_jellyfin_sent [of q' M c ?q] search_plex_sent [of q' M c "media_config_of c" ?q]
      by (auto simp: search_plex_def media_bases_def)
  qed
  have random: "q' \<in> set (snd (cn_random_song M c service)) \<Longrightarrow> list_ex (\<lambda>base. goes_to base q') (media_bases c)" for q' service
  proof -
    assume q': "q' \<in> set (snd (cn_random_song M c service))"
    then have "service = ''jellyfin'' \<and> q' \<in> set (snd (random_jellyfin_song M c (media_config_of c)))
      \<or> service = ''plex'' \<and> q' \<in> set (snd (random_plex_song M c (media_config_of c)))"
      by (auto simp: cn_random_song_def Let_def split: if_splits option.splits prod.splits)
    then show ?thesis
      using random_jellyfin_song_sent [of q' M c "media_config_of c"] random_plex_song_sent [of q' M c "media_config_of c"]
      by (auto simp: media_bases_def random_jellyfin_base)
  qed
  from assms show ?thesis
    using stream search random
    by (auto simp: connector_serve_def cn_service_route_def split: sum.splits if_splits option.splits)
qed

interpretation cng: guarded "\<lambda>_. True" "connector_guard c" "connector_serve M c"
  by unfold_locales (simp add: connector_serve_def)

lemma connector_guard_Inr:
  "connector_guard c r = Inr u \<longleftrightarrow> allowed_remote c (rq_remote r)
     \<and> allowed_token c (hdr_get (rq_header r) ''Authorization'') \<and> rq_method r = ''GET''"
  by (auto simp: connector_guard_def require_method_def)

text \<open>
  C10: The connector talks to a media server only for a caller whose address is allowed, who has
  the shared token and who asks with GET; and then only to the configured servers: whatever
  the query or the stream identifier, the scheme, user and host of the request are those of
  a configured base URL. Everybody else is refused before any request is made.
\<close>

theorem connector_contacts_only_configured:
  "list_all (\<lambda>q. allowed_remote c (rq_remote r)
     \<and> allowed_token c (hdr_get (rq_header r) ''Authorization'') \<and> rq_method r = ''GET''
     \<and> list_ex (\<lambda>base. goes_to base q) (media_bases c)) (snd (connector_serve M c r))"
proof -
  have "allowed_remote c (rq_remote r) \<and> allowed_token c (hdr_get (rq_header r) ''Authorization'') \<and> rq_method r = ''GET''"
    if "q \<in> set (snd (connector_serve M c r))" for q
    using cng.sent_admitted [OF TrueI that] connector_guard_Inr by blast
  with connector_serve_sent [of _ M c r] show ?thesis unfolding list_all_iff by blast
qed

section \<open>The address allow-list\<close>

text \<open>
  The set of addresses a list entry stands for, by its bits: \<open>address/length\<close>, the address
  and the entry in one family, the first bits equal.
\<close>

definition cidr_covers :: "string \<Rightarrow> ip_bytes \<Rightarrow> bool" where
  "cidr_covers entry ip =
     (case cut (CHR ''/'') entry of
        None \<Rightarrow> False
      | Some (addr, len) \<Rightarrow>
         (case parse_addr addr of
            None \<Rightarrow> False
          | Some a \<Rightarrow>
             (let n = cidr_len16 a (nat (digits_val len))
              in take n (ip_bits ip) = take n (ip_bits (addr_as16 a))
                 \<and> ip_is_v4 ip = ip_is_v4 (ip_and a (cidr_mask (nat (digits_val len)) (length a))))))"

lemma parse_cidr_covers:
  assumes "parse_cidr s = Inr net" "length ip = 16" shows "net_contains net ip = cidr_covers s ip"
proof -
  from assms(1) obtain addr len where c: "cut (CHR ''/'') s = Some (addr, len)"
    by (auto simp: parse_cidr_def split: option.splits)
  then have s: "s = addr @ CHR ''/'' # len" "CHR ''/'' \<notin> set addr" by (simp_all add: cut_Some_iff)
  obtain a where a: "parse_addr addr = Some a"
    "net_contains net ip \<longleftrightarrow> ip_is_v4 ip = ip_is_v4 (in_ip net)
       \<and> take (cidr_len16 a (nat (digits_val len))) (ip_bits ip)
         = take (cidr_len16 a (nat (digits_val len))) (ip_bits (addr_as16 a))"
    using parse_cidr_contains [OF assms(1) [unfolded s(1)] s(2) assms(2)] by blast
  moreover from assms(1) c a(1) have "in_ip net = ip_and a (cidr_mask (nat (digits_val len)) (length a))"
    by (auto simp: parse_cidr_def Let_def split: if_splits)
  ultimately show ?thesis using c by (auto simp: cidr_covers_def Let_def)
qed

lemma parse_cidrs_contains:
  "parse_cidrs vs = Inr nets \<Longrightarrow> length ip = 16 \<Longrightarrow>
     list_ex (\<lambda>n. net_contains n ip) nets = list_ex (\<lambda>v. trim_space v \<noteq> [] \<and> cidr_covers (trim_space v) ip) vs"
proof (induction vs arbitrary: nets)
  case (Cons v vs)
  then show ?case
    by (auto simp: Let_def bind_res_Inr parse_cidr_covers split: if_splits sum.splits)
qed simp

lemma parse_cidrs_empty: "parse_cidrs vs = Inr nets \<Longrightarrow> nets = [] \<longleftrightarrow> list_all (\<lambda>v. trim_space v = []) vs"
  by (induction vs arbitrary: nets) (auto simp: Let_def bind_res_Inr split: if_splits sum.splits)

text \<open>
  C26: The allow-list of the connector, read from its configured entries. Without an entry that
  is not blank every caller is admitted. Otherwise the caller's address (the host part, or the whole text when
  it has no port) must be a literal address that one entry covers: the same family, an
  IPv4-mapped address counting as IPv4, and the same leading bits.
\<close>

theorem connector_remote_exact:
  assumes "parse_cidrs vs = Inr nets"
  shows "allowed_remote (c\<lparr>cn_allowed_cidrs := nets\<rparr>) remote =
    (list_all (\<lambda>v. trim_space v = []) vs \<or>
     (case parse_ip (case split_host_port remote of Inl _ \<Rightarrow> remote | Inr (h, _) \<Rightarrow> h) of
        None \<Rightarrow> False
      | Some ip \<Rightarrow> list_ex (\<lambda>v. trim_space v \<noteq> [] \<and> cidr_covers (trim_space v) ip) vs))"
proof (cases "nets = []")
  case True
  with parse_cidrs_empty [OF assms] show ?thesis by (simp add: allowed_remote_def)
next
  case False
  let ?host = "case split_host_port remote of Inl _ \<Rightarrow> remote | Inr (h, _) \<Rightarrow> h"
  show ?thesis
  proof (cases "parse_ip ?host")
    case None
    with False parse_cidrs_empty [OF assms] show ?thesis by (simp add: allowed_remote_def Let_def)
  next
    case (Some ip)
    with False parse_cidrs_empty [OF assms] parse_cidrs_contains [OF assms parse_ip_length [OF Some]]
    show ?thesis by (simp add: allowed_remote_def Let_def)
  qed
qed

definition demo_connector :: connector where
  "demo_connector = \<lparr>cn_allowed_cidrs = [], cn_shared_token = ''tok'', cn_jellyfin_base_url = [],
     cn_jellyfin_api_key = [], cn_plex_base_url = ''http://10.0.0.5:32400'', cn_plex_token = ''SECRET'',
     cn_fips_peer_npub = [], cn_fips_peer_addr = [], cn_http_client = (\<lambda>_. Inl ''connection refused'')\<rparr>"

definition demo_net :: ip_net where
  "demo_net = \<lparr>in_ip = [10, 0, 0, 0], in_mask = [255, 240, 0, 0]\<rparr>"

lemma demo_fields:
  "ipv4_field ''10'' = Some 10" "ipv4_field ''1'' = Some 1" "ipv4_field ''0'' = Some 0"
  "ipv4_field ''15'' = Some 15" "ipv4_field ''2'' = Some 2"
  by (simp_all add: ipv4_field_def all_digits_def is_digit_def digits_val_def digit_val_def)

lemma demo_addr: "parse_addr ''10.1.0.0'' = Some [10, 1, 0, 0]" "parse_ip ''10.15.1.2'' = Some (v4_in_v6_prefix @ [10, 15, 1, 2])"
  by (simp_all add: parse_ip_def parse_addr_def parse_ipv4_def demo_fields addr_as16_def)

lemma demo_cidr: "parse_cidr ''10.1.0.0/12'' = Inr demo_net"
proof -
  have "cut (CHR ''/'') ''10.1.0.0/12'' = Some (''10.1.0.0'', ''12'')" by simp
  moreover have "all_digits ''12''" "digits_val ''12'' = 12"
    by (simp_all add: all_digits_def is_digit_def digits_val_def digit_val_def)
  ultimately show ?thesis by (simp add: parse_cidr_def demo_addr ip_and_def demo_net_def)
qed

lemma demo_trim: "trim_space ''10.1.0.0/12'' = ''10.1.0.0/12''" "trim_space '' '' = []"
  by code_simp+

lemma demo_cidrs: "parse_cidrs [''10.1.0.0/12'', '' ''] = Inr [demo_net]"
  by (simp add: demo_trim demo_cidr)

lemma demo_contains: "net_contains demo_net (v4_in_v6_prefix @ [10, 15, 1, 2])"
  by (simp add: net_contains_def net_number_and_mask_def demo_net_def ip_to4_def ip_and_def)

lemma connector_remote_exact_witness:
  "allowed_remote (demo_connector\<lparr>cn_allowed_cidrs := [demo_net]\<rparr>) ''10.15.1.2:443''"
proof -
  have s: "split_host_port ''10.15.1.2:443'' = Inr (''10.15.1.2'', ''443'')" by code_simp
  have "cidr_covers ''10.1.0.0/12'' (v4_in_v6_prefix @ [10, 15, 1, 2])"
    using parse_cidr_covers [OF demo_cidr] demo_contains by simp
  then show ?thesis
    unfolding connector_remote_exact [OF demo_cidrs] s by (simp add: demo_addr demo_trim)
qed

section \<open>Stream identifiers\<close>

lemma stream_route_id_chars:
  assumes "service = ''jellyfin'' \<or> service = ''plex''" "list_all id_char sid" "sid \<noteq> []"
  shows "parse_service_route (''/connector/api/services/'' @ service @ ''/stream/'' @ path_escape sid) ''/connector/api/services/''
      = Some \<lparr>sr_service = service, sr_action = ''stream'', sr_stream_id = sid\<rparr>"
proof -
  have e: "path_escape sid = sid" using assms(2) by (simp add: path_escape_def url_escape_id_chars)
  have n: "CHR ''/'' \<notin> set sid" using assms(2) by (auto simp: list_all_iff dest: id_char_not)
  have sp: "split_on (CHR ''/'') (service @ ''/stream/'' @ sid) = [service, ''stream'', sid]"
    using assms(1) split_on_single [OF n] by auto
  have "trim_prefix (''/connector/api/services/'' @ service @ ''/stream/'' @ sid) ''/connector/api/services/''
      = service @ ''/stream/'' @ sid" by (rule trim_prefix_append)
  moreover have "has_prefix (''/connector/api/services/'' @ service @ ''/stream/'' @ sid) ''/connector/api/services/''"
    by (rule has_prefix_append)
  ultimately show ?thesis
    unfolding parse_service_route_def e using assms(1,3) sp by (auto simp: valid_service_def)
qed


lemma plex_item_stream_id:
  "mi_stream_id (plex_item m) = (if valid_plex_part_path (first_plex_part_key m) then b64url_encode (first_plex_part_key m) else [])"
  by (simp add: plex_item_def Let_def)

lemma valid_plex_part_path_ne: "valid_plex_part_path k \<Longrightarrow> k \<noteq> []"
  by (auto simp: valid_plex_part_path_def)

text \<open>
  C28: A stream identifier found by searching Plex leads back to the file it was made for. An
  item has an identifier exactly when its first part has a well-formed path; that identifier,
  put into the gateway's path, is what the connector reads from the path, and the request
  made for it asks the Plex server for that part and nothing else.
\<close>

theorem plex_stream_roundtrip:
  "let k = first_plex_part_key m; sid = mi_stream_id (plex_item m) in
   if \<not> valid_plex_part_path k then sid = []
   else sid \<noteq> [] \<and> b64url_decode sid = Some k
     \<and> parse_service_route (''/connector/api/services/'' @ ''plex'' @ ''/stream/'' @ path_escape sid) ''/connector/api/services/''
         = Some \<lparr>sr_service = ''plex'', sr_action = ''stream'', sr_stream_id = sid\<rparr>
     \<and> plex_stream_request_with_config cfg sid =
         (let cfg' = normalized_media_config cfg
          in if mc_plex_base_url cfg' = [] then Inl ServiceNotConfigured
             else (case url_parse (mc_plex_base_url cfg') of
                None \<Rightarrow> Inl (MediaMsg (url_parse_error (mc_plex_base_url cfg')))
              | Some u \<Rightarrow>
                 media_get (url_string (if mc_plex_token cfg' = [] then u\<lparr>u_path := path_join [u_path u, k]\<rparr>
                   else u\<lparr>u_path := path_join [u_path u, k],
                     u_raw_query := values_encode (values_set ''X-Plex-Token'' (mc_plex_token cfg') (url_query u))\<rparr>)) no_header))"
proof (cases "valid_plex_part_path (first_plex_part_key m)")
  case True
  let ?k = "first_plex_part_key m"
  have r: "parse_service_route (''/connector/api/services/'' @ ''plex'' @ ''/stream/'' @ path_escape (b64url_encode ?k)) ''/connector/api/services/''
      = Some \<lparr>sr_service = ''plex'', sr_action = ''stream'', sr_stream_id = b64url_encode ?k\<rparr>"
    using valid_plex_part_path_ne [OF True] by (intro stream_route_id_chars b64url_encode_chars) simp_all
  have q: "url_query (u\<lparr>u_path := p\<rparr>) = url_query u" for u p by (simp add: url_query_def)
  show ?thesis
    unfolding Let_def plex_item_stream_id if_P [OF True] if_not_P [OF not_not [THEN iffD2, OF True]]
    using True valid_plex_part_path_ne [OF True] r
    by (auto simp: plex_stream_request_with_config_def Let_def q split: option.split)
qed (simp add: plex_item_stream_id)

definition demo_media_lib :: media_lib where
  "demo_media_lib = \<lparr>ml_json_error = (\<lambda>_. ''EOF''), ml_xml_parse = (\<lambda>_. Inl ''EOF''), ml_step_ms = (\<lambda>_. 0), ml_nanos = 0\<rparr>"

definition demo_search_req :: http_req where
  "demo_search_req = \<lparr>rq_method = ''GET'', rq_url = empty_url\<lparr>u_path := ''/connector/api/services/plex/search'', u_raw_query := ''q=a''\<rparr>,
     rq_host = ''c'', rq_header = hdr_set ''Authorization'' ''Bearer tok'' no_header, rq_tls = False, rq_remote = ''10.0.0.9:1'', rq_body = None\<rparr>"

text \<open>
  The token of the Plex server is part of the URL of the connector's requests, and the error
  of a failed request names the URL: an unreachable Plex server makes the connector answer,
  to whoever asks through the gateway, with a text that contains the token, although the
  debug steps of the same requests hide it.
\<close>

theorem connector_error_shows_plex_token:
  "rs_body (fst (connector_serve demo_media_lib demo_connector demo_search_req)) = BodyJson (json_err
   (''Get '' @ [CHR 0x22] @ ''http://10.0.0.5:32400/hubs/search?X-Plex-Token=SECRET&limit=20&query=a'' @ [CHR 0x22] @ '': connection refused''))"
  by code_simp

end
