(* ===== verification/GoJsonPrint.thy ===== *)
theory GoJsonPrint
  imports GoEncode
begin

text \<open>
  Writing JSON: the text \<open>json.NewEncoder(w).Encode(v)\<close> produces for the values the handlers
  answer with, and the proof that \<open>encoding/json\<close> reads back what it has written. The members of an
  object are written in the order in which the model lists them.
\<close>

section \<open>The writer\<close>

fun json_print :: "json \<Rightarrow> string" where
  "json_print JNull = ''null''"
| "json_print (JBool b) = (if b then ''true'' else ''false'')"
| "json_print (JNum n) = n"
| "json_print (JStr s) = json_quote s"
| "json_print (JArr vs) = CHR ''['' # join '','' (map json_print vs) @ '']''"
| "json_print (JObj ms) = CHR ''{'' # join '','' (map (\<lambda>(k, v). json_quote k @ CHR '':'' # json_print v) ms) @ ''}''"

definition json_encode :: "json \<Rightarrow> string" where
  "json_encode v = json_print v @ [CHR 0x0A]"

text \<open>A number must carry a lexeme of JSON; nothing else can go wrong.\<close>

fun json_wf :: "json \<Rightarrow> bool" where
  "json_wf (JNum n) \<longleftrightarrow> parse_num n = Some (JNum n, [])"
| "json_wf (JArr vs) \<longleftrightarrow> list_all json_wf vs"
| "json_wf (JObj ms) \<longleftrightarrow> list_all (\<lambda>(k, v). json_wf v) ms"
| "json_wf _ \<longleftrightarrow> True"

section \<open>Reading numbers in context\<close>

text \<open>What may follow a value.\<close>

definition json_end :: "string \<Rightarrow> bool" where
  "json_end r \<longleftrightarrow> (case r of [] \<Rightarrow> True | c # _ \<Rightarrow> c \<in> {CHR '','', CHR '']'', CHR ''}'', CHR 0x0A})"

lemma json_end_simps [simp]:
  "json_end []" "json_end (CHR '','' # r)" "json_end (CHR '']'' # r)" "json_end (CHR ''}'' # r)" "json_end (CHR 0x0A # r)"
  by (simp_all add: json_end_def)

lemma json_end_hd:
  "json_end (c # r) \<Longrightarrow> \<not> is_digit c \<and> c \<noteq> CHR ''.'' \<and> c \<noteq> CHR ''e'' \<and> c \<noteq> CHR ''E'' \<and> c \<noteq> CHR ''+'' \<and> c \<noteq> CHR ''-'' \<and> c \<noteq> CHR ''0''"
  by (auto simp: json_end_def is_digit_def)

lemma digits_end:
  "json_end r \<Longrightarrow> takeWhile is_digit (s @ r) = takeWhile is_digit s"
  "json_end r \<Longrightarrow> dropWhile is_digit (s @ r) = dropWhile is_digit s @ r"
  by (induction s; cases r; simp add: json_end_hd)+

lemma parse_int_part_end:
  "json_end r \<Longrightarrow> parse_int_part t = Some (i, r1) \<Longrightarrow> parse_int_part (t @ r) = Some (i, r1 @ r)"
  by (cases t) (auto simp: parse_int_part_def digits_end split: if_splits)

lemma parse_frac_end:
  "json_end r \<Longrightarrow> parse_frac t = Some (i, r1) \<Longrightarrow> parse_frac (t @ r) = Some (i, r1 @ r)"
  by (cases t; cases r) (auto simp: parse_frac_def digits_end json_end_hd split: if_splits)

lemma parse_exp_end:
  assumes "json_end r" "parse_exp t = Some (i, r1)" shows "parse_exp (t @ r) = Some (i, r1 @ r)"
proof (cases t)
  case Nil
  with assms show ?thesis by (cases r) (auto simp: parse_exp_def json_end_hd)
next
  case (Cons c u)
  show ?thesis
  proof (cases u)
    case Nil
    with assms Cons show ?thesis by (auto simp: parse_exp_def split: if_splits)
  next
    case u: (Cons d v)
    with assms Cons show ?thesis
      using digits_end [OF assms(1), of v] digits_end [OF assms(1), of u]
      by (auto simp: parse_exp_def split: if_splits)
  qed
qed

lemma parse_num_end:
  assumes r: "json_end r" and n: "parse_num s = Some (v, r1)"
  shows "parse_num (s @ r) = Some (v, r1 @ r)"
proof -
  obtain sg t where st: "parse_sign s = (sg, t)" by fastforce
  from n st obtain i x1 f x2 e where p: "parse_int_part t = Some (i, x1)" "parse_frac x1 = Some (f, x2)"
    "parse_exp x2 = Some (e, r1)" "v = JNum (sg @ i @ f @ e)"
    by (auto simp: parse_num_def split: option.splits)
  then have "t \<noteq> []" by (auto simp: parse_int_part_def)
  with st have "parse_sign (s @ r) = (sg, t @ r)" by (auto simp: parse_sign_def split: list.splits if_splits)
  with parse_int_part_end [OF r p(1)] parse_frac_end [OF r p(2)] parse_exp_end [OF r p(3)] p(4)
  show ?thesis by (simp add: parse_num_def)
qed

lemma parse_num_hd:
  "parse_num s = Some (v, r) \<Longrightarrow> \<exists>c t. s = c # t \<and> (c = CHR ''-'' \<or> is_digit c)"
  by (cases s) (auto simp: parse_num_def parse_sign_def parse_int_part_def is_digit_def split: if_splits option.splits)

section \<open>What is written is read back\<close>

lemma json_print_hd:
  assumes "json_wf v" shows "\<exists>c t. json_print v = c # t \<and> \<not> json_ws c \<and> c \<notin> {CHR '']'', CHR ''}''}"
proof (cases v)
  case (JNum n)
  with assms parse_num_hd [of n "JNum n" "[]"] obtain c t where "n = c # t" "c = CHR ''-'' \<or> is_digit c" by auto
  with JNum show ?thesis by (auto simp: json_ws_def is_digit_def)
qed (auto simp: json_quote_def json_ws_def)

lemma skip_ws_print:
  assumes "json_wf v" shows "skip_ws (json_print v @ r) = json_print v @ r"
  using json_print_hd [OF assms] by (auto simp: skip_ws_def)

lemma skip_ws_head [simp]: "\<not> json_ws c \<Longrightarrow> skip_ws (c # r) = c # r"
  by (simp add: skip_ws_def)

lemma json_ws_punct [simp]:
  "\<not> json_ws (CHR ''['')" "\<not> json_ws (CHR '']'')" "\<not> json_ws (CHR ''{'')" "\<not> json_ws (CHR ''}'')"
  "\<not> json_ws (CHR '','')" "\<not> json_ws (CHR '':'')" "\<not> json_ws (CHR 0x22)"
  by (simp_all add: json_ws_def)

text \<open>With enough fuel: \<open>reads v s r\<close> says that the text \<open>s\<close> starts with the value \<open>v\<close> and that \<open>r\<close> is left.\<close>

definition reads :: "(nat \<Rightarrow> string \<Rightarrow> ('a \<times> string) option) \<Rightarrow> 'a \<Rightarrow> string \<Rightarrow> string \<Rightarrow> bool" where
  "reads p v s r \<longleftrightarrow> (\<exists>N. \<forall>n \<ge> N. p n s = Some (v, r))"

lemma reads_Suc: "(\<And>n. n \<ge> N \<Longrightarrow> p (Suc n) s = Some (v, r)) \<Longrightarrow> reads p v s r"
  unfolding reads_def by (rule exI [of _ "Suc N"]) (auto dest: Suc_le_D)

lemma readsE: "reads p v s r \<Longrightarrow> (\<And>N. \<forall>n \<ge> N. p n s = Some (v, r) \<Longrightarrow> thesis) \<Longrightarrow> thesis"
  unfolding reads_def by blast

lemma reads_elems:
  assumes "vs \<noteq> []" "\<And>v r. v \<in> set vs \<Longrightarrow> json_end r \<Longrightarrow> reads parse_value v (json_print v @ r) r"
  shows "reads parse_elems vs (join '','' (map json_print vs) @ CHR '']'' # r) r"
  using assms
proof (induction vs)
  case (Cons v vs)
  show ?case
  proof (cases "vs = []")
    case True
    have "reads parse_value v (json_print v @ CHR '']'' # r) (CHR '']'' # r)" by (rule Cons.prems(2)) simp_all
    then obtain N where "\<forall>n \<ge> N. parse_value n (json_print v @ CHR '']'' # r) = Some (v, CHR '']'' # r)" by (rule readsE)
    with True show ?thesis by (intro reads_Suc [of N]) (simp add: parse_elems.simps(2))
  next
    case False
    let ?rest = "join '','' (map json_print vs) @ CHR '']'' # r"
    have "reads parse_value v (json_print v @ CHR '','' # ?rest) (CHR '','' # ?rest)" by (rule Cons.prems(2)) simp_all
    then obtain N where n: "\<forall>n \<ge> N. parse_value n (json_print v @ CHR '','' # ?rest) = Some (v, CHR '','' # ?rest)"
      by (rule readsE)
    have "reads parse_elems vs ?rest r"
    proof (rule Cons.IH [OF False])
      show "reads parse_value w (json_print w @ x) x" if "w \<in> set vs" "json_end x" for w x
        using that by (intro Cons.prems(2)) simp_all
    qed
    then obtain M where m: "\<forall>n \<ge> M. parse_elems n ?rest = Some (vs, r)" by (rule readsE)
    have "join '','' (map json_print (v # vs)) @ CHR '']'' # r = json_print v @ CHR '','' # ?rest"
      using False by (simp add: join_Cons)
    with n m show ?thesis by (intro reads_Suc [of "max N M"]) (simp add: parse_elems.simps(2))
  qed
qed simp

lemma reads_members:
  assumes "ms \<noteq> []" "\<And>k v r. (k, v) \<in> set ms \<Longrightarrow> json_end r \<Longrightarrow> reads parse_value v (json_print v @ r) r"
  shows "reads parse_members ms (join '','' (map (\<lambda>(k, v). json_quote k @ CHR '':'' # json_print v) ms) @ CHR ''}'' # r) r"
  using assms
proof (induction ms)
  case (Cons kv ms)
  obtain k v where kv: "kv = (k, v)" by (cases kv)
  show ?case
  proof (cases "ms = []")
    case True
    have "reads parse_value v (json_print v @ CHR ''}'' # r) (CHR ''}'' # r)" by (rule Cons.prems(2) [of k]) (simp_all add: kv)
    then obtain N where "\<forall>n \<ge> N. parse_value n (json_print v @ CHR ''}'' # r) = Some (v, CHR ''}'' # r)" by (rule readsE)
    with True kv show ?thesis
      by (intro reads_Suc [of N]) (simp add: parse_members.simps(2) json_quote_def parse_str_quoted)
  next
    case False
    let ?rest = "join '','' (map (\<lambda>(k, v). json_quote k @ CHR '':'' # json_print v) ms) @ CHR ''}'' # r"
    have "reads parse_value v (json_print v @ CHR '','' # ?rest) (CHR '','' # ?rest)" by (rule Cons.prems(2) [of k]) (simp_all add: kv)
    then obtain N where n: "\<forall>n \<ge> N. parse_value n (json_print v @ CHR '','' # ?rest) = Some (v, CHR '','' # ?rest)"
      by (rule readsE)
    have "reads parse_members ms ?rest r"
    proof (rule Cons.IH [OF False])
      show "reads parse_value w (json_print w @ x) x" if "(j, w) \<in> set ms" "json_end x" for j w x
        using that by (intro Cons.prems(2) [of j]) simp_all
    qed
    then obtain M where m: "\<forall>n \<ge> M. parse_members n ?rest = Some (ms, r)" by (rule readsE)
    have "join '','' (map (\<lambda>(k, v). json_quote k @ CHR '':'' # json_print v) (kv # ms)) @ CHR ''}'' # r
        = json_quote k @ CHR '':'' # json_print v @ CHR '','' # ?rest"
      using False kv by (simp add: join_Cons)
    with n m kv show ?thesis
      by (intro reads_Suc [of "max N M"]) (simp add: parse_members.simps(2) json_quote_def parse_str_quoted)
  qed
qed simp

lemma reads_value: "json_wf v \<Longrightarrow> json_end r \<Longrightarrow> reads parse_value v (json_print v @ r) r"
proof (induction v arbitrary: r)
  case (JNum n)
  from JNum.prems(1) have p: "parse_num n = Some (JNum n, [])" by simp
  from parse_num_hd [OF p] obtain c t where ct: "n = c # t" "c = CHR ''-'' \<or> is_digit c" by blast
  then have "\<not> json_ws c" "c \<notin> {CHR 0x22, CHR ''{'', CHR ''['', CHR ''t'', CHR ''f'', CHR ''n''}"
    by (auto simp: json_ws_def is_digit_def)
  with parse_num_end [OF JNum.prems(2) p] ct show ?case by (intro reads_Suc [of 0]) (simp add: parse_value.simps(2))
next
  case (JArr vs)
  show ?case
  proof (cases "vs = []")
    case True
    then show ?thesis by (intro reads_Suc [of 0]) (simp add: parse_value.simps(2))
  next
    case False
    let ?t = "join '','' (map json_print vs) @ CHR '']'' # r"
    have "reads parse_elems vs ?t r" using JArr by (intro reads_elems [OF False]) (simp add: list_all_iff)
    then obtain N where n: "\<forall>n \<ge> N. parse_elems n ?t = Some (vs, r)" by (rule readsE)
    from False obtain v ws where vs: "vs = v # ws" by (cases vs) auto
    then have "json_wf v" using JArr.prems(1) by simp
    from json_print_hd [OF this] obtain c t where "json_print v = c # t" "\<not> json_ws c" "c \<noteq> CHR '']''" by auto
    with vs have "\<not> prefix '']'' (skip_ws ?t)" by (cases ws) (auto simp: join_Cons)
    with n show ?thesis by (intro reads_Suc [of N]) (simp add: parse_value.simps(2))
  qed
next
  case (JObj ms)
  show ?case
  proof (cases "ms = []")
    case True
    then show ?thesis by (intro reads_Suc [of 0]) (simp add: parse_value.simps(2))
  next
    case False
    let ?t = "join '','' (map (\<lambda>(k, v). json_quote k @ CHR '':'' # json_print v) ms) @ CHR ''}'' # r"
    have "reads parse_members ms ?t r"
      using JObj by (intro reads_members [OF False]) (fastforce simp: list_all_iff)
    then obtain N where n: "\<forall>n \<ge> N. parse_members n ?t = Some (ms, r)" by (rule readsE)
    from False obtain k v ws where "ms = (k, v) # ws" by (cases ms) auto
    then have "\<not> prefix ''}'' (skip_ws ?t)" by (cases ws) (auto simp: join_Cons json_quote_def)
    with n show ?thesis by (intro reads_Suc [of N]) (simp add: parse_value.simps(2))
  qed
qed (auto intro!: reads_Suc [of 0] simp: parse_value.simps(2) parse_lit_def json_quote_def parse_str_quoted json_ws_def)

lemma parse_value_encode: "json_wf v \<Longrightarrow> parse_value (json_fuel (json_encode v)) (json_encode v) = Some (v, [CHR 0x0A])"
proof -
  assume "json_wf v"
  from reads_value [OF this, of "[CHR 0x0A]"] obtain N where
    n: "\<forall>n \<ge> N. parse_value n (json_encode v) = Some (v, [CHR 0x0A])" unfolding json_encode_def by (auto elim: readsE)
  have "parse_value (json_fuel (json_encode v)) (json_encode v) = parse_value (max N (json_fuel (json_encode v))) (json_encode v)"
    by (rule parse_value_fuel [symmetric]) simp
  with n show ?thesis by simp
qed

theorem json_roundtrip:
  "json_wf v \<Longrightarrow> json_parse (json_encode v) = Some v \<and> json_decode_first (json_encode v) = Some v"
  by (simp add: json_parse_def json_decode_first_def parse_value_encode skip_ws_def json_ws_def)

section \<open>Integers are numbers of JSON\<close>

lemma char_of_digit:
  "char_of (48 :: int) = CHR ''0''" "char_of (49 :: int) = CHR ''1''" "char_of (50 :: int) = CHR ''2''" "char_of (51 :: int) = CHR ''3''" "char_of (52 :: int) = CHR ''4''"
  "char_of (53 :: int) = CHR ''5''" "char_of (54 :: int) = CHR ''6''" "char_of (55 :: int) = CHR ''7''" "char_of (56 :: int) = CHR ''8''" "char_of (57 :: int) = CHR ''9''"
  by code_simp+

lemma digits_str_hd: "1 \<le> n \<Longrightarrow> \<exists>c t. digits_str n = c # t \<and> is_digit c \<and> c \<noteq> CHR ''0''"
proof (induction n rule: digits_str.induct)
  case (1 n)
  show ?case
  proof (cases "n < 10")
    case True
    with "1.prems" have "n \<in> {1, 2, 3, 4, 5, 6, 7, 8, 9}" by auto
    then show ?thesis by (auto simp: digits_str.simps [of n] is_digit_def char_of_digit)
  next
    case False
    then have "1 \<le> n div 10" by linarith
    with 1 False obtain c t where "digits_str (n div 10) = c # t" "is_digit c" "c \<noteq> CHR ''0''" by auto
    with False show ?thesis by (simp add: digits_str.simps [of n])
  qed
qed

lemma parse_num_digits:
  assumes "1 \<le> n"
  shows "parse_int_part (digits_str n) = Some (digits_str n, [])"
proof -
  have "list_all is_digit (digits_str n)" using digits_str_digits [of n] assms by (simp add: all_digits_def)
  then have "takeWhile is_digit (digits_str n) = digits_str n" "dropWhile is_digit (digits_str n) = []"
    by (simp_all add: takeWhile_eq_all_conv dropWhile_eq_Nil_conv list_all_iff)
  with digits_str_hd [OF assms] show ?thesis by (auto simp: parse_int_part_def)
qed

lemma json_wf_int: "json_wf (JNum (int_str n))"
proof -
  consider "n = 0" | "1 \<le> n" | "n < 0" by linarith
  then show ?thesis
  proof cases
    case 1
    then show ?thesis by (simp add: char_of_digit int_str_def digits_str.simps parse_num_def parse_sign_def parse_int_part_def parse_frac_def parse_exp_def)
  next
    case 2
    with digits_str_hd [OF 2] parse_num_digits [OF 2] show ?thesis
      by (auto simp: int_str_def parse_num_def parse_sign_def parse_frac_def parse_exp_def is_digit_def)
  next
    case 3
    then have "1 \<le> - n" by simp
    with 3 parse_num_digits [OF this] show ?thesis
      by (auto simp: int_str_def parse_num_def parse_sign_def parse_frac_def parse_exp_def)
  qed
qed

end
