(* ===== verification/GoQuery.thy ===== *)
theory GoQuery
  imports GoEncode
begin

text \<open>
  Query strings survive the trip between two programs: \<open>url.ParseQuery\<close> reads what
  \<open>url.Values.Encode\<close> has written, with every key and every list of values.
\<close>

section \<open>Escaped text\<close>

text \<open>The characters of an escaped key or value.\<close>

definition query_char :: "char \<Rightarrow> bool" where
  "query_char c \<longleftrightarrow> id_char c \<or> c \<in> {CHR ''.'', CHR ''~'', CHR ''+'', CHR 0x25}"

lemma query_char_not:
  "query_char c \<Longrightarrow> c \<notin> {CHR ''&'', CHR ''='', CHR '';'', CHR ''#'', CHR ''?'', CHR ''/'', CHR '':'', CHR ''@''}"
  by (auto simp: query_char_def id_char_def is_alpha_def is_digit_def)

lemma query_char_print: "query_char c \<Longrightarrow> \<not> (of_char c :: nat) < 32 \<and> (of_char c :: nat) \<noteq> 127"
  by (auto simp: query_char_def id_char_def is_alpha_def is_digit_def Let_def)

lemma upper_hex_hex: "n < 16 \<Longrightarrow> is_hex (upper_hex n) \<and> unhex (upper_hex n) = n"
  by (auto simp: is_hex_def unhex_def upper_hex_def Let_def)

lemma hex_query_char: "is_hex c \<Longrightarrow> query_char c"
  by (auto simp: is_hex_def query_char_def id_char_def is_alpha_def is_digit_def Let_def)

lemma upper_hex_read: "n < 16 \<Longrightarrow> query_char (upper_hex n) \<and> is_hex (upper_hex n) \<and> unhex (upper_hex n) = n"
  using upper_hex_hex hex_query_char by blast

lemma unescaped_query_char: "\<not> should_escape EncQuery c \<Longrightarrow> query_char c \<and> c \<noteq> CHR ''+'' \<and> c \<noteq> CHR 0x25"
  by (auto simp: should_escape_def query_char_def id_char_def is_alpha_def is_digit_def split: if_splits)

lemma escape_char_query: "list_all query_char (escape_char EncQuery c)"
proof (cases "should_escape EncQuery c")
  case True
  then show ?thesis
    using upper_hex_read [OF of_char_bounds(1) [of c]] upper_hex_read [OF of_char_bounds(2) [of c]]
    by (auto simp: escape_char_def query_char_def)
next
  case False
  with unescaped_query_char [OF False] show ?thesis by (auto simp: escape_char_def query_char_def)
qed

lemma query_escape_chars: "list_all query_char (query_escape s)"
  using escape_char_query by (induction s) (auto simp: query_escape_def url_escape_def)

lemma unescape_escape_char: "url_unescape EncQuery (escape_char EncQuery c @ r) = map_option (\<lambda>s. c # s) (url_unescape EncQuery r)"
proof (cases "should_escape EncQuery c")
  case True
  have "16 * (of_char c div 16) + of_char c mod 16 = (of_char c :: nat)" by simp
  with True show ?thesis
    using upper_hex_read [OF of_char_bounds(1) [of c]] upper_hex_read [OF of_char_bounds(2) [of c]]
    by (auto simp: escape_char_def)
next
  case False
  with unescaped_query_char [OF False] show ?thesis by (auto simp: escape_char_def)
qed

lemma query_unescape_escape: "url_unescape EncQuery (query_escape s) = Some s"
  by (induction s) (simp_all add: query_escape_def url_escape_def unescape_escape_char)

section \<open>Lists of values\<close>

definition flat_values :: "url_values \<Rightarrow> (string \<times> string) list" where
  "flat_values q = concat (map (\<lambda>(k, vs). map (Pair k) vs) q)"

definition query_pair :: "string \<times> string \<Rightarrow> string" where
  "query_pair kv = query_escape (fst kv) @ ''='' @ query_escape (snd kv)"

lemma query_pair_chars: "c \<in> set (query_pair kv) \<Longrightarrow> query_char c \<or> c = CHR ''=''"
  using query_escape_chars by (auto simp: query_pair_def list_all_iff)

lemma parse_query_pair_pair: "parse_query_pair (query_pair (k, v)) q = values_add k v q"
proof -
  have "CHR '';'' \<notin> set (query_pair (k, v))" using query_pair_chars query_char_not by blast
  moreover have "CHR ''='' \<notin> set (query_escape k)" using query_escape_chars query_char_not by (auto simp: list_all_iff)
  then have "cut (CHR ''='') (query_pair (k, v)) = Some (query_escape k, query_escape v)"
    by (simp add: query_pair_def cut_Some_iff)
  moreover have "query_pair (k, v) \<noteq> []" by (simp add: query_pair_def)
  ultimately show ?thesis by (simp add: parse_query_pair_def query_unescape_escape Let_def)
qed

lemma fold_pairs:
  "fold parse_query_pair (map query_pair kvs) q = fold (\<lambda>(k, v). values_add k v) kvs q"
  by (induction kvs arbitrary: q) (auto simp: parse_query_pair_pair)

text \<open>The text of a list of pairs is split into its pairs again.\<close>

lemma split_pairs:
  "fold parse_query_pair (split_on (CHR ''&'') (join ''&'' (map query_pair kvs))) [] = fold (\<lambda>(k, v). values_add k v) kvs []"
proof (cases "kvs = []")
  case True
  then show ?thesis by (simp add: parse_query_pair_def)
next
  case False
  have "\<forall>w \<in> set (map query_pair kvs). CHR ''&'' \<notin> set w" using query_pair_chars query_char_not by fastforce
  with False have "split_on (CHR ''&'') (join ''&'' (map query_pair kvs)) = map query_pair kvs"
    by (intro split_on_join) simp_all
  then show ?thesis by (simp add: fold_pairs)
qed

lemma map_of_values_add: "map_of (values_add k v q) k' = (if k' = k then Some ((case map_of q k of None \<Rightarrow> [] | Some vs \<Rightarrow> vs) @ [v]) else map_of q k')"
  by (induction q) auto

lemma map_of_add_all:
  "map_of (fold (\<lambda>(k, v). values_add k v) kvs q) k =
    (case map snd (filter (\<lambda>kv. fst kv = k) kvs) of
       [] \<Rightarrow> map_of q k
     | vs \<Rightarrow> Some ((case map_of q k of None \<Rightarrow> [] | Some us \<Rightarrow> us) @ vs))"
proof (induction kvs arbitrary: q)
  case (Cons kv kvs)
  obtain a b where "kv = (a, b)" by (cases kv)
  with Cons show ?case
    by (cases "a = k") (auto simp: map_of_values_add split: list.split option.split)
qed simp

text \<open>The values as they are encoded: by ascending key.\<close>

definition sorted_pairs :: "url_values \<Rightarrow> (string \<times> string) list" where
  "sorted_pairs q = concat (map (\<lambda>k. map (Pair k) (the (map_of q k))) (sort (map fst q)))"

lemma values_encode_pairs: "values_encode q = join ''&'' (map query_pair (sorted_pairs q))"
  by (simp add: values_encode_def sorted_pairs_def map_concat comp_def query_pair_def)

lemma filter_sorted_pairs:
  assumes "distinct ks"
  shows "map snd (filter (\<lambda>kv. fst kv = k) (concat (map (\<lambda>k. map (Pair k) (f k)) ks))) = (if k \<in> set ks then f k else [])"
  using assms
proof (induction ks)
  case (Cons j ks)
  have "filter (\<lambda>kv. fst kv = k) (map (Pair j) (f j)) = (if j = k then map (Pair j) (f j) else [])" by (simp add: filter_map comp_def)
  with Cons show ?case by (auto simp: comp_def)
qed simp

definition values_wf :: "url_values \<Rightarrow> bool" where
  "values_wf q \<longleftrightarrow> distinct (map fst q) \<and> list_all (\<lambda>(k, vs). vs \<noteq> []) q"

theorem query_roundtrip:
  assumes "values_wf q" "u_raw_query u = values_encode q"
  shows "map_of (url_query u) = map_of q"
proof
  fix k
  have "map_of (url_query u) k = map_of (fold (\<lambda>(k, v). values_add k v) (sorted_pairs q) []) k"
    using assms(2) by (simp add: url_query_def values_encode_pairs split_pairs)
  also have "\<dots> = (case map snd (filter (\<lambda>kv. fst kv = k) (sorted_pairs q)) of [] \<Rightarrow> None | vs \<Rightarrow> Some vs)"
    by (simp add: map_of_add_all split: list.split)
  also have "\<dots> = (case (if k \<in> fst ` set q then the (map_of q k) else []) of [] \<Rightarrow> None | vs \<Rightarrow> Some vs)"
    using assms(1) filter_sorted_pairs [of "sort (map fst q)" k "\<lambda>k. the (map_of q k)"]
    by (simp add: values_wf_def sorted_pairs_def)
  also have "\<dots> = map_of q k"
  proof (cases "map_of q k")
    case None
    then have "k \<notin> fst ` set q" by (simp add: map_of_eq_None_iff)
    then show ?thesis unfolding None by (subst if_not_P) simp_all
  next
    case (Some vs)
    then have "(k, vs) \<in> set q" by (rule map_of_SomeD)
    with assms(1) have "vs \<noteq> []" "k \<in> fst ` set q" by (force simp: values_wf_def list_all_iff)+
    with Some show ?thesis by (simp split: list.split)
  qed
  finally show "map_of (url_query u) k = map_of q k" .
qed

lemma values_get_cong: "map_of q = map_of q' \<Longrightarrow> values_get q k = values_get q' k"
  by (simp add: values_get_def)

text \<open>What is parsed from a query string is well formed.\<close>

lemma keys_values_add: "fst ` set (values_add k v q) = insert k (fst ` set q)"
  by (induction k v q rule: values_add.induct) (simp_all add: insert_commute)

lemma values_wf_add: "values_wf q \<Longrightarrow> values_wf (values_add k v q)"
  by (induction k v q rule: values_add.induct) (simp_all add: values_wf_def keys_values_add)

lemma values_wf_query: "values_wf (url_query u)"
proof -
  have "values_wf q \<Longrightarrow> values_wf (fold parse_query_pair ps q)" for ps q
    by (induction ps arbitrary: q)
      (auto simp: parse_query_pair_def Let_def values_wf_add split: option.split prod.split)
  then show ?thesis by (simp add: url_query_def values_wf_def)
qed

end
