(* ===== verification/MediaWire.thy ===== *)
theory MediaWire
  imports ConnectorServe GoJsonPrint GoQuery
begin

text \<open>
  The wire between the two programs: what a request that Go's HTTP client sends looks like to the
  server that receives it, and what the answer looks like to the client. Both ends are
  \<open>net/http\<close>; the connection itself is the sender's address, a parameter. The
  lemmas show that the URLs the gateway builds for its connector arrive as the paths they
  were built from.
\<close>

section \<open>Requests and answers in transit\<close>

text \<open>\<open>url.URL.RequestURI\<close>, the target of the request line.\<close>

definition request_uri :: "go_url \<Rightarrow> string" where
  "request_uri u =
     (let p = escaped_path u;
          target = (if u_opaque u = [] then (if p = [] then ''/'' else p)
                    else if has_prefix (u_opaque u) ''//'' then u_scheme u @ '':'' @ u_opaque u else u_opaque u)
      in target @ (if u_force_query u \<or> u_raw_query u \<noteq> [] then ''?'' @ u_raw_query u else []))"

text \<open>The request as the handler sees it; \<open>None\<close> if no request can be sent or none is recognised.\<close>

definition arrives :: "string \<Rightarrow> out_req \<Rightarrow> http_req option" where
  "arrives remote q =
     (case url_parse (oq_url q) of
        None \<Rightarrow> None
      | Some u \<Rightarrow> map_option (\<lambda>v. \<lparr>rq_method = oq_method q, rq_url = v, rq_host = u_host u, rq_header = oq_header q,
            rq_tls = False, rq_remote = remote, rq_body = map_option (\<lambda>b. (b, None)) (oq_body q)\<rparr>)
          (url_parse_request_uri (request_uri u)))"

text \<open>The answer; \<open>reason\<close> is the table of reason phrases.\<close>

fun body_bytes :: "http_body \<Rightarrow> string" where
  "body_bytes BodyEmpty = []"
| "body_bytes (BodyJson j) = json_encode j"
| "body_bytes (BodyText s) = s"
| "body_bytes (BodyBytes s) = s"

definition answer_of :: "(int \<Rightarrow> string) \<Rightarrow> http_resp \<Rightarrow> up_resp" where
  "answer_of reason resp = \<lparr>up_code = rs_status resp, up_status = int_str (rs_status resp) @ '' '' @ reason (rs_status resp),
     up_header = rs_header resp, up_body = body_bytes (rs_body resp)\<rparr>"

text \<open>A handler as the HTTP client of another program; what is not understood is a 400.\<close>

definition handler_client :: "(int \<Rightarrow> string) \<Rightarrow> string \<Rightarrow> (http_req \<Rightarrow> http_resp) \<Rightarrow> http_do" where
  "handler_client reason remote h q =
     (case arrives remote q of
        None \<Rightarrow> Inr (answer_of reason (http_error no_header ''400 Bad Request'' 400))
      | Some r \<Rightarrow> Inr (answer_of reason (h r)))"

lemma arrives_fields:
  "arrives remote q = Some r \<Longrightarrow> rq_method r = oq_method q \<and> rq_header r = oq_header q \<and> rq_remote r = remote"
  by (auto simp: arrives_def split: option.splits)

section \<open>Plain hosts and paths\<close>

text \<open>
  A plain path consists of non-empty segments of letters, digits, \<open>-\<close> and \<open>_\<close>; a plain host
  has these and dots, perhaps with a port.
\<close>

definition plain_path :: "string \<Rightarrow> bool" where
  "plain_path p \<longleftrightarrow> (\<exists>segs. segs \<noteq> [] \<and> list_all (\<lambda>s. s \<noteq> [] \<and> list_all id_char s) segs \<and> p = CHR ''/'' # join ''/'' segs)"

definition host_char :: "char \<Rightarrow> bool" where
  "host_char c \<longleftrightarrow> id_char c \<or> c = CHR ''.''"

definition plain_host :: "string \<Rightarrow> bool" where
  "plain_host h \<longleftrightarrow> (\<exists>n p. h = n @ p \<and> n \<noteq> [] \<and> list_all host_char n \<and> (p = [] \<or> (\<exists>ds. p = CHR '':'' # ds \<and> list_all is_digit ds)))"

definition safe_char :: "char \<Rightarrow> bool" where
  "safe_char c \<longleftrightarrow> id_char c \<or> c = CHR ''.'' \<or> c = CHR '':'' \<or> c = CHR ''/''"

lemma safe_char_facts:
  assumes "safe_char c"
  shows "c \<noteq> CHR ''#''" "c \<noteq> CHR ''?''" "c \<noteq> CHR ''@''" "c \<noteq> CHR ''['' " "c \<noteq> CHR 0x25" "c \<noteq> CHR ''*''" "c \<noteq> CHR ''+''" "c \<noteq> CHR '' ''"
    "\<not> (of_char c :: nat) < 32" "(of_char c :: nat) \<noteq> 127"
  using assms by (auto simp: safe_char_def id_char_def is_alpha_def is_digit_def Let_def)

lemma unescaped_punct:
  "\<not> should_escape EncPath (CHR ''.'')" "\<not> should_escape EncPath (CHR '':'')" "\<not> should_escape EncPath (CHR ''/'')"
  "\<not> should_escape EncHost (CHR ''.'')" "\<not> should_escape EncHost (CHR '':'')"
  by code_simp+

lemma safe_char_unescaped: "safe_char c \<Longrightarrow> \<not> should_escape EncPath c" "safe_char c \<Longrightarrow> c \<noteq> CHR ''/'' \<Longrightarrow> \<not> should_escape EncHost c"
  by (auto simp: safe_char_def should_escape_id_char unescaped_punct)

lemma safe_escape_path: "list_all safe_char p \<Longrightarrow> url_escape EncPath p = p"
  by (induction p) (auto simp: url_escape_def escape_char_def safe_char_unescaped)

lemma safe_unescape_path: "list_all safe_char p \<Longrightarrow> url_unescape EncPath p = Some p"
  by (induction p) (auto dest: safe_char_facts)

lemma host_safe: "list_all safe_char h \<Longrightarrow> CHR ''/'' \<notin> set h \<Longrightarrow> url_escape EncHost h = h \<and> url_unescape EncHost h = Some h"
  by (induction h) (auto simp: url_escape_def escape_char_def safe_char_unescaped dest: safe_char_facts)

lemma host_char_safe: "host_char c \<Longrightarrow> safe_char c \<and> c \<noteq> CHR ''/''"
  by (auto simp: host_char_def safe_char_def dest: id_char_not)

lemma digit_safe: "is_digit c \<Longrightarrow> safe_char c \<and> c \<noteq> CHR ''/''"
  by (auto simp: safe_char_def id_char_def is_digit_def)

lemma plain_host_safe:
  assumes "plain_host h" shows "list_all safe_char h" "CHR ''/'' \<notin> set h" "h \<noteq> []" "parse_host h = Some h"
proof -
  obtain n p where h: "h = n @ p" "n \<noteq> []" "list_all host_char n" "p = [] \<or> (\<exists>ds. p = CHR '':'' # ds \<and> list_all is_digit ds)"
    using assms by (auto simp: plain_host_def)
  have "list_all (\<lambda>c. safe_char c \<and> c \<noteq> CHR ''/'') n"
    using h(3) by (rule list.pred_mono_strong) (rule host_char_safe)
  moreover have "list_all (\<lambda>c. safe_char c \<and> c \<noteq> CHR ''/'') ds" if "list_all is_digit ds" for ds
    using that by (rule list.pred_mono_strong) (rule digit_safe)
  moreover have "safe_char (CHR '':'')" by (simp add: safe_char_def)
  ultimately have "list_all (\<lambda>c. safe_char c \<and> c \<noteq> CHR ''/'') h" using h(1,4) by auto
  then show s: "list_all safe_char h" "CHR ''/'' \<notin> set h" "h \<noteq> []"
    using h(1,2) by (auto simp: list_all_iff)
  have "\<not> has_prefix h ''[''"
    using h by (cases n) (auto simp: has_prefix_def host_char_def id_char_def is_alpha_def is_digit_def)
  moreover have "last_cut (CHR '':'') h = None \<or> (\<exists>a port. last_cut (CHR '':'') h = Some (a, port) \<and> list_all is_digit port)"
  proof (cases "p = []")
    case True
    then have "CHR '':'' \<notin> set h" using h by (auto simp: list_all_iff host_char_def id_char_def is_alpha_def is_digit_def)
    then show ?thesis by (simp add: last_cut_def cut_None_iff)
  next
    case False
    then obtain ds where p: "p = CHR '':'' # ds" "list_all is_digit ds" using h by blast
    then have "CHR '':'' \<notin> set ds" by (auto simp: list_all_iff is_digit_def)
    with h p have "last_cut (CHR '':'') h = Some (n, ds)" by (simp add: last_cut_Some_iff)
    with p show ?thesis by blast
  qed
  ultimately show "parse_host h = Some h" using host_safe [OF s(1,2)] by (auto simp: parse_host_def)
qed

lemma join_safe: "list_all (\<lambda>s. s \<noteq> [] \<and> list_all id_char s) segs \<Longrightarrow> list_all safe_char (join ''/'' segs)"
  by (induction "''/'' :: string" segs rule: join.induct) (auto simp: safe_char_def list_all_iff)

lemma plain_path_safe: "plain_path p \<Longrightarrow> list_all safe_char p" "plain_path p \<Longrightarrow> \<exists>t. p = CHR ''/'' # t"
  using join_safe by (auto simp: plain_path_def safe_char_def)

lemma clean_segments_id:
  "list_all (\<lambda>s. s \<noteq> [] \<and> list_all id_char s) segs \<Longrightarrow> clean_segments rooted acc segs = rev acc @ segs"
proof (induction segs arbitrary: acc)
  case (Cons s segs)
  then have "s \<noteq> []" "list_all id_char s" by simp_all
  then have "s \<noteq> ''.''" "s \<noteq> ''..''" by (auto simp: id_char_def is_alpha_def is_digit_def)
  with Cons show ?case by simp
qed simp

lemma plain_path_join: "plain_path p \<Longrightarrow> path_join [[], p] = p"
proof -
  assume "plain_path p"
  then obtain segs where s: "segs \<noteq> []" "list_all (\<lambda>s. s \<noteq> [] \<and> list_all id_char s) segs" "p = CHR ''/'' # join ''/'' segs"
    by (auto simp: plain_path_def)
  have "\<forall>w \<in> set segs. CHR ''/'' \<notin> set w" using s(2) by (auto simp: list_all_iff dest: id_char_not)
  with s have "split_on (CHR ''/'') p = [] # segs" by (simp add: split_on_join)
  moreover have "clean_segments True [] segs = segs" using clean_segments_id [OF s(2), of True "[]"] by simp
  ultimately show ?thesis using s(3) by (simp add: path_join_def path_clean_def has_prefix_def)
qed

section \<open>URLs of plain hosts and paths\<close>

lemma safe_no: "list_all safe_char s \<Longrightarrow> CHR ''#'' \<notin> set s \<and> CHR ''?'' \<notin> set s \<and> CHR ''@'' \<notin> set s"
  by (auto simp: list_all_iff dest: safe_char_facts)

lemma safe_no_ctl: "list_all safe_char s \<Longrightarrow> \<not> has_ctl s"
  by (auto simp: list_all_iff list_ex_iff has_ctl_def dest: safe_char_facts)

text \<open>The text of a query, and what it adds to a URL.\<close>

definition query_text :: "string \<Rightarrow> bool" where
  "query_text e \<longleftrightarrow> list_all (\<lambda>c. query_char c \<or> c = CHR ''='' \<or> c = CHR ''&'') e"

definition with_query :: "string \<Rightarrow> string" where
  "with_query e = (if e = [] then [] else CHR ''?'' # e)"

lemma query_text_no: "query_text e \<Longrightarrow> CHR ''#'' \<notin> set e \<and> CHR ''?'' \<notin> set e"
  by (auto simp: query_text_def list_all_iff dest: query_char_not)

lemma query_text_no_ctl: "query_text e \<Longrightarrow> \<not> has_ctl e"
  by (auto simp: query_text_def list_all_iff list_ex_iff has_ctl_def dest!: query_char_print)

lemma has_ctl_append: "has_ctl (a @ b) \<longleftrightarrow> has_ctl a \<or> has_ctl b"
  by (simp add: has_ctl_def)

lemma with_query_no: "query_text e \<Longrightarrow> CHR ''#'' \<notin> set (with_query e) \<and> \<not> has_ctl (with_query e)"
  using query_text_no_ctl [of e] by (auto simp: with_query_def has_ctl_def dest: query_text_no)

lemma safe_split_query:
  assumes "list_all safe_char s" "query_text e"
  shows "split_query (s @ with_query e) = (s, e, False)"
proof -
  have q: "CHR ''?'' \<notin> set s" using safe_no [OF assms(1)] by blast
  have e: "CHR ''?'' \<notin> set e" using query_text_no [OF assms(2)] by blast
  show ?thesis
  proof (cases "e = []")
    case True
    have "filter (\<lambda>c. c = CHR ''?'') s = []" using q by (auto simp: filter_empty_conv)
    with True q show ?thesis by (simp add: split_query_def with_query_def cut_None_iff [THEN iffD2])
  next
    case False
    then obtain e' c where c: "e = e' @ [c]" by (cases e rule: rev_cases) auto
    with e have "\<not> has_suffix (s @ with_query e) ''?''" by (auto simp: has_suffix_def with_query_def suffix_def)
    moreover have "cut (CHR ''?'') (s @ with_query e) = Some (s, e)" using False q by (simp add: with_query_def cut_Some_iff)
    ultimately show ?thesis by (simp add: split_query_def)
  qed
qed

lemma set_path_safe: "list_all safe_char p \<Longrightarrow> set_path p u = Some (u\<lparr>u_path := p, u_raw_path := []\<rparr>)"
  by (simp add: set_path_def safe_unescape_path safe_escape_path)

lemma http_scheme: "get_scheme (''http://'' @ s) = Some (''http'', ''//'' @ s)"
  by (simp add: get_scheme_def is_alpha_def is_digit_def)

lemma parse_plain_url:
  assumes h: "plain_host h" and p: "p = [] \<or> plain_path p" and e: "query_text e"
  shows "url_parse (''http://'' @ h @ p @ with_query e)
    = Some (empty_url\<lparr>u_scheme := ''http'', u_host := h, u_path := p, u_raw_query := e\<rparr>)"
proof -
  note hs = plain_host_safe [OF h]
  have ps: "list_all safe_char p" using p plain_path_safe by auto
  have s: "list_all safe_char (''//'' @ h @ p)" using hs ps by (simp add: safe_char_def)
  have full: "list_all safe_char (''http:'' @ ''//'' @ h @ p)" using s by (simp add: safe_char_def id_char_def is_alpha_def)
  let ?u = "''http://'' @ h @ p @ with_query e"
  have u: "?u = (''http:'' @ ''//'' @ h @ p) @ with_query e" by simp
  have "\<not> has_ctl ((''http:'' @ ''//'' @ h @ p) @ with_query e)"
    unfolding has_ctl_append [of "''http:'' @ ''//'' @ h @ p"] using safe_no_ctl [OF full] with_query_no [OF e] by blast
  moreover have "CHR ''#'' \<notin> set ((''http:'' @ ''//'' @ h @ p) @ with_query e)"
    unfolding set_append using safe_no [OF full] with_query_no [OF e] by simp
  ultimately have ctl: "\<not> has_ctl ?u" "CHR ''#'' \<notin> set ?u" unfolding u by blast+
  have a: "parse_authority h = Some (None, h)"
    using hs safe_no [OF hs(1)] by (simp add: parse_authority_def last_cut_def cut_None_iff [THEN iffD2])
  have c: "(case cut (CHR ''/'') (h @ p) of None \<Rightarrow> (h @ p, []) | Some (a, b) \<Rightarrow> (a, CHR ''/'' # b)) = (h, p)"
  proof (cases "p = []")
    case True
    with hs show ?thesis by (simp add: cut_None_iff [THEN iffD2])
  next
    case False
    then obtain t where t: "p = CHR ''/'' # t" using p plain_path_safe by blast
    then have "cut (CHR ''/'') (h @ p) = Some (h, t)" using hs by (simp add: cut_Some_iff)
    with t show ?thesis by simp
  qed
  have "url_parse0 False ?u = Some (empty_url\<lparr>u_scheme := ''http'', u_host := h, u_path := p, u_raw_query := e\<rparr>)"
    using ctl a c
    by (simp add: url_parse0_def http_scheme [simplified] safe_split_query [OF s e, simplified] has_prefix_def Let_def
        to_lower_def char_lower_def set_path_safe [OF ps] empty_url_def)
  with ctl show ?thesis by (simp add: url_parse_def cut_None_iff [THEN iffD2])
qed

lemma print_plain_url:
  assumes h: "plain_host h" and p: "plain_path p"
  shows "url_string (empty_url\<lparr>u_scheme := ''http'', u_host := h, u_path := p, u_raw_query := e\<rparr>) = ''http://'' @ h @ p @ with_query e"
proof -
  note hs = plain_host_safe [OF h]
  have ps: "list_all safe_char p" using p plain_path_safe by auto
  obtain t where "p = CHR ''/'' # t" using plain_path_safe(2) [OF p] by blast
  with hs host_safe [OF hs(1,2)] safe_escape_path [OF ps] show ?thesis
    by (simp add: url_string_def empty_url_def escaped_path_def authority_str_def has_prefix_def with_query_def Let_def)
qed

text \<open>A request for a plain path arrives as that path, with its query.\<close>

lemma arrives_plain:
  assumes h: "plain_host h" and p: "plain_path p" and e: "query_text e"
  shows "arrives remote \<lparr>oq_method = m, oq_url = ''http://'' @ h @ p @ with_query e, oq_header = hs, oq_body = None\<rparr>
    = Some \<lparr>rq_method = m, rq_url = empty_url\<lparr>u_path := p, u_raw_query := e\<rparr>, rq_host = h, rq_header = hs, rq_tls = False,
        rq_remote = remote, rq_body = None\<rparr>"
proof -
  have ps: "list_all safe_char p" using p plain_path_safe by auto
  obtain t where t: "p = CHR ''/'' # t" using plain_path_safe(2) [OF p] by blast
  let ?u = "empty_url\<lparr>u_scheme := ''http'', u_host := h, u_path := p, u_raw_query := e\<rparr>"
  have "request_uri ?u = p @ with_query e"
    using t safe_escape_path [OF ps] by (simp add: request_uri_def empty_url_def escaped_path_def with_query_def Let_def)
  moreover have "get_scheme (p @ with_query e) = Some ([], p @ with_query e)"
    using t by (simp add: get_scheme_def is_alpha_def is_digit_def)
  then have "url_parse_request_uri (p @ with_query e) = Some (empty_url\<lparr>u_path := p, u_raw_query := e\<rparr>)"
    using t safe_no_ctl [OF ps] with_query_no [OF e] safe_split_query [OF ps e] set_path_safe [OF ps]
    by (simp add: url_parse_request_uri_def url_parse0_def has_prefix_def Let_def to_lower_def empty_url_def
        has_ctl_append [of "CHR ''/'' # t", simplified])
  ultimately show ?thesis using parse_plain_url [OF h disjI2 [OF p] e] by (simp add: arrives_def)
qed

section \<open>Queries in transit\<close>

lemma list_all_join: "list_all P sep \<Longrightarrow> list_all (list_all P) ws \<Longrightarrow> list_all P (join sep ws)"
  by (induction sep ws rule: join.induct) auto

lemma query_text_encode: "query_text (values_encode q)"
proof -
  have "list_all (\<lambda>c. query_char c \<or> c = CHR ''='' \<or> c = CHR ''&'') (query_pair kv)" for kv
    using query_pair_chars [of _ kv] by (auto simp: list_all_iff)
  then show ?thesis unfolding query_text_def values_encode_pairs by (intro list_all_join) (simp_all add: list_all_iff)
qed

text \<open>A query that was parsed and encoded again has the same values.\<close>

lemma query_passes: "values_get (url_query (empty_url\<lparr>u_path := p, u_raw_query := values_encode (url_query u)\<rparr>)) k = values_get (url_query u) k"
  by (rule values_get_cong) (rule query_roundtrip [OF values_wf_query], simp)

end
