(* ===== verification/MediaChain.thy ===== *)
theory MediaChain
  imports MediaClaims ConnectorClaims MediaWire
begin

text \<open>
  The media gateway of wrapster and the media connector as one system: a client's request is
  handled by the gateway, whose HTTP client reaches the connector's handler over the wire.
  What the two programs guarantee together: who can make a media server be contacted, what
  the two bearer-token configurations have to do with each other, that the connector's report
  comes through, and that a stream comes through unchanged.
\<close>

section \<open>The composition\<close>

definition connector_http :: "(int \<Rightarrow> string) \<Rightarrow> string \<Rightarrow> media_lib \<Rightarrow> connector \<Rightarrow> http_do" where
  "connector_http reason remote M c = handler_client reason remote (\<lambda>r. fst (connector_serve M c r))"

definition chained :: "(int \<Rightarrow> string) \<Rightarrow> string \<Rightarrow> media_lib \<Rightarrow> connector \<Rightarrow> gateway \<Rightarrow> gateway" where
  "chained reason remote M c g = g\<lparr>gw_http_client := connector_http reason remote M c\<rparr>"

text \<open>The requests the connector makes to media servers for the requests it receives.\<close>

definition media_calls :: "string \<Rightarrow> media_lib \<Rightarrow> connector \<Rightarrow> out_req list \<Rightarrow> out_req list" where
  "media_calls remote M c qs =
     concat (map (\<lambda>q. case arrives remote q of None \<Rightarrow> [] | Some r \<Rightarrow> snd (connector_serve M c r)) qs)"

text \<open>The answer to the client, and the requests to media servers.\<close>

definition chain_serve :: "nostr_lib \<Rightarrow> (int \<Rightarrow> string) \<Rightarrow> string \<Rightarrow> media_lib \<Rightarrow> connector \<Rightarrow> gateway \<Rightarrow> http_req \<Rightarrow> go_time
    \<Rightarrow> http_resp \<times> out_req list" where
  "chain_serve L reason remote M c g r now =
     apsnd (media_calls remote M c) (gateway_serve L (chained reason remote M c g) r now)"

lemma chained_simps [simp]:
  "gw_connector_base_url (chained reason remote M c g) = gw_connector_base_url g"
  "gw_connector_token (chained reason remote M c g) = gw_connector_token g"
  "gw_auth (chained reason remote M c g) = gw_auth g" "gw_access (chained reason remote M c g) = gw_access g"
  "gw_service_access_rules (chained reason remote M c g) = gw_service_access_rules g"
  "gw_transport_label (chained reason remote M c g) = gw_transport_label g"
  "gw_http_client (chained reason remote M c g) = connector_http reason remote M c"
  by (simp_all add: chained_def)

lemma any_rule_set_cong:
  "gw_access g = gw_access g' \<Longrightarrow> any_rule_set L g r now rss e = any_rule_set L g' r now rss e"
  by (induction rss arbitrary: e) (auto split: sum.split)

lemma chained_authorize [simp]:
  "authorize_service L (chained reason remote M c g) r s now = authorize_service L g r s now"
  "authorize_status L (chained reason remote M c g) r now = authorize_status L g r now"
  "connector_headers (chained reason remote M c g) rng = connector_headers g rng"
  "connector_url (chained reason remote M c g) path query = connector_url g path query"
  "connector_configured (chained reason remote M c g) = connector_configured g"
  "service_rules (chained reason remote M c g) = service_rules g"
  by (simp_all add: authorize_service_def authorize_status_def service_rules_def connector_headers_def
      connector_url_def connector_configured_def fun_eq_iff any_rule_set_cong [of "chained reason remote M c g" g] Let_def
      split: sum.split)

section \<open>The shared token\<close>

definition tokens_agree :: "gateway \<Rightarrow> connector \<Rightarrow> bool" where
  "tokens_agree g c \<longleftrightarrow> trim_space (cn_shared_token c) = [] \<or> trim_space (gw_connector_token g) = trim_space (cn_shared_token c)"

lemma trim_bearer: "trim_space t \<noteq> [] \<Longrightarrow> trim_space (''Bearer '' @ trim_space t) = ''Bearer '' @ trim_space t"
  using trim_space_last [of t] by (intro trim_space_id) (simp add: is_space_def)

lemma connector_headers_token:
  "allowed_token c (hdr_get (connector_headers g rng) ''Authorization'') = tokens_agree g c"
proof -
  have n: "to_lower ''Range'' \<noteq> to_lower ''Authorization''" by code_simp
  then have "hdr_get (connector_headers g rng) ''Authorization'' =
      (if trim_space (gw_connector_token g) \<noteq> [] then ''Bearer '' @ trim_space (gw_connector_token g) else [])"
    by (auto simp: connector_headers_def Let_def)
  then show ?thesis using trim_bearer [of "gw_connector_token g"]
    by (auto simp: allowed_token_def tokens_agree_def Let_def)
qed

lemma connector_headers_range: "hdr_get (connector_headers g rng) ''Range'' = trim_space rng"
proof -
  have "to_lower ''Authorization'' \<noteq> to_lower ''Range''" by code_simp
  then show ?thesis by (auto simp: connector_headers_def Let_def)
qed

section \<open>Plain connector URLs\<close>

text \<open>The usual configuration: \<open>http://host\<close> or \<open>http://host:port\<close>, with or without a final slash.\<close>

definition plain_base :: "gateway \<Rightarrow> string \<Rightarrow> bool" where
  "plain_base g h \<longleftrightarrow> plain_host h \<and> trim_right (CHR ''/'') (gw_connector_base_url g) = ''http://'' @ h"

lemma plain_base_configured: "plain_base g h \<Longrightarrow> connector_configured g"
proof -
  assume "plain_base g h"
  then obtain ys where b: "gw_connector_base_url g = ''http://'' @ h @ ys"
    using rdropWhile_split [of "gw_connector_base_url g" "\<lambda>x. x = CHR ''/''"] by (auto simp: plain_base_def trim_right_def)
  have "\<not> is_space (CHR ''h'')" by (simp add: is_space_def)
  with b show ?thesis by (simp add: connector_configured_def trim_space_Cons)
qed

lemma plain_connector_url:
  assumes "plain_base g h" "plain_path p"
  shows "connector_url g p kvs = Some (''http://'' @ h @ p @ with_query (values_encode kvs))"
proof -
  have h: "plain_host h" and t: "trim_right (CHR ''/'') (gw_connector_base_url g) = ''http://'' @ h"
    using assms(1) by (auto simp: plain_base_def)
  have "url_parse (''http://'' @ h) = Some (empty_url\<lparr>u_scheme := ''http'', u_host := h\<rparr>)"
    using parse_plain_url [OF h, of "[]" "[]"] by (simp add: empty_url_def with_query_def query_text_def)
  with print_plain_url [OF h assms(2), of "values_encode kvs"] t plain_path_join [OF assms(2)] show ?thesis
    by (simp add: connector_url_def empty_url_def)
qed

text \<open>A request of the gateway for a plain path reaches the connector as that path, with its query.\<close>

definition chain_req :: "gateway \<Rightarrow> string \<Rightarrow> string \<Rightarrow> string \<Rightarrow> string \<Rightarrow> url_values \<Rightarrow> http_req" where
  "chain_req g h remote rng p kvs = \<lparr>rq_method = ''GET'', rq_url = empty_url\<lparr>u_path := p, u_raw_query := values_encode kvs\<rparr>,
     rq_host = h, rq_header = connector_headers g rng, rq_tls = False, rq_remote = remote, rq_body = None\<rparr>"

lemma chain_request:
  assumes "plain_base g h" "plain_path p"
  shows "fst (connector_request (chained reason remote M c g) p kvs rng)
      = Inr (answer_of reason (fst (connector_serve M c (chain_req g h remote rng p kvs))))"
    and "media_calls remote M c (snd (connector_request (chained reason remote M c g) p kvs rng))
      = snd (connector_serve M c (chain_req g h remote rng p kvs))"
proof -
  have h: "plain_host h" using assms(1) by (simp add: plain_base_def)
  note url = plain_connector_url [OF assms(1,2)]
  note arr = arrives_plain [OF h assms(2) query_text_encode, of remote "''GET''" _ "connector_headers g rng"]
  have p: "url_parse (''http://'' @ h @ p @ with_query (values_encode kvs)) \<noteq> None"
    using parse_plain_url [OF h _ query_text_encode] assms(2) by simp
  show "fst (connector_request (chained reason remote M c g) p kvs rng)
      = Inr (answer_of reason (fst (connector_serve M c (chain_req g h remote rng p kvs))))"
    and "media_calls remote M c (snd (connector_request (chained reason remote M c g) p kvs rng))
      = snd (connector_serve M c (chain_req g h remote rng p kvs))"
    using url arr p
    by (auto simp: connector_request_def connector_http_def handler_client_def media_calls_def chain_req_def Let_def)
qed

lemma connector_guard_chain:
  "connector_guard c (chain_req g h remote rng p kvs) =
    (if \<not> allowed_remote c remote then Inl (error_json 403 ''remote address is not allowed'')
     else if \<not> tokens_agree g c then Inl (error_json 401 ''connector token is required'') else Inr ())"
  by (simp add: connector_guard_def require_method_def connector_headers_token chain_req_def)

section \<open>Concrete values\<close>

definition mdc_signed :: "string \<Rightarrow> event" where
  "mdc_signed url = mdg_signed\<lparr>ev_tags := [[''u'', url], [''method'', ''GET'']]\<rparr>"

definition mdc_lib :: "string \<Rightarrow> nostr_lib" where
  "mdc_lib path = mdg_lib\<lparr>nl_decode_event := (\<lambda>j. if j = JStr ''req'' then Some (mdc_signed (''http://h'' @ path)) else None)\<rparr>"

definition mdc_request :: "string \<Rightarrow> http_req" where
  "mdc_request path = mdg_request\<lparr>rq_url := empty_url\<lparr>u_path := path\<rparr>\<rparr>"

definition mdc_connector :: connector where
  "mdc_connector = demo_connector\<lparr>cn_shared_token := '' t'', cn_http_client := (\<lambda>_. Inr \<lparr>up_code = 206, up_status = ''206 Partial Content'',
     up_header = no_header, up_body = ''music''\<rparr>)\<rparr>"

definition mdc_stream_path :: string where
  "mdc_stream_path = ''/media/api/services/'' @ ''plex'' @ ''/stream/'' @ ''L2xpYnJhcnkvcGFydHMvNy8xL2YubXAz''"

lemma mdc_base: "plain_base mdg_gateway ''c''"
proof -
  have "trim_right (CHR ''/'') (gw_connector_base_url mdg_gateway) = ''http://'' @ ''c''" by code_simp
  moreover have "plain_host ''c''"
    unfolding plain_host_def by (rule exI [of _ "''c''"], rule exI [of _ "[]"]) (simp add: host_char_def id_char_def is_alpha_def)
  ultimately show ?thesis by (simp add: plain_base_def)
qed

lemma mdc_tokens: "tokens_agree mdg_gateway mdc_connector"
  by code_simp

lemma mdc_remote: "allowed_remote mdc_connector remote"
  by (simp add: allowed_remote_def mdc_connector_def demo_connector_def)

lemma mdc_verified:
  "media_verify_request (mdc_lib mdc_stream_path) (gw_auth mdg_gateway) (mdc_request mdc_stream_path) (5 * second) = Inr ''k1''"
  by code_simp

lemma mdc_verified_status:
  "media_verify_request (mdc_lib ''/media/api/status'') (gw_auth mdg_gateway) (mdc_request ''/media/api/status'') (5 * second) = Inr ''k1''"
  by code_simp

lemma mdc_plex: "(case plex_stream_request mdc_connector ''L2xpYnJhcnkvcGFydHMvNy8xL2YubXAz'' of Inl _ \<Rightarrow> [] | Inr q \<Rightarrow> oq_url q)
    = ''http://10.0.0.5:32400/library/parts/7/1/f.mp3?X-Plex-Token=SECRET''"
  by code_simp

lemma mdc_range: "trim_space (hdr_get (rq_header (mdc_request p)) ''Range'') = []"
proof -
  have "to_lower ''Authorization'' \<noteq> to_lower ''Range''" by code_simp
  then show ?thesis by (simp add: mdc_request_def mdg_request_def)
qed

section \<open>Who reaches a media server\<close>

lemma media_callsE:
  assumes "q \<in> set (media_calls remote M c qs)"
  obtains q0 r' where "q0 \<in> set qs" "arrives remote q0 = Some r'" "q \<in> set (snd (connector_serve M c r'))"
proof -
  from assms obtain q0 where q0: "q0 \<in> set qs"
    and q: "q \<in> set (case arrives remote q0 of None \<Rightarrow> [] | Some r \<Rightarrow> snd (connector_serve M c r))"
    by (auto simp: media_calls_def)
  then obtain r' where "arrives remote q0 = Some r'" by (cases "arrives remote q0") auto
  with that q0 q show thesis by simp
qed

text \<open>
  C6: through both programs, a media server is contacted only if the client asked the gateway
  with GET for a route it was authorized for (by a grant, or by the rules of that service),
  the gateway's connector token is the connector's shared token (or the connector has none)
  and the connector allows the gateway's address; and then only at a configured base URL.
\<close>

theorem media_chain_contacts_only_admitted:
  "list_all (\<lambda>q. rq_method r = ''GET'' \<and> tokens_agree g c \<and> allowed_remote c remote
     \<and> list_ex (\<lambda>base. goes_to base q) (media_bases c)
     \<and> (\<exists>p. media_verify_request L (gw_auth g) r now = Inr p
          \<or> (if u_path (rq_url r) = ''/media/api/status''
             then \<exists>k rules. (k, rules) \<in> set (gw_service_access_rules g)
               \<and> verify_all_request L (gw_access g) r (media_clean_rule_names rules) now = Inr p
             else \<exists>route. parse_service_route (u_path (rq_url r)) ''/media/api/services/'' = Some route
               \<and> verify_all_request L (gw_access g) r (service_rules g (sr_service route)) now = Inr p)))
   (snd (chain_serve L reason remote M c g r now))"
  unfolding list_all_iff
proof
  fix q
  assume "q \<in> set (snd (chain_serve L reason remote M c g r now))"
  then have "q \<in> set (media_calls remote M c (snd (gateway_serve L (chained reason remote M c g) r now)))"
    by (simp add: chain_serve_def)
  then obtain q0 r' where q0: "q0 \<in> set (snd (gateway_serve L (chained reason remote M c g) r now))"
    and r': "arrives remote q0 = Some r'" and q: "q \<in> set (snd (connector_serve M c r'))" by (rule media_callsE)
  note sent = gateway_serve_sent [OF q0, simplified]
  have "allowed_remote c (rq_remote r') \<and> allowed_token c (hdr_get (rq_header r') ''Authorization'')"
    using cng.sent_admitted [OF TrueI q] connector_guard_Inr by blast
  with arrives_fields [OF r'] sent have "allowed_remote c remote" "tokens_agree g c"
    by (simp_all add: connector_headers_token)
  with connector_serve_sent [OF q] sent show "rq_method r = ''GET'' \<and> tokens_agree g c \<and> allowed_remote c remote
     \<and> list_ex (\<lambda>base. goes_to base q) (media_bases c)
     \<and> (\<exists>p. media_verify_request L (gw_auth g) r now = Inr p
          \<or> (if u_path (rq_url r) = ''/media/api/status''
             then \<exists>k rules. (k, rules) \<in> set (gw_service_access_rules g)
               \<and> verify_all_request L (gw_access g) r (media_clean_rule_names rules) now = Inr p
             else \<exists>route. parse_service_route (u_path (rq_url r)) ''/media/api/services/'' = Some route
               \<and> verify_all_request L (gw_access g) r (service_rules g (sr_service route)) now = Inr p))"
    by (auto split: if_splits)
qed

section \<open>The connector's report\<close>

text \<open>What the gateway makes of an answer of the connector that is not its own to change.\<close>

definition passed_on :: "http_resp \<Rightarrow> http_resp" where
  "passed_on resp = \<lparr>rs_status = rs_status resp, rs_header = hdr_set ''Content-Type'' ''application/json'' no_header,
     rs_body = BodyBytes (body_bytes (rs_body resp))\<rparr>"

definition services_json :: "connector \<Rightarrow> json" where
  "services_json c = JObj [(''services'', JObj
     [(''jellyfin'', JObj [(''configured'', JBool (mc_jellyfin_base_url (media_config_of c) \<noteq> []))]),
      (''plex'', JObj [(''configured'', JBool (mc_plex_base_url (media_config_of c) \<noteq> []))])])]"

lemma plain_status: "plain_path ''/connector/api/status''"
  unfolding plain_path_def
  by (rule exI [of _ "[''connector'', ''api'', ''status'']"]) (simp add: id_char_def is_alpha_def)

lemma connector_status_served:
  "connector_serve M c (chain_req g h remote rng ''/connector/api/status'' []) =
    (case connector_guard c (chain_req g h remote rng ''/connector/api/status'' []) of
       Inl resp \<Rightarrow> (resp, []) | Inr _ \<Rightarrow> (httpx_write_json 200 (services_json c), []))"
  by (auto simp: connector_serve_def cn_status_def services_json_def service_configured_json_def Let_def chain_req_def split: sum.split)

lemma decode_services: "decode_object (json_encode (services_json c)) = Some (services_json c)"
proof -
  have "json_decode_first (json_encode (services_json c)) = Some (services_json c)"
    using json_roundtrip [of "services_json c"] by (simp add: services_json_def)
  then show ?thesis by (simp add: decode_object_def services_json_def)
qed

text \<open>
  C40: an authorized status request is answered, through both programs, with the very report the
  connector makes of its services when the tokens agree and the gateway's address is allowed;
  else the gateway passes on the connector's 403 or 401. No media server is contacted.
\<close>

theorem media_chain_status:
  assumes "plain_base g h" "rq_method r = ''GET''" "u_path (rq_url r) = ''/media/api/status''"
    and "authorize_status L g r now = Inr pk"
  shows "chain_serve L reason remote M c g r now =
    (if \<not> allowed_remote c remote then passed_on (error_json 403 ''remote address is not allowed'')
     else if \<not> tokens_agree g c then passed_on (error_json 401 ''connector token is required'')
     else httpx_write_json 200 (JObj [(''authenticated_pubkey'', JStr pk), (''connector'', services_json c),
       (''grants'', JObj [(''configured_count'', JNum (int_str (int (card (mz_grants (gw_auth g))))))]),
       (''transport'', JStr (transport_label g))]), [])"
proof -
  note req = chain_request [OF assms(1) plain_status]
  let ?p = "''/connector/api/status''" and ?rng = "hdr_get (rq_header r) ''Range''"
  have s: "gateway_serve L (chained reason remote M c g) r now = proxy_json (chained reason remote M c g) r pk ?p []"
    using assms(2-4) plain_base_configured [OF assms(1)]
    by (simp add: gateway_serve_def require_method_def serve_status_def)
  obtain res qs where cr: "connector_request (chained reason remote M c g) ?p [] ?rng = (res, qs)" by fastforce
  have res: "res = Inr (answer_of reason (fst (connector_serve M c (chain_req g h remote ?rng ?p []))))"
    and qs: "media_calls remote M c qs = snd (connector_serve M c (chain_req g h remote ?rng ?p []))"
    using req [where reason = reason and remote = remote and M = M and c = c and rng = ?rng and kvs = "[]"] cr by simp_all
  have l: "transport_label (chained reason remote M c g) = transport_label g" by (simp add: transport_label_def)
  show ?thesis
    unfolding chain_serve_def s proxy_json_def cr res connector_status_served connector_guard_chain
    by (simp add: connector_status_served connector_guard_chain qs answer_of_def error_json_def httpx_write_json_def
        passed_on_def decode_services l)
qed

lemma media_chain_status_witness:
  "rs_status (fst (chain_serve (mdc_lib ''/media/api/status'') (\<lambda>_. ''OK'') ''10.0.0.9:1'' demo_media_lib mdc_connector mdg_gateway
     (mdc_request ''/media/api/status'') (5 * second))) = 200"
proof -
  have "authorize_status (mdc_lib ''/media/api/status'') mdg_gateway (mdc_request ''/media/api/status'') (5 * second) = Inr ''k1''"
    by (simp add: authorize_status_def mdc_verified_status)
  moreover have "rq_method (mdc_request p) = ''GET''" "u_path (rq_url (mdc_request p)) = p" for p
    by (simp_all add: mdc_request_def mdg_request_def)
  ultimately show ?thesis
    by (simp add: media_chain_status [OF mdc_base] mdc_remote mdc_tokens httpx_write_json_def)
qed

section \<open>Searches\<close>

lemma plain_action:
  assumes s: "s = ''jellyfin'' \<or> s = ''plex''" and a: "a = ''search'' \<or> a = ''random-song''"
  shows "plain_path (''/connector/api/services/'' @ s @ CHR ''/'' # a)"
  unfolding plain_path_def
  by (rule exI [of _ "[''connector'', ''api'', ''services'', s, a]"])
    (use s a in \<open>auto simp: id_char_def is_alpha_def\<close>)

lemma action_route:
  assumes s: "s = ''jellyfin'' \<or> s = ''plex''" and a: "a = ''search'' \<or> a = ''random-song''"
  shows "parse_service_route (pre @ s @ CHR ''/'' # a) pre = Some \<lparr>sr_service = s, sr_action = a, sr_stream_id = []\<rparr>"
proof -
  have "split_on (CHR ''/'') (s @ CHR ''/'' # a) = [s, a]" using s a by auto
  moreover have "trim_prefix (pre @ s @ CHR ''/'' # a) pre = s @ CHR ''/'' # a" by (rule trim_prefix_append)
  moreover have "has_prefix (pre @ s @ CHR ''/'' # a) pre" by (rule has_prefix_append)
  ultimately show ?thesis unfolding parse_service_route_def using s a by (auto simp: valid_service_def)
qed

text \<open>The connector reads of the client's query what the client wrote, though it was encoded anew.\<close>

lemma cn_search_passes:
  "cn_search M c (chain_req g h remote rng p (url_query (rq_url r))) s = cn_search M c r s"
  unfolding cn_search_def chain_req_def http_req.simps query_passes ..

lemma connector_search_served:
  assumes "s = ''jellyfin'' \<or> s = ''plex''"
  defines "p \<equiv> ''/connector/api/services/'' @ s @ ''/search''"
  shows "connector_serve M c (chain_req g h remote rng p (url_query (rq_url r))) =
    (case connector_guard c (chain_req g h remote rng p (url_query (rq_url r))) of
       Inl resp \<Rightarrow> (resp, []) | Inr _ \<Rightarrow> cn_search M c r s)"
proof -
  have "has_prefix p ''/connector/api/services/''" unfolding p_def by (rule has_prefix_append)
  moreover have "p \<noteq> ''/connector/api/status''" by (simp add: p_def)
  moreover have "u_path (rq_url (chain_req g h remote rng p kvs)) = p" for kvs by (simp add: chain_req_def)
  moreover have "parse_service_route p ''/connector/api/services/'' = Some \<lparr>sr_service = s, sr_action = ''search'', sr_stream_id = []\<rparr>"
    unfolding p_def by (rule action_route [OF assms(1)]) simp
  ultimately show ?thesis
    by (simp add: connector_serve_def cn_service_route_def cn_search_passes split: sum.split)
qed

text \<open>
  C30: a search comes through both programs: the media server is asked for the very words of
  the client's query, although the gateway decodes and encodes them again, and the client gets
  the connector's list of items, or its error; or the 403 or 401 of the connector's guard,
  and then no media server is contacted.
\<close>

theorem media_chain_search:
  assumes "plain_base g h" "rq_method r = ''GET''" "u_path (rq_url r) = ''/media/api/services/'' @ s @ ''/search''"
    and s: "s = ''jellyfin'' \<or> s = ''plex''" and "authorize_service L g r s now = Inr pk"
  shows "chain_serve L reason remote M c g r now =
    (if \<not> allowed_remote c remote then (passed_on (error_json 403 ''remote address is not allowed''), [])
     else if \<not> tokens_agree g c then (passed_on (error_json 401 ''connector token is required''), [])
     else map_prod passed_on id (cn_search M c r s))"
proof -
  let ?p = "''/connector/api/services/'' @ s @ ''/search''" and ?rng = "hdr_get (rq_header r) ''Range''"
  let ?kvs = "url_query (rq_url r)"
  let ?r = "chain_req g h remote ?rng ?p ?kvs"
  have "has_prefix (u_path (rq_url r)) ''/media/api/services/''" unfolding assms(3) by (rule has_prefix_append)
  moreover have "u_path (rq_url r) \<noteq> ''/media/api/status''" by (simp add: assms(3))
  moreover have "parse_service_route (u_path (rq_url r)) ''/media/api/services/''
      = Some \<lparr>sr_service = s, sr_action = ''search'', sr_stream_id = []\<rparr>"
    unfolding assms(3) by (rule action_route [OF s]) simp
  ultimately have g: "gateway_serve L (chained reason remote M c g) r now = proxy_json (chained reason remote M c g) r pk ?p ?kvs"
    using assms(2,5) plain_base_configured [OF assms(1)]
    by (simp add: gateway_serve_def require_method_def serve_service_def)
  note req = chain_request [OF assms(1) plain_action [OF s disjI1 [OF refl]], where reason = reason and remote = remote and M = M and c = c and rng = ?rng and kvs = ?kvs]
  obtain res qs where cr: "connector_request (chained reason remote M c g) ?p ?kvs ?rng = (res, qs)" by fastforce
  have res: "res = Inr (answer_of reason (fst (connector_serve M c ?r)))" and qs: "media_calls remote M c qs = snd (connector_serve M c ?r)"
    using req cr by simp_all
  have n: "?p \<noteq> ''/connector/api/status''" by simp
  have "chain_serve L reason remote M c g r now = map_prod passed_on id (connector_serve M c ?r)"
    unfolding chain_serve_def g proxy_json_def cr res
    using n by (cases "connector_serve M c ?r") (simp add: qs answer_of_def passed_on_def)
  then show ?thesis
    unfolding connector_search_served [OF s, where r = r] connector_guard_chain by simp
qed

definition mdc_search_path :: string where
  "mdc_search_path = ''/media/api/services/'' @ ''plex'' @ ''/search''"

definition mdc_search :: http_req where
  "mdc_search = (mdc_request mdc_search_path)\<lparr>rq_url := empty_url\<lparr>u_path := mdc_search_path, u_raw_query := ''q=a%26b+c''\<rparr>\<rparr>"

lemma mdc_verified_search:
  "media_verify_request (mdc_lib (mdc_search_path @ ''?q=a%26b+c'')) (gw_auth mdg_gateway) mdc_search (5 * second) = Inr ''k1''"
  by code_simp

lemma mdc_searched: "map oq_url (snd (cn_search demo_media_lib mdc_connector mdc_search ''plex''))
    = [''http://10.0.0.5:32400/hubs/search?X-Plex-Token=SECRET&limit=20&query=a%26b+c'']"
  by code_simp

lemma media_chain_search_witness:
  "map oq_url (snd (chain_serve (mdc_lib (mdc_search_path @ ''?q=a%26b+c'')) (\<lambda>_. ''OK'') ''10.0.0.9:1'' demo_media_lib mdc_connector
     mdg_gateway mdc_search (5 * second)))
   = [''http://10.0.0.5:32400/hubs/search?X-Plex-Token=SECRET&limit=20&query=a%26b+c'']"
proof -
  have a: "authorize_service (mdc_lib (mdc_search_path @ ''?q=a%26b+c'')) mdg_gateway mdc_search ''plex'' (5 * second) = Inr ''k1''"
    by (simp add: authorize_service_def mdc_verified_search)
  have m: "rq_method mdc_search = ''GET''" "u_path (rq_url mdc_search) = ''/media/api/services/'' @ ''plex'' @ ''/search''"
    by (simp_all add: mdc_search_def mdc_request_def mdg_request_def mdc_search_path_def)
  have d: "''plex'' = ''jellyfin'' \<or> ''plex'' = ''plex''" by simp
  show ?thesis
    unfolding media_chain_search [OF mdc_base m d a] using mdc_searched by (simp add: mdc_remote mdc_tokens)
qed

section \<open>Streams\<close>

text \<open>An error of the connector on a stream route, as the gateway passes it on.\<close>

definition stream_error :: "http_resp \<Rightarrow> http_resp" where
  "stream_error resp = \<lparr>rs_status = rs_status resp, rs_header = copy_stream_headers no_header (rs_header resp),
     rs_body = BodyBytes (body_bytes (rs_body resp))\<rparr>"

lemma plain_stream:
  assumes "s = ''jellyfin'' \<or> s = ''plex''" "list_all id_char sid" "sid \<noteq> []"
  shows "plain_path (''/connector/api/services/'' @ s @ ''/stream/'' @ sid)"
  unfolding plain_path_def
  by (rule exI [of _ "[''connector'', ''api'', ''services'', s, ''stream'', sid]"])
    (use assms in \<open>auto simp: id_char_def is_alpha_def\<close>)

lemma gateway_stream_route:
  assumes "s = ''jellyfin'' \<or> s = ''plex''" "list_all id_char sid" "sid \<noteq> []"
  shows "parse_service_route (''/media/api/services/'' @ s @ ''/stream/'' @ sid) ''/media/api/services/''
    = Some \<lparr>sr_service = s, sr_action = ''stream'', sr_stream_id = sid\<rparr>"
proof -
  have n: "CHR ''/'' \<notin> set sid" using assms(2) by (auto simp: list_all_iff dest: id_char_not)
  have "split_on (CHR ''/'') (s @ ''/stream/'' @ sid) = [s, ''stream'', sid]"
    using assms(1) split_on_single [OF n] by auto
  moreover have "trim_prefix (''/media/api/services/'' @ s @ ''/stream/'' @ sid) ''/media/api/services/'' = s @ ''/stream/'' @ sid"
    by (rule trim_prefix_append)
  moreover have "has_prefix (''/media/api/services/'' @ s @ ''/stream/'' @ sid) ''/media/api/services/''"
    by (rule has_prefix_append)
  ultimately show ?thesis
    unfolding parse_service_route_def using assms(1,3) by (auto simp: valid_service_def)
qed

lemma connector_stream_served:
  assumes "s = ''jellyfin'' \<or> s = ''plex''" "list_all id_char sid" "sid \<noteq> []" "allowed_remote c remote" "tokens_agree g c"
  defines "p \<equiv> ''/connector/api/services/'' @ s @ ''/stream/'' @ sid"
  shows "connector_serve M c (chain_req g h remote rng p []) = cn_stream c (chain_req g h remote rng p []) s sid"
proof -
  have "path_escape sid = sid" using assms(2) by (simp add: path_escape_def url_escape_id_chars)
  with stream_route_id_chars [OF assms(1-3)] have
    route: "parse_service_route p ''/connector/api/services/'' = Some \<lparr>sr_service = s, sr_action = ''stream'', sr_stream_id = sid\<rparr>"
    by (simp add: p_def)
  have "has_prefix p ''/connector/api/services/''" unfolding p_def by (rule has_prefix_append)
  moreover have "p \<noteq> ''/connector/api/status''" by (simp add: p_def)
  moreover have "u_path (rq_url (chain_req g h remote rng p [])) = p" by (simp add: chain_req_def)
  ultimately show ?thesis
    using route assms(4,5) by (simp add: connector_serve_def connector_guard_chain cn_service_route_def)
qed

lemma stream_error_relay:
  "stream_error \<lparr>rs_status = k, rs_header = copy_stream_headers no_header h, rs_body = BodyBytes b\<rparr>
     = \<lparr>rs_status = k, rs_header = copy_stream_headers no_header h, rs_body = BodyBytes b\<rparr>"
  by (simp add: stream_error_def)

lemma cn_stream_relayed:
  assumes "hdr_get (rq_header r) ''Range'' = rng"
  shows "map_prod stream_error id (cn_stream c r s sid) =
    (case (if s = ''jellyfin'' then jellyfin_stream_request c sid else plex_stream_request c sid) of
       Inl e \<Rightarrow> (stream_error (error_json (service_error_status 400 e) (media_error_text e)), [])
     | Inr q0 \<Rightarrow>
        (let q = (if rng \<noteq> [] then q0\<lparr>oq_header := hdr_set ''Range'' rng (oq_header q0)\<rparr> else q0)
         in case client_do c q of
              Inl e \<Rightarrow> (stream_error (error_json 502 (media_error_text e)), [q])
            | Inr up \<Rightarrow> (\<lparr>rs_status = up_code up, rs_header = copy_stream_headers no_header (up_header up),
                rs_body = BodyBytes (up_body up)\<rparr>, [q])))"
  unfolding cn_stream_def assms Let_def
  by (cases "if s = ''jellyfin'' then jellyfin_stream_request c sid else plex_stream_request c sid")
    (simp_all add: stream_error_relay split: sum.split)

lemma chain_stream:
  assumes "plain_base g h" "rq_method r = ''GET''" "u_path (rq_url r) = ''/media/api/services/'' @ s @ ''/stream/'' @ sid"
    and s: "s = ''jellyfin'' \<or> s = ''plex''" "list_all id_char sid" "sid \<noteq> []"
    and "authorize_service L g r s now = Inr pk" "allowed_remote c remote" "tokens_agree g c"
  shows "chain_serve L reason remote M c g r now =
    (case (if s = ''jellyfin'' then jellyfin_stream_request c sid else plex_stream_request c sid) of
       Inl e \<Rightarrow> (stream_error (error_json (service_error_status 400 e) (media_error_text e)), [])
     | Inr q0 \<Rightarrow>
        (let rng = trim_space (hdr_get (rq_header r) ''Range'');
             q = (if rng \<noteq> [] then q0\<lparr>oq_header := hdr_set ''Range'' rng (oq_header q0)\<rparr> else q0)
         in case client_do c q of
              Inl e \<Rightarrow> (stream_error (error_json 502 (media_error_text e)), [q])
            | Inr up \<Rightarrow> (\<lparr>rs_status = up_code up, rs_header = copy_stream_headers no_header (up_header up),
                rs_body = BodyBytes (up_body up)\<rparr>, [q])))"
proof -
  let ?p = "''/connector/api/services/'' @ s @ ''/stream/'' @ sid" and ?rng = "hdr_get (rq_header r) ''Range''"
  let ?r = "chain_req g h remote ?rng ?p []"
  have e: "path_escape sid = sid" using s(2) by (simp add: path_escape_def url_escape_id_chars)
  have "has_prefix (u_path (rq_url r)) ''/media/api/services/''" unfolding assms(3) by (rule has_prefix_append)
  moreover have "u_path (rq_url r) \<noteq> ''/media/api/status''" by (simp add: assms(3))
  ultimately have g: "gateway_serve L (chained reason remote M c g) r now = proxy_stream (chained reason remote M c g) r ?p"
    using assms(2,7) plain_base_configured [OF assms(1)] gateway_stream_route [OF s] e assms(3)
    by (simp add: gateway_serve_def require_method_def serve_service_def)
  note served = connector_stream_served [OF s assms(8,9), where M = M and h = h and rng = ?rng]
  note req = chain_request [OF assms(1) plain_stream [OF s], where reason = reason and remote = remote and M = M and c = c and rng = ?rng and kvs = "[]"]
  obtain res qs where cr: "connector_request (chained reason remote M c g) ?p [] ?rng = (res, qs)" by fastforce
  have res: "res = Inr (answer_of reason (fst (cn_stream c ?r s sid)))" and qs: "media_calls remote M c qs = snd (cn_stream c ?r s sid)"
    using req cr served by simp_all
  have rng: "hdr_get (rq_header ?r) ''Range'' = trim_space ?rng" by (simp add: chain_req_def connector_headers_range)
  have "chain_serve L reason remote M c g r now = map_prod stream_error id (cn_stream c ?r s sid)"
    unfolding chain_serve_def g proxy_stream_def cr res
    by (cases "cn_stream c ?r s sid") (simp add: qs answer_of_def stream_error_def)
  then show ?thesis unfolding cn_stream_relayed [OF rng] by (simp only: Let_def)
qed

text \<open>
  C29: a stream comes through both programs unchanged. For an identifier of URL-safe characters
  (those the program makes for Plex are such) an authorized client's request makes exactly
  one request to the media server, the one that belongs to the identifier, with the client's
  Range; the client gets the media server's status, body and four stream headers, and of the
  errors in between the status and text the connector gave them.
\<close>

theorem media_chain_stream:
  assumes "plain_base g h" "rq_method r = ''GET''" "u_path (rq_url r) = ''/media/api/services/'' @ s @ ''/stream/'' @ sid"
    and s: "s = ''jellyfin'' \<or> s = ''plex''" "list_all id_char sid" "sid \<noteq> []"
    and "authorize_service L g r s now = Inr pk" "allowed_remote c remote" "tokens_agree g c"
  shows "chain_serve L reason remote M c g r now =
    (case (if s = ''jellyfin'' then jellyfin_stream_request c sid else plex_stream_request c sid) of
       Inl e \<Rightarrow> (stream_error (error_json (service_error_status 400 e) (media_error_text e)), [])
     | Inr q0 \<Rightarrow>
        (let rng = trim_space (hdr_get (rq_header r) ''Range'');
             q = (if rng \<noteq> [] then q0\<lparr>oq_header := hdr_set ''Range'' rng (oq_header q0)\<rparr> else q0)
         in case client_do c q of
              Inl e \<Rightarrow> (stream_error (error_json 502 (media_error_text e)), [q])
            | Inr up \<Rightarrow> (\<lparr>rs_status = up_code up, rs_header = copy_stream_headers no_header (up_header up),
                rs_body = BodyBytes (up_body up)\<rparr>, [q])))"
  by (rule chain_stream [OF assms])

lemma media_chain_stream_witness:
  "case chain_serve (mdc_lib mdc_stream_path) (\<lambda>_. ''OK'') ''10.0.0.9:1'' demo_media_lib mdc_connector mdg_gateway
     (mdc_request mdc_stream_path) (5 * second) of
   (resp, qs) \<Rightarrow> rs_status resp = 206 \<and> rs_body resp = BodyBytes ''music''
     \<and> map oq_url qs = [''http://10.0.0.5:32400/library/parts/7/1/f.mp3?X-Plex-Token=SECRET'']"
proof -
  let ?sid = "''L2xpYnJhcnkvcGFydHMvNy8xL2YubXAz''"
  have a: "authorize_service (mdc_lib mdc_stream_path) mdg_gateway (mdc_request mdc_stream_path) ''plex'' (5 * second) = Inr ''k1''"
    by (simp add: authorize_service_def mdc_verified)
  have m: "rq_method (mdc_request p) = ''GET''" "u_path (rq_url (mdc_request p)) = p" for p
    by (simp_all add: mdc_request_def mdg_request_def)
  have sid: "list_all id_char ?sid" by code_simp
  obtain q where q: "plex_stream_request mdc_connector ?sid = Inr q"
    "oq_url q = ''http://10.0.0.5:32400/library/parts/7/1/f.mp3?X-Plex-Token=SECRET''"
    using mdc_plex by (auto split: sum.splits)
  have up: "client_do mdc_connector q' = Inr \<lparr>up_code = 206, up_status = ''206 Partial Content'', up_header = no_header, up_body = ''music''\<rparr>" for q'
    by (simp add: client_do_def mdc_connector_def)
  have p: "u_path (rq_url (mdc_request mdc_stream_path)) = ''/media/api/services/'' @ ''plex'' @ ''/stream/'' @ ?sid"
    unfolding m(2) mdc_stream_path_def ..
  have d: "''plex'' = ''jellyfin'' \<or> ''plex'' = ''plex''" "?sid \<noteq> []" by simp_all
  show ?thesis
    unfolding media_chain_stream [OF mdc_base m(1) p d(1) sid d(2) a mdc_remote mdc_tokens] mdc_range
    by (simp add: q up)
qed

end
