(* ===== verification/MediaSongs.thy ===== *)
theory MediaSongs
  imports MediaChain
begin

text \<open>
  The random song, through the gateway and the connector: what the connector reports
  survives being written, read and written again, and the URL that the gateway adds to it
  plays the song.
\<close>

section \<open>Reports are well-formed\<close>

lemma json_wf_omit: "list_all (\<lambda>(k, v). json_wf v) (omit_empty k v)"
  by (simp add: omit_empty_def)

lemma json_wf_step: "list_all json_wf steps \<Longrightarrow> list_all json_wf (add_media_debug_step M steps name ok detail err)"
  using json_wf_int [of "ml_step_ms M name"] by (simp add: add_media_debug_step_def split: option.split)

lemma json_wf_not_configured: "json_wf (not_configured_debug what)"
  by (simp add: not_configured_debug_def)

lemmas json_wf_debug = json_wf_step json_wf_not_configured

lemma random_plex_debug: "list_all json_wf (rt_debug (fst (fst (random_plex_song M c cfg))))"
  by (auto simp: random_plex_song_def Let_def json_wf_debug split: prod.split sum.split)

lemma random_jellyfin_debug: "list_all json_wf (rt_debug (fst (fst (random_jellyfin_song M c cfg))))"
  by (auto simp: random_jellyfin_song_def Let_def json_wf_debug split: prod.split sum.split option.split list.split)

lemma song_wf: "list_all json_wf (rt_debug t) \<Longrightarrow> json_wf (random_song_json t)"
  by (simp add: random_song_json_def media_item_json_def json_wf_omit)

section \<open>Reading an object without repeated members\<close>

lemma update_new: "k \<notin> fst ` set al \<Longrightarrow> AList.update k v al = al @ [(k, v)]"
  by (induction al) auto

lemma fold_update_new:
  "distinct (map fst kvs) \<Longrightarrow> fst ` set kvs \<inter> fst ` set acc = {} \<Longrightarrow> fold (\<lambda>(k, v). AList.update k v) kvs acc = acc @ kvs"
  by (induction kvs arbitrary: acc) (auto simp: update_new)

lemma decode_object_encode:
  assumes "json_wf (JObj ms)" "distinct (map fst ms)"
  shows "decode_object (json_encode (JObj ms)) = Some (JObj ms)"
  using json_roundtrip [OF assms(1)] fold_update_new [OF assms(2), of "[]"] by (simp add: decode_object_def)

section \<open>The report of a song\<close>

text \<open>What the gateway makes of an answer of the connector to the song route.\<close>

definition song_answer :: "string \<Rightarrow> http_resp \<Rightarrow> http_resp" where
  "song_answer s resp = (case rs_body resp of
     BodyJson j \<Rightarrow> httpx_write_json (rs_status resp) (if rs_status resp = 200 then add_stream_url s j else j)
   | _ \<Rightarrow> error_json 502 ''connector returned invalid JSON'')"

definition plain_report :: "http_resp \<Rightarrow> bool" where
  "plain_report resp \<longleftrightarrow> (\<exists>ms. rs_body resp = BodyJson (JObj ms) \<and> json_wf (JObj ms) \<and> distinct (map fst ms))"

lemma plain_report_error: "plain_report (error_json k e)"
  by (simp add: plain_report_def error_json_def httpx_write_json_def json_err_def)

lemma plain_report_json:
  "json_wf (JObj ms) \<Longrightarrow> distinct (map fst ms) \<Longrightarrow> plain_report (httpx_write_json k (JObj ms))"
  by (simp add: plain_report_def httpx_write_json_def)

lemma plain_report_random_song:
  assumes "s = ''jellyfin'' \<or> s = ''plex''"
  shows "plain_report (fst (cn_random_song M c s))"
proof -
  have song: "plain_report (httpx_write_json 200 (random_song_json t))" if "list_all json_wf (rt_debug t)" for t
    using song_wf [OF that] unfolding random_song_json_def by (intro plain_report_json) (simp_all add: omit_empty_def)
  have err: "plain_report (httpx_write_json k (JObj [(''error'', JStr e), (''debug'', JArr ds)]))" if "list_all json_wf ds" for k e ds
    using that by (intro plain_report_json) simp_all
  show ?thesis
    using assms song err random_plex_debug [of M c "media_config_of c"] random_jellyfin_debug [of M c "media_config_of c"]
    by (auto simp: cn_random_song_def split: prod.split option.split)
qed

lemma connector_song_served:
  assumes "s = ''jellyfin'' \<or> s = ''plex''"
  defines "p \<equiv> ''/connector/api/services/'' @ s @ ''/random-song''"
  shows "connector_serve M c (chain_req g h remote rng p []) =
    (case connector_guard c (chain_req g h remote rng p []) of
       Inl resp \<Rightarrow> (resp, []) | Inr _ \<Rightarrow> cn_random_song M c s)"
proof -
  have "has_prefix p ''/connector/api/services/''" unfolding p_def by (rule has_prefix_append)
  moreover have "p \<noteq> ''/connector/api/status''" by (simp add: p_def)
  moreover have "u_path (rq_url (chain_req g h remote rng p kvs)) = p" for kvs by (simp add: chain_req_def)
  moreover have "parse_service_route p ''/connector/api/services/'' = Some \<lparr>sr_service = s, sr_action = ''random-song'', sr_stream_id = []\<rparr>"
    unfolding p_def by (rule action_route [OF assms(1)]) simp
  ultimately show ?thesis
    by (simp add: connector_serve_def cn_service_route_def split: sum.split)
qed

lemma song_answer_decoded:
  assumes "plain_report resp"
  shows "(case decode_object (body_bytes (rs_body resp)) of
      None \<Rightarrow> (error_json 502 ''connector returned invalid JSON'', qs)
    | Some body \<Rightarrow> (httpx_write_json (rs_status resp) (if rs_status resp = 200 then add_stream_url s body else body), qs))
    = (song_answer s resp, qs)"
  using assms by (auto simp: plain_report_def song_answer_def decode_object_encode)

text \<open>
  A random song comes through both programs with the steps and errors the connector
  reported; a song gets the URL of its stream at the gateway.
\<close>

theorem media_chain_random_song:
  assumes "plain_base g h" "rq_method r = ''GET''" "u_path (rq_url r) = ''/media/api/services/'' @ s @ ''/random-song''"
    and s: "s = ''jellyfin'' \<or> s = ''plex''" and "authorize_service L g r s now = Inr pk"
  shows "chain_serve L reason remote M c g r now =
    (if \<not> allowed_remote c remote then (error_json 403 ''remote address is not allowed'', [])
     else if \<not> tokens_agree g c then (error_json 401 ''connector token is required'', [])
     else map_prod (song_answer s) id (cn_random_song M c s))"
proof -
  let ?p = "''/connector/api/services/'' @ s @ ''/random-song''" and ?rng = "hdr_get (rq_header r) ''Range''"
  let ?r = "chain_req g h remote ?rng ?p []"
  have "has_prefix (u_path (rq_url r)) ''/media/api/services/''" unfolding assms(3) by (rule has_prefix_append)
  moreover have "u_path (rq_url r) \<noteq> ''/media/api/status''" by (simp add: assms(3))
  moreover have "parse_service_route (u_path (rq_url r)) ''/media/api/services/''
      = Some \<lparr>sr_service = s, sr_action = ''random-song'', sr_stream_id = []\<rparr>"
    unfolding assms(3) by (rule action_route [OF s]) simp
  ultimately have g: "gateway_serve L (chained reason remote M c g) r now = proxy_random_song (chained reason remote M c g) r s"
    using assms(2,5) plain_base_configured [OF assms(1)]
    by (simp add: gateway_serve_def require_method_def serve_service_def)
  note req = chain_request [OF assms(1) plain_action [OF s disjI2 [OF refl]], where reason = reason and remote = remote and M = M and c = c and rng = ?rng and kvs = "[]"]
  obtain res qs where cr: "connector_request (chained reason remote M c g) ?p [] ?rng = (res, qs)" by fastforce
  obtain resp sent where cs: "connector_serve M c ?r = (resp, sent)" by fastforce
  have res: "res = Inr (answer_of reason resp)" and qs: "media_calls remote M c qs = sent" using req cr cs by simp_all
  have plain: "plain_report resp"
    using cs plain_report_random_song [OF s, of M c] plain_report_error
    unfolding connector_song_served [OF s] connector_guard_chain by (auto split: if_splits)
  have up: "up_code (answer_of reason resp) = rs_status resp" "up_body (answer_of reason resp) = body_bytes (rs_body resp)"
    by (simp_all add: answer_of_def)
  have "chain_serve L reason remote M c g r now = map_prod (song_answer s) id (connector_serve M c ?r)"
    unfolding chain_serve_def g proxy_random_song_def cr res cs prod.case sum.case up song_answer_decoded [OF plain]
    by (simp add: qs)
  moreover have "song_answer s (error_json k e) = error_json k e" if "k \<noteq> 200" for k e
    using that by (simp add: song_answer_def error_json_def httpx_write_json_def)
  ultimately show ?thesis
    unfolding connector_song_served [OF s] connector_guard_chain by simp
qed

section \<open>The song plays\<close>

lemma search_plex_items:
  assumes "search_plex_with_config M c cfg query = (Inr items, qs)" "i \<in> set items"
  obtains m where "i = plex_item m"
proof -
  have "i \<in> range plex_item"
    using assms by (auto simp: search_plex_with_config_def Let_def split: if_splits option.splits sum.splits)
  with that show thesis by blast
qed

lemma random_plex_song_found:
  assumes "random_plex_song M c cfg = ((t, None), qs)"
  obtains m where "rt_item t = plex_item m" "mi_stream_id (plex_item m) \<noteq> []" "rt_service t = ''plex''" "rt_stream_url t = []"
    "mc_plex_base_url (normalized_media_config cfg) \<noteq> []"
proof -
  let ?cfg = "normalized_media_config cfg"
  have b: "mc_plex_base_url ?cfg \<noteq> []" using assms by (auto simp: random_plex_song_def Let_def)
  obtain items qs' where s: "search_plex_with_config M c ?cfg ''a'' = (Inr items, qs')"
    using assms b by (auto simp: random_plex_song_def Let_def split: prod.splits sum.splits)
  let ?audio = "filter (\<lambda>i. mi_stream_id i \<noteq> [] \<and> equal_fold (mi_type i) ''track'') items"
  let ?i = "?audio ! (ml_nanos M mod length ?audio)"
  have t: "?audio \<noteq> []" "rt_item t = ?i" "rt_service t = ''plex''" "rt_stream_url t = []"
    using assms b s by (auto simp: random_plex_song_def Let_def split: if_splits)
  then have "?i \<in> set ?audio" by (intro nth_mem) simp
  then have i: "?i \<in> set items" "mi_stream_id ?i \<noteq> []" by simp_all
  obtain m where "?i = plex_item m" using search_plex_items [OF s i(1)] .
  with that t b i(2) show thesis by simp
qed

text \<open>The request for a part of the Plex server, and what the client hears of its answer.\<close>

definition part_request :: "media_config \<Rightarrow> string \<Rightarrow> media_error + out_req" where
  "part_request cfg k =
     (case url_parse (mc_plex_base_url cfg) of
        None \<Rightarrow> Inl (MediaMsg (url_parse_error (mc_plex_base_url cfg)))
      | Some u \<Rightarrow> media_get (url_string (if mc_plex_token cfg = [] then u\<lparr>u_path := path_join [u_path u, k]\<rparr>
          else u\<lparr>u_path := path_join [u_path u, k],
            u_raw_query := values_encode (values_set ''X-Plex-Token'' (mc_plex_token cfg) (url_query u))\<rparr>)) no_header)"

definition played :: "connector \<Rightarrow> string \<Rightarrow> media_error + out_req \<Rightarrow> http_resp \<times> out_req list" where
  "played c rng res =
     (case res of
        Inl e \<Rightarrow> (stream_error (error_json (service_error_status 400 e) (media_error_text e)), [])
      | Inr q0 \<Rightarrow>
         (let q = (if rng \<noteq> [] then q0\<lparr>oq_header := hdr_set ''Range'' rng (oq_header q0)\<rparr> else q0)
          in case client_do c q of
               Inl e \<Rightarrow> (stream_error (error_json 502 (media_error_text e)), [q])
             | Inr up \<Rightarrow> (\<lparr>rs_status = up_code up, rs_header = copy_stream_headers no_header (up_header up),
                 rs_body = BodyBytes (up_body up)\<rparr>, [q])))"

lemma plex_item_request:
  assumes "mi_stream_id (plex_item m) \<noteq> []" "mc_plex_base_url (normalized_media_config cfg) \<noteq> []"
  shows "plex_stream_request_with_config cfg (mi_stream_id (plex_item m))
    = part_request (normalized_media_config cfg) (first_plex_part_key m)"
proof -
  have k: "valid_plex_part_path (first_plex_part_key m)" using assms(1) by (simp add: plex_item_stream_id split: if_splits)
  have q: "url_query (u\<lparr>u_path := p\<rparr>) = url_query u" for u p by (simp add: url_query_def)
  show ?thesis
    using assms(2) k by (simp add: plex_stream_request_with_config_def part_request_def plex_item_stream_id Let_def q split: option.split)
qed

lemma song_members:
  assumes "rt_service t = ''plex''" "rt_stream_url t = []" "mi_stream_id (rt_item t) \<noteq> []" "list_all id_char (mi_stream_id (rt_item t))"
  shows "add_stream_url ''plex'' (random_song_json t) = JObj [(''service'', JStr ''plex''), (''item'', media_item_json (rt_item t)),
     (''debug'', JArr (rt_debug t)), (''stream_url'', JStr (''/media/api/services/'' @ ''plex'' @ ''/stream/'' @ mi_stream_id (rt_item t)))]"
proof -
  have "path_escape (mi_stream_id (rt_item t)) = mi_stream_id (rt_item t)"
    using assms(4) by (simp add: path_escape_def url_escape_id_chars)
  with assms show ?thesis by (simp add: add_stream_url_def random_song_json_def media_item_json_def omit_empty_def)
qed

text \<open>
  C31: the song that is reported plays. When the connector finds a random song on the Plex server,
  the client gets it with a stream URL at the gateway; whenever a request for that URL
  is authorized, the Plex server is asked for the very part the search reported for the song,
  once and with the Range of the client, and the client gets its answer.
\<close>

theorem media_chain_song_plays:
  assumes "plain_base g h" "rq_method r = ''GET''" "u_path (rq_url r) = ''/media/api/services/'' @ ''plex'' @ ''/random-song''"
    and "authorize_service L g r ''plex'' now = Inr pk" "allowed_remote c remote" "tokens_agree g c"
    and "random_plex_song M c (media_config_of c) = ((t, None), qs)"
  shows "\<exists>m url. rt_item t = plex_item m \<and> valid_plex_part_path (first_plex_part_key m)
    \<and> url = ''/media/api/services/'' @ ''plex'' @ ''/stream/'' @ mi_stream_id (plex_item m)
    \<and> chain_serve L reason remote M c g r now =
        (httpx_write_json 200 (JObj [(''service'', JStr ''plex''), (''item'', media_item_json (plex_item m)),
           (''debug'', JArr (rt_debug t)), (''stream_url'', JStr url)]), qs)
    \<and> (\<forall>r' now' pk'. rq_method r' = ''GET'' \<and> u_path (rq_url r') = url \<and> authorize_service L g r' ''plex'' now' = Inr pk' \<longrightarrow>
        chain_serve L reason remote M c g r' now' =
          played c (trim_space (hdr_get (rq_header r') ''Range''))
            (part_request (normalized_media_config (media_config_of c)) (first_plex_part_key m)))"
proof -
  from random_plex_song_found [OF assms(7)] obtain m where m: "rt_item t = plex_item m" "mi_stream_id (plex_item m) \<noteq> []"
    "rt_service t = ''plex''" "rt_stream_url t = []" "mc_plex_base_url (normalized_media_config (media_config_of c)) \<noteq> []" .
  let ?sid = "mi_stream_id (plex_item m)"
  let ?url = "''/media/api/services/'' @ ''plex'' @ ''/stream/'' @ ?sid"
  have k: "valid_plex_part_path (first_plex_part_key m)" and sid: "list_all id_char ?sid"
    using m(2) b64url_encode_chars by (auto simp: plex_item_stream_id split: if_splits)
  have d: "''plex'' = ''jellyfin'' \<or> ''plex'' = ''plex''" by simp
  have song: "chain_serve L reason remote M c g r now =
        (httpx_write_json 200 (JObj [(''service'', JStr ''plex''), (''item'', media_item_json (plex_item m)),
           (''debug'', JArr (rt_debug t)), (''stream_url'', JStr ?url)]), qs)"
    unfolding media_chain_random_song [OF assms(1-3) d assms(4)]
    using assms(5-7) song_members [OF m(3,4)] m(1,2) sid by (simp add: cn_random_song_def song_answer_def httpx_write_json_def)
  have plays: "chain_serve L reason remote M c g r' now' = played c (trim_space (hdr_get (rq_header r') ''Range''))
      (part_request (normalized_media_config (media_config_of c)) (first_plex_part_key m))"
    if "rq_method r' = ''GET''" "u_path (rq_url r') = ?url" "authorize_service L g r' ''plex'' now' = Inr pk'" for r' now' pk'
    unfolding chain_stream [OF assms(1) that(1,2) d sid m(2) that(3) assms(5,6)] played_def plex_stream_request_def plex_item_request [OF m(2,5)]
    by (cases "part_request (normalized_media_config (media_config_of c)) (first_plex_part_key m)") (simp_all add: Let_def)
  show ?thesis using m(1) k song plays by blast
qed

definition mds_part :: xml_elem where
  "mds_part = XElem ''Part'' [(''key'', ''/library/parts/7/1/f.mp3'')] []"

definition mds_media_lib :: media_lib where
  "mds_media_lib = demo_media_lib\<lparr>ml_xml_parse := (\<lambda>_. Inr (XElem ''MediaContainer'' []
     [XElem ''Metadata'' [(''title'', ''One''), (''type'', ''track'')] [XElem ''Media'' [] [mds_part]]]))\<rparr>"

definition mds_path :: string where
  "mds_path = ''/media/api/services/'' @ ''plex'' @ ''/random-song''"

definition mds_lib :: nostr_lib where
  "mds_lib = (mdc_lib mdc_stream_path)\<lparr>nl_decode_event := (\<lambda>j. if j = JStr ''sng'' then Some (mdc_signed (''http://h'' @ mds_path))
     else nl_decode_event (mdc_lib mdc_stream_path) j)\<rparr>"

definition mds_request :: http_req where
  "mds_request = (mdc_request mds_path)\<lparr>rq_header := hdr_set ''Authorization'' ''Nostr InNuZyI='' no_header\<rparr>"

lemma mds_verified:
  "media_verify_request mds_lib (gw_auth mdg_gateway) mds_request (5 * second) = Inr ''k1''"
  "media_verify_request mds_lib (gw_auth mdg_gateway) (mdc_request mdc_stream_path) (5 * second) = Inr ''k1''"
  by code_simp+

lemma mds_found: "(case random_plex_song mds_media_lib mdc_connector (media_config_of mdc_connector) of
    ((t, err), _) \<Rightarrow> (mi_stream_id (rt_item t), err)) = (''L2xpYnJhcnkvcGFydHMvNy8xL2YubXAz'', None)"
  by code_simp

lemma mds_part_url: "(case part_request (normalized_media_config (media_config_of mdc_connector)) ''/library/parts/7/1/f.mp3'' of
    Inl _ \<Rightarrow> [] | Inr q \<Rightarrow> oq_url q) = ''http://10.0.0.5:32400/library/parts/7/1/f.mp3?X-Plex-Token=SECRET''"
  by code_simp

lemma mds_key: "b64url_encode k = ''L2xpYnJhcnkvcGFydHMvNy8xL2YubXAz'' \<Longrightarrow> k = ''/library/parts/7/1/f.mp3''"
proof -
  assume "b64url_encode k = ''L2xpYnJhcnkvcGFydHMvNy8xL2YubXAz''"
  then have "b64url_decode ''L2xpYnJhcnkvcGFydHMvNy8xL2YubXAz'' = Some k" using b64url_roundtrip [of k] by simp
  moreover have "b64url_decode ''L2xpYnJhcnkvcGFydHMvNy8xL2YubXAz'' = Some ''/library/parts/7/1/f.mp3''" by code_simp
  ultimately show ?thesis by simp
qed

lemma media_chain_song_plays_witness:
  "rs_status (fst (chain_serve mds_lib (\<lambda>_. ''OK'') ''10.0.0.9:1'' mds_media_lib mdc_connector mdg_gateway mds_request (5 * second))) = 200
   \<and> map oq_url (snd (chain_serve mds_lib (\<lambda>_. ''OK'') ''10.0.0.9:1'' mds_media_lib mdc_connector mdg_gateway
       (mdc_request mdc_stream_path) (5 * second))) = [''http://10.0.0.5:32400/library/parts/7/1/f.mp3?X-Plex-Token=SECRET'']"
proof -
  obtain t qs where t: "random_plex_song mds_media_lib mdc_connector (media_config_of mdc_connector) = ((t, None), qs)"
    and sid: "mi_stream_id (rt_item t) = ''L2xpYnJhcnkvcGFydHMvNy8xL2YubXAz''"
    using mds_found by (cases "random_plex_song mds_media_lib mdc_connector (media_config_of mdc_connector)") auto
  have a: "authorize_service mds_lib mdg_gateway mds_request ''plex'' (5 * second) = Inr ''k1''"
    "authorize_service mds_lib mdg_gateway (mdc_request mdc_stream_path) ''plex'' (5 * second) = Inr ''k1''"
    by (simp_all add: authorize_service_def mds_verified)
  have r: "rq_method mds_request = ''GET''" "u_path (rq_url mds_request) = ''/media/api/services/'' @ ''plex'' @ ''/random-song''"
    "rq_method (mdc_request mdc_stream_path) = ''GET''" "u_path (rq_url (mdc_request mdc_stream_path)) = mdc_stream_path"
    by (simp_all add: mds_request_def mds_path_def mdc_request_def mdg_request_def)
  from media_chain_song_plays [OF mdc_base r(1,2) a(1) mdc_remote mdc_tokens t, of "\<lambda>_. ''OK''" "''10.0.0.9:1''"]
  obtain m url where m: "rt_item t = plex_item m" "valid_plex_part_path (first_plex_part_key m)"
    and url: "url = ''/media/api/services/'' @ ''plex'' @ ''/stream/'' @ mi_stream_id (plex_item m)"
    and song: "rs_status (fst (chain_serve mds_lib (\<lambda>_. ''OK'') ''10.0.0.9:1'' mds_media_lib mdc_connector mdg_gateway mds_request (5 * second))) = 200"
    and plays: "\<And>r' now' pk'. rq_method r' = ''GET'' \<Longrightarrow> u_path (rq_url r') = url \<Longrightarrow> authorize_service mds_lib mdg_gateway r' ''plex'' now' = Inr pk' \<Longrightarrow>
       chain_serve mds_lib (\<lambda>_. ''OK'') ''10.0.0.9:1'' mds_media_lib mdc_connector mdg_gateway r' now' =
         played mdc_connector (trim_space (hdr_get (rq_header r') ''Range''))
           (part_request (normalized_media_config (media_config_of mdc_connector)) (first_plex_part_key m))"
    by (auto simp: httpx_write_json_def)
  have k: "first_plex_part_key m = ''/library/parts/7/1/f.mp3''"
    using sid m plex_item_stream_id [of m] by (intro mds_key) simp
  have "u_path (rq_url (mdc_request mdc_stream_path)) = url"
    unfolding r(4) url mdc_stream_path_def using sid m(1) by (simp add: mdc_request_def)
  from plays [OF r(3) this a(2)] mds_part_url song show ?thesis
    unfolding k mdc_range by (auto simp: played_def client_do_def mdc_connector_def split: sum.splits)
qed

end
