(* ===== verification/ConfigToml.thy ===== *)
theory ConfigToml
  imports Access "HOL-Library.AList"
begin

text \<open>
  The configuration file, \<open>internal/config/targets.go\<close>: the reader of the TOML subset,
  what its entries mean, and the access rules derived from them. A Go map is an association
  list with distinct keys; where the code ranges over a map, the order is that of the list.
  An error is its text.
\<close>

section \<open>Data\<close>

record proxy_group =
  pg_urls :: "string list"
  pg_additional_access_list :: "string list"

record wiki_config =
  wk_origin :: string
  wk_label :: string
  wk_summary :: string
  wk_wiki_path :: string
  wk_wiki_api_path :: string
  wk_wiki_load_path :: string
  wk_wiki_main_page_path :: string
  wk_wiki_main_page_title :: string
  wk_proxy_route :: string
  wk_status :: string
  wk_audience :: "string list"

definition empty_group :: proxy_group where
  "empty_group = \<lparr>pg_urls = [], pg_additional_access_list = []\<rparr>"

definition empty_wiki :: wiki_config where
  "empty_wiki = \<lparr>wk_origin = [], wk_label = [], wk_summary = [], wk_wiki_path = [], wk_wiki_api_path = [],
     wk_wiki_load_path = [], wk_wiki_main_page_path = [], wk_wiki_main_page_title = [], wk_proxy_route = [],
     wk_status = [], wk_audience = []\<rparr>"

definition empty_rule :: rule where
  "empty_rule = \<lparr>rl_type = [], rl_relay_url = [], rl_relay_urls = [], rl_nip05_base_url = [],
     rl_owner_pubkey = [], rl_relationship = [], rl_deny_pubkeys = {}\<rparr>"

record file_config =
  fc_targets :: "(string \<times> string) list"
  fc_access_rules :: "(string \<times> rule) list"
  fc_proxy_access_rules :: "string list"
  fc_proxy_target_access_rules :: "(string \<times> string list) list"
  fc_media_services :: "(string \<times> string list) list"
  fc_admin_pubkeys :: "string list"
  fc_owner_pubkey :: string
  fc_additional_relays :: "string list"
  fc_proxy_groups :: "(string \<times> proxy_group) list"
  fc_global_access_rule :: "(string \<times> string) list"
  fc_wiki :: "(string \<times> wiki_config) list"

definition empty_config :: file_config where
  "empty_config = \<lparr>fc_targets = [], fc_access_rules = [], fc_proxy_access_rules = [],
     fc_proxy_target_access_rules = [], fc_media_services = [], fc_admin_pubkeys = [], fc_owner_pubkey = [],
     fc_additional_relays = [], fc_proxy_groups = [], fc_global_access_rule = [], fc_wiki = []\<rparr>"

definition lookup_or :: "'a \<Rightarrow> (string \<times> 'a) list \<Rightarrow> string \<Rightarrow> 'a" where
  "lookup_or d m k = (case map_of m k of None \<Rightarrow> d | Some v \<Rightarrow> v)"

definition quoted :: "string \<Rightarrow> string" where
  "quoted s = [CHR 0x22] @ s @ [CHR 0x22]"

section \<open>Strings, keys and comments\<close>

fun strip_comment_from :: "bool \<Rightarrow> bool \<Rightarrow> string \<Rightarrow> string" where
  "strip_comment_from in_string escaped [] = []"
| "strip_comment_from in_string escaped (r # rs) =
     (if escaped then r # strip_comment_from in_string False rs
      else if r = CHR 0x5C \<and> in_string then r # strip_comment_from in_string True rs
      else if r = CHR 0x22 then r # strip_comment_from (\<not> in_string) False rs
      else if r = CHR ''#'' \<and> \<not> in_string then []
      else r # strip_comment_from in_string False rs)"

definition strip_comment :: "string \<Rightarrow> string" where
  "strip_comment line = strip_comment_from False False line"

text \<open>\<open>strings.NewReplacer\<close> for an escaped quote and an escaped backslash.\<close>

fun toml_unescape :: "string \<Rightarrow> string" where
  "toml_unescape [] = []"
| "toml_unescape [c] = [c]"
| "toml_unescape (a # b # s) =
     (if a = CHR 0x5C \<and> (b = CHR 0x22 \<or> b = CHR 0x5C) then b # toml_unescape s else a # toml_unescape (b # s))"

definition parse_toml_string :: "string \<Rightarrow> string + string" where
  "parse_toml_string value =
     (if \<not> has_prefix value [CHR 0x22] \<or> \<not> has_suffix value [CHR 0x22] \<or> length value < 2
      then Inl ''expected quoted string''
      else Inr (toml_unescape (trim_prefix (trim_suffix value [CHR 0x22]) [CHR 0x22])))"

definition bare_key_stop :: string where
  "bare_key_stop = [CHR '' '', CHR 0x09, CHR 0x0D, CHR 0x0A]"

definition parse_toml_key :: "string \<Rightarrow> string + string" where
  "parse_toml_key k =
     (let key = trim_space k
      in if has_prefix key [CHR 0x22] then parse_toml_string key
         else if contains_any key bare_key_stop then Inl ''bare target keys must not contain whitespace''
         else if key = [] then Inl ''target key must not be empty''
         else Inr key)"

text \<open>
  The loop that looks for the closing quote: after the opening one, the text up to and with
  the first quote that is not escaped, and the rest.
\<close>

fun until_quote :: "bool \<Rightarrow> string \<Rightarrow> (string \<times> string) option" where
  "until_quote escaped [] = None"
| "until_quote escaped (c # cs) =
     (if escaped then map_option (\<lambda>(a, b). (c # a, b)) (until_quote False cs)
      else if c = CHR 0x5C then map_option (\<lambda>(a, b). (c # a, b)) (until_quote True cs)
      else if c = CHR 0x22 then Some ([c], cs)
      else map_option (\<lambda>(a, b). (c # a, b)) (until_quote False cs))"

lemma until_quote_length: "until_quote e s = Some (a, b) \<Longrightarrow> length a + length b = length s"
  by (induction e s arbitrary: a rule: until_quote.induct) (auto split: if_splits)

lemma until_quote_append: "until_quote e s = Some (a, b) \<Longrightarrow> s = a @ b"
  by (induction e s arbitrary: a rule: until_quote.induct) (auto split: if_splits)

lemma trim_space_length: "length (trim_space s) \<le> length s"
proof -
  have "length (rdropWhile is_space t) \<le> length t" for t
    using rdropWhile_prefix [of is_space t] by (simp add: prefix_length_le)
  from this [of "dropWhile is_space s"] length_dropWhile_le [of is_space s] show ?thesis
    unfolding trim_space_def by linarith
qed

lemma until_quote_rest:
  "until_quote e s = Some (a, b) \<Longrightarrow> length (tl (trim_space b)) \<le> length s"
  using until_quote_length [of e s a b] trim_space_length [of b] by simp

section \<open>Lists and inline tables\<close>

function parse_toml_string_list_items :: "string \<Rightarrow> string + string list" where
  "parse_toml_string_list_items line0 =
     (let line = trim_space line0
      in if line = [] then Inr []
         else if hd line \<noteq> CHR 0x22 then Inl ''expected quoted string''
         else (case until_quote False (tl line) of
            None \<Rightarrow> Inl ''expected quoted string''
          | Some (inner, rest) \<Rightarrow>
             (case parse_toml_string (CHR 0x22 # inner) of
                Inl e \<Rightarrow> Inl e
              | Inr value \<Rightarrow>
                 (let line' = trim_space rest
                  in if line' = [] then Inr [value]
                     else if hd line' \<noteq> CHR '','' then Inl ''expected comma between target URLs''
                     else (case parse_toml_string_list_items (tl line') of
                        Inl e \<Rightarrow> Inl e
                      | Inr values \<Rightarrow> Inr (value # values))))))"
  by pat_completeness auto
termination
proof (relation "measure length", goal_cases)
  case 1
  then show ?case by simp
next
  case (2 line0 line q inner rest v line')
  then have "length (tl (trim_space rest)) \<le> length (tl (trim_space line0))"
    using until_quote_rest by fastforce
  moreover have "length (tl (trim_space line0)) < length line0"
    using 2 trim_space_length [of line0] by (cases "trim_space line0") auto
  ultimately show ?case using 2 by simp
qed

declare parse_toml_string_list_items.simps [simp del]

definition parse_toml_string_array_line :: "string \<Rightarrow> string + string list \<times> bool" where
  "parse_toml_string_array_line l =
     (let line = trim_space l;
          closed = has_suffix line '']'';
          body = (if closed then trim_space (trim_suffix line '']'') else line)
      in if body = [] then Inr ([], closed)
         else (case parse_toml_string_list_items body of Inl e \<Rightarrow> Inl e | Inr values \<Rightarrow> Inr (values, closed)))"

text \<open>\<open>strings.IndexAny(value, "=:")\<close>, as the parts before and from there.\<close>

definition split_at_sep :: "string \<Rightarrow> (string \<times> string) option" where
  "split_at_sep value =
     (let p = (\<lambda>c. c \<noteq> CHR ''='' \<and> c \<noteq> CHR '':'') in
      if dropWhile p value = [] then None else Some (takeWhile p value, dropWhile p value))"

definition parse_inline_table_key :: "string \<Rightarrow> string + string \<times> string" where
  "parse_inline_table_key v =
     (let value = trim_space v
      in if has_prefix value [CHR 0x22] then
           (case until_quote False (tl value) of
              None \<Rightarrow> Inl ''expected quoted inline table key''
            | Some (inner, rest) \<Rightarrow>
                (case parse_toml_string (CHR 0x22 # inner) of Inl e \<Rightarrow> Inl e | Inr key \<Rightarrow> Inr (key, rest)))
         else (case split_at_sep value of
              None \<Rightarrow> Inl ''expected inline table key''
            | Some (k, rest) \<Rightarrow> (case parse_toml_key (trim_space k) of Inl e \<Rightarrow> Inl e | Inr key \<Rightarrow> Inr (key, rest))))"

lemma split_at_sep_append: "split_at_sep v = Some (a, b) \<Longrightarrow> v = a @ b"
  by (auto simp: split_at_sep_def Let_def split: if_splits)

lemma parse_inline_table_key_rest:
  assumes "parse_inline_table_key v = Inr (key, rest)" shows "length rest \<le> length v"
proof -
  have t: "length (tl (trim_space v)) \<le> length v" "length (trim_space v) \<le> length v"
    using trim_space_length [of v] by simp_all
  show ?thesis
  proof (cases "has_prefix (trim_space v) [CHR 0x22]")
    case True
    with assms obtain inner where "until_quote False (tl (trim_space v)) = Some (inner, rest)"
      by (auto simp: parse_inline_table_key_def Let_def split: option.split_asm sum.split_asm)
    with until_quote_length t(1) show ?thesis by fastforce
  next
    case False
    with assms obtain k where "split_at_sep (trim_space v) = Some (k, rest)"
      by (auto simp: parse_inline_table_key_def Let_def split: option.split_asm sum.split_asm)
    with split_at_sep_append t(2) show ?thesis by fastforce
  qed
qed

function parse_inline_entries :: "string \<Rightarrow> (string \<times> string) list \<Rightarrow> string + (string \<times> string) list" where
  "parse_inline_entries value out =
     (if value = [] then Inr out
      else (case parse_inline_table_key value of
         Inl e \<Rightarrow> Inl e
       | Inr (key, rest0) \<Rightarrow>
          (let rest1 = trim_space rest0
           in if rest1 = [] \<or> (hd rest1 \<noteq> CHR ''='' \<and> hd rest1 \<noteq> CHR '':'')
              then Inl ''expected = or : after inline table key''
              else (let rest = trim_space (tl rest1)
                in if \<not> has_prefix rest [CHR 0x22] then Inl ''expected quoted inline table value''
                   else (case until_quote False (tl rest) of
                      None \<Rightarrow> Inl ''expected quoted inline table value''
                    | Some (inner, after) \<Rightarrow>
                       (case parse_toml_string (CHR 0x22 # inner) of
                          Inl e \<Rightarrow> Inl e
                        | Inr parsed \<Rightarrow>
                           (let out' = AList.update key parsed out; value' = trim_space after
                            in if value' = [] then Inr out'
                               else if hd value' \<noteq> CHR '','' then Inl ''expected comma between inline table entries''
                               else parse_inline_entries (trim_space (tl value')) out')))))))"
  by pat_completeness auto
termination
proof (relation "measure (\<lambda>(v, _). length v)", goal_cases)
  case 1
  then show ?case by simp
next
  case (2 v out kr key rest0 rest1 rest ia inner after parsed out' v')
  have "length rest0 \<le> length v" using 2 by (intro parse_inline_table_key_rest) auto
  moreover have "length rest1 \<le> length rest0" using 2 trim_space_length by simp
  moreover have "length (tl rest1) < length rest1" using 2 by (cases rest1) auto
  moreover have "length rest \<le> length (tl rest1)"
  proof -
    have "rest = trim_space (tl rest1)" using 2 by blast
    then show ?thesis using trim_space_length by metis
  qed
  moreover have "length (tl v') \<le> length (tl rest)"
  proof -
    have "until_quote False (tl rest) = Some (inner, after)" "v' = trim_space after" using 2 by metis+
    with until_quote_rest show ?thesis by metis
  qed
  moreover have "length (trim_space (tl v')) \<le> length (tl v')" by (rule trim_space_length)
  moreover have "length (tl rest) \<le> length rest" by simp
  ultimately show ?case by simp
qed

declare parse_inline_entries.simps [simp del]

definition parse_toml_inline_string_table :: "string \<Rightarrow> string + (string \<times> string) list" where
  "parse_toml_inline_string_table v =
     (let value = trim_space v
      in if \<not> has_prefix value ''{'' \<or> \<not> has_suffix value ''}'' then Inl ''expected inline table''
         else parse_inline_entries (trim_space (trim_suffix (trim_prefix value ''{'') ''}'')) [])"


section \<open>Relays, domains, targets\<close>

definition first_relay_url :: "string list \<Rightarrow> string" where
  "first_relay_url relays = (case filter (\<lambda>r. trim_space r \<noteq> []) relays of [] \<Rightarrow> default_relay_url | r # _ \<Rightarrow> trim_space r)"

definition trimmed_relays :: "string list \<Rightarrow> string list" where
  "trimmed_relays relays = filter (\<lambda>r. r \<noteq> []) (map trim_space relays)"

definition nip05_base_url_for_domain :: "string \<Rightarrow> string" where
  "nip05_base_url_for_domain d =
     (let domain = trim_space (to_lower d)
      in if domain = ''trustroots.org'' then ''https://www.trustroots.org/.well-known/nostr.json''
         else ''https://'' @ domain @ ''/.well-known/nostr.json'')"

definition media_service_alias :: "string \<Rightarrow> string option" where
  "media_service_alias value =
     (if value = ''fips_jellyfin'' then Some ''jellyfin'' else if value = ''fips_plex'' then Some ''plex'' else None)"

definition is_http_url :: "string \<Rightarrow> bool" where
  "is_http_url value = (case url_parse value of None \<Rightarrow> False
     | Some u \<Rightarrow> u_host u \<noteq> [] \<and> (u_scheme u = ''http'' \<or> u_scheme u = ''https''))"

definition route_key_from_target :: "string \<Rightarrow> string + string" where
  "route_key_from_target value = (case url_parse value of
     None \<Rightarrow> Inl (''target URL '' @ quoted value @ '' must include a host'')
   | Some u \<Rightarrow>
      if u_host u = [] then Inl (''target URL '' @ quoted value @ '' must include a host'')
      else (let host = trim_prefix (to_lower (url_hostname u)) ''www.''
            in if host = ''trustroots.org'' then Inr ''trustroots'' else Inr host))"

definition add_target_key :: "(string \<times> string) list \<Rightarrow> string \<Rightarrow> string + string \<times> (string \<times> string) list" where
  "add_target_key targets value = (case route_key_from_target value of
     Inl e \<Rightarrow> Inl e
   | Inr key \<Rightarrow>
      if map_of targets key \<noteq> None then Inl (''duplicate derived target key '' @ quoted key)
      else Inr (key, AList.update key value targets))"

definition add_target :: "(string \<times> string) list \<Rightarrow> string \<Rightarrow> string + (string \<times> string) list" where
  "add_target targets value = (case add_target_key targets value of Inl e \<Rightarrow> Inl e | Inr (_, ts) \<Rightarrow> Inr ts)"

fun add_targets :: "(string \<times> string) list \<Rightarrow> string list \<Rightarrow> string + (string \<times> string) list" where
  "add_targets targets [] = Inr targets"
| "add_targets targets (v # vs) = (case add_target targets v of Inl e \<Rightarrow> Inl e | Inr ts \<Rightarrow> add_targets ts vs)"

definition normalize_config_path :: "string \<Rightarrow> string" where
  "normalize_config_path v =
     (let value = trim_space v
      in if value = [] then [] else if value = ''/'' then ''/''
         else trim_right (CHR ''/'') (if \<not> has_prefix value ''/'' then ''/'' @ value else value))"

definition split_tokens :: "string \<Rightarrow> string list" where
  "split_tokens value = filter (\<lambda>w. w \<noteq> []) (map trim_space
     (fields_func (\<lambda>c. c = CHR '','' \<or> c = CHR '' '' \<or> c = CHR 0x0A \<or> c = CHR 0x09) value))"

fun unique_rules :: "string list \<Rightarrow> string list \<Rightarrow> string list" where
  "unique_rules seen [] = []"
| "unique_rules seen (v # vs) =
     (let value = trim_space v
      in if value = [] then unique_rules seen vs
         else if value \<in> set seen then unique_rules seen vs
         else value # unique_rules (value # seen) vs)"

definition append_unique_rules :: "string list \<Rightarrow> string list \<Rightarrow> string list" where
  "append_unique_rules rules values = unique_rules [] (rules @ values)"

section \<open>Applying entries\<close>

definition target_list_key :: "string \<Rightarrow> bool" where
  "target_list_key key \<longleftrightarrow> key = ''targets'' \<or> key = ''target'' \<or> key = ''proxy_targets''"

definition apply_string_array :: "file_config \<Rightarrow> string \<Rightarrow> string \<Rightarrow> string list \<Rightarrow> string + file_config" where
  "apply_string_array cfg sect key values =
     (if sect = [] \<and> target_list_key key then
        (case add_targets (fc_targets cfg) values of Inl e \<Rightarrow> Inl e | Inr ts \<Rightarrow> Inr (cfg\<lparr>fc_targets := ts\<rparr>))
      else if sect = ''admin'' \<and> (key = ''pubkeys'' \<or> key = ''owner_npub'') then
        Inr (cfg\<lparr>fc_admin_pubkeys := fc_admin_pubkeys cfg @ values\<rparr>)
      else if sect = [] \<and> key = ''additional_relays'' then
        Inr (cfg\<lparr>fc_additional_relays := fc_additional_relays cfg @ values\<rparr>)
      else if has_prefix sect ''proxy_group.'' \<and> key = ''urls'' then
        (let name = trim_prefix sect ''proxy_group.''; g = lookup_or empty_group (fc_proxy_groups cfg) name
         in Inr (cfg\<lparr>fc_proxy_groups := AList.update name (g\<lparr>pg_urls := pg_urls g @ values\<rparr>) (fc_proxy_groups cfg)\<rparr>))
      else if has_prefix sect ''proxy_group.'' \<and> key = ''additional_access_rule'' then
        (let name = trim_prefix sect ''proxy_group.''; g = lookup_or empty_group (fc_proxy_groups cfg) name
         in Inr (cfg\<lparr>fc_proxy_groups := AList.update name
              (g\<lparr>pg_additional_access_list := pg_additional_access_list g @ values\<rparr>) (fc_proxy_groups cfg)\<rparr>))
      else if has_prefix sect ''wiki.'' \<and> key = ''audience'' then
        (let name = trim_prefix sect ''wiki.''; w = lookup_or empty_wiki (fc_wiki cfg) name
         in Inr (cfg\<lparr>fc_wiki := AList.update name (w\<lparr>wk_audience := wk_audience w @ values\<rparr>) (fc_wiki cfg)\<rparr>))
      else Inl (''unsupported array '' @ sect @ ''.'' @ key))"

definition set_wiki_value :: "wiki_config \<Rightarrow> string \<Rightarrow> string \<Rightarrow> wiki_config option" where
  "set_wiki_value w key value =
     (if key = ''origin'' then Some (w\<lparr>wk_origin := trim_right (CHR ''/'') value\<rparr>)
      else if key = ''label'' then Some (w\<lparr>wk_label := value\<rparr>)
      else if key = ''summary'' then Some (w\<lparr>wk_summary := value\<rparr>)
      else if key = ''wiki_path'' then Some (w\<lparr>wk_wiki_path := normalize_config_path value\<rparr>)
      else if key = ''wiki_api_path'' then Some (w\<lparr>wk_wiki_api_path := normalize_config_path value\<rparr>)
      else if key = ''wiki_load_path'' then Some (w\<lparr>wk_wiki_load_path := normalize_config_path value\<rparr>)
      else if key = ''wiki_main_page_path'' then Some (w\<lparr>wk_wiki_main_page_path := normalize_config_path value\<rparr>)
      else if key = ''wiki_main_page_title'' then Some (w\<lparr>wk_wiki_main_page_title := value\<rparr>)
      else if key = ''proxy_route'' then Some (w\<lparr>wk_proxy_route := value\<rparr>)
      else if key = ''status'' then Some (w\<lparr>wk_status := value\<rparr>)
      else if key = ''audience'' then Some (w\<lparr>wk_audience := split_tokens value\<rparr>)
      else None)"

definition apply_string_value :: "nostr_lib \<Rightarrow> file_config \<Rightarrow> string \<Rightarrow> string \<Rightarrow> string \<Rightarrow> string + file_config" where
  "apply_string_value L cfg sect key value =
     (if sect = [] \<and> key = ''owner_npub'' then
        (case access_normalize_pubkey L value of
           Inl e \<Rightarrow> Inl (''owner_npub is invalid: '' @ error_text e)
         | Inr pubkey \<Rightarrow> Inr (cfg\<lparr>fc_owner_pubkey := pubkey\<rparr>))
      else if sect = [] \<and> target_list_key key then
        (case add_target (fc_targets cfg) value of Inl e \<Rightarrow> Inl e | Inr ts \<Rightarrow> Inr (cfg\<lparr>fc_targets := ts\<rparr>))
      else if sect = ''targets'' then Inr (cfg\<lparr>fc_targets := AList.update key value (fc_targets cfg)\<rparr>)
      else if has_prefix sect ''wiki.'' then
        (let name = trim_prefix sect ''wiki.''
         in case set_wiki_value (lookup_or empty_wiki (fc_wiki cfg) name) key value of
              None \<Rightarrow> Inl (''unsupported config key '' @ sect @ ''.'' @ key)
            | Some w \<Rightarrow> Inr (cfg\<lparr>fc_wiki := AList.update name w (fc_wiki cfg)\<rparr>))
      else Inl (''unsupported config key '' @ sect @ ''.'' @ key))"

definition apply_string_table :: "file_config \<Rightarrow> string \<Rightarrow> string \<Rightarrow> (string \<times> string) list \<Rightarrow> string + file_config" where
  "apply_string_table cfg sect key values =
     (if sect = [] \<and> key = ''access_rule'' then Inr (cfg\<lparr>fc_global_access_rule := values\<rparr>)
      else Inl (''unsupported table '' @ sect @ ''.'' @ key))"

section \<open>Derived access rules\<close>

definition global_access_rule_names :: "file_config \<Rightarrow> string list" where
  "global_access_rule_names cfg =
     (if fc_global_access_rule cfg = [] then []
      else if to_lower (trim_space (lookup_or [] (fc_global_access_rule cfg) ''nip05_domain'')) = ''trustroots.org''
      then [''trustroots_nip05''] else [''global_nip05''])"

definition apply_global_access_rule :: "file_config \<Rightarrow> string + file_config" where
  "apply_global_access_rule cfg =
     (if fc_global_access_rule cfg = [] then Inr cfg
      else (case filter (\<lambda>kv. fst kv \<noteq> ''nip05_domain'') (fc_global_access_rule cfg) of
         kv # _ \<Rightarrow> Inl (''access_rule contains unsupported criterion '' @ quoted (fst kv))
       | [] \<Rightarrow>
          (let domain = trim_space (lookup_or [] (fc_global_access_rule cfg) ''nip05_domain'')
           in if domain = [] then Inl ''access_rule nip05_domain is required''
              else (let rule_name = (if to_lower domain \<noteq> ''trustroots.org'' then ''global_nip05'' else ''trustroots_nip05'');
                        r = lookup_or empty_rule (fc_access_rules cfg) rule_name;
                        r' = r\<lparr>rl_type := rule_trustroots_nip05,
                              rl_relay_url := first_relay_url (fc_additional_relays cfg),
                              rl_relay_urls := trimmed_relays (fc_additional_relays cfg),
                              rl_nip05_base_url := nip05_base_url_for_domain domain\<rparr>
                    in Inr (cfg\<lparr>fc_access_rules := AList.update rule_name r' (fc_access_rules cfg)\<rparr>)))))"

definition owner_follow_rule_name :: string where
  "owner_follow_rule_name = ''media_owner_follows''"

text \<open>The loop over the additional rules of a group: the configuration with the rules, and their names.\<close>

fun additional_rules :: "string \<Rightarrow> string list \<Rightarrow> file_config \<Rightarrow> string list \<Rightarrow> string + file_config \<times> string list" where
  "additional_rules name [] cfg rule_names = Inr (cfg, rule_names)"
| "additional_rules name (v # vs) cfg rule_names =
     (if v = rule_nostr_follow then
        (if trim_space (fc_owner_pubkey cfg) = [] then Inl ''owner_npub is required for nostr_follow access''
         else (let r = lookup_or empty_rule (fc_access_rules cfg) owner_follow_rule_name;
                   r' = r\<lparr>rl_type := rule_nostr_follow,
                         rl_relay_url := first_relay_url (fc_additional_relays cfg),
                         rl_relay_urls := trimmed_relays (fc_additional_relays cfg),
                         rl_owner_pubkey := fc_owner_pubkey cfg,
                         rl_relationship := ''owner_follows_user''\<rparr>
               in additional_rules name vs
                    (cfg\<lparr>fc_access_rules := AList.update owner_follow_rule_name r' (fc_access_rules cfg)\<rparr>)
                    (append_unique_rules rule_names [owner_follow_rule_name])))
      else Inl (''proxy_group.'' @ name @ '' additional_access_rule contains unsupported rule '' @ quoted v))"

definition additional_proxy_group_access_rules :: "string \<Rightarrow> proxy_group \<Rightarrow> file_config \<Rightarrow> string + file_config \<times> string list" where
  "additional_proxy_group_access_rules name g cfg = additional_rules name (pg_additional_access_list g) cfg []"

text \<open>The loop over the URLs of a group.\<close>

fun group_urls :: "string \<Rightarrow> string list \<Rightarrow> string list \<Rightarrow> string list \<Rightarrow> file_config \<Rightarrow> string + file_config" where
  "group_urls name additional required [] cfg = Inr cfg"
| "group_urls name additional required (v # vs) cfg =
     (if is_http_url v then
        (case add_target_key (fc_targets cfg) v of
           Inl e \<Rightarrow> Inl e
         | Inr (key, ts) \<Rightarrow>
            (let cfg1 = cfg\<lparr>fc_targets := ts\<rparr>;
                 tr = fc_proxy_target_access_rules cfg1
             in group_urls name additional required vs
                  (if additional \<noteq> []
                   then cfg1\<lparr>fc_proxy_target_access_rules :=
                          AList.update key (append_unique_rules (lookup_or [] tr key) additional) tr\<rparr>
                   else cfg1)))
      else (case media_service_alias v of
         None \<Rightarrow> Inl (''proxy_group.'' @ name @ '' urls contains unknown service alias '' @ quoted v)
       | Some service \<Rightarrow>
          (let ms = fc_media_services cfg
           in group_urls name additional required vs
                (if required \<noteq> []
                 then cfg\<lparr>fc_media_services := AList.update service
                        (append_unique_rules (lookup_or [] ms service) required) ms\<rparr>
                 else cfg))))"

fun apply_groups :: "(string \<times> proxy_group) list \<Rightarrow> file_config \<Rightarrow> string + file_config" where
  "apply_groups [] cfg = Inr cfg"
| "apply_groups ((name, g) # gs) cfg =
     (case additional_proxy_group_access_rules name g cfg of
        Inl e \<Rightarrow> Inl e
      | Inr (cfg1, additional) \<Rightarrow>
         (let required = append_unique_rules (global_access_rule_names cfg1) additional
          in case group_urls name additional required (pg_urls g) cfg1 of
               Inl e \<Rightarrow> Inl e
             | Inr cfg2 \<Rightarrow> apply_groups gs cfg2))"

definition apply_proxy_groups :: "file_config \<Rightarrow> string + file_config" where
  "apply_proxy_groups cfg = apply_groups (fc_proxy_groups cfg) cfg"

section \<open>The file\<close>

text \<open>
  \<open>bufio.Scanner\<close>: the lines without their ends, up to the first one that fills the buffer
  of 64 KiB, and whether there was such a line.
\<close>

definition max_scan_token :: nat where
  "max_scan_token = 65536"

definition drop_cr :: "string \<Rightarrow> string" where
  "drop_cr l = (if l \<noteq> [] \<and> last l = CHR 0x0D then butlast l else l)"

definition scan_lines :: "string \<Rightarrow> string list \<times> bool" where
  "scan_lines raw =
     (let ls = split_on (CHR 0x0A) raw;
          ls' = (if last ls = [] then butlast ls else ls);
          short = (\<lambda>l. length l < max_scan_token)
      in (map drop_cr (takeWhile short ls'), \<not> list_all short ls'))"

text \<open>The state of the reader: the configuration, the table, and the key of the open array (empty: none).\<close>

type_synonym reader = "file_config \<times> string \<times> string"

definition read_entry :: "nostr_lib \<Rightarrow> reader \<Rightarrow> string \<Rightarrow> string \<Rightarrow> string + reader" where
  "read_entry L st key value = (case st of (cfg, sect, array_key) \<Rightarrow>
     if value = ''['' then Inr (cfg, sect, key)
     else if has_prefix value ''['' then
       (case parse_toml_string_array_line (trim_prefix value ''['') of
          Inl e \<Rightarrow> Inl e
        | Inr (values, closed) \<Rightarrow>
           (case apply_string_array cfg sect key values of
              Inl e \<Rightarrow> Inl e
            | Inr cfg' \<Rightarrow> Inr (cfg', sect, if closed then array_key else key)))
     else if has_prefix value ''{'' then
       (case parse_toml_inline_string_table value of
          Inl e \<Rightarrow> Inl e
        | Inr values \<Rightarrow> (case apply_string_table cfg sect key values of
            Inl e \<Rightarrow> Inl e | Inr cfg' \<Rightarrow> Inr (cfg', sect, array_key)))
     else (case parse_toml_string value of
          Inl e \<Rightarrow> Inl e
        | Inr v \<Rightarrow> (case apply_string_value L cfg sect key v of
            Inl e \<Rightarrow> Inl e | Inr cfg' \<Rightarrow> Inr (cfg', sect, array_key))))"

definition read_line :: "nostr_lib \<Rightarrow> reader \<Rightarrow> string \<Rightarrow> string + reader" where
  "read_line L st text = (case st of (cfg, sect, array_key) \<Rightarrow>
     (let line = trim_space (strip_comment text)
      in if line = [] then Inr st
         else if array_key \<noteq> [] then
           (case parse_toml_string_array_line line of
              Inl e \<Rightarrow> Inl e
            | Inr (values, closed) \<Rightarrow>
               (case apply_string_array cfg sect array_key values of
                  Inl e \<Rightarrow> Inl e
                | Inr cfg' \<Rightarrow> Inr (cfg', sect, if closed then [] else array_key)))
         else if has_prefix line ''['' then
           (if has_prefix line ''[['' \<or> \<not> has_suffix line '']'' then Inl ''unsupported TOML table syntax''
            else Inr (cfg, trim_space (trim_suffix (trim_prefix line ''['') '']''), array_key))
         else (case cut (CHR ''='') line of
            None \<Rightarrow> Inl ''expected key = value''
          | Some (k, v) \<Rightarrow>
             (let key = trim_space k; value = trim_space v
              in if key = [] \<or> value = [] then Inl ''expected non-empty key and value''
                 else (case parse_toml_key key of
                    Inl e \<Rightarrow> Inl e
                  | Inr key' \<Rightarrow> read_entry L st key' value)))))"

fun read_lines :: "nostr_lib \<Rightarrow> int \<Rightarrow> string list \<Rightarrow> reader \<Rightarrow> string + reader" where
  "read_lines L n [] st = Inr st"
| "read_lines L n (l # ls) st =
     (case read_line L st l of
        Inl e \<Rightarrow> Inl (''line '' @ int_str n @ '': '' @ e)
      | Inr st' \<Rightarrow> read_lines L (n + 1) ls st')"

text \<open>What follows the loop: the derived rules, and the rules of the proxy as a whole.\<close>

definition finish_config :: "file_config \<Rightarrow> string + file_config" where
  "finish_config cfg =
     (case apply_global_access_rule cfg of
        Inl e \<Rightarrow> Inl e
      | Inr cfg1 \<Rightarrow> (case apply_proxy_groups cfg1 of
          Inl e \<Rightarrow> Inl e
        | Inr cfg2 \<Rightarrow>
            Inr (if fc_targets cfg2 \<noteq> [] \<and> fc_proxy_access_rules cfg2 = []
                 then cfg2\<lparr>fc_proxy_access_rules := global_access_rule_names cfg2\<rparr> else cfg2)))"

definition parse_config_toml :: "nostr_lib \<Rightarrow> string \<Rightarrow> string + file_config" where
  "parse_config_toml L raw =
     (case scan_lines raw of (ls, too_long) \<Rightarrow>
       (case read_lines L 1 ls (empty_config, [], []) of
          Inl e \<Rightarrow> Inl e
        | Inr (cfg, sect, array_key) \<Rightarrow>
            if too_long then Inl ''bufio.Scanner: token too long''
            else if array_key \<noteq> [] then Inl (''unterminated array for '' @ array_key)
            else finish_config cfg))"

definition parse_targets_toml :: "nostr_lib \<Rightarrow> string \<Rightarrow> string + (string \<times> string) list" where
  "parse_targets_toml L raw = (case parse_config_toml L raw of Inl e \<Rightarrow> Inl e | Inr cfg \<Rightarrow> Inr (fc_targets cfg))"

definition parse_targets_list_line :: "string \<Rightarrow> (string \<times> string) list \<Rightarrow> string + bool \<times> (string \<times> string) list" where
  "parse_targets_list_line line targets =
     (case parse_toml_string_array_line line of
        Inl e \<Rightarrow> Inl e
      | Inr (values, closed) \<Rightarrow> (case add_targets targets values of Inl e \<Rightarrow> Inl e | Inr ts \<Rightarrow> Inr (closed, ts)))"

text \<open>
  \<open>findUpward\<close> from a directory, given by its components, innermost first; \<open>stat\<close> answers
  whether a path exists, does not, or fails.
\<close>

datatype stat_result = StatOk | StatNotExist | StatFail string

definition dir_path :: "string list \<Rightarrow> string" where
  "dir_path comps = ''/'' @ join ''/'' (rev comps)"

fun find_upward :: "(string \<Rightarrow> stat_result) \<Rightarrow> string \<Rightarrow> string list \<Rightarrow> string + string" where
  "find_upward stat name comps =
     (let candidate = dir_path (name # comps)
      in case stat candidate of
           StatOk \<Rightarrow> Inr candidate
         | StatFail e \<Rightarrow> Inl e
         | StatNotExist \<Rightarrow>
            (case comps of
               [] \<Rightarrow> Inl (name @ '' not found; set TARGETS_CONFIG_PATH or --targets-config'')
             | _ # up \<Rightarrow> find_upward stat name up))"

record file_system =
  fs_getwd :: "string + string list"
  fs_stat :: "string \<Rightarrow> stat_result"
  fs_read :: "string \<Rightarrow> string + string"

definition default_targets_config_path :: string where
  "default_targets_config_path = ''conf.toml''"

definition config_path :: "file_system \<Rightarrow> string \<Rightarrow> string + string" where
  "config_path fs path =
     (if path = [] then (case fs_getwd fs of Inl e \<Rightarrow> Inl e
        | Inr comps \<Rightarrow> find_upward (fs_stat fs) default_targets_config_path comps)
      else Inr path)"

definition load_config_file :: "nostr_lib \<Rightarrow> file_system \<Rightarrow> string \<Rightarrow> string + file_config" where
  "load_config_file L fs path0 =
     (case config_path fs path0 of
        Inl e \<Rightarrow> Inl e
      | Inr path \<Rightarrow>
         (case fs_read fs path of
            Inl e \<Rightarrow> Inl (''read targets config '' @ quoted path @ '': '' @ e)
          | Inr raw \<Rightarrow>
             (case parse_config_toml L raw of
                Inl e \<Rightarrow> Inl (''parse targets config '' @ quoted path @ '': '' @ e)
              | Inr cfg \<Rightarrow>
                  if fc_targets cfg = []
                  then Inl (''targets config '' @ quoted path @ '' must define at least one target'')
                  else Inr (cfg\<lparr>fc_targets := map (\<lambda>(k, t). (k, trim_right (CHR ''/'') t)) (fc_targets cfg)\<rparr>))))"

definition load_targets :: "nostr_lib \<Rightarrow> file_system \<Rightarrow> string \<Rightarrow> string + (string \<times> string) list" where
  "load_targets L fs path = (case load_config_file L fs path of Inl e \<Rightarrow> Inl e | Inr cfg \<Rightarrow> Inr (fc_targets cfg))"

text \<open>
  The \<open>flag\<close> package, for the one flag \<open>targets-config\<close>: \<open>targetsConfigPath\<close>; \<open>getenv\<close> is
  the environment.
\<close>

fun parse_flags :: "string list \<Rightarrow> string \<Rightarrow> string + string" where
  "parse_flags [] path = Inr path"
| "parse_flags (a # args) path =
     (if length a < 2 \<or> hd a \<noteq> CHR ''-'' then Inr path
      else if a = ''--'' then Inr path
      else (let name0 = (if has_prefix a ''--'' then drop 2 a else drop 1 a)
        in if name0 = [] \<or> hd name0 = CHR ''-'' \<or> hd name0 = CHR ''='' then Inl (''bad flag syntax: '' @ a)
           else (let (name, given) = (case cut (CHR ''='') name0 of
                       None \<Rightarrow> (name0, None) | Some (n, v) \<Rightarrow> (n, Some v))
             in if name \<noteq> ''targets-config'' then
                  (if name = ''help'' \<or> name = ''h'' then Inl ''flag: help requested''
                   else Inl (''flag provided but not defined: -'' @ name))
                else (case given of
                   Some v \<Rightarrow> parse_flags args v
                 | None \<Rightarrow> (case args of
                     [] \<Rightarrow> Inl (''flag needs an argument: -'' @ name)
                   | v # args' \<Rightarrow> parse_flags args' v)))))"

definition targets_config_path :: "(string \<Rightarrow> string) \<Rightarrow> string list \<Rightarrow> string + string" where
  "targets_config_path getenv args =
     (case parse_flags args [] of
        Inl e \<Rightarrow> Inl e
      | Inr path \<Rightarrow> if path \<noteq> [] then Inr path else Inr (getenv ''TARGETS_CONFIG_PATH''))"

section \<open>Validation\<close>

definition validate_route_key :: "string \<Rightarrow> string option" where
  "validate_route_key value =
     (if value = [] \<or> CHR ''/'' \<in> set value \<or> contains_any value bare_key_stop
      then Some (''target key '' @ quoted value @ '' must be a non-empty path segment'') else None)"

definition validate_target :: "string \<Rightarrow> string \<Rightarrow> string option" where
  "validate_target name value =
     (if is_http_url value then None else Some (name @ '' must be an http:// or https:// URL''))"

definition validate_origin :: "string \<Rightarrow> string option" where
  "validate_origin origin =
     (let bad = Some (''ALLOWED_ORIGINS contains invalid origin '' @ quoted origin)
      in case url_parse origin of
           None \<Rightarrow> bad
         | Some u \<Rightarrow>
            if u_host u = [] \<or> (u_scheme u \<noteq> ''http'' \<and> u_scheme u \<noteq> ''https'')
               \<or> (u_path u \<noteq> [] \<and> u_path u \<noteq> ''/'') \<or> u_raw_query u \<noteq> [] \<or> u_fragment u \<noteq> []
            then bad else None)"

end
