(* ===== verification/ConfigLoad.thy ===== *)
theory ConfigLoad
  imports ConfigToml
begin

text \<open>
  The configuration of the two programs, \<open>internal/config/config.go\<close>: environment variables
  with their defaults, the file, and the validation of the whole. The environment is a
  function from names to values; an unset variable is the empty string, as for \<open>os.Getenv\<close>.
\<close>

section \<open>Durations\<close>

text \<open>\<open>time.ParseDuration\<close>, for \<open>None\<close> the error. The fraction is exact here (Go rounds it in a float64).\<close>

definition two63 :: int where
  "two63 = 9223372036854775808"

text \<open>\<open>leadingInt\<close>: the value of the leading digits, unless it exceeds 2^63, and the rest.\<close>

definition leading_int :: "string \<Rightarrow> (int \<times> string) option" where
  "leading_int s = (let v = digits_val (takeWhile is_digit s)
     in if v > two63 then None else Some (v, dropWhile is_digit s))"

text \<open>\<open>leadingFraction\<close>: digits count until the value would overflow; the scale is the power of ten.\<close>

fun leading_fraction :: "string \<Rightarrow> int \<Rightarrow> int \<Rightarrow> bool \<Rightarrow> int \<times> int \<times> string" where
  "leading_fraction [] f scale over = (f, scale, [])"
| "leading_fraction (c # s) f scale over =
     (if \<not> is_digit c then (f, scale, c # s)
      else if over \<or> f > int64_max div 10 then leading_fraction s f scale True
      else (let y = f * 10 + digit_val c
            in if y > two63 then leading_fraction s f scale True else leading_fraction s y (scale * 10) False))"

definition duration_unit :: "string \<Rightarrow> int option" where
  "duration_unit u =
     (if u = ''ns'' then Some 1
      else if u = ''us'' \<or> u = [CHR 0xC2, CHR 0xB5] @ ''s'' \<or> u = [CHR 0xCE, CHR 0xBC] @ ''s'' then Some 1000
      else if u = ''ms'' then Some 1000000
      else if u = ''s'' then Some second else if u = ''m'' then Some minute else if u = ''h'' then Some hour else None)"

text \<open>The digits of one number: its integer part, its fraction with the scale, and the rest.\<close>

definition duration_number :: "string \<Rightarrow> (int \<times> int \<times> int \<times> string) option" where
  "duration_number s =
     (if s = [] \<or> \<not> (hd s = CHR ''.'' \<or> is_digit (hd s)) then None
      else (case leading_int s of None \<Rightarrow> None
       | Some (v, s1) \<Rightarrow>
          if s1 \<noteq> [] \<and> hd s1 = CHR ''.'' then
            (case leading_fraction (tl s1) 0 1 False of (f, scale, s2) \<Rightarrow>
               if length s1 = length s \<and> length s2 = length (tl s1) then None else Some (v, f, scale, s2))
          else if length s1 = length s then None
          else Some (v, 0, 1, s1)))"

definition unit_char :: "char \<Rightarrow> bool" where
  "unit_char c \<longleftrightarrow> c \<noteq> CHR ''.'' \<and> \<not> is_digit c"

text \<open>One number with its unit: its nanoseconds, and the rest.\<close>

definition duration_part :: "string \<Rightarrow> (int \<times> string) option" where
  "duration_part s = (case duration_number s of None \<Rightarrow> None
     | Some (v, f, scale, s2) \<Rightarrow>
        (case duration_unit (takeWhile unit_char s2) of None \<Rightarrow> None
         | Some unit \<Rightarrow>
             if v > two63 div unit then None
             else (let n = v * unit + f * unit div scale
                   in if n > two63 then None else Some (n, dropWhile unit_char s2))))"

fun duration_parts :: "nat \<Rightarrow> string \<Rightarrow> int \<Rightarrow> int option" where
  "duration_parts fuel [] d = Some d"
| "duration_parts 0 (c # s) d = None"
| "duration_parts (Suc fuel) (c # s) d =
     (case duration_part (c # s) of None \<Rightarrow> None
      | Some (n, r) \<Rightarrow> if d + n > two63 then None else duration_parts fuel r (d + n))"

definition parse_duration :: "string \<Rightarrow> int option" where
  "parse_duration s0 =
     (let (neg, s) = (case s0 of c # cs \<Rightarrow> if c = CHR ''-'' then (True, cs)
                               else if c = CHR ''+'' then (False, cs) else (False, s0) | [] \<Rightarrow> (False, []))
      in if s = ''0'' then Some 0
         else if s = [] then None
         else (case duration_parts (length s) s 0 of None \<Rightarrow> None
           | Some d \<Rightarrow> if neg then Some (- d) else if d > int64_max then None else Some d))"

section \<open>Environment\<close>

type_synonym environment = "string \<Rightarrow> string"

definition env_or :: "environment \<Rightarrow> string \<Rightarrow> string \<Rightarrow> string" where
  "env_or getenv key fallback = (if getenv key \<noteq> [] then getenv key else fallback)"

definition env_duration :: "environment \<Rightarrow> string \<Rightarrow> duration \<Rightarrow> duration" where
  "env_duration getenv key fallback =
     (let value = getenv key
      in if value = [] then fallback
         else (case parse_duration value of
            Some d \<Rightarrow> d
          | None \<Rightarrow> (case parse_int64 value of
               Some seconds \<Rightarrow> wrap64 (seconds * second)
             | None \<Rightarrow> fallback)))"

definition env_int64 :: "environment \<Rightarrow> string \<Rightarrow> int \<Rightarrow> int" where
  "env_int64 getenv key fallback =
     (let value = getenv key
      in if value = [] then fallback
         else (case parse_int64 value of None \<Rightarrow> fallback | Some n \<Rightarrow> n))"

definition split_list :: "string \<Rightarrow> string list" where
  "split_list value = filter (\<lambda>p. p \<noteq> []) (map trim_space (split_on (CHR '','') value))"

definition env_list :: "environment \<Rightarrow> string \<Rightarrow> string list" where
  "env_list getenv key = (if getenv key = [] then [] else split_list (getenv key))"

definition env_list_default :: "environment \<Rightarrow> string \<Rightarrow> string \<Rightarrow> string list" where
  "env_list_default getenv key fallback = split_list (if getenv key = [] then fallback else getenv key)"

section \<open>The configuration of wrapster\<close>

record config =
  cf_listen_addr :: string
  cf_public_relay_url :: string
  cf_upstream_relay_url :: string
  cf_additional_relays :: "string list"
  cf_auth_cache_path :: string
  cf_trustroots_nip05_base :: string
  cf_auth_cache_ttl :: duration
  cf_auth_event_max_age :: duration
  cf_upstream_timeout :: duration
  cf_admin_pubkeys :: "string list"
  cf_admin_auth_max_age :: duration
  cf_fips_peer_npub :: string
  cf_fips_peer_addr :: string
  cf_fips_nsec_path :: string
  cf_media_connector_url :: string
  cf_media_connector_token :: string
  cf_media_transport_label :: string
  cf_media_grant_pubkeys :: "string list"
  cf_media_auth_max_age :: duration
  cf_media_http_timeout :: duration
  cf_access_rules :: "(string \<times> rule) list"
  cf_proxy_default_target :: string
  cf_proxy_targets :: "(string \<times> string) list"
  cf_proxy_access_rules :: "string list"
  cf_proxy_target_access_rules :: "(string \<times> string list) list"
  cf_proxy_allowed_origins :: "string list"
  cf_proxy_upstream_timeout :: duration
  cf_proxy_max_body_bytes :: int
  cf_media_services :: "(string \<times> string list) list"
  cf_wiki :: "(string \<times> wiki_config) list"

definition default_rule :: "string \<Rightarrow> rule \<Rightarrow> rule" where
  "default_rule nip05_base r =
     (let r1 = (if trim_space (rl_relay_url r) = [] then r\<lparr>rl_relay_url := default_relay_url\<rparr> else r);
          r2 = (if rl_type r1 = rule_trustroots_nip05 \<and> trim_space (rl_nip05_base_url r1) = []
                then r1\<lparr>rl_nip05_base_url := nip05_base\<rparr> else r1)
      in if rl_type r2 = rule_nostr_follow \<and> trim_space (rl_relationship r2) = []
         then r2\<lparr>rl_relationship := ''owner_follows_user''\<rparr> else r2)"

definition apply_access_rule_defaults :: "(string \<times> rule) list \<Rightarrow> string \<Rightarrow> (string \<times> rule) list" where
  "apply_access_rule_defaults rules nip05_base = map (\<lambda>(name, r). (name, default_rule nip05_base r)) rules"

definition build_config :: "environment \<Rightarrow> file_config \<Rightarrow> config" where
  "build_config getenv fc =
     (let ev = env_or getenv; dur = env_duration getenv;
          base = ev ''TRUSTROOTS_NIP05_BASE_URL'' ''https://www.trustroots.org/.well-known/nostr.json''
      in \<lparr>cf_listen_addr = ev ''LISTEN_ADDR'' '':5542'',
          cf_public_relay_url = ev ''PUBLIC_RELAY_URL'' ''ws://localhost:5542'',
          cf_upstream_relay_url = ev ''UPSTREAM_RELAY_URL'' ''ws://strfry:5543'',
          cf_additional_relays = fc_additional_relays fc,
          cf_auth_cache_path = ev ''AUTH_CACHE_PATH'' ''./auth-cache.db'',
          cf_trustroots_nip05_base = base,
          cf_auth_cache_ttl = dur ''AUTH_CACHE_TTL'' (24 * hour),
          cf_auth_event_max_age = dur ''AUTH_EVENT_MAX_AGE'' (10 * minute),
          cf_upstream_timeout = dur ''RELAY_UPSTREAM_TIMEOUT'' (dur ''UPSTREAM_TIMEOUT'' (5 * second)),
          cf_admin_pubkeys = fc_admin_pubkeys fc
            @ (if trim_space (fc_owner_pubkey fc) \<noteq> [] then [fc_owner_pubkey fc] else []) @ env_list getenv ''ADMIN_PUBKEYS'',
          cf_admin_auth_max_age = dur ''ADMIN_AUTH_MAX_AGE'' (60 * second),
          cf_fips_peer_npub = trim_space (ev ''FIPS_HOME_NPUB'' (ev ''FIPS_PEER_NPUB'' [])),
          cf_fips_peer_addr = trim_space (ev ''FIPS_HOME_ADDR'' (ev ''FIPS_PEER_ADDR'' [])),
          cf_fips_nsec_path = ev ''FIPS_NSEC_PATH'' [],
          cf_media_connector_url = ev ''MEDIA_CONNECTOR_BASE_URL'' [],
          cf_media_connector_token = ev ''MEDIA_CONNECTOR_TOKEN'' [],
          cf_media_transport_label = ev ''MEDIA_TRANSPORT_LABEL'' ''private'',
          cf_media_grant_pubkeys = env_list getenv ''MEDIA_GRANT_PUBKEYS'',
          cf_media_auth_max_age = dur ''MEDIA_AUTH_MAX_AGE'' (60 * second),
          cf_media_http_timeout = dur ''MEDIA_HTTP_TIMEOUT'' (30 * second),
          cf_access_rules = apply_access_rule_defaults (fc_access_rules fc) base,
          cf_proxy_default_target = lookup_or [] (fc_targets fc) ''trustroots'',
          cf_proxy_targets = fc_targets fc,
          cf_proxy_access_rules = fc_proxy_access_rules fc,
          cf_proxy_target_access_rules = fc_proxy_target_access_rules fc,
          cf_proxy_allowed_origins = env_list getenv ''ALLOWED_ORIGINS'',
          cf_proxy_upstream_timeout = dur ''PROXY_UPSTREAM_TIMEOUT'' (dur ''UPSTREAM_TIMEOUT'' (15 * second)),
          cf_proxy_max_body_bytes = env_int64 getenv ''PROXY_MAX_BODY_BYTES''
            (env_int64 getenv ''MAX_BODY_BYTES'' (10 * 1024 * 1024)),
          cf_media_services = fc_media_services fc,
          cf_wiki = fc_wiki fc\<rparr>)"

section \<open>Validation\<close>

text \<open>The first error of a list of checks, in order.\<close>

fun first_error :: "string option list \<Rightarrow> string option" where
  "first_error [] = None"
| "first_error (c # cs) = (case c of Some e \<Rightarrow> Some e | None \<Rightarrow> first_error cs)"

definition require :: "bool \<Rightarrow> string \<Rightarrow> string option" where
  "require ok e = (if ok then None else Some e)"

definition is_ws_url :: "string \<Rightarrow> bool" where
  "is_ws_url s = (case url_parse s of None \<Rightarrow> False | Some u \<Rightarrow> u_scheme u = ''ws'' \<or> u_scheme u = ''wss'')"

definition validate_wiki :: "(string \<times> string) list \<Rightarrow> string \<times> wiki_config \<Rightarrow> string option" where
  "validate_wiki targets sw = (case sw of (slug, w) \<Rightarrow>
     (let name = ''wiki.'' @ slug;
          path_checks = (\<lambda>(n, p). [require (trim_space p \<noteq> []) (name @ '' '' @ n @ '' is required''),
                                   require (has_prefix p ''/'') (name @ '' '' @ n @ '' must start with /'')])
      in first_error ([
           map_option (\<lambda>e. name @ '' slug is invalid: '' @ e) (validate_route_key slug),
           require (trim_space (wk_origin w) \<noteq> []) (name @ '' origin is required''),
           validate_target (name @ ''.origin'') (wk_origin w),
           require (trim_space (wk_proxy_route w) \<noteq> []) (name @ '' proxy_route is required''),
           require (map_of targets (wk_proxy_route w) \<noteq> None)
             (name @ '' proxy_route '' @ quoted (wk_proxy_route w) @ '' is not in configured proxy targets'')]
         @ concat (map path_checks [(''wiki_path'', wk_wiki_path w), (''wiki_api_path'', wk_wiki_api_path w),
              (''wiki_load_path'', wk_wiki_load_path w), (''wiki_main_page_path'', wk_wiki_main_page_path w)]))))"

definition validate_wiki_config :: "(string \<times> wiki_config) list \<Rightarrow> (string \<times> string) list \<Rightarrow> string option" where
  "validate_wiki_config wikis targets = first_error (map (validate_wiki targets) wikis)"

definition validate_rule :: "string \<times> rule \<Rightarrow> string option" where
  "validate_rule nr = (case nr of (name, r) \<Rightarrow>
     first_error
       [(if rl_type r = rule_trustroots_nip05 then
           require (trim_space (rl_nip05_base_url r) \<noteq> []) (''access rule '' @ quoted name @ '' nip05_base_url is required'')
         else if rl_type r = rule_nostr_follow then first_error
           [require (rl_relationship r = [] \<or> rl_relationship r = ''owner_follows_user'')
              (''access rule '' @ quoted name @ '' relationship must be owner_follows_user''),
            require (trim_space (rl_owner_pubkey r) \<noteq> []) (''access rule '' @ quoted name @ '' owner_pubkey is required'')]
         else Some (''access rule '' @ quoted name @ '' has unsupported type '' @ quoted (rl_type r))),
        require (trim_space (rl_relay_url r) \<noteq> []) (''access rule '' @ quoted name @ '' relay is required'')])"

definition rule_defined :: "(string \<times> rule) list \<Rightarrow> string \<Rightarrow> string \<Rightarrow> string option" where
  "rule_defined rules what n =
     require (trim_space n = [] \<or> map_of rules n \<noteq> None) (what @ '' access rule '' @ quoted n @ '' is not defined'')"

definition validate_access_rules :: "(string \<times> rule) list \<Rightarrow> string list \<Rightarrow> (string \<times> string list) list \<Rightarrow> string option" where
  "validate_access_rules rules proxy_rules services = first_error
     (map (rule_defined rules ''proxy'') proxy_rules
      @ concat (map (\<lambda>(service, rs). map (rule_defined rules (''media service '' @ quoted service)) rs) services)
      @ map validate_rule rules)"

definition validate_config :: "config \<Rightarrow> string option" where
  "validate_config c = first_error
     ([require (url_parse_request_uri (cf_public_relay_url c) \<noteq> None)
         (''PUBLIC_RELAY_URL is invalid: '' @ url_parse_error (cf_public_relay_url c)),
       require (is_ws_url (cf_upstream_relay_url c)) ''UPSTREAM_RELAY_URL must be ws:// or wss://'',
       require (cf_auth_cache_ttl c > 0) ''AUTH_CACHE_TTL must be positive'',
       require (cf_auth_event_max_age c > 0) ''AUTH_EVENT_MAX_AGE must be positive'',
       require (cf_upstream_timeout c > 0) ''RELAY_UPSTREAM_TIMEOUT must be positive'',
       require (cf_admin_auth_max_age c > 0) ''ADMIN_AUTH_MAX_AGE must be positive'',
       require (cf_media_connector_url c = [] \<or> is_http_url (cf_media_connector_url c))
         ''MEDIA_CONNECTOR_BASE_URL must be http:// or https://'',
       require (cf_media_auth_max_age c > 0) ''MEDIA_AUTH_MAX_AGE must be positive'',
       require (cf_media_http_timeout c > 0) ''MEDIA_HTTP_TIMEOUT must be positive'',
       require (cf_proxy_upstream_timeout c > 0) ''PROXY_UPSTREAM_TIMEOUT must be positive'',
       require (cf_proxy_max_body_bytes c > 0) ''PROXY_MAX_BODY_BYTES must be positive'']
      @ concat (map (\<lambda>(platform, target). [validate_route_key platform, validate_target (''targets.'' @ platform) target])
          (cf_proxy_targets c))
      @ map validate_origin (cf_proxy_allowed_origins c)
      @ [validate_access_rules (cf_access_rules c) (cf_proxy_access_rules c) (cf_media_services c),
         validate_wiki_config (cf_wiki c) (cf_proxy_targets c)])"

definition load_with_args :: "nostr_lib \<Rightarrow> environment \<Rightarrow> file_system \<Rightarrow> string list \<Rightarrow> string + config" where
  "load_with_args L getenv fs args =
     bind_res (targets_config_path getenv args) (\<lambda>path.
       bind_res (load_config_file L fs path) (\<lambda>fc.
         let cfg = build_config getenv fc
         in case validate_config cfg of Some e \<Rightarrow> Inl e | None \<Rightarrow> Inr cfg))"

section \<open>The configuration of the connector\<close>

record connector_config =
  cc_listen_addr :: string
  cc_setup_listen_addr :: string
  cc_config_path :: string
  cc_allowed_cidrs :: "string list"
  cc_shared_token :: string
  cc_setup_admin_pubkeys :: "string list"
  cc_setup_auth_max_age :: duration
  cc_fips_nsec_path :: string
  cc_fips_peer_npub :: string
  cc_fips_peer_addr :: string
  cc_jellyfin_base_url :: string
  cc_jellyfin_api_key :: string
  cc_plex_base_url :: string
  cc_plex_token :: string
  cc_http_timeout :: duration

definition build_connector_config :: "environment \<Rightarrow> connector_config" where
  "build_connector_config getenv =
     (let ev = env_or getenv
      in \<lparr>cc_listen_addr = ev ''CONNECTOR_LISTEN_ADDR'' '':22000'',
          cc_setup_listen_addr = ev ''CONNECTOR_SETUP_LISTEN_ADDR'' '':22001'',
          cc_config_path = ev ''CONNECTOR_CONFIG_PATH'' ''/data/connector-config.json'',
          cc_allowed_cidrs = env_list_default getenv ''CONNECTOR_ALLOWED_CIDRS'' ''10.77.0.1/32,127.0.0.1/32,::1/128'',
          cc_shared_token = ev ''CONNECTOR_SHARED_TOKEN'' [],
          cc_setup_admin_pubkeys = env_list getenv ''CONNECTOR_ADMIN_PUBKEYS'',
          cc_setup_auth_max_age = env_duration getenv ''CONNECTOR_SETUP_AUTH_MAX_AGE'' (60 * second),
          cc_fips_nsec_path = ev ''FIPS_NSEC_PATH'' [],
          cc_fips_peer_npub = trim_space (ev ''FIPS_PEER_NPUB'' (ev ''FIPS_PUBLIC_NPUB'' [])),
          cc_fips_peer_addr = trim_space (ev ''FIPS_PEER_ADDR'' (ev ''FIPS_PUBLIC_ADDR'' [])),
          cc_jellyfin_base_url = trim_right (CHR ''/'') (ev ''JELLYFIN_BASE_URL'' []),
          cc_jellyfin_api_key = ev ''JELLYFIN_API_KEY'' [],
          cc_plex_base_url = trim_right (CHR ''/'') (ev ''PLEX_BASE_URL'' []),
          cc_plex_token = ev ''PLEX_TOKEN'' [],
          cc_http_timeout = env_duration getenv ''CONNECTOR_HTTP_TIMEOUT'' (30 * second)\<rparr>)"

definition load_connector :: "environment \<Rightarrow> string + connector_config" where
  "load_connector getenv =
     (let cfg = build_connector_config getenv
      in case first_error
           [require (cc_jellyfin_base_url cfg = [] \<or> is_http_url (cc_jellyfin_base_url cfg))
              ''JELLYFIN_BASE_URL must be http:// or https://'',
            require (cc_plex_base_url cfg = [] \<or> is_http_url (cc_plex_base_url cfg))
              ''PLEX_BASE_URL must be http:// or https://'',
            require (cc_http_timeout cfg > 0) ''CONNECTOR_HTTP_TIMEOUT must be positive'',
            require (cc_setup_auth_max_age cfg > 0) ''CONNECTOR_SETUP_AUTH_MAX_AGE must be positive''] of
         Some e \<Rightarrow> Inl e
       | None \<Rightarrow> Inr cfg)"

section \<open>Facts\<close>

lemma require_None [simp]: "require ok e = None \<longleftrightarrow> ok"
  by (simp add: require_def)

lemma first_error_None: "first_error cs = None \<longleftrightarrow> list_all (\<lambda>c. c = None) cs"
  by (induction cs) (auto split: option.splits)

declare first_error.simps [simp del] first_error_None [simp]

text \<open>The fuel of the duration parser is the length of its input: every part consumes a character.\<close>

lemma leading_fraction_length: "length (snd (snd (leading_fraction s f k o'))) \<le> length s"
  by (induction s arbitrary: f k o') (auto simp: Let_def intro: le_SucI)

lemma duration_number_length:
  assumes "duration_number s = Some (v, f, k, r)" shows "length r \<le> length s"
proof -
  from assms obtain w s1 where l: "leading_int s = Some (w, s1)"
    by (auto simp: duration_number_def split: if_split_asm option.split_asm)
  then have s1: "length s1 \<le> length s"
    by (auto simp: leading_int_def Let_def length_dropWhile_le split: if_split_asm)
  show ?thesis
  proof (cases "s1 \<noteq> [] \<and> hd s1 = CHR ''.''")
    case True
    with assms l have "leading_fraction (tl s1) 0 1 False = (f, k, r)"
      by (auto simp: duration_number_def split: if_split_asm prod.split_asm)
    with leading_fraction_length [of "tl s1" 0 1 False] have "length r \<le> length (tl s1)" by simp
    with s1 show ?thesis by simp
  next
    case False
    with assms l have "r = s1" by (auto simp: duration_number_def split: if_split_asm)
    with s1 show ?thesis by simp
  qed
qed

lemma duration_unit_Nil: "duration_unit [] = None"
  by (simp add: duration_unit_def)

lemma duration_part_shorter:
  assumes "duration_part s = Some (n, r)" shows "length r < length s"
proof -
  obtain v f k s2 where s2: "duration_number s = Some (v, f, k, s2)"
    using assms by (cases "duration_number s") (auto simp: duration_part_def)
  obtain w where w: "duration_unit (takeWhile unit_char s2) = Some w"
    using assms s2 by (cases "duration_unit (takeWhile unit_char s2)") (auto simp: duration_part_def)
  then have u: "duration_unit (takeWhile unit_char s2) \<noteq> None" by simp
  have r: "r = dropWhile unit_char s2"
    using assms unfolding duration_part_def s2 option.case prod.case w Let_def by (simp split: if_split_asm)
  have "takeWhile unit_char s2 \<noteq> []" using u duration_unit_Nil by metis
  then have "length r < length s2"
    unfolding r by (metis length_greater_0_conv length_append less_add_same_cancel2 takeWhile_dropWhile_id)
  with duration_number_length [OF s2] show ?thesis by simp
qed

lemma duration_parts_Suc:
  "s \<noteq> [] \<Longrightarrow> duration_parts (Suc n) s d = (case duration_part s of None \<Rightarrow> None
      | Some (k, r) \<Rightarrow> if d + k > two63 then None else duration_parts n r (d + k))"
  by (cases s) simp_all

lemma duration_parts_step:
  "length s \<le> n \<Longrightarrow> duration_parts (Suc n) s d = duration_parts n s d"
proof (induction n arbitrary: s d)
  case 0
  then show ?case by simp
next
  case (Suc n)
  show ?case
  proof (cases "s = []")
    case False
    have "duration_parts (Suc n) r e = duration_parts n r e" if "duration_part s = Some (k, r)" for k r e
      using Suc.IH duration_part_shorter [OF that] Suc.prems by simp
    then show ?thesis
      unfolding duration_parts_Suc [OF False, of "Suc n"] duration_parts_Suc [OF False, of n]
      by (auto simp del: duration_parts.simps split: option.split)
  qed simp
qed

lemma duration_parts_fuel: "length s \<le> n \<Longrightarrow> duration_parts n s d = duration_parts (length s) s d"
proof (induction rule: dec_induct)
  case base
  show ?case ..
next
  case (step n)
  then show ?case using duration_parts_step [of s n d] by simp
qed

end
