(* ===== verification/ConfigRules.thy ===== *)
theory ConfigRules
  imports ConfigLoad
begin

text \<open>
  The access rules that the configuration reader derives: every rule that a proxy target, the
  whole proxy or a media service asks for is defined, and every defined rule passes the
  validation. The entries of the file change none of the derived parts; the three steps after
  the loop keep the invariant.
\<close>

section \<open>Unique rule names\<close>

definition clean_token :: "string \<Rightarrow> string option" where
  "clean_token v = (if trim_space v = [] then None else Some (trim_space v))"

lemma unique_rules_dedup_on: "unique_rules seen vs = dedup_on id seen (List.map_filter clean_token vs)"
  by (induction seen vs rule: unique_rules.induct) (simp_all add: List.map_filter_simps clean_token_def Let_def)

interpretation uru: unique_list "unique_rules []" clean_token id
  by unfold_locales (rule unique_rules_dedup_on)

lemma append_unique_rules_mem: "n \<in> set (append_unique_rules a b) \<Longrightarrow> \<exists>v \<in> set a \<union> set b. trim_space v \<noteq> [] \<and> n = trim_space v"
  using uru.ul_cleaned [of n "a @ b"] by (auto simp: append_unique_rules_def clean_token_def split: if_splits)

lemma append_unique_rules_distinct: "distinct (append_unique_rules a b)"
  using uru.ul_distinct [of "a @ b"] by (simp add: append_unique_rules_def)

lemma append_unique_rules_Nil: "append_unique_rules a b = [] \<longleftrightarrow> (\<forall>v \<in> set a \<union> set b. trim_space v = [])"
  using uru.ul_empty [of "a @ b"] by (auto simp: append_unique_rules_def clean_token_def split: if_splits)

section \<open>The invariant\<close>

definition well_named :: "file_config \<Rightarrow> string \<Rightarrow> bool" where
  "well_named cfg n \<longleftrightarrow> n \<noteq> [] \<and> trim_space n = n \<and> map_of (fc_access_rules cfg) n \<noteq> None"

definition all_named :: "file_config \<Rightarrow> (string \<times> string list) list \<Rightarrow> bool" where
  "all_named cfg m \<longleftrightarrow> list_all (\<lambda>(_, rs). list_all (well_named cfg) rs) m"

definition rules_valid :: "file_config \<Rightarrow> bool" where
  "rules_valid cfg \<longleftrightarrow> list_all (\<lambda>nr. validate_rule nr = None) (fc_access_rules cfg)
     \<and> distinct (map fst (fc_access_rules cfg))"

definition rules_closed :: "file_config \<Rightarrow> bool" where
  "rules_closed cfg \<longleftrightarrow> list_all (well_named cfg) (fc_proxy_access_rules cfg)
     \<and> all_named cfg (fc_proxy_target_access_rules cfg) \<and> all_named cfg (fc_media_services cfg) \<and> rules_valid cfg"

definition rules_le :: "file_config \<Rightarrow> file_config \<Rightarrow> bool" where
  "rules_le a b \<longleftrightarrow> fst ` set (fc_access_rules a) \<subseteq> fst ` set (fc_access_rules b)"

lemma well_named_iff: "well_named cfg n \<longleftrightarrow> n \<noteq> [] \<and> trim_space n = n \<and> n \<in> fst ` set (fc_access_rules cfg)"
  by (simp add: well_named_def map_of_eq_None_iff)

lemma well_named_mono: "rules_le a b \<Longrightarrow> well_named a n \<Longrightarrow> well_named b n"
  by (auto simp: rules_le_def well_named_iff)

lemma well_named_list_mono: "rules_le a b \<Longrightarrow> list_all (well_named a) ns \<Longrightarrow> list_all (well_named b) ns"
  by (auto simp: list_all_iff intro: well_named_mono)

lemma all_named_mono: "rules_le a b \<Longrightarrow> all_named a m \<Longrightarrow> all_named b m"
  unfolding all_named_def list_all_iff case_prod_beta by (auto intro: well_named_mono)

lemma rules_le_refl [simp]: "rules_le a a" and rules_le_trans: "rules_le a b \<Longrightarrow> rules_le b c \<Longrightarrow> rules_le a c"
  by (auto simp: rules_le_def)

lemma well_named_append_unique:
  "list_all (well_named cfg) a \<Longrightarrow> list_all (well_named cfg) b \<Longrightarrow> list_all (well_named cfg) (append_unique_rules a b)"
  by (auto simp: list_all_iff dest!: append_unique_rules_mem) (auto simp: well_named_def)

lemma update_mem: "(k, v) \<in> set (AList.update key x m) \<Longrightarrow> (k, v) \<in> set m \<or> (k, v) = (key, x)"
  by (induction m) (auto split: if_splits)

lemma all_named_update: "all_named cfg m \<Longrightarrow> list_all (well_named cfg) rs \<Longrightarrow> all_named cfg (AList.update k rs m)"
  unfolding all_named_def list_all_iff by (auto dest: update_mem)

lemma all_named_lookup: "all_named cfg m \<Longrightarrow> list_all (well_named cfg) (lookup_or [] m k)"
  unfolding all_named_def lookup_or_def list_all_iff case_prod_beta
  by (cases "map_of m k") (auto dest!: map_of_SomeD)

lemma update_keys: "fst ` set (AList.update k v m) = insert k (fst ` set m)"
  by (induction m) auto

lemma rules_valid_update:
  assumes "rules_valid cfg" "validate_rule (n, r) = None"
  shows "rules_valid (cfg\<lparr>fc_access_rules := AList.update n r (fc_access_rules cfg)\<rparr>)"
  using assms unfolding rules_valid_def list_all_iff by (auto dest: update_mem simp: distinct_update)

lemma rules_closed_update:
  assumes "rules_closed cfg" "validate_rule (n, r) = None"
  shows "rules_closed (cfg\<lparr>fc_access_rules := AList.update n r (fc_access_rules cfg)\<rparr>)" (is "rules_closed ?c")
    and "rules_le cfg (cfg\<lparr>fc_access_rules := AList.update n r (fc_access_rules cfg)\<rparr>)"
proof -
  show le: "rules_le cfg ?c" by (auto simp: rules_le_def update_keys)
  show "rules_closed ?c"
    using assms well_named_list_mono [OF le] all_named_mono [OF le] rules_valid_update
    by (simp add: rules_closed_def)
qed

section \<open>The relay of a derived rule\<close>

lemma first_relay_url_nonempty: "trim_space (first_relay_url relays) \<noteq> []"
proof (cases "filter (\<lambda>r. trim_space r \<noteq> []) relays")
  case Nil
  moreover have "trim_space default_relay_url \<noteq> []" by code_simp
  ultimately show ?thesis by (simp add: first_relay_url_def)
next
  case (Cons r rs)
  then have "r \<in> set (filter (\<lambda>r. trim_space r \<noteq> []) relays)" by simp
  then have "trim_space r \<noteq> []" by simp
  with Cons show ?thesis by (simp add: first_relay_url_def)
qed

lemma nip05_base_nonempty: "trim_space (nip05_base_url_for_domain d) \<noteq> []"
proof -
  have "\<not> is_space CHR ''h''" by (simp add: is_space_def)
  then have "trim_space (CHR ''h'' # s) \<noteq> []" for s by (rule trim_space_Cons)
  then show ?thesis by (simp add: nip05_base_url_for_domain_def Let_def del: trim_space_Nil)
qed

lemma rule_types_differ: "rule_nostr_follow \<noteq> rule_trustroots_nip05"
  by (simp add: rule_nostr_follow_def rule_trustroots_nip05_def)

lemma require_True [simp]: "require True e = None"
  by simp

lemma validate_derived:
  "validate_rule (n, r\<lparr>rl_type := rule_trustroots_nip05, rl_relay_url := first_relay_url relays,
      rl_relay_urls := us, rl_nip05_base_url := nip05_base_url_for_domain d\<rparr>) = None"
  "trim_space owner \<noteq> [] \<Longrightarrow> validate_rule (n, r\<lparr>rl_type := rule_nostr_follow, rl_relay_url := first_relay_url relays,
      rl_relay_urls := us, rl_owner_pubkey := owner, rl_relationship := ''owner_follows_user''\<rparr>) = None"
  by (simp_all add: validate_rule_def first_error_None first_relay_url_nonempty nip05_base_nonempty rule_types_differ)

section \<open>The entries of the file\<close>

definition underived :: "file_config \<Rightarrow> bool" where
  "underived cfg \<longleftrightarrow> fc_access_rules cfg = [] \<and> fc_proxy_access_rules cfg = []
     \<and> fc_proxy_target_access_rules cfg = [] \<and> fc_media_services cfg = []"

lemma underived_closed: "underived cfg \<Longrightarrow> rules_closed cfg"
  by (simp add: underived_def rules_closed_def rules_valid_def all_named_def)

lemma apply_string_array_underived:
  "apply_string_array cfg sect key vs = Inr cfg' \<Longrightarrow> underived cfg' = underived cfg"
  unfolding apply_string_array_def Let_def underived_def by (fastforce split: if_split_asm sum.split_asm)

lemma apply_string_value_underived:
  "apply_string_value L cfg sect key v = Inr cfg' \<Longrightarrow> underived cfg' = underived cfg"
  unfolding apply_string_value_def Let_def underived_def by (fastforce split: if_split_asm sum.split_asm option.split_asm)

lemma apply_string_table_underived:
  "apply_string_table cfg sect key vs = Inr cfg' \<Longrightarrow> underived cfg' = underived cfg"
  unfolding apply_string_table_def underived_def by (auto split: if_split_asm)

lemma read_entry_underived:
  assumes "read_entry L (cfg, sect, ak) key value = Inr (cfg', sect', ak')"
  shows "underived cfg' = underived cfg"
  using assms unfolding read_entry_def
  by (auto dest: apply_string_array_underived apply_string_value_underived apply_string_table_underived
      split: if_split_asm sum.split_asm)

lemma read_line_underived:
  assumes "read_line L (cfg, sect, ak) l = Inr (cfg', sect', ak')"
  shows "underived cfg' = underived cfg"
  using assms unfolding read_line_def Let_def
  by (auto dest: apply_string_array_underived read_entry_underived split: if_split_asm sum.split_asm option.split_asm)

lemma read_lines_underived:
  "read_lines L n ls st = Inr st' \<Longrightarrow> underived (fst st') = underived (fst st)"
proof (induction L n ls st rule: read_lines.induct)
  case (2 L n l ls st)
  then obtain st1 where "read_line L st l = Inr st1" "read_lines L (n + 1) ls st1 = Inr st'"
    by (auto split: sum.split_asm)
  with 2 read_line_underived show ?case by (metis prod.collapse)
qed simp

section \<open>The three steps after the entries\<close>

lemma apply_global_closed:
  assumes "underived cfg" "apply_global_access_rule cfg = Inr cfg'"
  shows "rules_closed cfg'" "list_all (well_named cfg') (global_access_rule_names cfg')"
    "fc_global_access_rule cfg' = fc_global_access_rule cfg"
proof -
  have c: "rules_closed cfg" using assms(1) by (rule underived_closed)
  have "rules_closed cfg' \<and> list_all (well_named cfg') (global_access_rule_names cfg')
    \<and> fc_global_access_rule cfg' = fc_global_access_rule cfg"
  proof (cases "fc_global_access_rule cfg = []")
    case True
    with assms(2) c show ?thesis by (simp add: apply_global_access_rule_def global_access_rule_names_def)
  next
    case False
    let ?d = "trim_space (lookup_or [] (fc_global_access_rule cfg) ''nip05_domain'')"
    let ?n = "if to_lower ?d \<noteq> ''trustroots.org'' then ''global_nip05'' else ''trustroots_nip05''"
    obtain r where r: "cfg' = cfg\<lparr>fc_access_rules := AList.update ?n r (fc_access_rules cfg)\<rparr>" "validate_rule (?n, r) = None"
      using assms(2) False validate_derived(1)
      unfolding apply_global_access_rule_def Let_def
      by (cases "filter (\<lambda>kv. fst kv \<noteq> ''nip05_domain'') (fc_global_access_rule cfg)"; cases "?d = []") auto
    have "global_access_rule_names cfg' = [?n]"
      using False by (simp add: global_access_rule_names_def r(1))
    moreover have "well_named cfg' ?n"
    proof -
      have "?n \<in> fst ` set (fc_access_rules cfg')" by (simp add: r(1) update_keys)
      moreover have "trim_space ''global_nip05'' = ''global_nip05''" "trim_space ''trustroots_nip05'' = ''trustroots_nip05''"
        by code_simp+
      ultimately show ?thesis by (simp add: well_named_iff)
    qed
    moreover have "rules_closed cfg'" using rules_closed_update(1) [OF c r(2)] by (simp only: r(1))
    ultimately show ?thesis using r(1) by simp
  qed
  then show "rules_closed cfg'" "list_all (well_named cfg') (global_access_rule_names cfg')"
    "fc_global_access_rule cfg' = fc_global_access_rule cfg" by blast+
qed

text \<open>What a step on the way keeps: the invariant, the rules already there, and the global rule.\<close>

definition keeps :: "file_config \<Rightarrow> file_config \<Rightarrow> bool" where
  "keeps a b \<longleftrightarrow> rules_closed b \<and> rules_le a b \<and> fc_global_access_rule b = fc_global_access_rule a
     \<and> fc_proxy_access_rules b = fc_proxy_access_rules a"

lemma keeps_refl: "rules_closed a \<Longrightarrow> keeps a a"
  by (simp add: keeps_def)

lemma keeps_trans: "keeps a b \<Longrightarrow> keeps b c \<Longrightarrow> keeps a c"
  unfolding keeps_def using rules_le_trans by metis

lemma keeps_closed: "keeps a b \<Longrightarrow> rules_closed b"
  by (simp add: keeps_def)

lemma keeps_named: "keeps a b \<Longrightarrow> list_all (well_named a) ns \<Longrightarrow> list_all (well_named b) ns"
  unfolding keeps_def using well_named_list_mono by blast

lemma keeps_global_names: "keeps a b \<Longrightarrow> global_access_rule_names b = global_access_rule_names a"
  by (simp add: keeps_def global_access_rule_names_def)

lemma owner_rule_named:
  "well_named (cfg\<lparr>fc_access_rules := AList.update owner_follow_rule_name r (fc_access_rules cfg)\<rparr>) owner_follow_rule_name"
proof -
  have "trim_space owner_follow_rule_name = owner_follow_rule_name" "owner_follow_rule_name \<noteq> []" by code_simp+
  then show ?thesis by (simp add: well_named_iff update_keys)
qed

lemma additional_rules_keeps:
  "additional_rules name vs cfg ns = Inr (cfg', ns') \<Longrightarrow> rules_closed cfg \<Longrightarrow> list_all (well_named cfg) ns
   \<Longrightarrow> keeps cfg cfg' \<and> list_all (well_named cfg') ns'"
proof (induction name vs cfg ns rule: additional_rules.induct)
  case (1 name cfg ns)
  then show ?case by (simp add: keeps_refl)
next
  case (2 name v vs cfg ns)
  from 2(2) have v: "v = rule_nostr_follow" and o: "trim_space (fc_owner_pubkey cfg) \<noteq> []"
    by (auto simp: Let_def split: if_split_asm)
  define r where "r = (lookup_or empty_rule (fc_access_rules cfg) owner_follow_rule_name)
    \<lparr>rl_type := rule_nostr_follow, rl_relay_url := first_relay_url (fc_additional_relays cfg),
     rl_relay_urls := trimmed_relays (fc_additional_relays cfg), rl_owner_pubkey := fc_owner_pubkey cfg,
     rl_relationship := ''owner_follows_user''\<rparr>"
  define cfg1 where "cfg1 = cfg\<lparr>fc_access_rules := AList.update owner_follow_rule_name r (fc_access_rules cfg)\<rparr>"
  have step: "additional_rules name vs cfg1 (append_unique_rules ns [owner_follow_rule_name]) = Inr (cfg', ns')"
    using 2(2) v o unfolding cfg1_def r_def by (simp add: Let_def)
  have "validate_rule (owner_follow_rule_name, r) = None" unfolding r_def using o by (rule validate_derived(2))
  from rules_closed_update [OF 2(3) this] have k: "keeps cfg cfg1" unfolding cfg1_def keeps_def by simp
  have "list_all (well_named cfg1) (append_unique_rules ns [owner_follow_rule_name])"
    using keeps_named [OF k 2(4)] owner_rule_named by (simp add: well_named_append_unique cfg1_def)
  then have "keeps cfg1 cfg' \<and> list_all (well_named cfg') ns'"
    using 2(1) [OF v o refl refl] step keeps_closed [OF k] unfolding r_def [symmetric] cfg1_def [symmetric] by blast
  with k keeps_trans show ?case by blast
qed

lemma add_target_key_Inr: "add_target_key ts v = Inr (k, ts') \<Longrightarrow> map_of ts k = None \<and> ts' = AList.update k v ts"
  by (auto simp: add_target_key_def split: sum.split_asm if_split_asm)

text \<open>Other fields than the rules do not matter to the names.\<close>

lemma named_fields [simp]:
  "well_named (cfg\<lparr>fc_targets := ts\<rparr>) = well_named cfg"
  "well_named (cfg\<lparr>fc_proxy_target_access_rules := m\<rparr>) = well_named cfg"
  "well_named (cfg\<lparr>fc_media_services := m\<rparr>) = well_named cfg"
  "well_named (cfg\<lparr>fc_proxy_access_rules := ns\<rparr>) = well_named cfg"
  by (simp_all add: well_named_def [abs_def])

lemma all_named_fields [simp]:
  "all_named (cfg\<lparr>fc_targets := ts\<rparr>) = all_named cfg"
  "all_named (cfg\<lparr>fc_proxy_target_access_rules := m\<rparr>) = all_named cfg"
  "all_named (cfg\<lparr>fc_media_services := m\<rparr>) = all_named cfg"
  "all_named (cfg\<lparr>fc_proxy_access_rules := ns\<rparr>) = all_named cfg"
  by (simp_all add: all_named_def [abs_def])

lemma keeps_fields:
  "rules_closed cfg \<Longrightarrow> keeps cfg (cfg\<lparr>fc_targets := ts\<rparr>)"
  "rules_closed cfg \<Longrightarrow> all_named cfg m \<Longrightarrow> keeps cfg (cfg\<lparr>fc_proxy_target_access_rules := m\<rparr>)"
  "rules_closed cfg \<Longrightarrow> all_named cfg m \<Longrightarrow> keeps cfg (cfg\<lparr>fc_media_services := m\<rparr>)"
  by (simp_all add: keeps_def rules_closed_def rules_le_def rules_valid_def)

lemma group_urls_keeps:
  "group_urls name additional required vs cfg = Inr cfg' \<Longrightarrow> rules_closed cfg
   \<Longrightarrow> list_all (well_named cfg) additional \<Longrightarrow> list_all (well_named cfg) required \<Longrightarrow> keeps cfg cfg'"
proof (induction vs arbitrary: cfg)
  case Nil
  then show ?case by (simp add: keeps_refl)
next
  case (Cons v vs)
  obtain cfg1 where k: "keeps cfg cfg1" and s: "group_urls name additional required vs cfg1 = Inr cfg'"
  proof (cases "is_http_url v")
    case True
    with Cons.prems(1) obtain key ts where t: "add_target_key (fc_targets cfg) v = Inr (key, ts)"
      by (auto simp: Let_def split: sum.split_asm)
    let ?c = "cfg\<lparr>fc_targets := ts\<rparr>"
    let ?m = "AList.update key (append_unique_rules (lookup_or [] (fc_proxy_target_access_rules ?c) key) additional)
      (fc_proxy_target_access_rules ?c)"
    have kc: "keeps cfg ?c" using Cons.prems(2) by (rule keeps_fields)
    then have cc: "rules_closed ?c" by (rule keeps_closed)
    have "all_named ?c (fc_proxy_target_access_rules ?c)" using cc by (simp add: rules_closed_def)
    then have "all_named ?c ?m"
      using all_named_lookup keeps_named [OF kc Cons.prems(3)] by (intro all_named_update well_named_append_unique) auto
    then have "keeps cfg (?c\<lparr>fc_proxy_target_access_rules := ?m\<rparr>)"
      using keeps_fields(2) [OF cc] keeps_trans [OF kc] by blast
    with that kc show ?thesis using Cons.prems(1) True t by (simp add: Let_def split: if_split_asm)
  next
    case False
    with Cons.prems(1) obtain service where a: "media_service_alias v = Some service"
      by (auto split: option.split_asm)
    let ?m = "AList.update service (append_unique_rules (lookup_or [] (fc_media_services cfg) service) required) (fc_media_services cfg)"
    have "all_named cfg (fc_media_services cfg)" using Cons.prems(2) by (simp add: rules_closed_def)
    then have "all_named cfg ?m"
      using all_named_lookup Cons.prems(4) by (intro all_named_update well_named_append_unique) auto
    then have "keeps cfg (cfg\<lparr>fc_media_services := ?m\<rparr>)" using keeps_fields(3) [OF Cons.prems(2)] by blast
    with that keeps_refl [OF Cons.prems(2)] show ?thesis
      using Cons.prems(1) False a by (simp add: Let_def split: if_split_asm)
  qed
  have "keeps cfg1 cfg'"
    using Cons.IH [OF s keeps_closed [OF k]] keeps_named [OF k] Cons.prems(3,4) by blast
  with k keeps_trans show ?case by blast
qed

lemma apply_groups_keeps:
  "apply_groups gs cfg = Inr cfg' \<Longrightarrow> rules_closed cfg \<Longrightarrow> list_all (well_named cfg) (global_access_rule_names cfg)
   \<Longrightarrow> keeps cfg cfg'"
proof (induction gs arbitrary: cfg)
  case Nil
  then show ?case by (simp add: keeps_refl)
next
  case (Cons ng gs)
  obtain name g where ng: "ng = (name, g)" by (cases ng)
  from Cons.prems(1) ng obtain cfg1 additional cfg2 where
    a: "additional_rules name (pg_additional_access_list g) cfg [] = Inr (cfg1, additional)" and
    b: "group_urls name additional (append_unique_rules (global_access_rule_names cfg1) additional) (pg_urls g) cfg1 = Inr cfg2" and
    c: "apply_groups gs cfg2 = Inr cfg'"
    by (auto simp: additional_proxy_group_access_rules_def Let_def split: sum.split_asm)
  from additional_rules_keeps [OF a Cons.prems(2)] have k1: "keeps cfg cfg1" and n1: "list_all (well_named cfg1) additional" by simp_all
  have g1: "list_all (well_named cfg1) (global_access_rule_names cfg1)"
    using keeps_named [OF k1 Cons.prems(3)] keeps_global_names [OF k1] by simp
  have k2: "keeps cfg1 cfg2" using group_urls_keeps [OF b keeps_closed [OF k1] n1] well_named_append_unique [OF g1 n1] by blast
  have "keeps cfg2 cfg'"
    using Cons.IH [OF c keeps_closed [OF k2]] keeps_named [OF k2 g1] keeps_global_names [OF k2] by simp
  with k1 k2 keeps_trans show ?case by blast
qed

lemma finish_config_closed:
  assumes u: "underived cfg" and f: "finish_config cfg = Inr cfg'"
  shows "rules_closed cfg' \<and> (fc_global_access_rule cfg' \<noteq> [] \<and> fc_targets cfg' \<noteq> [] \<longrightarrow> fc_proxy_access_rules cfg' \<noteq> [])"
proof -
  from f obtain cfg1 cfg2 where 1: "apply_global_access_rule cfg = Inr cfg1" and 2: "apply_groups (fc_proxy_groups cfg1) cfg1 = Inr cfg2"
    and e: "cfg' = (if fc_targets cfg2 \<noteq> [] \<and> fc_proxy_access_rules cfg2 = []
      then cfg2\<lparr>fc_proxy_access_rules := global_access_rule_names cfg2\<rparr> else cfg2)"
    by (auto simp: finish_config_def apply_proxy_groups_def split: sum.split_asm)
  note g = apply_global_closed [OF u 1]
  have k: "keeps cfg1 cfg2" by (rule apply_groups_keeps [OF 2 g(1,2)])
  have "list_all (well_named cfg2) (global_access_rule_names cfg2)"
    using keeps_named [OF k g(2)] keeps_global_names [OF k] by simp
  then have "rules_closed (cfg2\<lparr>fc_proxy_access_rules := global_access_rule_names cfg2\<rparr>)"
    using keeps_closed [OF k] by (simp add: rules_closed_def rules_valid_def)
  moreover have "fc_global_access_rule cfg2 \<noteq> [] \<longrightarrow> global_access_rule_names cfg2 \<noteq> []"
    by (simp add: global_access_rule_names_def)
  ultimately show ?thesis using keeps_closed [OF k] by (simp add: e)
qed

lemma parse_config_closed:
  assumes "parse_config_toml L raw = Inr cfg"
  shows "rules_closed cfg \<and> (fc_global_access_rule cfg \<noteq> [] \<and> fc_targets cfg \<noteq> [] \<longrightarrow> fc_proxy_access_rules cfg \<noteq> [])"
proof -
  from assms obtain cfg0 sect ak where r: "read_lines L 1 (fst (scan_lines raw)) (empty_config, [], []) = Inr (cfg0, sect, ak)"
    and f: "finish_config cfg0 = Inr cfg"
    by (cases "scan_lines raw") (auto simp: parse_config_toml_def split: sum.split_asm if_split_asm)
  have "underived empty_config" by (simp add: underived_def empty_config_def)
  with read_lines_underived [OF r] have "underived cfg0" by simp
  from finish_config_closed [OF this f] show ?thesis .
qed

section \<open>The loaded configuration\<close>

definition rule_named :: "config \<Rightarrow> string \<Rightarrow> bool" where
  "rule_named c n \<longleftrightarrow> n \<noteq> [] \<and> trim_space n = n \<and> map_of (cf_access_rules c) n \<noteq> None"

definition config_rules_named :: "config \<Rightarrow> bool" where
  "config_rules_named c \<longleftrightarrow> list_all (rule_named c) (cf_proxy_access_rules c)
     \<and> list_all (\<lambda>(_, rs). list_all (rule_named c) rs) (cf_proxy_target_access_rules c)
     \<and> list_all (\<lambda>(_, rs). list_all (rule_named c) rs) (cf_media_services c)"

lemma map_of_rule_defaults: "map_of (apply_access_rule_defaults rs b) n = map_option (default_rule b) (map_of rs n)"
  by (induction rs) (auto simp: apply_access_rule_defaults_def)

lemma rule_named_build: "rule_named (build_config getenv fc) = well_named fc"
  by (intro ext) (simp add: rule_named_def well_named_def build_config_def Let_def map_of_rule_defaults)

lemma build_rules_named: "rules_closed fc \<Longrightarrow> config_rules_named (build_config getenv fc)"
  unfolding config_rules_named_def rule_named_build
  by (simp add: rules_closed_def all_named_def build_config_def Let_def)

lemma rules_closed_targets: "rules_closed (fc\<lparr>fc_targets := ts\<rparr>) = rules_closed fc"
  by (simp add: rules_closed_def rules_valid_def)

lemma load_config_file_Inr:
  assumes "load_config_file L fs path = Inr fc"
  shows "\<exists>raw fc0. parse_config_toml L raw = Inr fc0 \<and> fc_targets fc0 \<noteq> []
    \<and> fc = fc0\<lparr>fc_targets := map (\<lambda>(k, t). (k, trim_right (CHR ''/'') t)) (fc_targets fc0)\<rparr>"
proof -
  from assms obtain p where p: "config_path fs path = Inr p"
    by (auto simp: load_config_file_def split: sum.split_asm)
  with assms obtain raw where raw: "fs_read fs p = Inr raw" by (auto simp: load_config_file_def split: sum.split_asm)
  with assms p obtain fc0 where fc0: "parse_config_toml L raw = Inr fc0"
    by (auto simp: load_config_file_def split: sum.split_asm)
  from assms show ?thesis unfolding load_config_file_def p sum.case raw fc0
    by (intro exI [of _ raw] exI [of _ fc0]) (auto simp: fc0 split: if_split_asm)
qed

lemma load_with_args_Inr:
  assumes "load_with_args L getenv fs args = Inr c"
  shows "\<exists>fc path. load_config_file L fs path = Inr fc \<and> c = build_config getenv fc \<and> validate_config c = None"
proof -
  from assms obtain path fc where "load_config_file L fs path = Inr fc"
    and "(case validate_config (build_config getenv fc) of Some e \<Rightarrow> Inl e | None \<Rightarrow> Inr (build_config getenv fc)) = Inr c"
    unfolding load_with_args_def bind_res_Inr Let_def by blast
  then show ?thesis by (cases "validate_config (build_config getenv fc)") auto
qed

lemma load_rules_named:
  assumes "load_with_args L getenv fs args = Inr c"
  shows "config_rules_named c" "cf_proxy_targets c \<noteq> []"
proof -
  from load_with_args_Inr [OF assms] obtain fc path where l: "load_config_file L fs path = Inr fc" and c: "c = build_config getenv fc"
    by blast
  from load_config_file_Inr [OF l] obtain raw fc0 ts where p: "parse_config_toml L raw = Inr fc0" "fc_targets fc0 \<noteq> []"
    and fc: "fc = fc0\<lparr>fc_targets := map (\<lambda>(k, t). (k, trim_right (CHR ''/'') t)) (fc_targets fc0)\<rparr>" by blast
  have "rules_closed fc" using parse_config_closed [OF p(1)] unfolding fc rules_closed_targets by blast
  then show "config_rules_named c" unfolding c by (rule build_rules_named)
  show "cf_proxy_targets c \<noteq> []" using p(2) by (simp add: c fc build_config_def Let_def)
qed

end
