(* ===== verification/ConfigClaims.thy ===== *)
theory ConfigClaims
  imports ConfigRules
begin

text \<open>The properties of the configuration reader and of its validation.\<close>

section \<open>Writing strings and lists\<close>

text \<open>The canonical writing of a string, which the reader inverts.\<close>

fun toml_escape :: "string \<Rightarrow> string" where
  "toml_escape [] = []"
| "toml_escape (c # s) = (if c = CHR 0x22 \<or> c = CHR 0x5C then CHR 0x5C # c # toml_escape s else c # toml_escape s)"

definition toml_quote :: "string \<Rightarrow> string" where
  "toml_quote s = CHR 0x22 # toml_escape s @ [CHR 0x22]"

lemma toml_unescape_plain: "c \<noteq> CHR 0x5C \<Longrightarrow> toml_unescape (c # t) = c # toml_unescape t"
  by (cases t) simp_all

lemma toml_unescape_escape: "toml_unescape (toml_escape s) = s"
  by (induction s) (simp_all add: toml_unescape_plain)

lemma parse_toml_string_quote: "parse_toml_string (toml_quote s) = Inr s"
proof -
  have "toml_quote s = (CHR 0x22 # toml_escape s) @ [CHR 0x22]" by (simp add: toml_quote_def)
  then have "trim_suffix (toml_quote s) [CHR 0x22] = CHR 0x22 # toml_escape s" by (simp only: trim_suffix_append)
  moreover have "trim_prefix (CHR 0x22 # toml_escape s) [CHR 0x22] = toml_escape s" by (simp add: trim_prefix_def)
  moreover have "has_prefix (toml_quote s) [CHR 0x22]" "has_suffix (toml_quote s) [CHR 0x22]" "\<not> length (toml_quote s) < 2"
    by (simp_all add: toml_quote_def has_prefix_def has_suffix_def suffix_def)
  ultimately show ?thesis by (simp add: parse_toml_string_def toml_unescape_escape)
qed

lemma until_quote_escape:
  "until_quote False (toml_escape s @ CHR 0x22 # r) = Some (toml_escape s @ [CHR 0x22], r)"
  by (induction s) simp_all

lemma strip_comment_in_string:
  "strip_comment_from True False (toml_escape s @ CHR 0x22 # r) = toml_escape s @ CHR 0x22 # strip_comment_from False False r"
  by (induction s) simp_all

text \<open>
  C38: \<open>parseTOMLString\<close> reads back every string from its canonical writing, and
  \<open>stripComment\<close> never cuts inside such a string, whatever it contains (quotes,
  backslashes, hash signs), but exactly at the first hash sign after it.
\<close>

theorem toml_string_roundtrip:
  "parse_toml_string (toml_quote s) = Inr s
   \<and> strip_comment (toml_quote s @ r) = toml_quote s @ strip_comment r
   \<and> strip_comment (toml_quote s @ CHR ''#'' # r) = toml_quote s"
  by (intro conjI parse_toml_string_quote) (simp_all add: strip_comment_def toml_quote_def strip_comment_in_string)

lemma list_items_cong:
  assumes "trim_space a = trim_space b"
  shows "parse_toml_string_list_items a = parse_toml_string_list_items b"
  unfolding parse_toml_string_list_items.simps [of a] parse_toml_string_list_items.simps [of b] assms ..

lemma join_quotes_ends:
  assumes "vs \<noteq> []"
  shows "\<exists>m. join '', '' (map toml_quote vs) = CHR 0x22 # m @ [CHR 0x22]"
  using assms
proof (induction vs)
  case (Cons v vs)
  show ?case
  proof (cases "vs = []")
    case True
    then show ?thesis by (simp add: toml_quote_def)
  next
    case False
    with Cons.IH obtain m where "join '', '' (map toml_quote vs) = CHR 0x22 # m @ [CHR 0x22]" by blast
    with False have "join '', '' (map toml_quote (v # vs))
        = CHR 0x22 # (toml_escape v @ CHR 0x22 # CHR '','' # CHR '' '' # CHR 0x22 # m) @ [CHR 0x22]"
      by (simp add: join_Cons toml_quote_def)
    then show ?thesis by blast
  qed
qed simp

lemma trim_space_ends: "\<not> is_space a \<Longrightarrow> \<not> is_space b \<Longrightarrow> trim_space (a # m @ [b]) = a # m @ [b]"
  by (rule trim_space_id) simp

lemma quote_not_space: "\<not> is_space (CHR 0x22)" "\<not> is_space (CHR '','')" "\<not> is_space (CHR '']'')"
  by (simp_all add: is_space_def)

lemma list_items_quotes:
  "vs \<noteq> [] \<Longrightarrow> parse_toml_string_list_items (join '', '' (map toml_quote vs)) = Inr vs"
proof (induction vs)
  case Nil
  then show ?case by simp
next
  case (Cons v vs)
  let ?line = "join '', '' (map toml_quote (v # vs))"
  obtain m where m: "?line = CHR 0x22 # m @ [CHR 0x22]" using join_quotes_ends [of "v # vs"] by blast
  have t: "trim_space ?line = ?line" unfolding m by (rule trim_space_ends [OF quote_not_space(1) quote_not_space(1)])
  have v: "parse_toml_string (CHR 0x22 # toml_escape v @ [CHR 0x22]) = Inr v"
    using parse_toml_string_quote [of v] by (simp add: toml_quote_def)
  show ?case
  proof (cases "vs = []")
    case True
    then have "?line = CHR 0x22 # toml_escape v @ CHR 0x22 # []" by (simp add: toml_quote_def)
    with t True v show ?thesis
      by (subst parse_toml_string_list_items.simps) (simp add: until_quote_escape)
  next
    case False
    let ?rest = "join '', '' (map toml_quote vs)"
    have l: "?line = CHR 0x22 # toml_escape v @ CHR 0x22 # (CHR '','' # CHR '' '' # ?rest)"
      using False by (simp add: toml_quote_def join_Cons)
    obtain k where k: "?rest = CHR 0x22 # k @ [CHR 0x22]" using join_quotes_ends [OF False] by blast
    have r: "trim_space (CHR '','' # CHR '' '' # ?rest) = CHR '','' # CHR '' '' # ?rest"
      using trim_space_ends [OF quote_not_space(2) quote_not_space(1), of "CHR '' '' # CHR 0x22 # k"] k by simp
    have "trim_space (CHR '' '' # ?rest) = trim_space ?rest" by (simp add: trim_space_def is_space_def)
    then have i: "parse_toml_string_list_items (CHR '' '' # ?rest) = Inr vs"
      using list_items_cong Cons.IH [OF False] by metis
    show ?thesis
      unfolding parse_toml_string_list_items.simps [of ?line] Let_def t unfolding l
      by (simp add: until_quote_escape v r i)
  qed
qed

text \<open>
  an array of strings is read back from its canonical writing: the items in order, and
  whether the closing bracket was on the line (the reader goes on to the next line if not).
\<close>

theorem toml_array_roundtrip:
  "parse_toml_string_array_line (join '', '' (map toml_quote vs) @ '']'') = Inr (vs, True)
   \<and> parse_toml_string_array_line (join '', '' (map toml_quote vs)) = Inr (vs, False)"
proof (cases "vs = []")
  case True
  have "parse_toml_string_array_line '']'' = Inr ([], True)" "parse_toml_string_array_line [] = Inr ([], False)"
    by code_simp+
  with True show ?thesis by simp
next
  case False
  let ?j = "join '', '' (map toml_quote vs)"
  obtain m where m: "?j = CHR 0x22 # m @ [CHR 0x22]" using join_quotes_ends [OF False] by blast
  have t: "trim_space ?j = ?j" unfolding m by (rule trim_space_ends [OF quote_not_space(1) quote_not_space(1)])
  have tb: "trim_space (?j @ '']'') = ?j @ '']''"
    using trim_space_ends [OF quote_not_space(1) quote_not_space(3), of "m @ [CHR 0x22]"] m by simp
  have "\<not> has_suffix ?j '']''" unfolding m by (auto simp: has_suffix_def suffix_def)
  moreover have "has_suffix (?j @ '']'') '']''" by (simp add: has_suffix_def suffix_def)
  moreover have "?j \<noteq> []" by (simp add: m)
  ultimately show ?thesis
    by (simp add: parse_toml_string_array_line_def Let_def t tb list_items_quotes [OF False])
qed

section \<open>Derived rules\<close>

text \<open>
  C16: a file that parses never asks for an access rule that it does not define: every name in
  the rules of the proxy, of a proxy target or of a media service is a defined rule, every
  defined rule passes the validation of \<open>validateAccessRules\<close>, the names of the rules
  are distinct, and a file with an access rule and a target protects the whole proxy.
\<close>

theorem config_rules_defined:
  "case parse_config_toml L raw of
     Inl _ \<Rightarrow> True
   | Inr cfg \<Rightarrow>
       validate_access_rules (fc_access_rules cfg) (fc_proxy_access_rules cfg) (fc_media_services cfg) = None
       \<and> list_all (\<lambda>(_, rs). list_all (\<lambda>n. n \<noteq> [] \<and> map_of (fc_access_rules cfg) n \<noteq> None) rs)
           (fc_proxy_target_access_rules cfg @ fc_media_services cfg)
       \<and> distinct (map fst (fc_access_rules cfg))
       \<and> (if fc_global_access_rule cfg \<noteq> [] \<and> fc_targets cfg \<noteq> [] then fc_proxy_access_rules cfg \<noteq> [] else True)"
proof (cases "parse_config_toml L raw")
  case (Inr cfg)
  have c: "rules_closed cfg" "if fc_global_access_rule cfg \<noteq> [] \<and> fc_targets cfg \<noteq> [] then fc_proxy_access_rules cfg \<noteq> [] else True"
    using parse_config_closed [OF Inr] by auto
  have d: "well_named cfg n \<Longrightarrow> rule_defined (fc_access_rules cfg) w n = None" for n w
    by (simp add: rule_defined_def well_named_def)
  have "validate_access_rules (fc_access_rules cfg) (fc_proxy_access_rules cfg) (fc_media_services cfg) = None"
    using c(1) d unfolding validate_access_rules_def first_error_None rules_closed_def rules_valid_def all_named_def
    by (fastforce simp: list_all_iff)
  moreover have "list_all (\<lambda>(_, rs). list_all (\<lambda>n. n \<noteq> [] \<and> map_of (fc_access_rules cfg) n \<noteq> None) rs)
      (fc_proxy_target_access_rules cfg @ fc_media_services cfg)"
    using c(1) unfolding rules_closed_def all_named_def well_named_def by (fastforce simp: list_all_iff)
  ultimately show ?thesis using Inr c by (simp add: rules_closed_def rules_valid_def)
qed simp

section \<open>Target lists\<close>

lemma add_targets_Inr:
  "add_targets ts vs = Inr ts' \<longleftrightarrow>
     (\<exists>ks. map route_key_from_target vs = map Inr ks \<and> distinct ks \<and> set ks \<inter> fst ` set ts = {} \<and> ts' = ts @ zip ks vs)"
proof (induction vs arbitrary: ts)
  case Nil
  then show ?case by auto
next
  case (Cons v vs)
  show ?case
  proof (cases "route_key_from_target v")
    case (Inl e)
    then have "add_targets ts (v # vs) \<noteq> Inr ts'" by (simp add: add_target_def add_target_key_def)
    moreover have "map route_key_from_target (v # vs) \<noteq> map Inr ks" for ks using Inl by (cases ks) auto
    ultimately show ?thesis by blast
  next
    case (Inr k)
    show ?thesis
    proof (cases "map_of ts k")
      case None
      then have n: "k \<notin> fst ` set ts" by (simp add: map_of_eq_None_iff)
      then have u: "AList.update k v ts = ts @ [(k, v)]" by (induction ts) auto
      have "add_targets ts (v # vs) = add_targets (ts @ [(k, v)]) vs"
        using Inr None by (simp add: add_target_def add_target_key_def u)
      also have "\<dots> = Inr ts' \<longleftrightarrow> (\<exists>ks. map route_key_from_target vs = map Inr ks \<and> distinct ks
          \<and> set ks \<inter> fst ` set (ts @ [(k, v)]) = {} \<and> ts' = (ts @ [(k, v)]) @ zip ks vs)"
        by (rule Cons.IH)
      also have "\<dots> \<longleftrightarrow> (\<exists>ks. map route_key_from_target (v # vs) = map Inr (k # ks) \<and> distinct (k # ks)
          \<and> set (k # ks) \<inter> fst ` set ts = {} \<and> ts' = ts @ zip (k # ks) (v # vs))"
        using Inr n by (intro ex_cong1) auto
      also have "\<dots> \<longleftrightarrow> (\<exists>ks. map route_key_from_target (v # vs) = map Inr ks \<and> distinct ks
          \<and> set ks \<inter> fst ` set ts = {} \<and> ts' = ts @ zip ks (v # vs))"
        using Inr by (auto simp: Cons_eq_map_conv)
      finally show ?thesis .
    next
      case (Some w)
      then have "k \<in> fst ` set ts" by (metis map_of_eq_None_iff option.distinct(1))
      moreover have "add_targets ts (v # vs) \<noteq> Inr ts'" using Inr Some by (simp add: add_target_def add_target_key_def)
      moreover have "k \<in> set ks" if "map route_key_from_target (v # vs) = map Inr ks" for ks
        using that Inr by (cases ks) auto
      ultimately show ?thesis by blast
    qed
  qed
qed

text \<open>
  a list of targets is accepted exactly when every URL has a host and no two derive the
  same route key (\<open>www.\<close> dropped, lower case, \<open>trustroots.org\<close> as
  \<open>trustroots\<close>); the result maps each derived key to its URL, in the order of the list,
  so that every URL of the file is reachable under a key of its own.
\<close>

theorem target_list_exact:
  "add_targets [] vs = Inr ts \<longleftrightarrow>
     map route_key_from_target vs = map (\<lambda>kt. Inr (fst kt)) ts \<and> distinct (map fst ts) \<and> map snd ts = vs"
proof
  assume "add_targets [] vs = Inr ts"
  then obtain ks where k: "map route_key_from_target vs = map Inr ks" "distinct ks" "ts = zip ks vs"
    by (auto simp: add_targets_Inr)
  from k(1) have l: "length ks = length vs" by (metis length_map)
  from k(3) l have f: "map fst ts = ks" "map snd ts = vs" by simp_all
  have "map (\<lambda>kt. Inr (fst kt)) ts = map Inr (map fst ts)" by simp
  also have "\<dots> = map Inr ks" by (simp only: f)
  finally have "map route_key_from_target vs = map (\<lambda>kt. Inr (fst kt)) ts" unfolding k(1) by (rule sym)
  with k(2) f(1,2) show "map route_key_from_target vs = map (\<lambda>kt. Inr (fst kt)) ts \<and> distinct (map fst ts) \<and> map snd ts = vs"
    by blast
next
  assume a: "map route_key_from_target vs = map (\<lambda>kt. Inr (fst kt)) ts \<and> distinct (map fst ts) \<and> map snd ts = vs"
  then have k: "map route_key_from_target vs = map Inr (map fst ts)" and d: "distinct (map fst ts)" and v: "map snd ts = vs"
    by (simp_all add: comp_def)
  have "ts = zip (map fst ts) vs" unfolding v [symmetric] by (rule zip_map_fst_snd [symmetric])
  then have "ts = [] @ zip (map fst ts) vs" by simp
  moreover have "set (map fst ts) \<inter> fst ` set [] = {}" by simp
  ultimately show "add_targets [] vs = Inr ts" unfolding add_targets_Inr using k d by blast
qed

text \<open>
  \<open>conf.toml.example\<close> names its media services \<open>wireguard_jellyfin\<close> and
  \<open>wireguard_plex\<close>, which the reader refuses: a URL of a proxy group that is not an HTTP
  URL is accepted exactly when it is \<open>fips_jellyfin\<close> or \<open>fips_plex\<close>.
\<close>

theorem media_alias_exact:
  "list_all (\<lambda>v. \<not> is_http_url v \<and> is_ok (group_urls name additional required [v] cfg)
        = (v \<in> {''fips_jellyfin'', ''fips_plex''}))
     [''wireguard_jellyfin'', ''wireguard_plex'', ''jellyfin'', ''plex'', ''fips_jellyfin'', ''fips_plex'']"
proof -
  have u: "list_all (\<lambda>v. \<not> is_http_url v)
     [''wireguard_jellyfin'', ''wireguard_plex'', ''jellyfin'', ''plex'', ''fips_jellyfin'', ''fips_plex'']"
    by code_simp
  have g: "\<not> is_http_url v \<Longrightarrow> is_ok (group_urls name additional required [v] cfg) \<longleftrightarrow> v \<in> {''fips_jellyfin'', ''fips_plex''}" for v
    by (simp add: media_service_alias_def Let_def)
  from u show ?thesis unfolding list_all_iff using g by blast
qed

section \<open>The environment\<close>

lemma parse_duration_digits:
  assumes "0 < n" "n \<le> int64_max" shows "parse_duration (int_str n) = None"
proof -
  let ?s = "digits_str n"
  have s: "int_str n = ?s" using assms(1) by (simp add: int_str_def)
  have d: "all_digits ?s" "digits_val ?s = n" using digits_str_digits [of n] assms by simp_all
  then have tw: "takeWhile is_digit ?s = ?s" "dropWhile is_digit ?s = []" "?s \<noteq> []"
    by (auto simp: all_digits_def list_all_iff)
  have "digits_val ''0'' = 0" by code_simp
  then have nz: "?s \<noteq> ''0''" using d(2) assms(1) by auto
  have "leading_int ?s = Some (n, [])"
    using assms by (simp add: leading_int_def d(2) tw two63_def int64_max_def)
  moreover have "is_digit (hd ?s)" using d(1) tw(3) by (cases ?s) (simp_all add: all_digits_def)
  ultimately have "duration_number ?s = Some (n, 0, 1, [])" using tw(3) by (simp add: duration_number_def)
  then have p: "duration_part ?s = None" by (simp add: duration_part_def duration_unit_Nil)
  obtain c cs where c: "?s = c # cs" using tw(3) by (cases ?s) auto
  have "duration_parts (length ?s) ?s 0 = None" using p c by simp
  moreover have "c \<noteq> CHR ''-''" "c \<noteq> CHR ''+''" using digits_not_sign [OF d(1)] by (simp_all add: c)
  ultimately show ?thesis using nz by (simp add: s parse_duration_def c)
qed

text \<open>
  a duration given in the environment as a plain number of seconds is that number of
  seconds exactly up to 9223372036 of them; beyond, \<open>time.Duration(seconds) * time.Second\<close>
  wraps around, so that a very long time becomes another one (9223372037 seconds become a
  negative duration, which the validation then reports as not positive).
\<close>

theorem env_duration_seconds:
  assumes "0 < n" "n \<le> int64_max" "getenv key = int_str n"
  shows "env_duration getenv key fallback = wrap64 (n * second)
    \<and> (env_duration getenv key fallback = n * second \<longleftrightarrow> n \<le> 9223372036)"
proof -
  have ne: "getenv key \<noteq> []" using assms digits_str_digits [of n] by (auto simp: int_str_def all_digits_def)
  have p: "parse_int64 (int_str n) = Some n"
    using assms by (intro parse_int64_int_str) (simp_all add: int64_min_def)
  have e: "env_duration getenv key fallback = wrap64 (n * second)"
    using ne assms(3) parse_duration_digits [OF assms(1,2)] p by (simp add: env_duration_def Let_def)
  have "wrap64 (n * second) = n * second \<longleftrightarrow> n \<le> 9223372036"
  proof
    assume "wrap64 (n * second) = n * second"
    with wrap64_bounds(2) [of "n * second"] show "n \<le> 9223372036" by (simp add: second_def int64_max_def)
  next
    assume "n \<le> 9223372036"
    with assms(1) show "wrap64 (n * second) = n * second"
      by (intro wrap64_id) (simp_all add: second_def int64_max_def int64_min_def)
  qed
  with e show ?thesis by simp
qed

theorem env_duration_seconds_witness:
  "env_duration (\<lambda>_. ''9223372037'') ''AUTH_CACHE_TTL'' second = wrap64 9223372037000000000
   \<and> wrap64 9223372037000000000 < 0"
proof -
  have "''9223372037'' = int_str 9223372037" "(0::int) < 9223372037" "9223372037 \<le> int64_max" by code_simp+
  with env_duration_seconds [of 9223372037 "\<lambda>_. ''9223372037''" "''AUTH_CACHE_TTL''" second]
  have "env_duration (\<lambda>_. ''9223372037'') ''AUTH_CACHE_TTL'' second = wrap64 (9223372037 * second)" by blast
  moreover have "9223372037 * second = 9223372037000000000" by (simp add: second_def)
  moreover have "wrap64 9223372037000000000 < 0" by code_simp
  ultimately show ?thesis by simp
qed

section \<open>The whole configuration\<close>

lemma validate_wiki_route:
  assumes "validate_wiki targets (s, w) = None" shows "map_of targets (wk_proxy_route w) \<noteq> None"
  using assms unfolding validate_wiki_def prod.case Let_def first_error_None list_all_append list.pred_inject require_None
  by blast

text \<open>
  C17: a configuration that loads is fit to run. Its upstream is a WebSocket URL, every duration
  and the body limit are positive, there is a proxy target, every route key is one path segment
  and leads to an HTTP URL, every wiki points at a route that exists, and every access rule
  that the proxy, a target or a media service asks for is defined.
\<close>

theorem loaded_config_valid:
  "case load_with_args L getenv fs args of
     Inl _ \<Rightarrow> True
   | Inr c \<Rightarrow>
       is_ws_url (cf_upstream_relay_url c) \<and> cf_proxy_targets c \<noteq> []
       \<and> list_all (\<lambda>d. 0 < d) [cf_auth_cache_ttl c, cf_auth_event_max_age c, cf_upstream_timeout c, cf_admin_auth_max_age c,
           cf_media_auth_max_age c, cf_media_http_timeout c, cf_proxy_upstream_timeout c, cf_proxy_max_body_bytes c]
       \<and> list_all (\<lambda>(k, t). k \<noteq> [] \<and> CHR ''/'' \<notin> set k \<and> is_http_url t) (cf_proxy_targets c)
       \<and> list_all (\<lambda>(_, w). map_of (cf_proxy_targets c) (wk_proxy_route w) \<noteq> None) (cf_wiki c)
       \<and> config_rules_named c \<and> list_all (\<lambda>nr. validate_rule nr = None) (cf_access_rules c)"
proof (cases "load_with_args L getenv fs args")
  case (Inr c)
  have v: "validate_config c = None" using load_with_args_Inr [OF Inr] by blast
  note v' = v [unfolded validate_config_def first_error_None, simplified]
  have t: "list_all (\<lambda>(k, t). k \<noteq> [] \<and> CHR ''/'' \<notin> set k \<and> is_http_url t) (cf_proxy_targets c)"
    using v' by (auto simp: list_all_iff validate_route_key_def validate_target_def split: if_split_asm)
  have a: "validate_access_rules (cf_access_rules c) (cf_proxy_access_rules c) (cf_media_services c) = None"
    and w: "validate_wiki_config (cf_wiki c) (cf_proxy_targets c) = None" using v' by blast+
  have r: "list_all (\<lambda>nr. validate_rule nr = None) (cf_access_rules c)"
    using a unfolding validate_access_rules_def first_error_None by (simp add: list_all_iff)
  have "list_all (\<lambda>(_, w). map_of (cf_proxy_targets c) (wk_proxy_route w) \<noteq> None) (cf_wiki c)"
    using w validate_wiki_route unfolding validate_wiki_config_def first_error_None list_all_iff by fastforce
  with v' t r load_rules_named [OF Inr] show ?thesis by (simp add: Inr)
qed simp

end
