(* ===== verification/SecretFile.thy ===== *)
theory SecretFile
  imports GoHttp
begin

text \<open>
  How the program replaces a file that holds secrets (\<open>fips.SaveNsec\<close> and
  \<open>media.SaveConnectorMediaConfig\<close> share the steps): create the directory, create a
  temporary file in it, write, set the mode, close, rename over the target; the deferred
  removal of the temporary file is tried whatever happened, and its error is ignored. A file system maps a path to the
  content and the permission bits of the file. Each step may fail; what a step does when it
  fails is a parameter. The result is the error, and the file system after every step.
\<close>

section \<open>Files\<close>

type_synonym file_sys = "string \<Rightarrow> (string \<times> nat) option"

record file_ops =
  fo_read :: "string \<Rightarrow> string option"
  fo_mkdir :: "string \<Rightarrow> string option"
  fo_create :: "string \<Rightarrow> string \<Rightarrow> string + string"
  fo_write :: "string \<Rightarrow> (string \<times> nat) option"
  fo_chmod :: "string \<Rightarrow> string option"
  fo_close :: "string \<Rightarrow> string option"
  fo_rename :: "string \<Rightarrow> string option"
  fo_remove :: "string \<Rightarrow> string option"

datatype read_result = ReadNotExist string | ReadFailed string | ReadOk string

definition read_file :: "file_ops \<Rightarrow> file_sys \<Rightarrow> string \<Rightarrow> read_result" where
  "read_file ops fs p =
     (case fo_read ops p of Some e \<Rightarrow> ReadFailed e
      | None \<Rightarrow> (case fs p of
          None \<Rightarrow> ReadNotExist (''open '' @ p @ '': no such file or directory'')
        | Some (content, _) \<Rightarrow> ReadOk content))"

text \<open>\<open>filepath.Dir\<close>.\<close>

definition dir_name :: "string \<Rightarrow> string" where
  "dir_name p = path_clean (case last_cut (CHR ''/'') p of None \<Rightarrow> [] | Some (a, _) \<Rightarrow> a @ ''/'')"

text \<open>
  \<open>CreateTemp\<close> makes an empty file with mode 0600 (384). A failing write leaves a part of
  the text behind. After a rename there is nothing left to remove.
\<close>

definition private_mode :: nat where
  "private_mode = 384"

definition remove_temp :: "file_ops \<Rightarrow> string \<Rightarrow> file_sys \<Rightarrow> file_sys" where
  "remove_temp ops tmp f = (case fo_remove ops tmp of None \<Rightarrow> f(tmp := None) | Some _ \<Rightarrow> f)"

definition write_private_file :: "file_ops \<Rightarrow> string \<Rightarrow> string \<Rightarrow> string \<Rightarrow> file_sys \<Rightarrow> string option \<times> file_sys list" where
  "write_private_file ops pat path body fs =
     (case fo_mkdir ops (dir_name path) of
        Some e \<Rightarrow> (Some e, [fs])
      | None \<Rightarrow>
         (case fo_create ops (dir_name path) pat of
            Inl e \<Rightarrow> (Some e, [fs])
          | Inr tmp \<Rightarrow>
             (let made = fs(tmp \<mapsto> ([], private_mode));
                  part = (\<lambda>n. fs(tmp \<mapsto> (take n body, private_mode)));
                  written = fs(tmp \<mapsto> (body, private_mode))
              in (case fo_write ops tmp of
                    Some (e, n) \<Rightarrow> (Some e, [fs, made, part n, remove_temp ops tmp (part n)])
                  | None \<Rightarrow>
                     (case fo_chmod ops tmp of
                        Some e \<Rightarrow> (Some e, [fs, made, written, remove_temp ops tmp written])
                      | None \<Rightarrow>
                         (case fo_close ops tmp of
                            Some e \<Rightarrow> (Some e, [fs, made, written, remove_temp ops tmp written])
                          | None \<Rightarrow>
                             (case fo_rename ops tmp of
                                Some e \<Rightarrow> (Some e, [fs, made, written, remove_temp ops tmp written])
                              | None \<Rightarrow>
                                 (None, [fs, made, written, fs(tmp := None, path \<mapsto> (body, private_mode))]))))))))"

section \<open>Facts\<close>

text \<open>Documented behaviour of \<open>CreateTemp\<close>: the file is new, and it is not the target.\<close>

definition temp_fresh :: "file_ops \<Rightarrow> file_sys \<Rightarrow> string \<Rightarrow> bool" where
  "temp_fresh ops fs path \<longleftrightarrow>
     (\<forall>dir pat tmp. fo_create ops dir pat = Inr tmp \<longrightarrow> fs tmp = None \<and> tmp \<noteq> path)"

lemma write_private_file_ne [simp]: "snd (write_private_file ops pat path body fs) \<noteq> []"
  by (simp add: write_private_file_def Let_def split: option.splits sum.splits)

text \<open>What a failure may leave: the files as they were, or a temporary file that could not be removed.\<close>

definition left_over :: "file_ops \<Rightarrow> file_sys \<Rightarrow> file_sys \<Rightarrow> bool" where
  "left_over ops fs f \<longleftrightarrow> f = fs \<or>
     (\<exists>dir pat tmp c. fo_create ops dir pat = Inr tmp \<and> fo_remove ops tmp \<noteq> None \<and> f = fs(tmp \<mapsto> (c, private_mode)))"

lemma left_over_refl [simp]: "left_over ops fs fs"
  by (simp add: left_over_def)

lemma left_over_at: "temp_fresh ops fs p \<Longrightarrow> left_over ops fs f \<Longrightarrow> f p = fs p"
  unfolding left_over_def temp_fresh_def by (metis fun_upd_other)

lemma left_over_removed: "left_over ops fs f \<Longrightarrow> \<forall>tmp. fo_remove ops tmp = None \<Longrightarrow> f = fs"
  by (auto simp: left_over_def)

lemma write_private_file_result:
  assumes "temp_fresh ops fs path"
  shows "fst (write_private_file ops pat path body fs) = None \<Longrightarrow>
      last (snd (write_private_file ops pat path body fs)) = fs(path \<mapsto> (body, private_mode))"
    and "fst (write_private_file ops pat path body fs) \<noteq> None \<Longrightarrow>
      left_over ops fs (last (snd (write_private_file ops pat path body fs)))"
proof -
  have t: "fs(tmp := None) = fs" "fs(tmp := None, path \<mapsto> x) = fs(path \<mapsto> x)"
    if "fo_create ops (dir_name path) pat = Inr tmp" for tmp x
    using assms that by (auto simp: temp_fresh_def fun_eq_iff)
  have r: "left_over ops fs (remove_temp ops tmp (fs(tmp \<mapsto> (c, private_mode))))"
    if "fo_create ops (dir_name path) pat = Inr tmp" for tmp c
    using t(1) [OF that] that by (auto simp: left_over_def remove_temp_def split: option.split)
  show "fst (write_private_file ops pat path body fs) = None \<Longrightarrow>
      last (snd (write_private_file ops pat path body fs)) = fs(path \<mapsto> (body, private_mode))"
    using t by (auto simp: write_private_file_def Let_def split: option.splits sum.splits)
  show "fst (write_private_file ops pat path body fs) \<noteq> None \<Longrightarrow>
      left_over ops fs (last (snd (write_private_file ops pat path body fs)))"
    using r by (auto simp: write_private_file_def Let_def split: option.splits sum.splits)
qed

lemma write_private_file_between:
  assumes "temp_fresh ops fs path" "f \<in> set (snd (write_private_file ops pat path body fs))"
  shows "f path = fs path \<or> f path = Some (body, private_mode)"
  using assms
  by (fastforce simp: write_private_file_def remove_temp_def Let_def temp_fresh_def split: option.splits sum.splits)

text \<open>Nothing of the file is ever readable by others: every file it touches has mode 0600.\<close>

lemma write_private_file_mode:
  assumes "f \<in> set (snd (write_private_file ops pat path body fs))" "f q \<noteq> fs q" "f q = Some (c, m)"
  shows "m = private_mode"
  using assms
  by (auto simp: write_private_file_def remove_temp_def Let_def split: option.splits sum.splits if_splits)

end
