(* ===== verification/ConnectorStore.thy ===== *)
theory ConnectorStore
  imports Connector SecretFile Nip98
begin

text \<open>
  The stored configuration of the connector, \<open>internal/media/setup.go\<close>: validation, the
  JSON file, loading and saving. The facts are the round trip through the file and what
  normalization does, which is not idempotent.
\<close>

section \<open>Validation\<close>

definition validate_setup_http_url :: "string \<Rightarrow> string \<Rightarrow> string option" where
  "validate_setup_http_url name val =
     (if trim_space val = [] then None
      else (case url_parse val of
         None \<Rightarrow> Some (name @ '' must be http:// or https://'')
       | Some u \<Rightarrow> if u_host u = [] \<or> (u_scheme u \<noteq> ''http'' \<and> u_scheme u \<noteq> ''https'')
           then Some (name @ '' must be http:// or https://'') else None))"

definition validate_fips_peer_npub :: "nostr_lib \<Rightarrow> string \<Rightarrow> string option" where
  "validate_fips_peer_npub L value0 =
     (let val = trim_space value0; normalized = normalize_pubkey val
      in if val = [] then None
         else if normalized = [] \<or> \<not> nl_valid_pubkey L normalized
         then Some ''fips_peer_npub must be a valid npub or hex pubkey'' else None)"

definition validate_fips_peer_addr :: "string \<Rightarrow> string option" where
  "validate_fips_peer_addr value0 =
     (let val = trim_space value0
      in if val = [] then None
         else (case split_host_port val of Inl _ \<Rightarrow> Some ''fips_peer_addr must be host:port'' | Inr _ \<Rightarrow> None))"

definition validate_media_config :: "nostr_lib \<Rightarrow> media_config \<Rightarrow> string option" where
  "validate_media_config L cfg =
     (case validate_setup_http_url ''jellyfin_base_url'' (mc_jellyfin_base_url cfg) of
        Some e \<Rightarrow> Some e
      | None \<Rightarrow> (case validate_setup_http_url ''plex_base_url'' (mc_plex_base_url cfg) of
          Some e \<Rightarrow> Some e
        | None \<Rightarrow> (case validate_fips_peer_npub L (mc_fips_peer_npub cfg) of
            Some e \<Rightarrow> Some e
          | None \<Rightarrow> validate_fips_peer_addr (mc_fips_peer_addr cfg))))"

section \<open>The file\<close>

definition media_config_names :: "string list" where
  "media_config_names = [''jellyfin_base_url'', ''jellyfin_api_key'', ''plex_base_url'', ''plex_token'',
     ''fips_peer_npub'', ''fips_peer_addr'']"

definition media_config_fields :: "media_config \<Rightarrow> (string \<times> string) list" where
  "media_config_fields cfg =
     [(''jellyfin_base_url'', mc_jellyfin_base_url cfg), (''jellyfin_api_key'', mc_jellyfin_api_key cfg),
      (''plex_base_url'', mc_plex_base_url cfg), (''plex_token'', mc_plex_token cfg),
      (''fips_peer_npub'', mc_fips_peer_npub cfg), (''fips_peer_addr'', mc_fips_peer_addr cfg)]"

text \<open>Decoding a JSON value into a \<open>ConnectorMediaConfig\<close>; \<open>None\<close> is a type error.\<close>

definition decode_media_config :: "json \<Rightarrow> media_config option" where
  "decode_media_config j = map_option (\<lambda>m.
     \<lparr>mc_jellyfin_base_url = m ''jellyfin_base_url'', mc_jellyfin_api_key = m ''jellyfin_api_key'',
      mc_plex_base_url = m ''plex_base_url'', mc_plex_token = m ''plex_token'',
      mc_fips_peer_npub = m ''fips_peer_npub'', mc_fips_peer_addr = m ''fips_peer_addr''\<rparr>)
     (unmarshal_struct media_config_names j)"

text \<open>\<open>Inr None\<close>: there is no file.\<close>

definition load_media_config :: "nostr_lib \<Rightarrow> media_lib \<Rightarrow> file_ops \<Rightarrow> string \<Rightarrow> file_sys \<Rightarrow> string + media_config option" where
  "load_media_config L M ops path0 fs =
     (let path = trim_space path0
      in if path = [] then Inr None
         else (case read_file ops fs path of
            ReadNotExist _ \<Rightarrow> Inr None
          | ReadFailed e \<Rightarrow> Inl e
          | ReadOk body \<Rightarrow>
             (case Option.bind (json_parse body) decode_media_config of
                None \<Rightarrow> Inl (ml_json_error M body)
              | Some cfg \<Rightarrow>
                 (case validate_media_config L cfg of
                    Some e \<Rightarrow> Inl e
                  | None \<Rightarrow> Inr (Some (normalized_media_config cfg))))))"

text \<open>The error, and the file system after every step.\<close>

definition save_media_config :: "nostr_lib \<Rightarrow> file_ops \<Rightarrow> string \<Rightarrow> media_config \<Rightarrow> file_sys \<Rightarrow> string option \<times> file_sys list" where
  "save_media_config L ops path0 cfg0 fs =
     (let path = trim_space path0; cfg = normalized_media_config cfg0
      in if path = [] then (Some ''connector config path is empty'', [fs])
         else (case validate_media_config L cfg of
            Some e \<Rightarrow> (Some e, [fs])
          | None \<Rightarrow> write_private_file ops ''.connector-config-*.json'' path
              (json_indent_strings (media_config_fields cfg) @ [CHR 0x0A]) fs))"

section \<open>The written object is read back\<close>

lemma json_ws_simps [simp]:
  "skip_ws (CHR 0x0A # s) = skip_ws s" "skip_ws (CHR '' '' # s) = skip_ws s"
  "skip_ws (CHR 0x22 # s) = CHR 0x22 # s" "skip_ws (CHR '':'' # s) = CHR '':'' # s"
  "skip_ws (CHR '','' # s) = CHR '','' # s" "skip_ws (CHR ''}'' # s) = CHR ''}'' # s"
  "skip_ws (CHR ''{'' # s) = CHR ''{'' # s" "skip_ws [] = []"
  by (simp_all add: skip_ws_def json_ws_def)

lemma parse_quoted_value: "parse_value (Suc n) (CHR '' '' # json_quote v @ r) = Some (JStr v, r)"
  by (simp add: parse_value.simps json_quote_def parse_str_quoted)

lemma parse_member_line:
  "parse_members (Suc (Suc n)) (json_line (k, v) @ r) = (case skip_ws r of [] \<Rightarrow> None
     | d # w \<Rightarrow> if d = CHR '','' then map_option (\<lambda>(ms, r''). ((k, JStr v) # ms, r'')) (parse_members (Suc n) w)
                else if d = CHR ''}'' then Some ([(k, JStr v)], w) else None)"
proof -
  have p: "parse_str (concat (map json_escape_char k) @ CHR 0x22 # s) = Some (k, s)" for s
    by (rule parse_str_quoted)
  show ?thesis
    by (subst parse_members.simps(2))
      (simp add: json_line_def json_quote_def [of k] p parse_quoted_value)
qed

lemma parse_members_lines:
  "kvs \<noteq> [] \<Longrightarrow> length kvs < n \<Longrightarrow>
     parse_members n (join '','' (map json_line kvs) @ CHR 0x0A # CHR ''}'' # t) = Some (map (\<lambda>(k, v). (k, JStr v)) kvs, t)"
proof (induction kvs arbitrary: n)
  case (Cons kv kvs)
  obtain k v where kv: "kv = (k, v)" by (cases kv)
  from Cons.prems obtain m where n: "n = Suc (Suc m)" by (cases n; cases "n - 1") auto
  show ?case
  proof (cases "kvs = []")
    case True
    then show ?thesis by (simp add: kv n parse_member_line)
  next
    case False
    with Cons n show ?thesis by (simp add: kv join_Cons parse_member_line)
  qed
qed simp

lemma length_join_lines: "length kvs \<le> length (join '','' (map json_line kvs))"
proof (induction kvs)
  case (Cons kv kvs)
  then show ?case by (cases "kvs = []") (simp_all add: join_Cons json_line_def)
qed simp

lemma json_parse_indented:
  assumes "kvs \<noteq> []"
  shows "json_parse (json_indent_strings kvs @ [CHR 0x0A]) = Some (JObj (map (\<lambda>(k, v). (k, JStr v)) kvs))"
proof -
  let ?b = "join '','' (map json_line kvs) @ CHR 0x0A # CHR ''}'' # [CHR 0x0A]"
  have s: "json_indent_strings kvs @ [CHR 0x0A] = CHR ''{'' # ?b" by (simp add: json_indent_strings_def)
  obtain m where f: "json_fuel (CHR ''{'' # ?b) = Suc m" "length kvs < m"
    using length_join_lines [of kvs] by (simp add: json_fuel_def)
  have ne: "\<not> prefix ''}'' (skip_ws ?b)"
    using assms by (cases kvs) (auto simp: json_line_def json_quote_def join_Cons split: list.split, case_tac list, auto)
  show ?thesis
    unfolding s json_parse_def f(1) parse_value.simps(2)
    using ne parse_members_lines [OF assms f(2), of "[CHR 0x0A]"] by simp
qed

lemma decode_media_config_fields:
  "decode_media_config (JObj (map (\<lambda>(k, v). (k, JStr v)) (media_config_fields cfg))) = Some cfg"
  by (simp add: decode_media_config_def unmarshal_struct_def media_config_fields_def media_config_names_def struct_field_def)

text \<open>
  C23: The configuration that is saved is the configuration that is loaded: from what saving
  leaves on disk, loading reads the normalized configuration, with its tokens; until then
  the file is, at every moment, the old one or the complete new one with mode 0600; and a
  failed save leaves the files as they were, but for a private temporary file when that cannot
  be removed. Normalizing twice must not change the
  configuration further (it does for a base URL that ends in a slash after white space).
\<close>

theorem media_config_save_load:
  assumes fresh: "temp_fresh ops fs (trim_space path)" and readable: "fo_read ops (trim_space path) = None"
    and fixed: "normalized_media_config (normalized_media_config cfg) = normalized_media_config cfg"
  shows "list_all (\<lambda>f. f (trim_space path) = fs (trim_space path)
        \<or> f (trim_space path) = Some (json_indent_strings (media_config_fields (normalized_media_config cfg)) @ [CHR 0x0A], private_mode))
      (snd (save_media_config L ops path cfg fs))
    \<and> (case fst (save_media_config L ops path cfg fs) of
         Some _ \<Rightarrow> left_over ops fs (last (snd (save_media_config L ops path cfg fs)))
       | None \<Rightarrow> load_media_config L M ops path (last (snd (save_media_config L ops path cfg fs)))
           = Inr (Some (normalized_media_config cfg)))"
proof -
  let ?p = "trim_space path" and ?c = "normalized_media_config cfg"
  let ?b = "json_indent_strings (media_config_fields ?c) @ [CHR 0x0A]"
  let ?w = "write_private_file ops ''.connector-config-*.json'' ?p ?b fs"
  consider "?p = []" | e where "?p \<noteq> []" "validate_media_config L ?c = Some e"
    | "?p \<noteq> []" "validate_media_config L ?c = None" by (cases "validate_media_config L ?c") auto
  then show ?thesis
  proof cases
    case 3
    then have s: "save_media_config L ops path cfg fs = ?w" by (simp add: save_media_config_def Let_def)
    have j: "json_parse ?b = Some (JObj (map (\<lambda>(k, v). (k, JStr v)) (media_config_fields ?c)))"
      by (rule json_parse_indented) (simp add: media_config_fields_def)
    have l: "load_media_config L M ops path (fs(?p \<mapsto> (?b, private_mode))) = Inr (Some ?c)"
      using 3 readable fixed by (simp add: load_media_config_def Let_def read_file_def j decode_media_config_fields)
    have "list_all (\<lambda>f. f ?p = fs ?p \<or> f ?p = Some (?b, private_mode)) (snd ?w)"
      using write_private_file_between [OF fresh] by (auto simp: list_all_iff)
    with write_private_file_result [OF fresh, of "''.connector-config-*.json''" ?b] l show ?thesis
      unfolding s by (cases "fst ?w") simp_all
  qed (simp_all add: save_media_config_def)
qed

definition demo_media_config :: media_config where
  "demo_media_config = \<lparr>mc_jellyfin_base_url = ''http://nas:8096/'', mc_jellyfin_api_key = '' k1'', mc_plex_base_url = [],
     mc_plex_token = [], mc_fips_peer_npub = [], mc_fips_peer_addr = ''nas:2121''\<rparr>"

definition demo_store_ops :: file_ops where
  "demo_store_ops = \<lparr>fo_read = (\<lambda>_. None), fo_mkdir = (\<lambda>_. None), fo_create = (\<lambda>_ _. Inr ''/data/t''),
     fo_write = (\<lambda>_. None), fo_chmod = (\<lambda>_. None), fo_close = (\<lambda>_. None), fo_rename = (\<lambda>_. None), fo_remove = (\<lambda>_. None)\<rparr>"

definition demo_nostr :: nostr_lib where
  "demo_nostr = \<lparr>nl_decode_event = (\<lambda>_. None), nl_check_signature = (\<lambda>_. Inr False), nl_get_id = (\<lambda>_. []),
     nl_valid_pubkey = (\<lambda>k. length k = 64)\<rparr>"

definition demo_store_lib :: media_lib where
  "demo_store_lib = \<lparr>ml_json_error = (\<lambda>_. ''EOF''), ml_xml_parse = (\<lambda>_. Inl ''EOF''), ml_step_ms = (\<lambda>_. 0), ml_nanos = 0\<rparr>"

lemma media_config_save_load_witness:
  "load_media_config demo_nostr demo_store_lib demo_store_ops ''/data/c''
     (last (snd (save_media_config demo_nostr demo_store_ops ''/data/c'' demo_media_config (\<lambda>_. None))))
   = Inr (Some \<lparr>mc_jellyfin_base_url = ''http://nas:8096'', mc_jellyfin_api_key = ''k1'', mc_plex_base_url = [],
     mc_plex_token = [], mc_fips_peer_npub = [], mc_fips_peer_addr = ''nas:2121''\<rparr>)"
proof -
  have t: "trim_space ''/data/c'' = ''/data/c''" by code_simp
  have n: "normalized_media_config demo_media_config = \<lparr>mc_jellyfin_base_url = ''http://nas:8096'', mc_jellyfin_api_key = ''k1'',
      mc_plex_base_url = [], mc_plex_token = [], mc_fips_peer_npub = [], mc_fips_peer_addr = ''nas:2121''\<rparr>" by code_simp
  have f: "normalized_media_config (normalized_media_config demo_media_config) = normalized_media_config demo_media_config"
    unfolding n by code_simp
  have v: "validate_media_config demo_nostr (normalized_media_config demo_media_config) = None"
    unfolding n by code_simp
  have w: "fst (save_media_config demo_nostr demo_store_ops ''/data/c'' demo_media_config (\<lambda>_. None)) = None"
    by (simp add: save_media_config_def t v write_private_file_def demo_store_ops_def Let_def)
  have fr: "temp_fresh demo_store_ops (\<lambda>_. None) (trim_space ''/data/c'')"
    unfolding t by (simp add: temp_fresh_def demo_store_ops_def)
  have rd: "fo_read demo_store_ops (trim_space ''/data/c'') = None" by (simp add: demo_store_ops_def)
  from media_config_save_load [OF fr rd f, of demo_nostr demo_store_lib] w n show ?thesis by simp
qed

end
