(* ===== verification/Fips.thy ===== *)
theory Fips
  imports Nip98 GoNet SecretFile "HOL-Library.AList"
begin

text \<open>
  The FIPS transport, \<open>internal/fips\<close>: the identity kept in a file
  (\<open>identity.go\<close>), the check of the peer (\<open>connectivity.go\<close>) and the peer list
  (\<open>peers.go\<close>). A \<open>map[string]any\<close> is an association list with distinct keys. NIP-19
  decoding, key derivation, name resolution, dialling and the measured times are parameters;
  a check returns, besides its report, the network calls it made.
\<close>

section \<open>Identity\<close>

record fips_lib =
  fl_nip19_decode :: "string \<Rightarrow> string + (string \<times> string option)"
  fl_get_public_key :: "string \<Rightarrow> string + string"
  fl_encode_public_key :: "string \<Rightarrow> string + string"

text \<open>The identity is its \<open>npub\<close>; an error is its text.\<close>

definition nsec_identity :: "fips_lib \<Rightarrow> string \<Rightarrow> string + string" where
  "nsec_identity F nsec =
     (case fl_nip19_decode F (trim_space nsec) of
        Inl err \<Rightarrow> Inl (''invalid nsec: '' @ err)
      | Inr (pre, val) \<Rightarrow>
         if pre \<noteq> ''nsec'' then Inl ''value must be an nsec''
         else (case val of
            None \<Rightarrow> Inl ''invalid nsec private key''
          | Some private_key \<Rightarrow>
             if length private_key \<noteq> 64 then Inl ''invalid nsec private key''
             else (case fl_get_public_key F private_key of
                Inl err \<Rightarrow> Inl (''invalid nsec private key: '' @ err)
              | Inr pubkey \<Rightarrow>
                 (case fl_encode_public_key F pubkey of
                    Inl err \<Rightarrow> Inl (''encode npub: '' @ err)
                  | Inr npub \<Rightarrow> Inr npub))))"

text \<open>The file system after every step, the last being the one that is left.\<close>

definition save_nsec :: "fips_lib \<Rightarrow> file_ops \<Rightarrow> string \<Rightarrow> string \<Rightarrow> file_sys \<Rightarrow> (string + string) \<times> file_sys list" where
  "save_nsec F ops path0 nsec fs =
     (let path = trim_space path0
      in if path = [] then (Inl ''FIPS nsec path is not configured'', [fs])
         else (case nsec_identity F nsec of
            Inl err \<Rightarrow> (Inl err, [fs])
          | Inr npub \<Rightarrow>
             (case write_private_file ops ''.fips-nsec-*'' path (trim_space nsec @ [CHR 0x0A]) fs of
                (Some err, trace) \<Rightarrow> (Inl err, trace)
              | (None, trace) \<Rightarrow> (Inr npub, trace))))"

section \<open>Peer list\<close>

type_synonym status_map = "(string \<times> json) list"

definition st_bool :: "status_map \<Rightarrow> string \<Rightarrow> bool" where
  "st_bool st k = (case map_of st k of Some (JBool b) \<Rightarrow> b | _ \<Rightarrow> False)"

definition st_str :: "status_map \<Rightarrow> string \<Rightarrow> string" where
  "st_str st k = (case map_of st k of Some (JStr s) \<Rightarrow> s | _ \<Rightarrow> [])"

record fips_peer_status =
  fp_npub :: string
  fp_addr :: string
  fp_configured :: bool
  fp_addr_configured :: bool
  fp_check :: "status_map option"

text \<open>\<open>None\<close> is the nil slice.\<close>

definition peer_list :: "string \<Rightarrow> string \<Rightarrow> status_map option \<Rightarrow> fips_peer_status list option" where
  "peer_list npub addr check =
     (let peer_npub = trim_space npub; peer_addr = trim_space addr
      in if peer_npub = [] \<and> peer_addr = [] then None
         else Some [\<lparr>fp_npub = peer_npub, fp_addr = peer_addr, fp_configured = (peer_npub \<noteq> []),
           fp_addr_configured = (peer_addr \<noteq> []), fp_check = check\<rparr>])"

definition peer_status_json :: "fips_peer_status \<Rightarrow> json" where
  "peer_status_json p = JObj ([(''npub'', JStr (fp_npub p)), (''addr'', JStr (fp_addr p)),
     (''configured'', JBool (fp_configured p)), (''addr_configured'', JBool (fp_addr_configured p))]
     @ (case fp_check p of Some c \<Rightarrow> if c = [] then [] else [(''check'', JObj c)] | None \<Rightarrow> []))"

definition peer_list_json :: "fips_peer_status list option \<Rightarrow> json" where
  "peer_list_json ps = (case ps of None \<Rightarrow> JNull | Some xs \<Rightarrow> JArr (map peer_status_json xs))"

section \<open>Peer check\<close>

text \<open>The network as the check uses it; \<open>None\<close> is success.\<close>

datatype net_call = LookupHost string | DialTcp string | DialUdp string

record fips_net =
  fn_lookup_host :: "string \<Rightarrow> string + string list"
  fn_dial_tcp :: "string \<Rightarrow> string option"
  fn_dial_udp :: "string \<Rightarrow> string option"
  fn_udp_deadline :: "string \<Rightarrow> string option"
  fn_udp_write :: "string \<Rightarrow> string option"
  fn_step_ms :: "string \<Rightarrow> int"

definition infer_peer_transport :: "string \<Rightarrow> string" where
  "infer_peer_transport addr =
     (case split_host_port addr of
        Inl _ \<Rightarrow> ''unknown''
      | Inr (_, port) \<Rightarrow> if port = ''2121'' then ''udp'' else if port = ''8443'' then ''tcp'' else ''tcp'')"

definition test_peer_tcp :: "fips_net \<Rightarrow> string \<Rightarrow> string option" where
  "test_peer_tcp N addr = fn_dial_tcp N addr"

definition test_peer_udp :: "fips_net \<Rightarrow> string \<Rightarrow> string option" where
  "test_peer_udp N addr =
     (case fn_dial_udp N addr of Some e \<Rightarrow> Some e
      | None \<Rightarrow> (case fn_udp_deadline N addr of Some e \<Rightarrow> Some e | None \<Rightarrow> fn_udp_write N addr))"

definition test_peer_address :: "fips_net \<Rightarrow> string \<Rightarrow> string \<Rightarrow> (bool \<times> string \<times> string option) \<times> net_call list" where
  "test_peer_address N addr transport =
     (if to_lower transport = ''udp'' then
        (case test_peer_udp N addr of
           Some e \<Rightarrow> ((False, ''udp'', Some e), [DialUdp addr])
         | None \<Rightarrow> ((True, ''udp'', None), [DialUdp addr]))
      else
        (case test_peer_tcp N addr of
           Some e \<Rightarrow> ((False, ''tcp'', Some e), [DialTcp addr])
         | None \<Rightarrow> ((True, ''tcp'', None), [DialTcp addr])))"

definition peer_check_step :: "fips_net \<Rightarrow> string \<Rightarrow> bool \<Rightarrow> string \<Rightarrow> string option \<Rightarrow> json" where
  "peer_check_step N name ok detail err =
     JObj ([(''name'', JStr name), (''ok'', JBool ok), (''detail'', JStr detail),
            (''duration_ms'', JNum (int_str (fn_step_ms N name)))]
           @ (case err of Some e \<Rightarrow> [(''error'', JStr e)] | None \<Rightarrow> []))"

definition initial_check :: "string \<Rightarrow> string \<Rightarrow> status_map" where
  "initial_check npub addr =
     [(''peer_npub'', JStr npub), (''peer_addr'', JStr addr), (''peer_npub_ok'', JBool True),
      (''peer_addr_set'', JBool (addr \<noteq> [])), (''transport_check_skipped'', JBool (addr = [])),
      (''reachable'', JBool False), (''transport'', JStr (infer_peer_transport addr))]"

text \<open>From \<open>LookupHost\<close> to the end, for an address that has been split.\<close>

definition probe_peer :: "fips_net \<Rightarrow> bool \<Rightarrow> string \<Rightarrow> string \<Rightarrow> string \<Rightarrow> status_map \<Rightarrow> (status_map \<times> json list) \<times> net_call list" where
  "probe_peer N dbg addr host port st0 =
     (let (lookup_err, dns_steps, dns_calls) =
            (if dbg then
               (case fn_lookup_host N host of
                  Inl e \<Rightarrow> (Some e, [peer_check_step N ''dns'' False ''resolved to '' (Some e)], [LookupHost host])
                | Inr addrs \<Rightarrow> (None, [peer_check_step N ''dns'' True (''resolved to '' @ join '', '' addrs) None], [LookupHost host]))
             else (None, [], []));
          st1 = AList.update ''transport'' (JStr (infer_peer_transport addr)) st0
      in (case lookup_err of
            Some e \<Rightarrow> ((AList.update ''error'' (JStr e) st1, dns_steps), dns_calls)
          | None \<Rightarrow>
             (case test_peer_address N addr (infer_peer_transport addr) of ((reachable, transport, err), calls) \<Rightarrow>
                (let st2 = AList.update ''reachable'' (JBool reachable) (AList.update ''transport'' (JStr transport) st1);
                     steps = (if dbg then dns_steps @ [peer_check_step N ''transport'' (err = None)
                        (''connect to '' @ host @ '':'' @ port @ '' over '' @ transport) err] else dns_steps)
                 in (((case err of None \<Rightarrow> st2 | Some e \<Rightarrow> AList.update ''error'' (JStr e) st2), steps), dns_calls @ calls)))))"

definition check_peer_connectivity :: "nostr_lib \<Rightarrow> fips_net \<Rightarrow> string \<Rightarrow> string \<Rightarrow> bool \<Rightarrow> bool \<Rightarrow> status_map \<times> net_call list" where
  "check_peer_connectivity L N npub0 addr0 dbg require =
     (let npub = trim_space npub0; addr = trim_space addr0;
          st0 = initial_check npub addr;
          ((st, steps), calls) =
            (if npub = [] \<and> require then
               ((AList.update ''error'' (JStr ''fips_peer_npub is not set'') (AList.update ''peer_npub_ok'' (JBool False) st0), []), [])
             else if npub \<noteq> [] \<and> (normalize_pubkey npub = [] \<or> \<not> nl_valid_pubkey L (normalize_pubkey npub)) then
               ((AList.update ''error'' (JStr ''fips_peer_npub must be a valid npub or hex public key'')
                  (AList.update ''peer_npub_ok'' (JBool False) st0), []), [])
             else if addr = [] then
               (if npub = [] then
                  ((AList.update ''message'' (JStr ''FIPS peer is not configured'')
                     (AList.update ''state'' (JStr ''not_configured'') st0), []), [])
                else
                  ((AList.update ''message'' (JStr (if dbg
                        then ''NAS peer identity is configured; waiting for the NAS to open its outbound FIPS session''
                        else ''peer identity is configured; add the public peer address to test outbound transport''))
                     (AList.update ''state'' (JStr ''waiting_for_outbound_peer'') st0),
                    if dbg then [peer_check_step N ''transport'' True
                      ''peer address not configured; waiting for outbound NAS session'' None] else []), []))
             else
               (case split_host_port addr of
                  Inl e \<Rightarrow> ((AList.update ''error'' (JStr ''fips_peer_addr must be host:port'') st0,
                      if dbg then [peer_check_step N ''parse'' False (''peer address '' @ addr) (Some e)] else []), [])
                | Inr (host, port) \<Rightarrow>
                   (case probe_peer N dbg addr host port st0 of ((st, steps), calls) \<Rightarrow>
                      ((st, if dbg then peer_check_step N ''parse'' True (''peer address '' @ addr) None # steps else steps), calls))))
      in (if dbg then AList.update ''debug_steps'' (JArr steps) st else st, calls))"

definition check_peer_plain :: "nostr_lib \<Rightarrow> fips_net \<Rightarrow> string \<Rightarrow> string \<Rightarrow> status_map \<times> net_call list" where
  "check_peer_plain L N npub addr = check_peer_connectivity L N npub addr False False"

definition check_peer_with_debug :: "nostr_lib \<Rightarrow> fips_net \<Rightarrow> string \<Rightarrow> string \<Rightarrow> status_map \<times> net_call list" where
  "check_peer_with_debug L N npub addr = check_peer_connectivity L N npub addr True False"

definition check_peer_with_debug_require_peer :: "nostr_lib \<Rightarrow> fips_net \<Rightarrow> string \<Rightarrow> string \<Rightarrow> status_map \<times> net_call list" where
  "check_peer_with_debug_require_peer L N npub addr = check_peer_connectivity L N npub addr True True"

text \<open>\<open>Some\<close>: reject with this text.\<close>

definition connectivity_error :: "status_map \<Rightarrow> string option" where
  "connectivity_error check =
     (if st_str check ''error'' = [] then None
      else if \<not> st_bool check ''peer_npub_ok'' then
        (if trim_space (st_str check ''peer_npub'') = [] then Some ''fips_peer_npub is required''
         else Some (st_str check ''error''))
      else if st_bool check ''peer_addr_set'' then Some (st_str check ''error'')
      else None)"

section \<open>Facts\<close>

lemma trim_space_newline [simp]: "trim_space (trim_space s @ [CHR 0x0A]) = trim_space s"
proof (cases "trim_space s = []")
  case True
  then show ?thesis by (simp add: trim_space_def is_space_def)
next
  case False
  then have "dropWhile is_space (trim_space s @ [CHR 0x0A]) = trim_space s @ [CHR 0x0A]"
    using trim_space_hd [OF False] by (cases "trim_space s") auto
  moreover have "rdropWhile is_space (trim_space s) = trim_space s"
    using trim_space_last [OF False] by (simp add: rdropWhile_id)
  ultimately show ?thesis by (simp add: trim_space_def [of "_ @ _"] is_space_def)
qed

lemma nsec_identity_trimmed [simp]: "nsec_identity F (trim_space s @ [CHR 0x0A]) = nsec_identity F s"
  by (simp add: nsec_identity_def)

lemma st_update [simp]:
  "st_str (AList.update k v st) k' = (if k = k' then (case v of JStr s \<Rightarrow> s | _ \<Rightarrow> []) else st_str st k')"
  "st_bool (AList.update k v st) k' = (if k = k' then (case v of JBool b \<Rightarrow> b | _ \<Rightarrow> False) else st_bool st k')"
  by (simp_all add: st_str_def st_bool_def update_conv')

lemma st_initial [simp]:
  "st_str (initial_check npub addr) ''error'' = []" "st_str (initial_check npub addr) ''peer_npub'' = npub"
  "st_bool (initial_check npub addr) ''peer_npub_ok'' = True"
  "st_bool (initial_check npub addr) ''peer_addr_set'' = (addr \<noteq> [])"
  "st_bool (initial_check npub addr) ''reachable'' = False"
  by (simp_all add: initial_check_def st_str_def st_bool_def)

text \<open>The error of the probe of a well-formed address: of the lookup, else of the dial.\<close>

definition probe_error :: "fips_net \<Rightarrow> bool \<Rightarrow> string \<Rightarrow> string \<Rightarrow> string option" where
  "probe_error N dbg addr host =
     (case (if dbg then fn_lookup_host N host else Inr []) of
        Inl e \<Rightarrow> Some e
      | Inr _ \<Rightarrow> if infer_peer_transport addr = ''udp'' then test_peer_udp N addr else test_peer_tcp N addr)"

definition probe_calls :: "fips_net \<Rightarrow> bool \<Rightarrow> string \<Rightarrow> string \<Rightarrow> net_call list" where
  "probe_calls N dbg addr host =
     (if dbg then [LookupHost host] else [])
     @ (case (if dbg then fn_lookup_host N host else Inr []) of
          Inl _ \<Rightarrow> [] | Inr _ \<Rightarrow> [if infer_peer_transport addr = ''udp'' then DialUdp addr else DialTcp addr])"

lemma infer_peer_transport_lower: "to_lower (infer_peer_transport addr) = infer_peer_transport addr"
proof -
  have "to_lower ''udp'' = ''udp''" "to_lower ''tcp'' = ''tcp''" "to_lower ''unknown'' = ''unknown''" by code_simp+
  then show ?thesis by (simp add: infer_peer_transport_def split: sum.split)
qed

lemma probe_peer_facts:
  assumes "probe_peer N dbg addr host port st0 = ((st, steps), calls)"
  shows "st_str st ''error'' = (case probe_error N dbg addr host of Some e \<Rightarrow> e | None \<Rightarrow> st_str st0 ''error'')"
    and "st_bool st ''reachable'' \<longleftrightarrow> probe_error N dbg addr host = None \<or>
      ((\<exists>e. dbg \<and> fn_lookup_host N host = Inl e) \<and> st_bool st0 ''reachable'')"
    and "k \<in> {''peer_npub_ok'', ''peer_addr_set''} \<Longrightarrow> st_bool st k = st_bool st0 k"
    and "st_str st ''peer_npub'' = st_str st0 ''peer_npub''"
    and "calls = probe_calls N dbg addr host"
  using assms
  by (auto simp: probe_peer_def probe_error_def probe_calls_def test_peer_address_def infer_peer_transport_lower Let_def
      split: if_splits sum.splits option.splits prod.splits)

section \<open>Claims\<close>

text \<open>
  C25: What the check of a peer decides, and what it does on the network. The error for which a
  caller rejects the request is the first of: the peer key is required and missing; the key
  is neither a valid \<open>npub\<close> nor a valid public key; an address is given and is not
  \<open>host:port\<close>; the probe fails. Nothing is looked up or dialled unless the key is
  acceptable and the address splits, and then only the given address; the peer is called
  reachable exactly when the probe was made and succeeded.
\<close>

theorem peer_check_exact:
  "(let check = check_peer_connectivity L N npub addr dbg require;
        key = trim_space npub; address = trim_space addr;
        key_ok = (key = [] \<or> normalize_pubkey key \<noteq> [] \<and> nl_valid_pubkey L (normalize_pubkey key))
    in (connectivity_error (fst check), st_bool (fst check) ''reachable'', snd check) =
       (if key = [] \<and> require then (Some ''fips_peer_npub is required'', False, [])
        else if \<not> key_ok then (Some ''fips_peer_npub must be a valid npub or hex public key'', False, [])
        else if address = [] then (None, False, [])
        else (case split_host_port address of
           Inl _ \<Rightarrow> (Some ''fips_peer_addr must be host:port'', False, [])
         | Inr (host, _) \<Rightarrow>
            (case probe_error N dbg address host of
               None \<Rightarrow> (None, True, probe_calls N dbg address host)
             | Some e \<Rightarrow> (if e = [] then None else Some e, False, probe_calls N dbg address host)))))"
proof -
  let ?key = "trim_space npub" and ?address = "trim_space addr"
  let ?ok = "?key = [] \<or> normalize_pubkey ?key \<noteq> [] \<and> nl_valid_pubkey L (normalize_pubkey ?key)"
  consider "?key = [] \<and> require" | "\<not> (?key = [] \<and> require)" "\<not> ?ok"
    | "\<not> (?key = [] \<and> require)" ?ok "?address = []"
    | e where "\<not> (?key = [] \<and> require)" ?ok "?address \<noteq> []" "split_host_port ?address = Inl e"
    | host port where "\<not> (?key = [] \<and> require)" ?ok "?address \<noteq> []" "split_host_port ?address = Inr (host, port)"
    by (cases "split_host_port ?address") auto
  then show ?thesis
  proof cases
    case 1
    then show ?thesis by (simp add: check_peer_connectivity_def connectivity_error_def Let_def)
  next
    case 2
    then have "?key \<noteq> []" "normalize_pubkey ?key = [] \<or> \<not> nl_valid_pubkey L (normalize_pubkey ?key)" by auto
    then show ?thesis by (simp add: check_peer_connectivity_def connectivity_error_def Let_def)
  next
    case 3
    then have k: "\<not> (?key \<noteq> [] \<and> (normalize_pubkey ?key = [] \<or> \<not> nl_valid_pubkey L (normalize_pubkey ?key)))" by auto
    have nk: "\<not> \<not> ?ok" using 3(2) by simp
    show ?thesis
      unfolding check_peer_connectivity_def Let_def if_not_P [OF 3(1)] if_not_P [OF k] if_not_P [OF nk] if_P [OF 3(3)]
      by (cases "?key = []") (simp_all add: connectivity_error_def)
  next
    case (4 e)
    then have k: "\<not> (?key \<noteq> [] \<and> (normalize_pubkey ?key = [] \<or> \<not> nl_valid_pubkey L (normalize_pubkey ?key)))" by auto
    have nk: "\<not> \<not> ?ok" using 4(2) by simp
    show ?thesis
      unfolding check_peer_connectivity_def Let_def if_not_P [OF 4(1)] if_not_P [OF k] if_not_P [OF 4(3)] if_not_P [OF nk] 4(4)
      using 4(3) by (simp add: connectivity_error_def)
  next
    case (5 host port)
    then have k: "\<not> (?key \<noteq> [] \<and> (normalize_pubkey ?key = [] \<or> \<not> nl_valid_pubkey L (normalize_pubkey ?key)))" by auto
    obtain st steps calls where p: "probe_peer N dbg ?address host port (initial_check ?key ?address) = ((st, steps), calls)"
      by (metis prod.collapse)
    have r: "\<not> (dbg \<and> fn_lookup_host N host = Inl e \<and> probe_error N dbg ?address host = None)" for e
      by (simp add: probe_error_def)
    have nk: "\<not> \<not> ?ok" using 5(2) by simp
    show ?thesis
      unfolding check_peer_connectivity_def Let_def if_not_P [OF 5(1)] if_not_P [OF k] if_not_P [OF 5(3)] if_not_P [OF nk] 5(4) sum.case prod.case p
      using 5(3) probe_peer_facts [OF p] by (simp add: connectivity_error_def split: option.splits)
  qed
qed

text \<open>
  C24: Saving the FIPS secret replaces the file in one step: at every moment the file is the old
  one or the complete new one, which is the trimmed secret with a newline, readable by its
  owner only; a failure leaves the file system as it was, but for a private temporary file when
  that cannot be removed. The text that is left gives the
  identity that was returned, and no other file changes.
\<close>

theorem nsec_save_atomic:
  assumes "temp_fresh ops fs (trim_space path)"
  shows "list_all (\<lambda>f. f (trim_space path) = fs (trim_space path)
        \<or> f (trim_space path) = Some (trim_space nsec @ [CHR 0x0A], private_mode)) (snd (save_nsec F ops path nsec fs))
    \<and> (case fst (save_nsec F ops path nsec fs) of
         Inl _ \<Rightarrow> left_over ops fs (last (snd (save_nsec F ops path nsec fs)))
       | Inr npub \<Rightarrow> trim_space path \<noteq> []
           \<and> last (snd (save_nsec F ops path nsec fs)) = fs(trim_space path \<mapsto> (trim_space nsec @ [CHR 0x0A], private_mode))
           \<and> nsec_identity F (trim_space nsec @ [CHR 0x0A]) = Inr npub)"
proof -
  let ?w = "write_private_file ops ''.fips-nsec-*'' (trim_space path) (trim_space nsec @ [CHR 0x0A]) fs"
  have b: "list_all (\<lambda>f. f (trim_space path) = fs (trim_space path)
        \<or> f (trim_space path) = Some (trim_space nsec @ [CHR 0x0A], private_mode)) (snd ?w)"
    using write_private_file_between [OF assms] by (auto simp: list_all_iff)
  from b write_private_file_result [OF assms, of "''.fips-nsec-*''" "trim_space nsec @ [CHR 0x0A]"] show ?thesis
    by (cases ?w; cases "nsec_identity F nsec"; cases "fst ?w")
      (auto simp: save_nsec_def Let_def)
qed

definition demo_fips_lib :: fips_lib where
  "demo_fips_lib = \<lparr>fl_nip19_decode = (\<lambda>s. Inr (take 4 s, Some (replicate 64 (CHR ''a'')))),
     fl_get_public_key = Inr, fl_encode_public_key = (\<lambda>k. Inr (''npub1'' @ k))\<rparr>"

definition demo_file_ops :: file_ops where
  "demo_file_ops = \<lparr>fo_read = (\<lambda>_. None), fo_mkdir = (\<lambda>_. None),
     fo_create = (\<lambda>dir pat. Inr (dir @ ''/tmp'')), fo_write = (\<lambda>_. None), fo_chmod = (\<lambda>_. None),
     fo_close = (\<lambda>_. None), fo_rename = (\<lambda>_. None), fo_remove = (\<lambda>_. None)\<rparr>"

lemma demo_temp_fresh: "last path \<noteq> CHR ''p'' \<Longrightarrow> temp_fresh demo_file_ops (\<lambda>_. None) path"
  by (auto simp: temp_fresh_def demo_file_ops_def)

lemma nsec_save_atomic_witness:
  "last (snd (save_nsec demo_fips_lib demo_file_ops '' /run/nsec'' ''nsec1x'' (\<lambda>_. None)))
     = [''/run/nsec'' \<mapsto> (''nsec1x'' @ [CHR 0x0A], private_mode)]"
proof -
  have t: "trim_space '' /run/nsec'' = ''/run/nsec''" "trim_space ''nsec1x'' = ''nsec1x''" by code_simp+
  have f: "temp_fresh demo_file_ops (\<lambda>_. None) (trim_space '' /run/nsec'')"
    unfolding t by (rule demo_temp_fresh) simp
  have "fst (save_nsec demo_fips_lib demo_file_ops '' /run/nsec'' ''nsec1x'' (\<lambda>_. None))
      = Inr (''npub1'' @ replicate 64 (CHR ''a''))"
    by (simp add: save_nsec_def t nsec_identity_def demo_fips_lib_def demo_file_ops_def write_private_file_def Let_def)
  with nsec_save_atomic [OF f, of "''nsec1x''" demo_fips_lib] show ?thesis by (simp add: t)
qed

end
