(* ===== verification/AdminCommon.thy ===== *)
theory AdminCommon
  imports Nip98
begin

text \<open>
  What the two admin interfaces share: the routes of \<open>internal/admin/routes.go\<close>, the
  status of an authorization error, the reading of size-limited JSON bodies, the page
  placeholders of \<open>internal/adminui/assets.go\<close>, and how Go writes a time in RFC 3339.
\<close>

section \<open>Routes\<close>

definition admin_route :: string where "admin_route = ''/admin''"
definition admin_route_slash :: string where "admin_route_slash = admin_route @ ''/''"
definition admin_api_root :: string where "admin_api_root = admin_route @ ''/api''"
definition admin_api_overview :: string where "admin_api_overview = admin_api_root @ ''/overview''"
definition admin_api_status :: string where "admin_api_status = admin_api_root @ ''/status''"
definition admin_api_identity :: string where "admin_api_identity = admin_api_root @ ''/identity''"
definition admin_api_config :: string where "admin_api_config = admin_api_root @ ''/config''"
definition admin_api_auth_cache :: string where "admin_api_auth_cache = admin_api_root @ ''/auth-cache''"
definition admin_api_policy :: string where "admin_api_policy = admin_api_root @ ''/policy''"
definition admin_api_fips_nsec :: string where "admin_api_fips_nsec = admin_api_root @ ''/fips-nsec''"
definition admin_api_fips_peer_check :: string where "admin_api_fips_peer_check = admin_api_root @ ''/fips-peer-check''"

definition setup_route :: string where "setup_route = ''/setup''"
definition setup_route_slash :: string where "setup_route_slash = setup_route @ ''/''"
definition setup_api_root :: string where "setup_api_root = setup_route @ ''/api''"
definition setup_api_status :: string where "setup_api_status = setup_api_root @ ''/status''"
definition setup_api_config :: string where "setup_api_config = setup_api_root @ ''/config''"
definition setup_api_fips_nsec :: string where "setup_api_fips_nsec = setup_api_root @ ''/fips-nsec''"
definition setup_api_fips_peer_check :: string where "setup_api_fips_peer_check = setup_api_root @ ''/fips-peer-check''"
definition setup_api_test_jellyfin :: string where "setup_api_test_jellyfin = setup_api_root @ ''/test/jellyfin''"
definition setup_api_jellyfin_song :: string where "setup_api_jellyfin_song = setup_api_root @ ''/test/jellyfin-random-song''"
definition setup_api_jellyfin_stream :: string where "setup_api_jellyfin_stream = setup_api_jellyfin_song @ ''/stream/''"
definition setup_api_test_plex :: string where "setup_api_test_plex = setup_api_root @ ''/test/plex''"
definition setup_api_plex_song :: string where "setup_api_plex_song = setup_api_root @ ''/test/plex-random-song''"
definition setup_api_plex_stream :: string where "setup_api_plex_stream = setup_api_plex_song @ ''/stream/''"
definition setup_favicon_svg :: string where "setup_favicon_svg = setup_route @ ''/favicon.svg''"
definition setup_favicon_ico :: string where "setup_favicon_ico = setup_route @ ''/favicon.ico''"

section \<open>Bodies\<close>

text \<open>
  \<open>json.NewDecoder(http.MaxBytesReader(w, r.Body, limit)).Decode\<close>: the decoder sees at most
  \<open>limit\<close> bytes and then the end, the error of the reader, or the error that the body is too
  large. An object or array is complete at its closing bracket; any other value only when
  the next byte, or the end, has been seen. A request without a body reads as empty.
\<close>

definition decode_limited :: "nat \<Rightarrow> http_req \<Rightarrow> json option" where
  "decode_limited limit r =
     (let (text, err) = (case rq_body r of None \<Rightarrow> ([], None) | Some b \<Rightarrow> b);
          seen = take limit text; failed = (limit < length text \<or> err \<noteq> None)
      in (case parse_value (json_fuel seen) seen of
            None \<Rightarrow> None
          | Some (v, rest) \<Rightarrow>
             (case v of JObj _ \<Rightarrow> Some v | JArr _ \<Rightarrow> Some v
              | _ \<Rightarrow> if rest = [] \<and> failed then None else Some v)))"

section \<open>Answers\<close>

definition admin_auth_status :: "goerr \<Rightarrow> int" where
  "admin_auth_status e = (if is_admin_error e ErrNotAdmin then 403 else 401)"

definition inject_shared :: "string \<Rightarrow> string \<Rightarrow> string \<Rightarrow> string" where
  "inject_shared css js html = replace_all ''{{ADMIN_COMMON_JS}}'' js (replace_all ''{{ADMIN_COMMON_CSS}}'' css html)"

section \<open>Times\<close>

text \<open>
  \<open>time.Unix(s, 0).UTC().Format(time.RFC3339)\<close>: the civil date of a day number counts years
  from March in eras of 400 years.
\<close>

definition civil_from_days :: "int \<Rightarrow> int \<times> int \<times> int" where
  "civil_from_days days =
     (let z = days + 719468; era = z div 146097; doe = z mod 146097;
          yoe = (doe - doe div 1460 + doe div 36524 - doe div 146096) div 365;
          doy = doe - (365 * yoe + yoe div 4 - yoe div 100);
          mp = (5 * doy + 2) div 153; d = doy - (153 * mp + 2) div 5 + 1;
          m = (if mp < 10 then mp + 3 else mp - 9)
      in (yoe + era * 400 + (if m \<le> 2 then 1 else 0), m, d))"

definition pad_int :: "nat \<Rightarrow> int \<Rightarrow> string" where
  "pad_int w n = (let ds = digits_str \<bar>n\<bar>
     in (if n < 0 then ''-'' else []) @ replicate (w - length ds) (CHR ''0'') @ ds)"

definition rfc3339_utc :: "int \<Rightarrow> string" where
  "rfc3339_utc s0 =
     (let s = unix_of_time (time_unix s0); (y, m, d) = civil_from_days (s div 86400); t = s mod 86400
      in pad_int 4 y @ ''-'' @ pad_int 2 m @ ''-'' @ pad_int 2 d @ ''T'' @ pad_int 2 (t div 3600) @ '':''
         @ pad_int 2 (t div 60 mod 60) @ '':'' @ pad_int 2 (t mod 60) @ ''Z'')"

end
