(* ===== verification/BuildInfo.thy ===== *)
theory BuildInfo
  imports AdminCommon
begin

text \<open>
  The build time the admin pages show, \<open>internal/buildinfo/buildinfo.go\<close>, with the part of
  Go's \<open>time.Parse\<close> and \<open>Time.Format\<close> it calls: the six layouts, one element at a time,
  as \<open>parse\<close> of Go's \<open>time/format.go\<close> reads them. A time is kept as its wall clock in its own
  zone to the minute, which is all the display uses; seconds and the zone offset are
  checked and dropped.
\<close>

section \<open>Layouts\<close>

datatype layout_item = Lit string | StdYear | StdMonth | StdDay | StdHour | StdMinute | StdSecond | StdFrac | StdZone

record wall_time =
  wt_year :: int
  wt_month :: int
  wt_day :: int
  wt_hour :: int
  wt_minute :: int

text \<open>The two-digit reader; \<open>fixed\<close>: one digit is not enough.\<close>

definition getnum :: "bool \<Rightarrow> string \<Rightarrow> (int \<times> string) option" where
  "getnum fixed s = (case s of
     a # b # u \<Rightarrow> if \<not> is_digit a then None
       else if is_digit b then Some (digit_val a * 10 + digit_val b, u)
       else if fixed then None else Some (digit_val a, b # u)
   | [a] \<Rightarrow> if is_digit a \<and> \<not> fixed then Some (digit_val a, []) else None
   | [] \<Rightarrow> None)"

text \<open>A literal of the layout; a blank in it stands for any number of blanks, and for the end of the text.\<close>

function skip_lit :: "string \<Rightarrow> string \<Rightarrow> string option" where
  "skip_lit v [] = Some v"
| "skip_lit v (p # ps) =
     (if p = CHR '' '' then
        (if v \<noteq> [] \<and> hd v \<noteq> CHR '' '' then None
         else skip_lit (dropWhile (\<lambda>c. c = CHR '' '') v) (dropWhile (\<lambda>c. c = CHR '' '') ps))
      else (case v of [] \<Rightarrow> None | c # w \<Rightarrow> if c = p then skip_lit w ps else None))"
  by pat_completeness auto
termination
  by (relation "measure (\<lambda>(v, ps). length ps)") (auto simp: le_imp_less_Suc length_dropWhile_le)

definition skip_fraction :: "string \<Rightarrow> string" where
  "skip_fraction v = (case v of
     c # d # w \<Rightarrow> if (c = CHR ''.'' \<or> c = CHR '','') \<and> is_digit d then dropWhile is_digit (d # w) else v
   | _ \<Rightarrow> v)"

text \<open>\<open>Z\<close> or \<open>+hh:mm\<close>.\<close>

definition skip_zone :: "string \<Rightarrow> string option" where
  "skip_zone v =
     (if has_prefix v ''Z'' then Some (tl v)
      else if length v < 6 \<or> v ! 3 \<noteq> CHR '':'' then None
      else (case (getnum True (take 2 (drop 1 v)), getnum True (take 2 (drop 4 v))) of
         (Some (hr, _), Some (mm, _)) \<Rightarrow>
           if hr > 24 \<or> mm > 60 \<or> \<not> (hd v = CHR ''+'' \<or> hd v = CHR ''-'') then None else Some (drop 6 v)
       | _ \<Rightarrow> None))"

definition in_range :: "int \<Rightarrow> int \<Rightarrow> (int \<times> string) option \<Rightarrow> (int \<times> string) option" where
  "in_range lo hi r = (case r of Some (n, v) \<Rightarrow> if lo \<le> n \<and> n \<le> hi then r else None | None \<Rightarrow> None)"

fun parse_item :: "layout_item \<Rightarrow> wall_time \<times> string \<Rightarrow> (wall_time \<times> string) option" where
  "parse_item (Lit l) (t, v) = map_option (\<lambda>w. (t, w)) (skip_lit v l)"
| "parse_item StdYear (t, v) =
     (if length v < 4 \<or> \<not> all_digits (take 4 v) then None else Some (t\<lparr>wt_year := digits_val (take 4 v)\<rparr>, drop 4 v))"
| "parse_item StdMonth (t, v) = map_option (\<lambda>(n, w). (t\<lparr>wt_month := n\<rparr>, w)) (in_range 1 12 (getnum True v))"
| "parse_item StdDay (t, v) = map_option (\<lambda>(n, w). (t\<lparr>wt_day := n\<rparr>, w)) (getnum True v)"
| "parse_item StdHour (t, v) = map_option (\<lambda>(n, w). (t\<lparr>wt_hour := n\<rparr>, w)) (in_range 0 23 (getnum False v))"
| "parse_item StdMinute (t, v) = map_option (\<lambda>(n, w). (t\<lparr>wt_minute := n\<rparr>, w)) (in_range 0 59 (getnum True v))"
| "parse_item StdSecond (t, v) = map_option (\<lambda>(n, w). (t, skip_fraction w)) (in_range 0 59 (getnum True v))"
| "parse_item StdFrac (t, v) = Some (t, skip_fraction v)"
| "parse_item StdZone (t, v) = map_option (\<lambda>w. (t, w)) (skip_zone v)"

fun parse_items :: "layout_item list \<Rightarrow> wall_time \<times> string \<Rightarrow> (wall_time \<times> string) option" where
  "parse_items [] tv = Some tv"
| "parse_items (i # is) tv = (case parse_item i tv of None \<Rightarrow> None | Some tv' \<Rightarrow> parse_items is tv')"

definition is_leap :: "int \<Rightarrow> bool" where
  "is_leap y \<longleftrightarrow> y mod 4 = 0 \<and> (y mod 100 \<noteq> 0 \<or> y mod 400 = 0)"

definition days_in :: "int \<Rightarrow> int \<Rightarrow> int" where
  "days_in m y = (if m = 2 then (if is_leap y then 29 else 28) else if m \<in> {4, 6, 9, 11} then 30 else 31)"

definition time_parse :: "layout_item list \<Rightarrow> string \<Rightarrow> wall_time option" where
  "time_parse layout v =
     (case parse_items layout (\<lparr>wt_year = 0, wt_month = -1, wt_day = -1, wt_hour = 0, wt_minute = 0\<rparr>, v) of
        Some (t, rest) \<Rightarrow> if rest = [] \<and> 1 \<le> wt_day t \<and> wt_day t \<le> days_in (wt_month t) (wt_year t) then Some t else None
      | None \<Rightarrow> None)"

section \<open>DisplayBuildTime\<close>

definition date_layout :: "layout_item list" where
  "date_layout = [StdYear, Lit ''-'', StdMonth, Lit ''-'', StdDay]"

definition build_time_layouts :: "layout_item list list" where
  "build_time_layouts =
     [date_layout @ [Lit ''T'', StdHour, Lit '':'', StdMinute, Lit '':'', StdSecond, StdZone],
      date_layout @ [Lit ''T'', StdHour, Lit '':'', StdMinute, Lit '':'', StdSecond, StdFrac, StdZone],
      date_layout @ [Lit ''T'', StdHour, Lit '':'', StdMinute, StdZone],
      date_layout @ [Lit ''T'', StdHour, Lit '':'', StdMinute, Lit '':'', StdSecond, StdZone],
      date_layout @ [Lit ''T'', StdHour, Lit '':'', StdMinute],
      date_layout @ [Lit '' '', StdHour, Lit '':'', StdMinute]]"

definition format_minute :: "wall_time \<Rightarrow> string" where
  "format_minute t = pad_int 4 (wt_year t) @ ''-'' @ pad_int 2 (wt_month t) @ ''-'' @ pad_int 2 (wt_day t)
     @ '' '' @ pad_int 2 (wt_hour t) @ '':'' @ pad_int 2 (wt_minute t)"

fun first_parsed :: "layout_item list list \<Rightarrow> string \<Rightarrow> wall_time option" where
  "first_parsed [] v = None"
| "first_parsed (l # ls) v = (case time_parse l v of Some t \<Rightarrow> Some t | None \<Rightarrow> first_parsed ls v)"

definition display_build_time :: "string \<Rightarrow> string" where
  "display_build_time build_time =
     (if build_time = [] \<or> equal_fold build_time ''unknown'' then ''unknown''
      else (case first_parsed build_time_layouts build_time of
         Some t \<Rightarrow> format_minute t
       | None \<Rightarrow> trim_space build_time))"

section \<open>Facts\<close>

definition wall_ok :: "wall_time \<Rightarrow> bool" where
  "wall_ok t \<longleftrightarrow> 0 \<le> wt_year t \<and> wt_year t \<le> 9999 \<and> 1 \<le> wt_month t \<and> wt_month t \<le> 12
     \<and> 1 \<le> wt_day t \<and> wt_day t \<le> days_in (wt_month t) (wt_year t)
     \<and> 0 \<le> wt_hour t \<and> wt_hour t \<le> 23 \<and> 0 \<le> wt_minute t \<and> wt_minute t \<le> 59"

lemma display_examples:
  "display_build_time ''2025-06-01T09:05:59.123Z'' = ''2025-06-01 09:05''"
  "display_build_time ''2024-02-29T23:30:00+02:00'' = ''2024-02-29 23:30''"
  "display_build_time ''2023-02-29T23:30:00Z'' = ''2023-02-29T23:30:00Z''"
  "display_build_time ''2025-06-01   9:05'' = ''2025-06-01 09:05''"
  "display_build_time '' v1.2 '' = ''v1.2''"
  "display_build_time ''UNKNOWN'' = ''unknown''"
  by code_simp+

lemma digit_bounds: "is_digit c \<Longrightarrow> 0 \<le> digit_val c \<and> digit_val c \<le> 9"
  by (auto simp: is_digit_def digit_val_def Let_def)

text \<open>What was parsed is a wall-clock time.\<close>

definition time_part_ok :: "wall_time \<Rightarrow> bool" where
  "time_part_ok t \<longleftrightarrow> 0 \<le> wt_year t \<and> wt_year t \<le> 9999 \<and> (wt_month t = -1 \<or> 1 \<le> wt_month t \<and> wt_month t \<le> 12)
     \<and> 0 \<le> wt_hour t \<and> wt_hour t \<le> 23 \<and> 0 \<le> wt_minute t \<and> wt_minute t \<le> 59"

lemma year_bounds: "all_digits [a, b, c, d] \<Longrightarrow> 0 \<le> digits_val [a, b, c, d] \<and> digits_val [a, b, c, d] \<le> 9999"
  using digit_bounds [of a] digit_bounds [of b] digit_bounds [of c] digit_bounds [of d]
  by (simp add: all_digits_def digits_val_def)

lemma four_chars: "4 \<le> length v \<Longrightarrow> \<exists>a b c d w. v = a # b # c # d # w"
  by (auto simp: numeral_eq_Suc Suc_le_length_iff)

lemma parse_item_ok: "parse_item i (t, v) = Some (t', v') \<Longrightarrow> time_part_ok t \<Longrightarrow> time_part_ok t'"
proof (cases i)
  case StdYear
  assume p: "parse_item i (t, v) = Some (t', v')" "time_part_ok t"
  with StdYear obtain a b c d w where "v = a # b # c # d # w"
    using four_chars [of v] by (auto simp: not_less split: if_splits)
  with p StdYear year_bounds [of a b c d] show ?thesis by (auto simp: time_part_ok_def split: if_splits)
qed (auto simp: time_part_ok_def in_range_def split: option.splits if_splits)

lemma parse_item_month:
  "parse_item i (t, v) = Some (t', v') \<Longrightarrow> i = StdMonth \<or> 1 \<le> wt_month t \<Longrightarrow> 1 \<le> wt_month t'"
  by (cases i) (auto simp: in_range_def split: option.splits if_splits)

lemma parse_items_ok:
  "parse_items is (t, v) = Some (t', v') \<Longrightarrow> time_part_ok t \<Longrightarrow>
     time_part_ok t' \<and> (StdMonth \<in> set is \<or> 1 \<le> wt_month t \<longrightarrow> 1 \<le> wt_month t')"
proof (induction "is" arbitrary: t v)
  case (Cons i "is")
  then obtain u w where p: "parse_item i (t, v) = Some (u, w)" "parse_items is (u, w) = Some (t', v')"
    by (auto split: option.splits)
  with Cons.IH [OF p(2)] parse_item_ok [OF p(1) Cons.prems(2)] parse_item_month [OF p(1)] show ?case by auto
qed simp

lemma time_parse_ok: "time_parse layout v = Some t \<Longrightarrow> StdMonth \<in> set layout \<Longrightarrow> wall_ok t"
proof -
  assume p: "time_parse layout v = Some t" and m: "StdMonth \<in> set layout"
  let ?t0 = "\<lparr>wt_year = 0, wt_month = -1, wt_day = -1, wt_hour = 0, wt_minute = 0\<rparr>"
  from p obtain r where r: "parse_items layout (?t0, v) = Some (t, r)" "1 \<le> wt_day t" "wt_day t \<le> days_in (wt_month t) (wt_year t)"
    by (auto simp: time_parse_def split: option.splits if_splits)
  have "time_part_ok ?t0" by (simp add: time_part_ok_def)
  from parse_items_ok [OF r(1) this] m r(2,3) show ?thesis by (auto simp: wall_ok_def time_part_ok_def)
qed

lemma first_parsed_ok: "first_parsed ls v = Some t \<Longrightarrow> list_all (\<lambda>l. StdMonth \<in> set l) ls \<Longrightarrow> wall_ok t"
  by (induction ls) (auto split: option.splits intro: time_parse_ok)

subsection \<open>What is shown is read back\<close>

definition digit_of :: "int \<Rightarrow> char" where
  "digit_of n = char_of (48 + n)"

lemma digit_of_digit [simp]: "0 \<le> n \<Longrightarrow> n < 10 \<Longrightarrow> is_digit (digit_of n)" "0 \<le> n \<Longrightarrow> n < 10 \<Longrightarrow> digit_val (digit_of n) = n"
  using digit_char [of n] by (simp_all add: digit_of_def)

lemma digits_str_one: "n < 10 \<Longrightarrow> digits_str n = [digit_of n]"
  by (simp add: digits_str.simps [of n] digit_of_def)

lemma digits_str_more: "10 \<le> n \<Longrightarrow> digits_str n = digits_str (n div 10) @ [digit_of (n mod 10)]"
  by (simp add: digits_str.simps [of n] digit_of_def)

lemma zero_digit: "CHR ''0'' = digit_of 0"
  by (simp add: digit_of_def) code_simp

lemma pad_two: "0 \<le> n \<Longrightarrow> n < 100 \<Longrightarrow> pad_int 2 n = [digit_of (n div 10), digit_of (n mod 10)]"
  by (cases "n < 10") (simp_all add: pad_int_def digits_str_one digits_str_more zero_digit Let_def)

lemma pad_four:
  assumes "0 \<le> n" "n < 10000"
  shows "pad_int 4 n = [digit_of (n div 1000), digit_of (n div 100 mod 10), digit_of (n div 10 mod 10), digit_of (n mod 10)]"
proof -
  have d: "n div 10 div 10 = n div 100" "n div 100 div 10 = n div 1000" by (simp_all add: zdiv_zmult2_eq [symmetric])
  consider "n < 10" | "10 \<le> n" "n < 100" | "100 \<le> n" "n < 1000" | "1000 \<le> n" by linarith
  then show ?thesis
  proof cases
    case 1
    then show ?thesis using assms by (simp add: pad_int_def digits_str_one zero_digit Let_def eval_nat_numeral)
  next
    case 2
    then have "digits_str n = [digit_of (n div 10), digit_of (n mod 10)]" "n div 100 = 0" "n div 1000 = 0" "n div 10 mod 10 = n div 10"
      by (simp_all add: digits_str_one digits_str_more)
    then show ?thesis using assms by (simp add: pad_int_def zero_digit Let_def eval_nat_numeral)
  next
    case 3
    then have "n div 10 \<ge> 10" "n div 100 < 10" "n div 1000 = 0" "n div 100 mod 10 = n div 100" by simp_all
    then have "digits_str n = [digit_of (n div 100), digit_of (n div 10 mod 10), digit_of (n mod 10)]"
      using 3 by (simp add: digits_str_one digits_str_more d)
    with \<open>n div 1000 = 0\<close> \<open>n div 100 mod 10 = n div 100\<close> show ?thesis using assms by (simp add: pad_int_def zero_digit Let_def)
  next
    case 4
    then have "n div 10 \<ge> 10" "n div 100 \<ge> 10" "n div 1000 < 10" using assms by simp_all
    then have "digits_str n = [digit_of (n div 1000), digit_of (n div 100 mod 10), digit_of (n div 10 mod 10), digit_of (n mod 10)]"
      using 4 by (simp add: digits_str_one digits_str_more d)
    then show ?thesis using assms by (simp add: pad_int_def Let_def)
  qed
qed

lemma getnum_two [simp]: "0 \<le> n \<Longrightarrow> n < 100 \<Longrightarrow> getnum f (digit_of (n div 10) # digit_of (n mod 10) # v) = Some (n, v)"
  by (simp add: getnum_def)

lemma decimal_sum:
  fixes n :: int
  assumes "m * 10 + r = n" "k * 10 + u = m" "j * 10 + w = k"
  shows "10 * (10 * (10 * j + w) + u) + r = n"
  using assms by simp

lemma digits_four:
  assumes "0 \<le> n" "n < 10000"
  shows "all_digits (pad_int 4 n) \<and> digits_val (pad_int 4 n) = n \<and> length (pad_int 4 n) = 4"
proof -
  define m k j where "m = n div 10" and "k = m div 10" and "j = k div 10"
  define r u w where "r = n mod 10" and "u = m mod 10" and "w = k mod 10"
  have p: "pad_int 4 n = [digit_of j, digit_of w, digit_of u, digit_of r]"
    unfolding pad_four [OF assms] by (simp add: m_def k_def j_def r_def u_def w_def zdiv_zmult2_eq [symmetric])
  have "10 * (10 * (10 * j + w) + u) + r = n"
    by (rule decimal_sum [of m _ _ k]) (simp_all only: m_def k_def j_def r_def u_def w_def div_mult_mod_eq)
  moreover have "0 \<le> j" "j < 10"
    using assms by (simp_all add: m_def k_def j_def zdiv_zmult2_eq [symmetric])
  moreover have "0 \<le> w" "w < 10" "0 \<le> u" "u < 10" "0 \<le> r" "r < 10" by (simp_all add: r_def u_def w_def)
  ultimately show ?thesis unfolding p by (simp add: all_digits_def digits_val_def)
qed

lemma parse_year_four:
  assumes "0 \<le> y" "y < 10000"
  shows "parse_item StdYear (t, pad_int 4 y @ v) = Some (t\<lparr>wt_year := y\<rparr>, v)"
  using digits_four [OF assms] by simp

lemma days_in_le: "days_in m y \<le> 31"
  by (simp add: days_in_def)

lemma parse_date_shown:
  assumes "wall_ok t"
  shows "parse_items (date_layout @ is) (t0, format_minute t) =
    parse_items is (t0\<lparr>wt_year := wt_year t, wt_month := wt_month t, wt_day := wt_day t\<rparr>,
      '' '' @ pad_int 2 (wt_hour t) @ '':'' @ pad_int 2 (wt_minute t))"
proof -
  have b: "0 \<le> wt_year t" "wt_year t < 10000" "1 \<le> wt_month t" "wt_month t \<le> 12" "1 \<le> wt_day t" "wt_day t < 100"
    using assms days_in_le [of "wt_month t" "wt_year t"] by (simp_all add: wall_ok_def)
  then have "pad_int 2 (wt_month t) = [digit_of (wt_month t div 10), digit_of (wt_month t mod 10)]"
    "pad_int 2 (wt_day t) = [digit_of (wt_day t div 10), digit_of (wt_day t mod 10)]" by (simp_all add: pad_two)
  with b show ?thesis
    by (simp add: date_layout_def format_minute_def parse_year_four in_range_def del: parse_item.simps(2))
qed

lemma format_minute_head: "wall_ok t \<Longrightarrow> \<exists>c v. format_minute t = c # v \<and> is_digit c"
  by (auto simp: wall_ok_def format_minute_def pad_four)

theorem format_minute_roundtrip:
  assumes "wall_ok t"
  shows "first_parsed build_time_layouts (format_minute t) = Some t"
proof -
  let ?t0 = "\<lparr>wt_year = 0, wt_month = -1, wt_day = -1, wt_hour = 0, wt_minute = 0\<rparr>"
  have no: "time_parse (date_layout @ Lit ''T'' # is) (format_minute t) = None" for "is"
    by (simp add: time_parse_def parse_date_shown [OF assms])
  have b: "0 \<le> wt_hour t" "wt_hour t \<le> 23" "0 \<le> wt_minute t" "wt_minute t \<le> 59" using assms by (simp_all add: wall_ok_def)
  then have p: "pad_int 2 (wt_hour t) = [digit_of (wt_hour t div 10), digit_of (wt_hour t mod 10)]"
    "pad_int 2 (wt_minute t) = [digit_of (wt_minute t div 10), digit_of (wt_minute t mod 10)]" by (simp_all add: pad_two)
  have nb: "digit_of (wt_hour t div 10) \<noteq> CHR '' ''"
  proof -
    have "0 \<le> wt_hour t div 10" "wt_hour t div 10 < 10" using b by simp_all
    then have "is_digit (digit_of (wt_hour t div 10))" by simp
    then show ?thesis by (auto simp: is_digit_def)
  qed
  have "time_parse (date_layout @ [Lit '' '', StdHour, Lit '':'', StdMinute]) (format_minute t) = Some t"
  proof -
    let ?t1 = "?t0\<lparr>wt_year := wt_year t, wt_month := wt_month t, wt_day := wt_day t\<rparr>"
    have "parse_items [Lit '' '', StdHour, Lit '':'', StdMinute] (?t1, '' '' @ pad_int 2 (wt_hour t) @ '':'' @ pad_int 2 (wt_minute t))
        = Some (?t1\<lparr>wt_hour := wt_hour t, wt_minute := wt_minute t\<rparr>, [])"
      using b nb by (simp add: p in_range_def)
    moreover have "?t1\<lparr>wt_hour := wt_hour t, wt_minute := wt_minute t\<rparr> = t" by (cases t) simp
    ultimately show ?thesis using assms by (simp add: time_parse_def parse_date_shown [OF assms] wall_ok_def)
  qed
  then show ?thesis by (simp add: build_time_layouts_def no)
qed

lemma digit_start_known: "is_digit c \<Longrightarrow> \<not> equal_fold (c # v) ''unknown''"
proof -
  assume d: "is_digit c"
  then have "char_lower c = c" by (simp add: char_lower_def is_digit_def Let_def)
  moreover have "char_lower (CHR ''u'') = CHR ''u''" by (simp add: char_lower_def)
  ultimately show ?thesis using d by (auto simp: equal_fold_def to_lower_def is_digit_def)
qed

lemma time_parse_head: "time_parse (StdYear # is) v = Some t \<Longrightarrow> \<exists>c w. v = c # w \<and> is_digit c"
  by (cases v) (auto simp: time_parse_def all_digits_def split: option.splits if_splits)

lemma first_parsed_head:
  "first_parsed ls v = Some t \<Longrightarrow> list_all (\<lambda>l. \<exists>is. l = StdYear # is) ls \<Longrightarrow> \<exists>c w. v = c # w \<and> is_digit c"
  by (induction ls) (auto split: option.splits dest: time_parse_head)

text \<open>
  The text shown for a stamp that parses is a stamp itself, which is shown as it is; any
  other stamp is shown trimmed.
\<close>

theorem display_build_time_stable:
  "case first_parsed build_time_layouts s of
     Some t \<Rightarrow> wall_ok t \<and> display_build_time s = format_minute t \<and> display_build_time (display_build_time s) = display_build_time s
   | None \<Rightarrow> display_build_time s = (if s = [] \<or> equal_fold s ''unknown'' then ''unknown'' else trim_space s)"
proof (cases "first_parsed build_time_layouts s")
  case None
  then show ?thesis by (simp add: display_build_time_def)
next
  case (Some t)
  have m: "list_all (\<lambda>l. StdMonth \<in> set l) build_time_layouts" "list_all (\<lambda>l. \<exists>is. l = StdYear # is) build_time_layouts"
    by (simp_all add: build_time_layouts_def date_layout_def)
  from first_parsed_ok [OF Some m(1)] have t: "wall_ok t" .
  have shown: "display_build_time v = format_minute t" if "first_parsed build_time_layouts v = Some t" for v
    using that first_parsed_head [OF that m(2)] digit_start_known by (auto simp: display_build_time_def)
  from shown [OF Some] shown [OF format_minute_roundtrip [OF t]] t Some show ?thesis by simp
qed

end
