(* ===== verification/Setup.thy ===== *)
theory Setup
  imports ConnectorStore ConnectorServe Fips BuildInfo
begin

text \<open>
  The setup interface of the connector, \<open>internal/media/setup.go\<close>: \<open>SetupHandler\<close> with
  its pages, its status, the configuration, the FIPS secret, and the tests of the media
  servers. A handler takes the state (the connector, and the files) to its outcome: the
  response, the requests to media servers, the network calls of a peer check, and the new
  state. Timeouts of the tests are errors of the client. The embedded pages, the clock of the
  request and the display of the build time are parameters.
\<close>

section \<open>State\<close>

record setup_handler =
  su_config_path :: string
  su_fips_nsec_path :: string
  su_auth :: authorizer

text \<open>\<open>Connector\<close> may be nil; then an empty one is used.\<close>

record setup_state =
  ss_connector :: "connector option"
  ss_files :: file_sys

record setup_env =
  se_nostr :: nostr_lib
  se_fips :: fips_lib
  se_net :: fips_net
  se_media :: media_lib
  se_files :: file_ops
  se_now :: go_time
  se_html :: string
  se_css :: string
  se_js :: string
  se_favicon :: string
  se_build_time :: string
  se_default_client :: http_do

record setup_out =
  so_resp :: http_resp
  so_sent :: "out_req list"
  so_net :: "net_call list"
  so_state :: setup_state

definition reply :: "http_resp \<Rightarrow> setup_state \<Rightarrow> setup_out" where
  "reply resp st = \<lparr>so_resp = resp, so_sent = [], so_net = [], so_state = st\<rparr>"

definition reply_sent :: "http_resp \<Rightarrow> out_req list \<Rightarrow> setup_state \<Rightarrow> setup_out" where
  "reply_sent resp qs st = \<lparr>so_resp = resp, so_sent = qs, so_net = [], so_state = st\<rparr>"

definition empty_connector :: "http_do \<Rightarrow> connector" where
  "empty_connector client = \<lparr>cn_allowed_cidrs = [], cn_shared_token = [], cn_jellyfin_base_url = [],
     cn_jellyfin_api_key = [], cn_plex_base_url = [], cn_plex_token = [], cn_fips_peer_npub = [],
     cn_fips_peer_addr = [], cn_http_client = client\<rparr>"

definition setup_connector :: "setup_env \<Rightarrow> setup_state \<Rightarrow> connector" where
  "setup_connector E st = (case ss_connector st of Some c \<Rightarrow> c | None \<Rightarrow> empty_connector (se_default_client E))"

definition setup_media_config :: "setup_env \<Rightarrow> setup_state \<Rightarrow> media_config" where
  "setup_media_config E st = media_config_of (setup_connector E st)"

section \<open>Secrets\<close>

definition merge_with_existing_secrets :: "media_config \<Rightarrow> media_config \<Rightarrow> media_config" where
  "merge_with_existing_secrets existing candidate0 =
     (let c0 = normalized_media_config candidate0;
          c1 = (if mc_jellyfin_base_url c0 = [] then c0\<lparr>mc_jellyfin_api_key := []\<rparr>
                else if mc_jellyfin_api_key c0 = [] then c0\<lparr>mc_jellyfin_api_key := mc_jellyfin_api_key existing\<rparr>
                else c0);
          c2 = (if mc_plex_base_url c1 = [] then c1\<lparr>mc_plex_token := []\<rparr>
                else if mc_plex_token c1 = [] then c1\<lparr>mc_plex_token := mc_plex_token existing\<rparr>
                else c1)
      in c2\<lparr>mc_fips_peer_npub := trim_space (mc_fips_peer_npub c2), mc_fips_peer_addr := trim_space (mc_fips_peer_addr c2)\<rparr>)"

definition service_setup_status :: "string \<Rightarrow> string \<Rightarrow> json" where
  "service_setup_status base token = JObj [(''base_url'', JStr (trim_space base)),
     (''configured'', JBool (trim_space base \<noteq> [])), (''token_configured'', JBool (trim_space token \<noteq> []))]"

definition redacted_media_config :: "media_config \<Rightarrow> json" where
  "redacted_media_config cfg =
     JObj [(''jellyfin'', service_setup_status (mc_jellyfin_base_url cfg) (mc_jellyfin_api_key cfg)),
           (''plex'', service_setup_status (mc_plex_base_url cfg) (mc_plex_token cfg)),
           (''fips_peer_npub'', JStr (trim_space (mc_fips_peer_npub cfg))),
           (''fips_peer_addr'', JStr (trim_space (mc_fips_peer_addr cfg)))]"

text \<open>The configuration a test uses: the one in the body, if there is one, with the stored secrets.\<close>

definition test_config :: "setup_env \<Rightarrow> setup_state \<Rightarrow> bool \<Rightarrow> http_req \<Rightarrow> media_config" where
  "test_config E st use_body r =
     (if use_body \<and> rq_body r \<noteq> None then
        (case Option.bind (decode_limited 65536 r) decode_media_config of
           Some candidate \<Rightarrow> merge_with_existing_secrets (setup_media_config E st) candidate
         | None \<Rightarrow> setup_media_config E st)
      else setup_media_config E st)"

section \<open>Reading\<close>

definition setup_page :: "setup_env \<Rightarrow> http_resp" where
  "setup_page E =
     \<lparr>rs_status = 200, rs_header = hdr_set ''Content-Type'' ''text/html; charset=utf-8'' no_header,
      rs_body = BodyText (replace_all ''{{BUILD_TIME}}'' (display_build_time (se_build_time E))
        (replace_all ''{{WRAPSTER_NAS_NAME}}'' ''Wrapster NAS'' (inject_shared (se_css E) (se_js E) (se_html E))))\<rparr>"

text \<open>\<open>http.Redirect\<close> to a fixed path with status 302.\<close>

definition redirect_found :: "http_req \<Rightarrow> string \<Rightarrow> http_resp" where
  "redirect_found r url =
     (let h = hdr_set ''Location'' url no_header
      in \<lparr>rs_status = 302,
          rs_header = (if rq_method r = ''GET'' \<or> rq_method r = ''HEAD''
            then hdr_set ''Content-Type'' ''text/html; charset=utf-8'' h else h),
          rs_body = (if rq_method r = ''GET''
            then BodyText (''<a href='' @ [CHR 0x22] @ url @ [CHR 0x22] @ ''>Found</a>.'' @ [CHR 0x0A, CHR 0x0A]) else BodyEmpty)\<rparr>)"

definition su_favicon :: "setup_env \<Rightarrow> http_req \<Rightarrow> http_resp" where
  "su_favicon E r = (case require_method r ''GET'' of
       Some resp \<Rightarrow> resp
     | None \<Rightarrow> \<lparr>rs_status = 200, rs_header = hdr_set ''Content-Type'' ''image/svg+xml'' no_header, rs_body = BodyText (se_favicon E)\<rparr>)"

definition setup_fips_payload :: "setup_env \<Rightarrow> setup_handler \<Rightarrow> file_sys \<Rightarrow> json" where
  "setup_fips_payload E h fs =
     (let path = trim_space (su_fips_nsec_path h); out = (\<lambda>ok rest. JObj ((''configured'', JBool ok) # rest))
      in if path = [] then out False [(''state'', JStr ''not_configured'')]
         else (case read_file (se_files E) fs path of
            ReadNotExist e \<Rightarrow> out False [(''state'', JStr ''file_error''), (''error'', JStr e)]
          | ReadFailed e \<Rightarrow> out False [(''state'', JStr ''file_error''), (''error'', JStr e)]
          | ReadOk raw \<Rightarrow>
             (case nsec_identity (se_fips E) raw of
                Inl e \<Rightarrow> out False [(''state'', JStr ''invalid''), (''error'', JStr e)]
              | Inr npub \<Rightarrow> out True [(''state'', JStr ''configured''), (''npub'', JStr npub)])))"

definition su_status :: "setup_env \<Rightarrow> setup_handler \<Rightarrow> http_req \<Rightarrow> setup_state \<Rightarrow> setup_out" where
  "su_status E h r st =
     (case require_method r ''GET'' of
        Some resp \<Rightarrow> reply resp st
      | None \<Rightarrow>
         (let cfg = setup_media_config E st;
              (check, calls) = check_peer_with_debug (se_nostr E) (se_net E) (mc_fips_peer_npub cfg) (mc_fips_peer_addr cfg);
              body = JObj [(''config_path'', JBool (trim_space (su_config_path h) \<noteq> [])),
                (''admin_auth'', JBool (az_admins (su_auth h) \<noteq> {})),
                (''fips'', setup_fips_payload E h (ss_files st)),
                (''fips_peers'', peer_list_json (peer_list (mc_fips_peer_npub cfg) (mc_fips_peer_addr cfg) (Some check))),
                (''services'', JObj [(''jellyfin'', service_setup_status (mc_jellyfin_base_url cfg) (mc_jellyfin_api_key cfg)),
                   (''plex'', service_setup_status (mc_plex_base_url cfg) (mc_plex_token cfg))]),
                (''fips_peer'', JObj [(''npub'', JStr (mc_fips_peer_npub cfg)), (''peer_addr'', JStr (mc_fips_peer_addr cfg)),
                   (''configured'', JBool (trim_space (mc_fips_peer_npub cfg) \<noteq> [])),
                   (''addr_configured'', JBool (trim_space (mc_fips_peer_addr cfg) \<noteq> [])), (''check'', JObj check)])]
          in \<lparr>so_resp = httpx_write_json 200 body, so_sent = [], so_net = calls, so_state = st\<rparr>))"

section \<open>Writing\<close>

definition su_fips_nsec :: "setup_env \<Rightarrow> setup_handler \<Rightarrow> http_req \<Rightarrow> setup_state \<Rightarrow> setup_out" where
  "su_fips_nsec E h r st =
     (case require_method r ''POST'' of
        Some resp \<Rightarrow> reply resp st
      | None \<Rightarrow> (case az_verify_request (se_nostr E) (su_auth h) r (se_now E) of
          Inl e \<Rightarrow> reply (error_json (admin_auth_status e) (error_text e)) st
        | Inr _ \<Rightarrow>
           (case Option.bind (decode_limited 4096 r) (unmarshal_struct [''nsec'']) of
              None \<Rightarrow> reply (error_json 400 ''invalid JSON'') st
            | Some m \<Rightarrow>
               (case save_nsec (se_fips E) (se_files E) (su_fips_nsec_path h) (m ''nsec'') (ss_files st) of
                  (Inl e, trace) \<Rightarrow> reply (error_json 400 e) (st\<lparr>ss_files := last trace\<rparr>)
                | (Inr npub, trace) \<Rightarrow>
                   reply (httpx_write_json 200 (JObj [(''saved'', JBool True), (''npub'', JStr npub)])) (st\<lparr>ss_files := last trace\<rparr>)))))"

definition su_fips_peer_check :: "setup_env \<Rightarrow> setup_handler \<Rightarrow> http_req \<Rightarrow> setup_state \<Rightarrow> setup_out" where
  "su_fips_peer_check E h r st =
     (case require_method r ''POST'' of
        Some resp \<Rightarrow> reply resp st
      | None \<Rightarrow> (case az_verify_request (se_nostr E) (su_auth h) r (se_now E) of
          Inl e \<Rightarrow> reply (error_json (admin_auth_status e) (error_text e)) st
        | Inr _ \<Rightarrow>
           (case Option.bind (decode_limited 65536 r) (unmarshal_struct [''fips_peer_npub'', ''fips_peer_addr'']) of
              None \<Rightarrow> reply (error_json 400 ''invalid JSON'') st
            | Some m \<Rightarrow>
               (let (check, calls) = check_peer_with_debug (se_nostr E) (se_net E) (m ''fips_peer_npub'') (m ''fips_peer_addr'');
                    resp = (case connectivity_error check of
                       Some text \<Rightarrow> httpx_write_json 400 (JObj [(''ok'', JBool False), (''error'', JStr text), (''check'', JObj check)])
                     | None \<Rightarrow>
                        if \<not> st_bool check ''peer_npub_ok'' \<or> (\<not> st_bool check ''reachable'' \<and> st_bool check ''peer_addr_set'')
                        then httpx_write_json 400 (JObj [(''ok'', JBool False), (''check'', JObj check)])
                        else httpx_write_json 200 (JObj [(''ok'', JBool True), (''check'', JObj check)]))
                in \<lparr>so_resp = resp, so_sent = [], so_net = calls, so_state = st\<rparr>))))"

definition su_config :: "setup_env \<Rightarrow> setup_handler \<Rightarrow> http_req \<Rightarrow> setup_state \<Rightarrow> setup_out" where
  "su_config E h r st =
     (if rq_method r = ''GET'' then reply (httpx_write_json 200 (redacted_media_config (setup_media_config E st))) st
      else if rq_method r = ''PUT'' then
        (case az_verify_request (se_nostr E) (su_auth h) r (se_now E) of
           Inl e \<Rightarrow> reply (error_json (admin_auth_status e) (error_text e)) st
         | Inr _ \<Rightarrow>
            (case Option.bind (decode_limited 65536 r) decode_media_config of
               None \<Rightarrow> reply (error_json 400 ''invalid JSON'') st
             | Some cfg0 \<Rightarrow>
                (let cfg = merge_with_existing_secrets (setup_media_config E st) cfg0
                 in (case validate_media_config (se_nostr E) cfg of
                       Some e \<Rightarrow> reply (error_json 400 e) st
                     | None \<Rightarrow>
                        (case save_media_config (se_nostr E) (se_files E) (su_config_path h) cfg (ss_files st) of
                           (Some e, trace) \<Rightarrow> reply (error_json 500 e) (st\<lparr>ss_files := last trace\<rparr>)
                         | (None, trace) \<Rightarrow>
                            reply (httpx_write_json 200 (redacted_media_config cfg))
                              (st\<lparr>ss_files := last trace, ss_connector := map_option (set_media_config cfg) (ss_connector st)\<rparr>))))))
      else (case require_methods r [''GET'', ''PUT''] of
          Some resp \<Rightarrow> reply resp st
        | None \<Rightarrow> reply \<lparr>rs_status = 200, rs_header = no_header, rs_body = BodyEmpty\<rparr> st))"

section \<open>Testing the media servers\<close>

definition check_setup_request :: "connector \<Rightarrow> out_req \<Rightarrow> string \<Rightarrow> media_error option \<times> out_req list" where
  "check_setup_request c q service =
     (case client_do c q of
        Inl e \<Rightarrow> (Some e, [q])
      | Inr resp \<Rightarrow> (if \<not> success_status (up_code resp)
          then (Some (MediaMsg (service @ '' returned '' @ up_status resp)), [q]) else (None, [q])))"

definition test_jellyfin :: "connector \<Rightarrow> media_config \<Rightarrow> media_error option \<times> out_req list" where
  "test_jellyfin c cfg =
     (if trim_space (mc_jellyfin_base_url cfg) = [] then (Some ServiceNotConfigured, [])
      else (case url_parse (mc_jellyfin_base_url cfg) of
         None \<Rightarrow> (Some (MediaMsg (url_parse_error (mc_jellyfin_base_url cfg))), [])
       | Some u \<Rightarrow>
          (case media_get (url_string (u\<lparr>u_path := trim_right (CHR ''/'') (u_path u) @ ''/System/Info''\<rparr>)) (emby_header cfg) of
             Inl e \<Rightarrow> (Some e, [])
           | Inr q \<Rightarrow> check_setup_request c q ''jellyfin'')))"

definition test_plex :: "connector \<Rightarrow> media_config \<Rightarrow> media_error option \<times> out_req list" where
  "test_plex c cfg =
     (if trim_space (mc_plex_base_url cfg) = [] then (Some ServiceNotConfigured, [])
      else (case url_parse (mc_plex_base_url cfg) of
         None \<Rightarrow> (Some (MediaMsg (url_parse_error (mc_plex_base_url cfg))), [])
       | Some u0 \<Rightarrow>
          (let u = u0\<lparr>u_path := trim_right (CHR ''/'') (u_path u0) @ ''/identity''\<rparr>;
               v = (if mc_plex_token cfg \<noteq> []
                    then u\<lparr>u_raw_query := values_encode (values_set ''X-Plex-Token'' (mc_plex_token cfg) (url_query u))\<rparr> else u)
           in (case media_get (url_string v) no_header of
                 Inl e \<Rightarrow> (Some e, [])
               | Inr q \<Rightarrow> check_setup_request c q ''plex''))))"

text \<open>The test endpoints share their guards: the method, then the administrator.\<close>

definition admin_guard :: "setup_env \<Rightarrow> setup_handler \<Rightarrow> string list \<Rightarrow> http_req \<Rightarrow> http_resp option" where
  "admin_guard E h ms r =
     (case require_methods r ms of
        Some resp \<Rightarrow> Some resp
      | None \<Rightarrow> (case az_verify_request (se_nostr E) (su_auth h) r (se_now E) of
          Inl e \<Rightarrow> Some (error_json (admin_auth_status e) (error_text e)) | Inr _ \<Rightarrow> None))"

definition su_test :: "setup_env \<Rightarrow> setup_handler \<Rightarrow> http_req \<Rightarrow> setup_state \<Rightarrow> string \<Rightarrow> setup_out" where
  "su_test E h r st service =
     (case admin_guard E h [''POST''] r of
        Some resp \<Rightarrow> reply resp st
      | None \<Rightarrow>
         (let cfg = test_config E st True r; c = setup_connector E st
          in (case (if service = ''jellyfin'' then test_jellyfin c cfg else test_plex c cfg) of
                (Some e, qs) \<Rightarrow> reply_sent (httpx_write_json 502 (JObj [(''ok'', JBool False), (''error'', JStr (media_error_text e))])) qs st
              | (None, qs) \<Rightarrow> reply_sent (httpx_write_json 200 (JObj [(''ok'', JBool True)])) qs st)))"

text \<open>The random song of a service, with the URL its stream is offered under.\<close>

definition su_random_song :: "setup_env \<Rightarrow> setup_handler \<Rightarrow> http_req \<Rightarrow> setup_state \<Rightarrow> string
    \<Rightarrow> (connector \<Rightarrow> media_config \<Rightarrow> (random_song_test \<times> media_error option) \<times> out_req list) \<Rightarrow> setup_out" where
  "su_random_song E h r st stream_prefix song =
     (case admin_guard E h [''POST''] r of
        Some resp \<Rightarrow> reply resp st
      | None \<Rightarrow>
         (case song (setup_connector E st) (test_config E st True r) of ((result0, err), qs) \<Rightarrow>
            (let result = (if mi_stream_id (rt_item result0) \<noteq> []
                   then result0\<lparr>rt_stream_url := stream_prefix @ path_escape (mi_stream_id (rt_item result0))\<rparr> else result0)
             in (case err of
                   Some e \<Rightarrow> reply_sent (httpx_write_json (service_error_status 502 e)
                      (JObj [(''error'', JStr (media_error_text e)), (''debug'', JArr (rt_debug result))])) qs st
                 | None \<Rightarrow> reply_sent (httpx_write_json 200 (random_song_json result)) qs st))))"

definition su_test_jellyfin_random_song :: "setup_env \<Rightarrow> setup_handler \<Rightarrow> http_req \<Rightarrow> setup_state \<Rightarrow> setup_out" where
  "su_test_jellyfin_random_song E h r st =
     su_random_song E h r st ''/setup/api/test/jellyfin-random-song/stream/'' (random_jellyfin_song (se_media E))"

definition su_test_plex_random_song :: "setup_env \<Rightarrow> setup_handler \<Rightarrow> http_req \<Rightarrow> setup_state \<Rightarrow> setup_out" where
  "su_test_plex_random_song E h r st =
     su_random_song E h r st ''/setup/api/test/plex-random-song/stream/'' (random_plex_song (se_media E))"

definition stream_response :: "up_resp \<Rightarrow> http_resp" where
  "stream_response resp = \<lparr>rs_status = up_code resp, rs_header = copy_stream_headers no_header (up_header resp),
     rs_body = BodyBytes (up_body resp)\<rparr>"

text \<open>
  The loop over the two ways of asking Jellyfin for a song: the status and error to report
  so far, the answer that succeeded or the final response, and the requests sent.
\<close>

fun try_stream_requests :: "connector \<Rightarrow> (media_error + out_req) list \<Rightarrow> int \<Rightarrow> string option \<Rightarrow> http_resp \<times> out_req list" where
  "try_stream_requests c [] final_status final_err =
     (error_json final_status (case final_err of Some e \<Rightarrow> e | None \<Rightarrow> ''stream request failed''), [])"
| "try_stream_requests c (b # bs) final_status final_err =
     (case b of
        Inl e \<Rightarrow> if e = ServiceNotConfigured then (error_json 503 (media_error_text e), [])
                 else try_stream_requests c bs 400 (Some (media_error_text e))
      | Inr q \<Rightarrow>
         (case (case client_do c q of
                  Inl e \<Rightarrow> try_stream_requests c bs final_status (Some (media_error_text e))
                | Inr resp \<Rightarrow>
                   (if success_status (up_code resp) then (stream_response resp, [])
                    else try_stream_requests c bs final_status (Some (''stream request failed: '' @ up_status resp)))) of
            (resp, qs) \<Rightarrow> (resp, q # qs)))"

definition su_stream_jellyfin_random_song :: "setup_env \<Rightarrow> setup_handler \<Rightarrow> http_req \<Rightarrow> setup_state \<Rightarrow> setup_out" where
  "su_stream_jellyfin_random_song E h r st =
     (case admin_guard E h [''GET'', ''POST''] r of
        Some resp \<Rightarrow> reply resp st
      | None \<Rightarrow>
         (let stream_id = trim_prefix (u_path (rq_url r)) ''/setup/api/test/jellyfin-random-song/stream/''
          in if stream_id = [] then reply not_found st
             else (let cfg = test_config E st (rq_method r = ''POST'') r
                   in (case try_stream_requests (setup_connector E st)
                         [jellyfin_browser_audio_request_with_config cfg stream_id,
                          jellyfin_stream_request_with_config cfg stream_id] 502 None of
                      (resp, qs) \<Rightarrow> reply_sent resp qs st))))"

definition su_stream_plex_random_song :: "setup_env \<Rightarrow> setup_handler \<Rightarrow> http_req \<Rightarrow> setup_state \<Rightarrow> setup_out" where
  "su_stream_plex_random_song E h r st =
     (case admin_guard E h [''GET'', ''POST''] r of
        Some resp \<Rightarrow> reply resp st
      | None \<Rightarrow>
         (let stream_id = trim_prefix (u_path (rq_url r)) ''/setup/api/test/plex-random-song/stream/''
          in if stream_id = [] then reply not_found st
             else (case plex_stream_request_with_config (test_config E st (rq_method r = ''POST'') r) stream_id of
                Inl e \<Rightarrow> reply (if e = ServiceNotConfigured then error_json 503 (media_error_text e) else not_found) st
              | Inr q \<Rightarrow>
                 (case client_do (setup_connector E st) q of
                    Inl _ \<Rightarrow> reply_sent (http_error no_header ''failed to start Plex stream'' 502) [q] st
                  | Inr resp \<Rightarrow> reply_sent (stream_response resp) [q] st))))"

section \<open>Dispatch\<close>

definition setup_serve :: "setup_env \<Rightarrow> setup_handler \<Rightarrow> http_req \<Rightarrow> setup_state \<Rightarrow> setup_out" where
  "setup_serve E h r st =
     (let p = u_path (rq_url r)
      in if p = admin_route \<or> p = admin_route_slash then
           (case require_method r ''GET'' of Some resp \<Rightarrow> reply resp st | None \<Rightarrow> reply (setup_page E) st)
         else if p = setup_route \<or> p = setup_route_slash then reply (redirect_found r admin_route) st
         else if p = setup_favicon_svg \<or> p = setup_favicon_ico then reply (su_favicon E r) st
         else if p = setup_api_status then su_status E h r st
         else if p = setup_api_config then su_config E h r st
         else if p = setup_api_fips_nsec then su_fips_nsec E h r st
         else if p = setup_api_fips_peer_check then su_fips_peer_check E h r st
         else if p = setup_api_test_jellyfin then su_test E h r st ''jellyfin''
         else if p = setup_api_jellyfin_song then su_test_jellyfin_random_song E h r st
         else if has_prefix p setup_api_jellyfin_stream then su_stream_jellyfin_random_song E h r st
         else if p = setup_api_test_plex then su_test E h r st ''plex''
         else if p = setup_api_plex_song then su_test_plex_random_song E h r st
         else if has_prefix p setup_api_plex_stream then su_stream_plex_random_song E h r st
         else reply not_found st)"

end
