(* ===== verification/SetupClaims.thy ===== *)
theory SetupClaims
  imports Setup ConnectorClaims
begin

text \<open>
  What the setup interface guarantees: only an administrator changes anything or makes it
  contact a media server; what it shows to everybody does not depend on the tokens; and the
  file on disk is, at all times, the configuration the connector runs with.
\<close>

section \<open>Only for administrators\<close>

lemma reply_simps [simp]:
  "so_state (reply resp st) = st" "so_sent (reply resp st) = []" "so_net (reply resp st) = []" "so_resp (reply resp st) = resp"
  "so_state (reply_sent resp qs st) = st" "so_sent (reply_sent resp qs st) = qs" "so_net (reply_sent resp qs st) = []"
  by (simp_all add: reply_def reply_sent_def)

lemma admin_guard_refuses:
  "az_verify_request (se_nostr E) (su_auth h) r (se_now E) = Inl e \<Longrightarrow> \<exists>resp. admin_guard E h ms r = Some resp"
  by (simp add: admin_guard_def split: option.split)

definition refused_by :: "setup_out \<Rightarrow> setup_state \<Rightarrow> bool" where
  "refused_by out st \<longleftrightarrow> so_state out = st \<and> so_sent out = [] \<and> so_net out = []"

lemma refused_reply [simp]: "refused_by (reply resp st) st"
  by (simp add: refused_by_def)

lemma refused_by_if: "refused_by a st \<Longrightarrow> refused_by b st \<Longrightarrow> refused_by (if c then a else b) st"
  by simp

lemma handlers_refuse:
  assumes "az_verify_request (se_nostr E) (su_auth h) r (se_now E) = Inl e"
  shows "refused_by (su_config E h r st) st" "refused_by (su_fips_nsec E h r st) st"
    "refused_by (su_fips_peer_check E h r st) st" "refused_by (su_test E h r st service) st"
    "refused_by (su_test_jellyfin_random_song E h r st) st" "refused_by (su_test_plex_random_song E h r st) st"
    "refused_by (su_stream_jellyfin_random_song E h r st) st" "refused_by (su_stream_plex_random_song E h r st) st"
proof -
  obtain p g where g: "admin_guard E h [''POST''] r = Some p" "admin_guard E h [''GET'', ''POST''] r = Some g"
    using admin_guard_refuses [OF assms] by blast
  show "refused_by (su_config E h r st) st"
    by (simp add: su_config_def assms split: option.split)
  show "refused_by (su_fips_nsec E h r st) st" "refused_by (su_fips_peer_check E h r st) st"
    by (simp_all add: su_fips_nsec_def su_fips_peer_check_def assms split: option.split)
  show "refused_by (su_test E h r st service) st" "refused_by (su_test_jellyfin_random_song E h r st) st"
    "refused_by (su_test_plex_random_song E h r st) st"
    by (simp_all add: su_test_def su_test_jellyfin_random_song_def su_test_plex_random_song_def su_random_song_def g)
  show "refused_by (su_stream_jellyfin_random_song E h r st) st" "refused_by (su_stream_plex_random_song E h r st) st"
    by (simp_all add: su_stream_jellyfin_random_song_def su_stream_plex_random_song_def g)
qed

lemma setup_serve_refused:
  assumes "az_verify_request (se_nostr E) (su_auth h) r (se_now E) = Inl e"
  shows "so_state (setup_serve E h r st) = st \<and> so_sent (setup_serve E h r st) = []
    \<and> (so_net (setup_serve E h r st) = [] \<or> u_path (rq_url r) = setup_api_status)"
proof (cases "u_path (rq_url r) = setup_api_status")
  case True
  have "so_state (su_status E h r st) = st" "so_sent (su_status E h r st) = []"
    by (simp_all add: su_status_def Let_def split: option.split prod.split)
  moreover have "setup_serve E h r st = su_status E h r st"
    unfolding setup_serve_def True by (simp add: setup_api_status_def setup_api_root_def setup_route_def admin_route_def
        admin_route_slash_def setup_route_slash_def setup_favicon_svg_def setup_favicon_ico_def)
  ultimately show ?thesis using True by simp
next
  case False
  have page: "refused_by (case require_method r ''GET'' of Some resp \<Rightarrow> reply resp st | None \<Rightarrow> reply (setup_page E) st) st"
    by (simp split: option.split)
  have "refused_by (setup_serve E h r st) st"
    unfolding setup_serve_def Let_def if_not_P [OF False]
    by (intro refused_by_if handlers_refuse [OF assms] refused_reply page)
  then show ?thesis by (simp add: refused_by_def)
qed

interpretation sug: guarded "\<lambda>_. True" "\<lambda>r. az_verify_request (se_nostr E) (su_auth h) r (se_now E)"
  "\<lambda>r. (so_resp (setup_serve E h r st), so_sent (setup_serve E h r st))"
  by unfold_locales (simp add: setup_serve_refused)

text \<open>
  C9: A request that is not signed by an administrator changes nothing: not the connector's
  configuration, not a file; it makes the setup interface send nothing to a media server.
  Its only effect on the network is the check of the configured peer behind the status page.
\<close>

theorem setup_changes_only_for_admin:
  "case az_verify_request (se_nostr E) (su_auth h) r (se_now E) of
     Inr pubkey \<Rightarrow> pubkey \<in> az_admins (su_auth h)
   | Inl _ \<Rightarrow> so_state (setup_serve E h r st) = st \<and> so_sent (setup_serve E h r st) = []
       \<and> (so_net (setup_serve E h r st) = [] \<or> u_path (rq_url r) = setup_api_status)"
  using setup_serve_refused
  by (auto simp: az_verify_request_def az_verify_header_Inr split: sum.split)

section \<open>Tokens are write-only\<close>

text \<open>The connector with its tokens replaced: only whether they are set is kept.\<close>

definition blank_token :: "string \<Rightarrow> string" where
  "blank_token t = (if trim_space t = [] then [] else ''x'')"

definition hide_tokens :: "setup_state \<Rightarrow> setup_state" where
  "hide_tokens st = st\<lparr>ss_connector := map_option (\<lambda>c. c\<lparr>cn_jellyfin_api_key := blank_token (cn_jellyfin_api_key c),
     cn_plex_token := blank_token (cn_plex_token c)\<rparr>) (ss_connector st)\<rparr>"

lemma blank_token_trim: "(trim_space (blank_token t) = []) = (trim_space t = [])"
proof -
  have "trim_space ''x'' = ''x''" by code_simp
  then show ?thesis by (simp add: blank_token_def)
qed

lemma service_setup_status_hidden [simp]: "service_setup_status b (blank_token t) = service_setup_status b t"
  by (simp add: service_setup_status_def blank_token_trim)

lemma hide_tokens_config [simp]:
  "mc_jellyfin_base_url (setup_media_config E (hide_tokens st)) = mc_jellyfin_base_url (setup_media_config E st)"
  "mc_plex_base_url (setup_media_config E (hide_tokens st)) = mc_plex_base_url (setup_media_config E st)"
  "mc_fips_peer_npub (setup_media_config E (hide_tokens st)) = mc_fips_peer_npub (setup_media_config E st)"
  "mc_fips_peer_addr (setup_media_config E (hide_tokens st)) = mc_fips_peer_addr (setup_media_config E st)"
  "mc_jellyfin_api_key (setup_media_config E (hide_tokens st)) = blank_token (mc_jellyfin_api_key (setup_media_config E st))"
  "mc_plex_token (setup_media_config E (hide_tokens st)) = blank_token (mc_plex_token (setup_media_config E st))"
  "ss_files (hide_tokens st) = ss_files st"
  by (cases "ss_connector st"; simp add: hide_tokens_def setup_media_config_def setup_connector_def media_config_of_def
      empty_connector_def blank_token_def)+

text \<open>
  C32: Whoever reads the status or the configuration learns whether a token is set and nothing
  else about it: the answer to a GET is the same for any two connectors that differ only in
  the tokens they hold (and the same network calls are made).
\<close>

theorem setup_reads_hide_tokens:
  "let r' = r\<lparr>rq_method := ''GET''\<rparr> in
     so_resp (su_status E h r' st) = so_resp (su_status E h r' (hide_tokens st))
     \<and> so_net (su_status E h r' st) = so_net (su_status E h r' (hide_tokens st))
     \<and> so_resp (su_config E h r' st) = so_resp (su_config E h r' (hide_tokens st))"
  by (simp add: su_status_def su_config_def redacted_media_config_def Let_def require_method_def split: prod.split)

section \<open>Disk and memory\<close>

definition config_text :: "media_config \<Rightarrow> string" where
  "config_text cfg = json_indent_strings (media_config_fields cfg) @ [CHR 0x0A]"

text \<open>The file holds the configuration of the connector, and that configuration is valid.\<close>

definition stored :: "nostr_lib \<Rightarrow> setup_handler \<Rightarrow> setup_state \<Rightarrow> bool" where
  "stored L h st \<longleftrightarrow>
     (case ss_connector st of
        None \<Rightarrow> False
      | Some c \<Rightarrow>
         ss_files st (trim_space (su_config_path h))
           = Some (config_text (media_config_of c), private_mode)
         \<and> validate_media_config L (media_config_of c) = None)"

text \<open>
  One request, whatever it is; the library, the network, the clock and the failures of the
  file system may differ from request to request.
\<close>

inductive setup_step :: "nostr_lib \<Rightarrow> setup_handler \<Rightarrow> setup_state \<Rightarrow> setup_state \<Rightarrow> bool"
  for L :: nostr_lib and h :: setup_handler where
  setup_request: "se_nostr E = L \<Longrightarrow> temp_fresh (se_files E) (ss_files st) (trim_space (su_config_path h))
     \<Longrightarrow> temp_fresh (se_files E) (ss_files st) (trim_space (su_fips_nsec_path h))
     \<Longrightarrow> setup_step L h st (so_state (setup_serve E h r st))"

inductive_cases setup_stepE: "setup_step L h st st'"

definition state_from :: "setup_state set \<Rightarrow> setup_out \<Rightarrow> bool" where
  "state_from S out \<longleftrightarrow> so_state out \<in> S"

lemma handlers_keep_state:
  "so_state (su_status E h r st) = st" "so_state (su_fips_peer_check E h r st) = st"
  "so_state (su_test E h r st service) = st" "so_state (su_random_song E h r st pre song) = st"
  "so_state (su_stream_jellyfin_random_song E h r st) = st" "so_state (su_stream_plex_random_song E h r st) = st"
  subgoal by (simp add: su_status_def Let_def split: option.split prod.split)
  subgoal by (simp add: su_fips_peer_check_def Let_def split: option.split sum.split prod.split)
  subgoal by (cases "admin_guard E h [''POST''] r") (simp_all add: su_test_def Let_def split: option.split prod.split)
  subgoal by (cases "admin_guard E h [''POST''] r") (simp_all add: su_random_song_def Let_def split: option.split prod.split)
  subgoal by (cases "admin_guard E h [''GET'', ''POST''] r")
    (simp_all add: su_stream_jellyfin_random_song_def Let_def split: prod.split del: try_stream_requests.simps)
  subgoal by (cases "admin_guard E h [''GET'', ''POST''] r")
    (simp_all add: su_stream_plex_random_song_def Let_def split: sum.split)
  done

lemma setup_serve_from:
  assumes "st \<in> S" "state_from S (su_config E h r st)" "state_from S (su_fips_nsec E h r st)"
  shows "state_from S (setup_serve E h r st)"
proof -
  have f: "state_from S (su_status E h r st)" "state_from S (su_fips_peer_check E h r st)"
      "state_from S (su_test E h r st service)" "state_from S (su_test_jellyfin_random_song E h r st)"
      "state_from S (su_test_plex_random_song E h r st)"
      "state_from S (su_stream_jellyfin_random_song E h r st)" "state_from S (su_stream_plex_random_song E h r st)"
      "state_from S (reply resp st)" for service resp
    using assms(1) by (simp_all add: state_from_def handlers_keep_state su_test_jellyfin_random_song_def su_test_plex_random_song_def)
  show ?thesis
    unfolding setup_serve_def Let_def using f assms(2,3)
    by (cases "require_method r ''GET''") (simp_all only: if_split option.case simp_thms)
qed

lemma set_media_config_of [simp]: "media_config_of (set_media_config cfg c) = normalized_media_config cfg"
  by (simp add: media_config_of_def set_media_config_def Let_def normalized_media_config_def)

lemma save_media_config_result:
  assumes "temp_fresh ops fs (trim_space path)"
  shows "fst (save_media_config L ops path cfg fs) = None \<Longrightarrow>
      last (snd (save_media_config L ops path cfg fs)) = fs(trim_space path \<mapsto> (config_text (normalized_media_config cfg), private_mode))
      \<and> validate_media_config L (normalized_media_config cfg) = None"
    and "fst (save_media_config L ops path cfg fs) \<noteq> None \<Longrightarrow> left_over ops fs (last (snd (save_media_config L ops path cfg fs)))"
  using write_private_file_result [OF assms]
  by (auto simp: save_media_config_def config_text_def Let_def split: option.splits if_splits)

text \<open>The outcome of a request for the configuration: a refusal, or a new one, saved and in use.\<close>

definition refusal :: "setup_handler \<Rightarrow> setup_state \<Rightarrow> setup_out \<Rightarrow> bool" where
  "refusal h st out \<longleftrightarrow> rs_status (so_resp out) \<noteq> 200 \<and> ss_connector (so_state out) = ss_connector st
     \<and> ss_files (so_state out) (trim_space (su_config_path h)) = ss_files st (trim_space (su_config_path h))"

definition accepted :: "nostr_lib \<Rightarrow> setup_handler \<Rightarrow> setup_state \<Rightarrow> setup_out \<Rightarrow> bool" where
  "accepted L h st out \<longleftrightarrow> (\<exists>cfg. validate_media_config L (normalized_media_config cfg) = None
     \<and> so_state out = st\<lparr>ss_files := (ss_files st)(trim_space (su_config_path h) \<mapsto> (config_text (normalized_media_config cfg), private_mode)),
          ss_connector := map_option (set_media_config cfg) (ss_connector st)\<rparr>)"

lemma refusal_reply: "k \<noteq> 200 \<Longrightarrow> refusal h st (reply (error_json k e) st)"
  by (simp add: refusal_def error_json_def httpx_write_json_def)

lemma su_config_put:
  assumes "temp_fresh (se_files E) (ss_files st) (trim_space (su_config_path h))" "rq_method r = ''PUT''"
  shows "refusal h st (su_config E h r st) \<or> accepted (se_nostr E) h st (su_config E h r st)"
proof -
  have save: "refusal h st out \<or> accepted (se_nostr E) h st out"
    if "out = (case save_media_config (se_nostr E) (se_files E) (su_config_path h) cfg (ss_files st) of
       (Some e, trace) \<Rightarrow> reply (error_json 500 e) (st\<lparr>ss_files := last trace\<rparr>)
     | (None, trace) \<Rightarrow> reply (httpx_write_json 200 (redacted_media_config cfg))
         (st\<lparr>ss_files := last trace, ss_connector := map_option (set_media_config cfg) (ss_connector st)\<rparr>))" for cfg out
  proof (cases "save_media_config (se_nostr E) (se_files E) (su_config_path h) cfg (ss_files st)")
    case (Pair err trace)
    show ?thesis
    proof (cases err)
      case None
      with save_media_config_result(1) [OF assms(1), of "se_nostr E" cfg] Pair that show ?thesis by (auto simp: accepted_def)
    next
      case (Some e)
      with save_media_config_result(2) [OF assms(1), of "se_nostr E" cfg] Pair
      have "last trace (trim_space (su_config_path h)) = ss_files st (trim_space (su_config_path h))"
        by (intro left_over_at [OF assms(1)]) simp
      with Some Pair that show ?thesis by (simp add: refusal_def error_json_def httpx_write_json_def)
    qed
  qed
  have auth: "admin_auth_status e \<noteq> 200" for e by (simp add: admin_auth_status_def)
  show ?thesis
  proof (cases "az_verify_request (se_nostr E) (su_auth h) r (se_now E)")
    case (Inl e)
    with assms(2) auth show ?thesis by (simp add: su_config_def refusal_reply)
  next
    case pk: (Inr pk)
    show ?thesis
    proof (cases "Option.bind (decode_limited 65536 r) decode_media_config")
      case None
      with assms(2) pk show ?thesis by (simp add: su_config_def refusal_reply)
    next
      case (Some cfg0)
      let ?cfg = "merge_with_existing_secrets (setup_media_config E st) cfg0"
      show ?thesis
      proof (cases "validate_media_config (se_nostr E) ?cfg")
        case None
        with assms(2) pk Some show ?thesis by (intro save [of _ ?cfg]) (simp add: su_config_def Let_def)
      next
        case (Some e)
        with assms(2) pk \<open>_ = Some cfg0\<close> show ?thesis by (simp add: su_config_def refusal_reply Let_def)
      qed
    qed
  qed
qed

lemma su_config_other: "rq_method r \<noteq> ''PUT'' \<Longrightarrow> so_state (su_config E h r st) = st"
  by (simp add: su_config_def split: option.split)

lemma su_fips_nsec_state:
  assumes "temp_fresh (se_files E) (ss_files st) (trim_space (su_fips_nsec_path h))"
    and "temp_fresh (se_files E) (ss_files st) p" "p \<noteq> trim_space (su_fips_nsec_path h)"
  shows "ss_connector (so_state (su_fips_nsec E h r st)) = ss_connector st
    \<and> ss_files (so_state (su_fips_nsec E h r st)) p = ss_files st p"
proof -
  have l: "last (snd (save_nsec (se_fips E) (se_files E) (su_fips_nsec_path h) n (ss_files st))) p = ss_files st p" for n
  proof -
    let ?w = "write_private_file (se_files E) ''.fips-nsec-*'' (trim_space (su_fips_nsec_path h)) (trim_space n @ [CHR 0x0A]) (ss_files st)"
    have "last (snd ?w) p = ss_files st p"
      using write_private_file_result [OF assms(1), of "''.fips-nsec-*''" "trim_space n @ [CHR 0x0A]"] assms(3)
        left_over_at [OF assms(2)] by (cases "fst ?w") auto
    then show ?thesis by (auto simp: save_nsec_def Let_def split: sum.split option.split prod.split)
  qed
  have "so_state (case save_nsec (se_fips E) (se_files E) (su_fips_nsec_path h) n (ss_files st) of
        (Inl e, trace) \<Rightarrow> reply (error_json 400 e) (st\<lparr>ss_files := last trace\<rparr>)
      | (Inr npub, trace) \<Rightarrow>
         reply (httpx_write_json 200 (JObj [(''saved'', JBool True), (''npub'', JStr npub)])) (st\<lparr>ss_files := last trace\<rparr>))
    = st\<lparr>ss_files := last (snd (save_nsec (se_fips E) (se_files E) (su_fips_nsec_path h) n (ss_files st)))\<rparr>" for n
    by (cases "save_nsec (se_fips E) (se_files E) (su_fips_nsec_path h) n (ss_files st)") (simp split: sum.split)
  with l show ?thesis unfolding su_fips_nsec_def by (simp split: option.split sum.split)
qed

text \<open>The two files of the handler are different files.\<close>

definition paths_apart :: "setup_handler \<Rightarrow> bool" where
  "paths_apart h \<longleftrightarrow> trim_space (su_config_path h) \<noteq> trim_space (su_fips_nsec_path h)"

text \<open>The state holds the same configuration, in memory and on disk.\<close>

definition same_config :: "setup_handler \<Rightarrow> setup_state \<Rightarrow> setup_state \<Rightarrow> bool" where
  "same_config h st st' \<longleftrightarrow> ss_connector st' = ss_connector st
     \<and> ss_files st' (trim_space (su_config_path h)) = ss_files st (trim_space (su_config_path h))"

lemma same_config_trans: "same_config h a b \<Longrightarrow> same_config h b c \<Longrightarrow> same_config h a c"
  by (simp add: same_config_def)

lemma same_config_stored: "same_config h st st' \<Longrightarrow> stored L h st' = stored L h st"
  by (cases "ss_connector st") (simp_all add: same_config_def stored_def)

lemma accepted_stored: "accepted L h st out \<Longrightarrow> ss_connector st \<noteq> None \<Longrightarrow> stored L h (so_state out)"
  by (auto simp: accepted_def stored_def)

text \<open>What a request does to the configuration: nothing, or it stores one.\<close>

lemma setup_serve_config:
  assumes "paths_apart h" "temp_fresh (se_files E) (ss_files st) (trim_space (su_config_path h))"
    and "temp_fresh (se_files E) (ss_files st) (trim_space (su_fips_nsec_path h))"
  shows "same_config h st (so_state (setup_serve E h r st)) \<or> accepted (se_nostr E) h st (su_config E h r st)
     \<and> so_state (setup_serve E h r st) = so_state (su_config E h r st)"
proof -
  have "state_from {st, so_state (su_config E h r st), so_state (su_fips_nsec E h r st)} (setup_serve E h r st)"
    by (rule setup_serve_from) (simp_all add: state_from_def)
  then consider "so_state (setup_serve E h r st) = st" | "so_state (setup_serve E h r st) = so_state (su_config E h r st)"
    | "so_state (setup_serve E h r st) = so_state (su_fips_nsec E h r st)" by (auto simp: state_from_def)
  then show ?thesis
  proof cases
    case 2
    show ?thesis
    proof (cases "rq_method r = ''PUT''")
      case True
      with su_config_put [OF assms(2)] 2 show ?thesis by (auto simp: refusal_def same_config_def)
    qed (simp add: 2 su_config_other same_config_def)
  next
    case 3
    with su_fips_nsec_state [OF assms(3,2)] assms(1) show ?thesis by (auto simp: paths_apart_def same_config_def)
  qed (simp add: same_config_def)
qed

lemma setup_serve_put:
  "u_path (rq_url r) = setup_api_config \<Longrightarrow> setup_serve E h r st = su_config E h r st"
  unfolding setup_serve_def by (simp add: setup_api_config_def setup_api_status_def setup_api_root_def setup_route_def admin_route_def
      admin_route_slash_def setup_route_slash_def setup_favicon_svg_def setup_favicon_ico_def)

lemma accepted_connector: "accepted L h st out \<Longrightarrow> ss_connector st \<noteq> None \<Longrightarrow> ss_connector (so_state out) \<noteq> None"
  by (auto simp: accepted_def)

definition config_inv :: "nostr_lib \<Rightarrow> setup_handler \<Rightarrow> setup_state \<Rightarrow> setup_state \<Rightarrow> bool" where
  "config_inv L h st0 st \<longleftrightarrow> paths_apart h \<and> ss_connector st \<noteq> None \<and> (same_config h st0 st \<or> stored L h st)"

interpretation sdm: step_invariant "\<lambda>st. st = st0 \<and> paths_apart h \<and> ss_connector st \<noteq> None" "setup_step L h" "config_inv L h st0" for L h st0
proof
  show "st = st0 \<and> paths_apart h \<and> ss_connector st \<noteq> None \<Longrightarrow> config_inv L h st0 st" for st
    by (auto simp: config_inv_def same_config_def)
next
  fix st st'
  assume inv: "config_inv L h st0 st" and "setup_step L h st st'"
  from this(2) show "config_inv L h st0 st'"
  proof cases
    case (setup_request E r)
    have h: "paths_apart h" and c: "ss_connector st \<noteq> None" using inv by (simp_all add: config_inv_def)
    from setup_serve_config [OF h setup_request(3,4), of r] show ?thesis
    proof (elim disjE conjE)
      assume same: "same_config h st (so_state (setup_serve E h r st))"
      then have "ss_connector st' = ss_connector st" using setup_request(1) by (simp add: same_config_def)
      with same inv setup_request(1) show ?thesis
        unfolding config_inv_def by (auto simp: same_config_stored dest: same_config_trans)
    next
      assume "accepted (se_nostr E) h st (su_config E h r st)" "so_state (setup_serve E h r st) = so_state (su_config E h r st)"
      with h c setup_request(1,2) accepted_stored accepted_connector show ?thesis
        unfolding config_inv_def by metis
    qed
  qed
qed

text \<open>
  C15: Memory and disk do not drift apart, over every sequence of requests that are served one
  after another, whoever makes them and whichever file operations fail, provided the
  configuration and the FIPS secret are kept in different files. From any start on (with a
  configuration of the environment there is no file), either nothing has changed, in memory
  or on disk, or the file holds the very configuration the connector runs with, a valid
  one. The latter holds from the first PUT that is answered with 200, and for good.
\<close>

theorem setup_disk_matches_memory:
  assumes "paths_apart h" "ss_connector st0 \<noteq> None" "reach (\<lambda>s. s = st0) (setup_step L h) st"
  shows "(same_config h st0 st \<or> stored L h st)
    \<and> (stored L h st0 \<longrightarrow> stored L h st)
    \<and> (\<forall>E r. se_nostr E = L \<and> temp_fresh (se_files E) (ss_files st) (trim_space (su_config_path h))
         \<and> rq_method r = ''PUT'' \<and> u_path (rq_url r) = setup_api_config \<and> rs_status (so_resp (setup_serve E h r st)) = 200
         \<longrightarrow> stored L h (so_state (setup_serve E h r st)))"
proof -
  from assms(3) have "reach (\<lambda>s. s = st0 \<and> paths_apart h \<and> ss_connector s \<noteq> None) (setup_step L h) st"
    using assms(1,2) by (induction rule: reach.induct) (auto intro: reach.intros)
  then have inv: "config_inv L h st0 st" by (rule sdm.inv_reach)
  moreover have "stored L h (so_state (setup_serve E h r st))"
    if "se_nostr E = L" "temp_fresh (se_files E) (ss_files st) (trim_space (su_config_path h))" "rq_method r = ''PUT''"
      "u_path (rq_url r) = setup_api_config" "rs_status (so_resp (setup_serve E h r st)) = 200" for E r
    using su_config_put [OF that(2,3)] that inv
    by (auto simp: setup_serve_put refusal_def config_inv_def intro: accepted_stored)
  ultimately show ?thesis by (auto simp: config_inv_def same_config_stored)
qed

definition demo_setup_handler :: setup_handler where
  "demo_setup_handler = \<lparr>su_config_path = ''/data/c'', su_fips_nsec_path = [], su_auth = new_authorizer [] 0\<rparr>"

definition demo_setup_state :: setup_state where
  "demo_setup_state = \<lparr>ss_connector = Some (set_media_config demo_media_config demo_connector),
     ss_files = [''/data/c'' \<mapsto> (config_text (normalized_media_config demo_media_config), private_mode)]\<rparr>"

definition demo_setup_env :: setup_env where
  "demo_setup_env = \<lparr>se_nostr = demo_nostr, se_fips = demo_fips_lib,
     se_net = \<lparr>fn_lookup_host = (\<lambda>_. Inr []), fn_dial_tcp = (\<lambda>_. None), fn_dial_udp = (\<lambda>_. None),
       fn_udp_deadline = (\<lambda>_. None), fn_udp_write = (\<lambda>_. None), fn_step_ms = (\<lambda>_. 0)\<rparr>,
     se_media = demo_store_lib, se_files = demo_store_ops, se_now = 0, se_html = [], se_css = [], se_js = [],
     se_favicon = [], se_build_time = [], se_default_client = (\<lambda>_. Inl ''refused'')\<rparr>"

text \<open>An administrator's first PUT to a connector that was configured by its environment.\<close>

definition demo_put_event :: event where
  "demo_put_event = empty_event\<lparr>ev_pubkey := ''K1'', ev_created_at := 5, ev_kind := 27235, ev_sig := ''ok'',
     ev_tags := [[''u'', ''http://nas/setup/api/config''], [''method'', ''PUT'']]\<rparr>"

definition demo_put_nostr :: nostr_lib where
  "demo_put_nostr = \<lparr>nl_decode_event = (\<lambda>j. if j = JStr ''req'' then Some demo_put_event else None),
      nl_check_signature = (\<lambda>e. Inr (ev_sig e = ''ok'')), nl_get_id = ev_id, nl_valid_pubkey = (\<lambda>_. True)\<rparr>"

definition demo_put_env :: setup_env where
  "demo_put_env = demo_setup_env\<lparr>se_now := 5 * second, se_nostr := demo_put_nostr\<rparr>"

definition demo_put_req :: http_req where
  "demo_put_req = \<lparr>rq_method = ''PUT'', rq_url = empty_url\<lparr>u_path := ''/setup/api/config''\<rparr>, rq_host = ''nas'',
     rq_header = hdr_set ''Authorization'' ''Nostr InJlcSI='' no_header, rq_tls = False, rq_remote = [],
     rq_body = Some (''{\"plex_base_url\":\"http://p:1\"}'', None)\<rparr>"

definition demo_put_handler :: setup_handler where
  "demo_put_handler = demo_setup_handler\<lparr>su_auth := new_authorizer [''K1''] 0\<rparr>"

definition demo_fresh_state :: setup_state where
  "demo_fresh_state = \<lparr>ss_connector = Some demo_connector, ss_files = (\<lambda>_. None)\<rparr>"

lemma decode_limited_small:
  "rq_body r = Some (text, None) \<Longrightarrow> length text \<le> limit \<Longrightarrow> decode_limited limit r = map_option fst (parse_value (json_fuel text) text)"
  by (auto simp: decode_limited_def split: option.split json.split)

lemma demo_put_accepted: "rs_status (so_resp (su_config demo_put_env demo_put_handler demo_put_req demo_fresh_state)) = 200"
proof -
  let ?b = "''{\"plex_base_url\":\"http://p:1\"}''"
  let ?cand = "\<lparr>mc_jellyfin_base_url = [], mc_jellyfin_api_key = [], mc_plex_base_url = ''http://p:1'', mc_plex_token = [],
     mc_fips_peer_npub = [], mc_fips_peer_addr = []\<rparr>"
  let ?cfg = "merge_with_existing_secrets (setup_media_config demo_put_env demo_fresh_state) ?cand"
  have "event_from_authorization demo_put_nostr ''Nostr InJlcSI='' = Inr demo_put_event"
    "nip98_valid demo_put_nostr demo_put_event (absolute_request_url demo_put_req) ''PUT'' 0 (5 * second)"
    "normalize_pubkey ''K1'' = ''k1''" "to_lower (ev_pubkey demo_put_event) = ''k1''" by code_simp+
  then have az: "az_verify_request demo_put_nostr (new_authorizer [''K1''] 0) demo_put_req (5 * second) = Inr ''k1''"
    by (simp add: az_verify_request_def az_verify_header_Inr new_authorizer_def) (simp add: demo_put_req_def)
  have e: "se_nostr demo_put_env = demo_put_nostr" "se_now demo_put_env = 5 * second" "se_files demo_put_env = demo_store_ops"
    "su_auth demo_put_handler = new_authorizer [''K1''] 0" "su_config_path demo_put_handler = ''/data/c''"
    "rq_method demo_put_req = ''PUT''"
    by (simp_all add: demo_put_env_def demo_put_handler_def demo_setup_env_def demo_setup_handler_def demo_put_req_def)
  have "decode_limited 65536 demo_put_req = map_option fst (parse_value (json_fuel ?b) ?b)"
    by (rule decode_limited_small) (simp_all add: demo_put_req_def)
  moreover have "Option.bind (map_option fst (parse_value (json_fuel ?b) ?b)) decode_media_config = Some ?cand" by code_simp
  ultimately have d: "Option.bind (decode_limited 65536 demo_put_req) decode_media_config = Some ?cand" by simp
  have v: "validate_media_config demo_put_nostr ?cfg = None" "validate_media_config demo_put_nostr (normalized_media_config ?cfg) = None"
    by code_simp+
  have t: "trim_space ''/data/c'' = ''/data/c''" by code_simp
  have "fst (save_media_config demo_put_nostr demo_store_ops ''/data/c'' ?cfg fs) = None" for fs
    using v by (simp add: save_media_config_def t write_private_file_def demo_store_ops_def Let_def)
  then have s: "\<exists>trace. save_media_config demo_put_nostr demo_store_ops ''/data/c'' ?cfg fs = (None, trace)" for fs
    by (metis prod.collapse)
  obtain trace where "save_media_config demo_put_nostr demo_store_ops ''/data/c'' ?cfg (ss_files demo_fresh_state) = (None, trace)"
    using s by blast
  with az d v(1) show ?thesis
    unfolding su_config_def e Let_def by (simp add: httpx_write_json_def)
qed

lemma setup_disk_matches_memory_witness:
  "stored demo_put_nostr demo_put_handler (so_state (setup_serve demo_put_env demo_put_handler demo_put_req demo_fresh_state))"
proof -
  have t: "trim_space ''/data/c'' = ''/data/c''" by code_simp
  have p: "paths_apart demo_put_handler" by (simp add: paths_apart_def demo_put_handler_def demo_setup_handler_def t)
  have c: "ss_connector demo_fresh_state \<noteq> None" by (simp add: demo_fresh_state_def)
  have f: "temp_fresh (se_files demo_put_env) (ss_files demo_fresh_state) (trim_space (su_config_path demo_put_handler))"
    by (simp add: temp_fresh_def demo_put_env_def demo_setup_env_def demo_store_ops_def demo_fresh_state_def demo_put_handler_def
        demo_setup_handler_def t)
  have u: "u_path (rq_url demo_put_req) = setup_api_config" by code_simp
  have "se_nostr demo_put_env = demo_put_nostr" "rq_method demo_put_req = ''PUT''"
    by (simp_all add: demo_put_env_def demo_put_req_def)
  moreover have "reach (\<lambda>s. s = demo_fresh_state) (setup_step demo_put_nostr demo_put_handler) demo_fresh_state"
    by (rule reach_init) simp
  ultimately show ?thesis using setup_disk_matches_memory [OF p c] f u demo_put_accepted
    by (simp add: setup_serve_put)
qed

text \<open>
  A configuration without a token keeps the stored one, also when the base URL is another
  one: the administrator's test of a candidate server is made with the stored token.
\<close>

theorem merge_keeps_secrets:
  "let c = normalized_media_config candidate; m = merge_with_existing_secrets existing candidate in
   mc_jellyfin_base_url m = mc_jellyfin_base_url c \<and> mc_plex_base_url m = mc_plex_base_url c
   \<and> mc_jellyfin_api_key m = (if mc_jellyfin_base_url c = [] then []
        else if mc_jellyfin_api_key c = [] then mc_jellyfin_api_key existing else mc_jellyfin_api_key c)
   \<and> mc_plex_token m = (if mc_plex_base_url c = [] then []
        else if mc_plex_token c = [] then mc_plex_token existing else mc_plex_token c)
   \<and> mc_fips_peer_npub m = mc_fips_peer_npub c \<and> mc_fips_peer_addr m = mc_fips_peer_addr c"
  by (simp add: merge_with_existing_secrets_def Let_def normalized_media_config_def)

section \<open>The stored token and a candidate server\<close>

text \<open>An administrator's test of a candidate Jellyfin server, with no key of its own.\<close>

definition demo_test_event :: event where
  "demo_test_event = empty_event\<lparr>ev_pubkey := ''K1'', ev_created_at := 5, ev_kind := 27235, ev_sig := ''ok'',
     ev_tags := [[''u'', ''http://nas/setup/api/test/jellyfin''], [''method'', ''POST'']]\<rparr>"

definition demo_test_env :: setup_env where
  "demo_test_env = demo_setup_env\<lparr>se_now := 5 * second, se_nostr :=
     \<lparr>nl_decode_event = (\<lambda>j. if j = JStr ''req'' then Some demo_test_event else None),
      nl_check_signature = (\<lambda>e. Inr (ev_sig e = ''ok'')), nl_get_id = ev_id, nl_valid_pubkey = (\<lambda>_. True)\<rparr>\<rparr>"

definition demo_test_req :: "string \<Rightarrow> http_req" where
  "demo_test_req body = \<lparr>rq_method = ''POST'', rq_url = empty_url\<lparr>u_path := ''/setup/api/test/jellyfin''\<rparr>, rq_host = ''nas'',
     rq_header = hdr_set ''Authorization'' ''Nostr InJlcSI='' no_header, rq_tls = False, rq_remote = [], rq_body = Some (body, None)\<rparr>"

text \<open>
  The test of a candidate server without a key is made with the stored key: the key that no
  answer of the setup interface reveals is sent to whatever host the request names.
\<close>

theorem setup_test_sends_stored_key:
  "map (\<lambda>q. (oq_url q, hdr_get (oq_header q) ''X-Emby-Token''))
     (so_sent (setup_serve demo_test_env (demo_setup_handler\<lparr>su_auth := new_authorizer [''K1''] 0\<rparr>)
        (demo_test_req ''{\"jellyfin_base_url\":\"http://other:1\"}'') demo_setup_state))
   = [(''http://other:1/System/Info'', ''k1'')]"
proof -
  let ?b = "''{\"jellyfin_base_url\":\"http://other:1\"}''"
  let ?h = "demo_setup_handler\<lparr>su_auth := new_authorizer [''K1''] 0\<rparr>" and ?r = "demo_test_req ?b"
  let ?cand = "\<lparr>mc_jellyfin_base_url = ''http://other:1'', mc_jellyfin_api_key = [], mc_plex_base_url = [], mc_plex_token = [],
     mc_fips_peer_npub = [], mc_fips_peer_addr = []\<rparr>"
  have "event_from_authorization (se_nostr demo_test_env) ''Nostr InJlcSI='' = Inr demo_test_event"
    "nip98_valid (se_nostr demo_test_env) demo_test_event (absolute_request_url ?r) ''POST'' 0 (5 * second)"
    "normalize_pubkey ''K1'' = ''k1''" "to_lower (ev_pubkey demo_test_event) = ''k1''" by code_simp+
  then have "az_verify_request (se_nostr demo_test_env) (new_authorizer [''K1''] 0) ?r (se_now demo_test_env) = Inr ''k1''"
    by (simp add: az_verify_request_def az_verify_header_Inr new_authorizer_def)
      (simp add: demo_test_req_def demo_test_env_def)
  then have g: "admin_guard demo_test_env ?h [''POST''] ?r = None"
    by (simp add: admin_guard_def require_methods_def demo_test_req_def)
  have d: "Option.bind (map_option fst (parse_value (json_fuel ?b) ?b)) decode_media_config = Some ?cand" by code_simp
  have "decode_limited 65536 ?r = map_option fst (parse_value (json_fuel ?b) ?b)"
    by (rule decode_limited_small) (simp_all add: demo_test_req_def)
  with d have c: "test_config demo_test_env demo_setup_state True ?r
      = merge_with_existing_secrets (setup_media_config demo_test_env demo_setup_state) ?cand"
    unfolding test_config_def by (simp add: demo_test_req_def)
  have t: "map (\<lambda>q. (oq_url q, hdr_get (oq_header q) ''X-Emby-Token''))
      (snd (test_jellyfin (setup_connector demo_test_env demo_setup_state)
         (merge_with_existing_secrets (setup_media_config demo_test_env demo_setup_state) ?cand)))
    = [(''http://other:1/System/Info'', ''k1'')]" by code_simp
  have "u_path (rq_url ?r) = setup_api_test_jellyfin" by code_simp
  then have "setup_serve demo_test_env ?h ?r demo_setup_state = su_test demo_test_env ?h ?r demo_setup_state ''jellyfin''"
    by (simp add: setup_serve_def setup_api_test_jellyfin_def setup_api_root_def setup_route_def admin_route_def admin_route_slash_def
        setup_route_slash_def setup_favicon_svg_def setup_favicon_ico_def setup_api_status_def setup_api_config_def
        setup_api_fips_nsec_def setup_api_fips_peer_check_def)
  with g c t show ?thesis by (auto simp: su_test_def reply_sent_def split: prod.split option.split)
qed

end
