(* ===== verification/SetupRace.thy ===== *)
theory SetupRace
  imports SetupClaims
begin

text \<open>
  Two PUTs for the configuration at the same time. The handler of \<open>internal/media/setup.go\<close>
  first saves the new configuration to the file and then hands it to the connector, and no
  lock holds over both: here the two halves are steps of their own, and two requests take
  them in turn.
\<close>

section \<open>The two halves of a PUT\<close>

text \<open>Up to \<open>SaveConnectorMediaConfig\<close>: the answer of a refusal, or what is left to do.\<close>

definition put_save :: "setup_env \<Rightarrow> setup_handler \<Rightarrow> http_req \<Rightarrow> setup_state \<Rightarrow> setup_out + media_config \<times> setup_state" where
  "put_save E h r st =
     (case az_verify_request (se_nostr E) (su_auth h) r (se_now E) of
        Inl e \<Rightarrow> Inl (reply (error_json (admin_auth_status e) (error_text e)) st)
      | Inr _ \<Rightarrow>
         (case Option.bind (decode_limited 65536 r) decode_media_config of
            None \<Rightarrow> Inl (reply (error_json 400 ''invalid JSON'') st)
          | Some cfg0 \<Rightarrow>
             (let cfg = merge_with_existing_secrets (setup_media_config E st) cfg0
              in (case validate_media_config (se_nostr E) cfg of
                    Some e \<Rightarrow> Inl (reply (error_json 400 e) st)
                  | None \<Rightarrow>
                     (case save_media_config (se_nostr E) (se_files E) (su_config_path h) cfg (ss_files st) of
                        (Some e, trace) \<Rightarrow> Inl (reply (error_json 500 e) (st\<lparr>ss_files := last trace\<rparr>))
                      | (None, trace) \<Rightarrow> Inr (cfg, st\<lparr>ss_files := last trace\<rparr>))))))"

text \<open>\<open>SetMediaConfig\<close> and the answer.\<close>

definition put_set :: "media_config \<Rightarrow> setup_state \<Rightarrow> setup_out" where
  "put_set cfg st = reply (httpx_write_json 200 (redacted_media_config cfg))
     (st\<lparr>ss_connector := map_option (set_media_config cfg) (ss_connector st)\<rparr>)"

text \<open>One after the other they are the handler.\<close>

lemma su_config_halves:
  "rq_method r = ''PUT'' \<Longrightarrow> su_config E h r st =
     (case put_save E h r st of Inl out \<Rightarrow> out | Inr (cfg, st') \<Rightarrow> put_set cfg st')"
  by (simp add: su_config_def put_save_def put_set_def Let_def split: sum.split option.split prod.split)

lemma put_save_Inr:
  assumes "temp_fresh (se_files E) (ss_files st) (trim_space (su_config_path h))" "put_save E h r st = Inr (cfg, st')"
  shows "st' = st\<lparr>ss_files := (ss_files st)(trim_space (su_config_path h) \<mapsto> (config_text (normalized_media_config cfg), private_mode))\<rparr>
    \<and> validate_media_config (se_nostr E) (normalized_media_config cfg) = None"
  using assms(2) save_media_config_result(1) [OF assms(1), of "se_nostr E" cfg]
  by (auto simp: put_save_def Let_def split: sum.splits option.splits prod.splits)

section \<open>Two at a time\<close>

text \<open>
  Two administrators' PUTs, each fine on its own. When the first has saved, the second saves
  and takes effect, and only then the first takes effect, both are answered with 200, the
  file holds the configuration of the second, and the connector runs with that of the first:
  it is a stored state only if the two are the same, and a restart changes the configuration.
\<close>

theorem concurrent_puts_diverge:
  assumes "temp_fresh (se_files E) (ss_files st) (trim_space (su_config_path h))"
    and "temp_fresh (se_files E') (ss_files st1) (trim_space (su_config_path h))"
    and "put_save E h r st = Inr (a, st1)" "put_save E' h r' st1 = Inr (b, st2)" "ss_connector st = Some c"
  defines "fin \<equiv> so_state (put_set a (so_state (put_set b st2)))"
  shows "rs_status (so_resp (put_set b st2)) = 200 \<and> rs_status (so_resp (put_set a (so_state (put_set b st2)))) = 200
    \<and> ss_files fin (trim_space (su_config_path h)) = Some (config_text (normalized_media_config b), private_mode)
    \<and> map_option media_config_of (ss_connector fin) = Some (normalized_media_config a)
    \<and> (stored (se_nostr E) h fin \<longleftrightarrow> config_text (normalized_media_config a) = config_text (normalized_media_config b))"
  using put_save_Inr [OF assms(1,3)] put_save_Inr [OF assms(2,4)] assms(5)
  by (auto simp: fin_def put_set_def httpx_write_json_def stored_def)

end
