(* ===== verification/Wrapster.thy ===== *)
theory Wrapster
  imports RelayClaims Proxy MediaGateway ConfigRules
begin

text \<open>
  The program \<open>cmd/wrapster/main.go\<close>: how the loaded configuration becomes the access
  authorizer, the proxy, the media gateway and the relay server. The HTTP client and the
  dialler are the defaults of the code (no client and no dialler are configured), here the
  parameters \<open>http\<close> and \<open>net\<close>.
\<close>

section \<open>Wiring\<close>

definition main_access :: "config \<Rightarrow> http_do \<Rightarrow> ws_net \<Rightarrow> access_authorizer" where
  "main_access c http net = \<lparr>aa_rules = map_of (cf_access_rules c), aa_max_age = cf_media_auth_max_age c,
     aa_http_client = http, aa_dial_url = net, aa_trustroots_verifier = None, aa_follow_verifier = None\<rparr>"

definition main_proxy :: "config \<Rightarrow> http_do \<Rightarrow> ws_net \<Rightarrow> proxy" where
  "main_proxy c http net = new_proxy \<lparr>pc_prefix = ''/proxy'', pc_default_target = cf_proxy_default_target c,
     pc_targets = cf_proxy_targets c, pc_allowed_origins = cf_proxy_allowed_origins c,
     pc_upstream_timeout = cf_proxy_upstream_timeout c, pc_max_body_bytes = cf_proxy_max_body_bytes c,
     pc_access_rules = cf_proxy_access_rules c, pc_target_access_rules = cf_proxy_target_access_rules c,
     pc_access = main_access c http net\<rparr>"

definition main_gateway :: "config \<Rightarrow> http_do \<Rightarrow> ws_net \<Rightarrow> gateway" where
  "main_gateway c http net = \<lparr>gw_connector_base_url = cf_media_connector_url c,
     gw_connector_token = cf_media_connector_token c, gw_transport_label = cf_media_transport_label c,
     gw_auth = new_media_authorizer (cf_media_grant_pubkeys c) (cf_media_auth_max_age c),
     gw_access = main_access c http net, gw_service_access_rules = cf_media_services c, gw_http_client = http\<rparr>"

definition main_relay :: "config \<Rightarrow> relay_server" where
  "main_relay c = \<lparr>sv_public_relay_url = cf_public_relay_url c,
     sv_upstream = \<lparr>up_url = cf_upstream_relay_url c, up_lookup = cf_upstream_timeout c,
       up_profile_relays = cf_additional_relays c\<rparr>,
     sv_nip05_base_url = cf_trustroots_nip05_base c, sv_auth_cache_ttl = cf_auth_cache_ttl c,
     sv_auth_event_max_age = cf_auth_event_max_age c\<rparr>"

definition main_admin :: "config \<Rightarrow> authorizer" where
  "main_admin c = new_authorizer (cf_admin_pubkeys c) (cf_admin_auth_max_age c)"

section \<open>Facts\<close>

lemma main_proxy_fields [simp]:
  "px_access (main_proxy c http net) = main_access c http net"
  "px_access_rules (main_proxy c http net) = clean_rule_names (cf_proxy_access_rules c)"
  by (simp_all add: main_proxy_def new_proxy_def)

lemma clean_rule_names_trimmed: "list_all (\<lambda>n. trim_space n = n \<and> n \<noteq> []) ns \<Longrightarrow> clean_rule_names ns = ns"
  by (induction ns) (simp_all add: clean_rule_names_def)

lemma compact_rule_names_trimmed: "list_all (\<lambda>n. trim_space n = n \<and> n \<noteq> []) ns \<Longrightarrow> compact_rule_names ns = ns"
  by (induction ns) (simp_all add: compact_rule_names_def)

lemma route_rules:
  "proxy_route_of p u = Some rt \<Longrightarrow> rt_access_rules rt = access_rules_for_target p (rt_platform rt)"
  by (erule proxy_route_of_cases)

text \<open>A rule of the configuration that passes the validation, at the place where it is checked.\<close>

lemma valid_rule_check:
  assumes "map_of (cf_access_rules c) n = Some r" "validate_rule (n, r) = None"
  shows "check_rule L (main_access c http net) n pk =
    (if to_lower pk \<in> rl_deny_pubkeys r then Some (AccessErr ErrDenied)
     else if rl_type r = rule_trustroots_nip05 then check_trustroots_nip05 L (main_access c http net) r pk
     else check_owner_follows L (main_access c http net) r pk)"
    and "rl_type r = rule_trustroots_nip05 \<and> trim_space (rl_nip05_base_url r) \<noteq> []
      \<or> rl_type r = rule_nostr_follow \<and> trim_space (rl_owner_pubkey r) \<noteq> []"
proof -
  have v: "(rl_type r = rule_trustroots_nip05 \<and> trim_space (rl_nip05_base_url r) \<noteq> [])
    \<or> (rl_type r = rule_nostr_follow \<and> (rl_relationship r = [] \<or> rl_relationship r = ''owner_follows_user'')
        \<and> trim_space (rl_owner_pubkey r) \<noteq> [])"
    using assms(2) unfolding validate_rule_def prod.case first_error_None list.pred_inject
    by (simp split: if_split_asm)
  then show "rl_type r = rule_trustroots_nip05 \<and> trim_space (rl_nip05_base_url r) \<noteq> []
      \<or> rl_type r = rule_nostr_follow \<and> trim_space (rl_owner_pubkey r) \<noteq> []" by blast
  from v show "check_rule L (main_access c http net) n pk =
    (if to_lower pk \<in> rl_deny_pubkeys r then Some (AccessErr ErrDenied)
     else if rl_type r = rule_trustroots_nip05 then check_trustroots_nip05 L (main_access c http net) r pk
     else check_owner_follows L (main_access c http net) r pk)"
    using assms(1) rule_types_differ by (auto simp: check_rule_def main_access_def)
qed

text \<open>All the rules a loaded configuration asks for.\<close>

definition asked_rules :: "config \<Rightarrow> string list" where
  "asked_rules c = cf_proxy_access_rules c @ concat (map snd (cf_proxy_target_access_rules c))
     @ concat (map snd (cf_media_services c))"

lemma asked_rules_named: "config_rules_named c \<Longrightarrow> n \<in> set (asked_rules c) \<Longrightarrow> rule_named c n"
  by (auto simp: config_rules_named_def asked_rules_def list_all_iff)

lemma access_rules_for_target_asked:
  assumes "config_rules_named c" "n \<in> set (access_rules_for_target (main_proxy c http net) k)"
  shows "n \<in> set (asked_rules c)"
proof -
  have t: "trim_space m = m" if "m \<in> set (asked_rules c)" for m
    using asked_rules_named [OF assms(1) that] by (simp add: rule_named_def)
  have sub: "set (clean_rule_names (cf_proxy_access_rules c)) \<subseteq> set (asked_rules c)"
    using t by (auto simp: clean_rule_names_def asked_rules_def)
  have sub2: "set rs \<subseteq> set (asked_rules c)" if rs: "map_of (px_target_access_rules (main_proxy c http net)) k = Some rs" for rs
  proof -
    from rs have "map_of (map (\<lambda>(k, rs). (k, clean_rule_names rs)) (cf_proxy_target_access_rules c)) k = Some rs"
      by (simp add: main_proxy_def new_proxy_def)
    then obtain rs0 where r0: "(k, rs0) \<in> set (cf_proxy_target_access_rules c)" "rs = clean_rule_names rs0"
      by (auto dest!: map_of_SomeD)
    then have "set rs0 \<subseteq> set (asked_rules c)" by (force simp: asked_rules_def)
    with t r0 show ?thesis by (auto simp: clean_rule_names_def subset_iff)
  qed
  have "n \<in> trim_space ` set (asked_rules c)"
    using assms(2) sub sub2 unfolding access_rules_for_target_def append_unique_rule_names_set
    by (cases "map_of (px_target_access_rules (main_proxy c http net)) k") auto
  with t show ?thesis by auto
qed

lemma access_rules_for_target_global:
  assumes "config_rules_named c" "n \<in> set (cf_proxy_access_rules c)"
  shows "n \<in> set (access_rules_for_target (main_proxy c http net) k)"
proof -
  have n: "trim_space n = n" "n \<noteq> []"
    using asked_rules_named [OF assms(1), of n] assms(2) by (simp_all add: asked_rules_def rule_named_def)
  then have "n \<in> set (clean_rule_names (cf_proxy_access_rules c))"
    using assms(2) by (force simp: clean_rule_names_def)
  with n show ?thesis unfolding access_rules_for_target_def append_unique_rule_names_set by auto metis
qed

text \<open>
  in the running program no request ever fails for a rule that is missing or ill-formed:
  with a configuration that loaded, every rule that the proxy, one of its targets or a media
  service asks for reaches the check of its own type, with the NIP-05 base URL or the owner
  key that this check needs.
\<close>

theorem loaded_rules_reach_their_check:
  "case load_with_args L getenv fs args of Inl _ \<Rightarrow> True | Inr c \<Rightarrow>
     list_all (\<lambda>n. \<exists>r. aa_rules (main_access c http net) n = Some r
       \<and> check_rule L (main_access c http net) n pk =
           (if to_lower pk \<in> rl_deny_pubkeys r then Some (AccessErr ErrDenied)
            else if rl_type r = rule_trustroots_nip05 then check_trustroots_nip05 L (main_access c http net) r pk
            else check_owner_follows L (main_access c http net) r pk)
       \<and> (if rl_type r = rule_trustroots_nip05 then trim_space (rl_nip05_base_url r) \<noteq> []
          else rl_type r = rule_nostr_follow \<and> trim_space (rl_owner_pubkey r) \<noteq> []))
     (cf_proxy_access_rules c @ concat (map snd (cf_proxy_target_access_rules c)) @ concat (map snd (cf_media_services c)))"
proof (cases "load_with_args L getenv fs args")
  case (Inr c)
  from load_with_args_Inr [OF Inr] have v: "validate_config c = None" by blast
  have a: "validate_access_rules (cf_access_rules c) (cf_proxy_access_rules c) (cf_media_services c) = None"
    using v by (simp add: validate_config_def first_error_None)
  have valid: "map_of (cf_access_rules c) n = Some r \<Longrightarrow> validate_rule (n, r) = None" for n r
    using a by (auto simp: validate_access_rules_def first_error_None list_all_iff dest!: map_of_SomeD)
  have "\<exists>r. map_of (cf_access_rules c) n = Some r" if "n \<in> set (asked_rules c)" for n
    using asked_rules_named [OF load_rules_named(1) [OF Inr] that] by (auto simp: rule_named_def)
  with valid valid_rule_check(1) [OF _ valid] valid_rule_check(2) [OF _ valid] show ?thesis
    unfolding Inr sum.case list_all_iff asked_rules_def [symmetric]
    by (intro ballI) (smt (verit) main_access_def access_authorizer.select_convs(1) rule_types_differ)
qed simp

text \<open>What the guard of the proxy means under a loaded configuration with global access rules.\<close>

lemma loaded_proxy_guard:
  assumes l: "load_with_args L getenv fs args = Inr c" and ne: "cf_proxy_access_rules c \<noteq> []"
    and g: "proxy_guard M (main_proxy c http net) r now = Inr rt"
  shows "proxy_route_of (main_proxy c http net) (rq_url r) = Some rt
    \<and> (is_public_wiki_asset_request (rq_method r) (rt_forward_path rt)
       \<or> (\<exists>pk. verified_pubkey M (main_access c http net) r now = Inr pk
            \<and> list_all (\<lambda>n. check_rule M (main_access c http net) n pk = None) (cf_proxy_access_rules c)))"
proof (cases "is_public_wiki_asset_request (rq_method r) (rt_forward_path rt)")
  case True
  with proxy_guard_Inr [OF g] show ?thesis by blast
next
  case False
  let ?p = "main_proxy c http net"
  note gi = proxy_guard_Inr [OF g]
  have named: "config_rules_named c" by (rule load_rules_named(1) [OF l])
  have rules: "rt_access_rules rt = access_rules_for_target ?p (rt_platform rt)" using gi route_rules by blast
  have all: "set (cf_proxy_access_rules c) \<subseteq> set (rt_access_rules rt)"
    using access_rules_for_target_global [OF named] unfolding rules by blast
  with ne have rne: "rt_access_rules rt \<noteq> []" by auto
  have trimmed: "list_all (\<lambda>n. trim_space n = n \<and> n \<noteq> []) (rt_access_rules rt)"
    using asked_rules_named [OF named access_rules_for_target_asked [OF named]]
    unfolding rules by (auto simp: list_all_iff rule_named_def)
  from False gi rne obtain pk where "verify_all_request M (px_access ?p) r (rt_access_rules rt) now = Inr pk" by auto
  then have "verified_pubkey M (main_access c http net) r now = Inr pk"
    and "list_all (\<lambda>n. check_rule M (main_access c http net) n pk = None) (rt_access_rules rt)"
    by (simp_all add: verify_all_Inr compact_rule_names_trimmed [OF trimmed])
  with all gi show ?thesis by (auto simp: list_all_iff)
qed

text \<open>
  end to end, a proxy started with a configuration whose file has an access rule sends
  nothing upstream (health checks apart) for a request without a signed authorization of a
  key that passes every global rule, unless the request is for a public asset path.
\<close>

theorem loaded_proxy_protected:
  "case load_with_args L getenv fs args of Inl _ \<Rightarrow> True | Inr c \<Rightarrow>
     if cf_proxy_access_rules c = [] \<or> is_health_path (main_proxy c http net) (u_path (rq_url r)) then True
     else snd (proxy_serve L (main_proxy c http net) http r now) = []
       \<or> (\<exists>rt. proxy_route_of (main_proxy c http net) (rq_url r) = Some rt
            \<and> (is_public_wiki_asset_request (rq_method r) (rt_forward_path rt)
               \<or> (\<exists>pk. verified_pubkey L (main_access c http net) r now = Inr pk
                    \<and> list_all (\<lambda>n. check_rule L (main_access c http net) n pk = None) (cf_proxy_access_rules c))))"
proof (cases "load_with_args L getenv fs args")
  case (Inr c)
  let ?p = "main_proxy c http net"
  show ?thesis
  proof (cases "cf_proxy_access_rules c = [] \<or> is_health_path ?p (u_path (rq_url r)) \<or> snd (proxy_serve L ?p http r now) = []")
    case False
    then obtain q where "q \<in> set (snd (proxy_serve L ?p http r now))" by (meson list.set_intros(1) neq_Nil_conv last_in_set)
    with False pg.sent_admitted [of "(L, ?p, http, r, now)" q] obtain rt where "proxy_guard L ?p r now = Inr rt" by auto
    with False loaded_proxy_guard [OF Inr] Inr show ?thesis by auto
  qed (auto simp: Inr)
qed simp

section \<open>The default target\<close>

text \<open>A file with the owner key, the NIP-05 rule for all, and Trustroots only for those the owner follows.\<close>

definition wrap_file :: file_config where
  "wrap_file = empty_config\<lparr>fc_owner_pubkey := ''ab'', fc_global_access_rule := [(''nip05_domain'', ''trustroots.org'')],
     fc_proxy_groups := [(''hospex'', \<lparr>pg_urls = [''https://www.trustroots.org''],
       pg_additional_access_list = [''nostr_follow'']\<rparr>)]\<rparr>"

definition wrap_route :: "config \<Rightarrow> string \<Rightarrow> (string \<times> string \<times> string list) option" where
  "wrap_route c path = map_option (\<lambda>rt. (rt_upstream rt, rt_forward_path rt, rt_access_rules rt))
     (proxy_route_of (main_proxy c (\<lambda>_. Inl []) (\<lambda>_. Inl [])) (empty_url\<lparr>u_path := path\<rparr>))"

text \<open>
  the rules of the target \<open>trustroots\<close> do not protect the default target, which is the
  same upstream: with an additional access rule on the Trustroots URL, the path through the
  target's key asks for both rules, and the same path without the key only for the global one.
\<close>

theorem default_route_skips_target_rules:
  "(case finish_config wrap_file of Inl _ \<Rightarrow> [] | Inr fc \<Rightarrow>
      map (wrap_route (build_config (\<lambda>_. []) fc)) [''/proxy/trustroots/api/x'', ''/proxy/api/x''])
   = [Some (''https://www.trustroots.org'', ''/api/x'', [''trustroots_nip05'', ''media_owner_follows'']),
      Some (''https://www.trustroots.org'', ''/api/x'', [''trustroots_nip05''])]"
  by code_simp

end
