(* ===== verification/AdminApi.thy ===== *)
theory AdminApi
  imports RelayServer Proxy MediaGateway Fips BuildInfo
begin

text \<open>
  The admin interface of the relay server, \<open>internal/relay/admin.go\<close>: the page, the icon and
  the API under \<open>/admin/api/\<close>. The server is the relay server with the fields these
  handlers read. A handler of the API returns its response and what it did: the requests it
  sent (NIP-11, NIP-05, the media connector), the relays it dialled, the network calls of a
  peer check, and the files. Deadlines are errors of the peers. A \<open>map[string]any\<close> is an
  association list; Go writes it sorted by key.
\<close>

section \<open>The server\<close>

record wiki_advert =
  wa_origin :: string
  wa_label :: string
  wa_summary :: string
  wa_wiki_path :: string
  wa_wiki_api_path :: string
  wa_wiki_load_path :: string
  wa_wiki_main_page_path :: string
  wa_wiki_main_page_title :: string
  wa_proxy_route :: string
  wa_status :: string
  wa_audience :: "string list"

text \<open>The rules of the proxy's authorizer are a map; \<open>as_rule_order\<close> is an order of its keys.\<close>

record admin_server = relay_server +
  as_admin_auth :: authorizer
  as_fips_peer_npub :: string
  as_fips_peer_addr :: string
  as_fips_nsec_path :: string
  as_media_gateway :: gateway
  as_proxy :: "proxy option"
  as_rule_order :: "string list"
  as_wiki_adverts :: "(string \<times> wiki_advert) list"

record admin_env =
  ae_nostr :: nostr_lib
  ae_fips :: fips_lib
  ae_fips_net :: fips_net
  ae_files :: file_ops
  ae_ws :: ws_net
  ae_http :: http_do
  ae_now :: go_time
  ae_dial_ms :: int
  ae_media_checked_at :: string
  ae_media_latency :: duration
  ae_ping :: bool
  ae_summary_fail :: "string option"
  ae_float_int :: "string \<Rightarrow> int"
  ae_html :: string
  ae_css :: string
  ae_js :: string
  ae_favicon :: string
  ae_build_time :: string

record admin_out =
  ao_resp :: http_resp
  ao_sent :: "out_req list"
  ao_dialled :: "string list"
  ao_net :: "net_call list"
  ao_files :: file_sys

definition admin_reply :: "http_resp \<Rightarrow> file_sys \<Rightarrow> admin_out" where
  "admin_reply resp fs = \<lparr>ao_resp = resp, ao_sent = [], ao_dialled = [], ao_net = [], ao_files = fs\<rparr>"

definition strs_json :: "string list \<Rightarrow> json" where
  "strs_json vs = JArr (map JStr vs)"

definition int_json :: "int \<Rightarrow> json" where
  "int_json n = JNum (int_str n)"

section \<open>Pages\<close>

definition admin_index :: "admin_env \<Rightarrow> http_req \<Rightarrow> http_resp" where
  "admin_index E r =
     (if rq_method r \<noteq> ''GET'' then http_error (hdr_set ''Allow'' ''GET'' no_header) ''method not allowed'' 405
      else \<lparr>rs_status = 200, rs_header = hdr_set ''Content-Type'' ''text/html; charset=utf-8'' no_header,
        rs_body = BodyText (replace_all ''{{BUILD_TIME}}'' (display_build_time (ae_build_time E))
          (replace_all ''{{WRAPSTER_HUB_NAME}}'' ''Wrapster Hub'' (inject_shared (ae_css E) (ae_js E) (ae_html E))))\<rparr>)"

definition admin_favicon :: "admin_env \<Rightarrow> http_req \<Rightarrow> http_resp" where
  "admin_favicon E r =
     (if rq_method r \<noteq> ''GET'' \<and> rq_method r \<noteq> ''HEAD''
      then http_error (hdr_set ''Allow'' ''GET, HEAD'' no_header) ''method not allowed'' 405
      else \<lparr>rs_status = 200,
        rs_header = hdr_set ''Cache-Control'' ''public, max-age=86400'' (hdr_set ''Content-Type'' ''image/svg+xml'' no_header),
        rs_body = (if rq_method r = ''HEAD'' then BodyEmpty else BodyText (ae_favicon E))\<rparr>)"

section \<open>FIPS\<close>

definition admin_fips_payload :: "admin_env \<Rightarrow> admin_server \<Rightarrow> file_sys \<Rightarrow> json" where
  "admin_fips_payload E s fs =
     (let path = trim_space (as_fips_nsec_path s); npub = trim_space (as_fips_peer_npub s); addr = trim_space (as_fips_peer_addr s);
          out = [(''peer_npub'', JStr npub), (''peer_addr'', JStr addr), (''peer_configured'', JBool (npub \<noteq> [])),
                 (''peer_addr_configured'', JBool (addr \<noteq> [])),
                 (''peers'', peer_list_json (peer_list (as_fips_peer_npub s) (as_fips_peer_addr s) None))]
      in JObj (out @
        (if path = [] then [(''state'', JStr ''not_configured'')]
         else (case read_file (ae_files E) fs path of
            ReadNotExist e \<Rightarrow> [(''state'', JStr ''file_error''), (''error'', JStr e)]
          | ReadFailed e \<Rightarrow> [(''state'', JStr ''file_error''), (''error'', JStr e)]
          | ReadOk raw \<Rightarrow>
             (case nsec_identity (ae_fips E) raw of
                Inl e \<Rightarrow> [(''state'', JStr ''invalid''), (''error'', JStr e)]
              | Inr npub \<Rightarrow> [(''state'', JStr ''configured''), (''npub'', JStr npub)])))))"

definition admin_fips_nsec :: "admin_env \<Rightarrow> admin_server \<Rightarrow> http_req \<Rightarrow> file_sys \<Rightarrow> admin_out" where
  "admin_fips_nsec E s r fs =
     (case Option.bind (decode_limited 4096 r) (unmarshal_struct [''nsec'']) of
        None \<Rightarrow> admin_reply (error_json 400 ''invalid JSON'') fs
      | Some m \<Rightarrow>
         (case save_nsec (ae_fips E) (ae_files E) (as_fips_nsec_path s) (m ''nsec'') fs of
            (Inl e, trace) \<Rightarrow> admin_reply (error_json 400 e) (last trace)
          | (Inr npub, trace) \<Rightarrow>
             admin_reply (httpx_write_json 200 (JObj [(''saved'', JBool True), (''npub'', JStr npub)])) (last trace)))"

definition admin_fips_peer_check :: "admin_env \<Rightarrow> http_req \<Rightarrow> file_sys \<Rightarrow> admin_out" where
  "admin_fips_peer_check E r fs =
     (case Option.bind (decode_limited 4096 r) (unmarshal_struct [''fips_peer_npub'', ''fips_peer_addr'']) of
        None \<Rightarrow> admin_reply (error_json 400 ''invalid JSON'') fs
      | Some m \<Rightarrow>
         (let (status, calls) = check_peer_with_debug_require_peer (ae_nostr E) (ae_fips_net E) (m ''fips_peer_npub'') (m ''fips_peer_addr'')
          in (case connectivity_error status of
                Some text \<Rightarrow> (admin_reply (error_json 400 text) fs)\<lparr>ao_net := calls\<rparr>
              | None \<Rightarrow> (admin_reply (httpx_write_json 200 (JObj status)) fs)\<lparr>ao_net := calls\<rparr>)))"

section \<open>Identity\<close>

definition trustroots_domain :: "admin_server \<Rightarrow> string" where
  "trustroots_domain s = (case url_parse (sv_nip05_base_url s) of
       None \<Rightarrow> [] | Some u \<Rightarrow> if u_host u = [] then [] else trim_prefix (to_lower (u_host u)) ''www.'')"

text \<open>The relays a profile lookup dials: in order, until one answers.\<close>

fun relays_asked :: "nostr_lib \<Rightarrow> ws_net \<Rightarrow> string \<Rightarrow> string list \<Rightarrow> string list" where
  "relays_asked L net pubkey [] = []"
| "relays_asked L net pubkey (u # us) =
     u # (if is_ok (find_trustroots_username_on_relay L net u pubkey) then [] else relays_asked L net pubkey us)"

text \<open>The payload, the NIP-05 requests and the relays that were dialled.\<close>

definition admin_identity_payload :: "admin_env \<Rightarrow> admin_server \<Rightarrow> string \<Rightarrow> json \<times> out_req list \<times> string list" where
  "admin_identity_payload E s pubkey =
     (let out = (\<lambda>user nip05 verified. JObj [(''authenticated_pubkey'', JStr pubkey), (''trustroots_username'', user),
            (''trustroots_nip05'', nip05), (''verified'', JBool verified)]);
          dialled = relays_asked (ae_nostr E) (ae_ws E) pubkey (profile_relay_urls (sv_upstream s))
      in (case find_trustroots_username (ae_nostr E) (ae_ws E) (sv_upstream s) pubkey of
            Inl _ \<Rightarrow> (out JNull JNull False, [], dialled)
          | Inr username \<Rightarrow>
             if username = [] then (out JNull JNull False, [], dialled)
             else (let domain = trustroots_domain s;
                       identifier = (if domain \<noteq> [] then username @ ''@'' @ domain else username);
                       (err, qs) = nip05_verify (ae_http E) (sv_nip05_base_url s) username pubkey
                   in (out (JStr username) (JStr identifier) (err = None), qs, dialled))))"

section \<open>Configuration\<close>

definition admin_service_label :: "string \<Rightarrow> string" where
  "admin_service_label service = join '' '' (map (\<lambda>p. case p of [] \<Rightarrow> [] | c # cs \<Rightarrow> char_upper c # cs)
     (fields_func (\<lambda>c. c = CHR ''-'' \<or> c = CHR ''_'') service))"

definition admin_nip11_http_url :: "string \<Rightarrow> string option" where
  "admin_nip11_http_url relay_url =
     (case url_parse relay_url of
        None \<Rightarrow> None
      | Some u \<Rightarrow>
         if u_host u = [] then None
         else if u_scheme u = ''ws'' then Some (url_string (u\<lparr>u_scheme := ''http''\<rparr>))
         else if u_scheme u = ''wss'' then Some (url_string (u\<lparr>u_scheme := ''https''\<rparr>))
         else None)"

definition admin_proxy_endpoint :: "admin_server \<Rightarrow> string" where
  "admin_proxy_endpoint s =
     (case as_proxy s of None \<Rightarrow> []
      | Some p \<Rightarrow> (case admin_nip11_http_url (sv_public_relay_url s) of None \<Rightarrow> []
         | Some base \<Rightarrow> trim_right (CHR ''/'') base @ px_prefix p))"

definition admin_wiki_payload :: "string \<Rightarrow> wiki_advert \<Rightarrow> json" where
  "admin_wiki_payload slug w = JObj
     [(''slug'', JStr slug), (''origin'', JStr (wa_origin w)), (''label'', JStr (wa_label w)), (''summary'', JStr (wa_summary w)),
      (''wiki_path'', JStr (wa_wiki_path w)), (''wiki_api_path'', JStr (wa_wiki_api_path w)),
      (''wiki_load_path'', JStr (wa_wiki_load_path w)), (''wiki_main_page_path'', JStr (wa_wiki_main_page_path w)),
      (''wiki_main_page_title'', JStr (wa_wiki_main_page_title w)), (''proxy_route'', JStr (wa_proxy_route w)),
      (''status'', JStr (wa_status w)), (''audience'', strs_json (wa_audience w))]"

definition or_default :: "string \<Rightarrow> string \<Rightarrow> string" where
  "or_default v d = (if trim_space v = [] then d else trim_space v)"

definition admin_wiki_advertisable :: "string \<Rightarrow> wiki_advert \<Rightarrow> json" where
  "admin_wiki_advertisable slug w =
     (let label = or_default (wa_label w) (admin_service_label slug)
      in JObj [(''name'', JStr (''wiki-'' @ slug)), (''label'', JStr label), (''service'', JStr ''wiki''), (''title'', JStr label),
        (''summary'', JStr (or_default (wa_summary w) ''Public wiki available through Wrapster'')),
        (''status'', JStr (or_default (wa_status w) ''active'')), (''access'', JStr ''public''),
        (''audience'', strs_json (if wa_audience w = [] then [''community''] else wa_audience w)),
        (''advert_slug'', JStr slug), (''note_services'', strs_json [''wiki'']),
        (''extra_tags'', JArr (map strs_json
          [[''wiki_origin'', wa_origin w], [''wiki_path'', wa_wiki_path w], [''wiki_api_path'', wa_wiki_api_path w],
           [''wiki_load_path'', wa_wiki_load_path w], [''wiki_main_page_path'', wa_wiki_main_page_path w],
           [''wiki_main_page_title'', wa_wiki_main_page_title w], [''proxy_route'', wa_proxy_route w]]))])"

text \<open>The proxy's part of the configuration: its routes with the credentials of the targets removed.\<close>

definition admin_proxy_payload :: "proxy \<Rightarrow> json" where
  "admin_proxy_payload p = JObj [(''prefix'', JStr (px_prefix p)), (''access_rules'', strs_json (px_access_rules p)),
     (''routes'', JObj (map (\<lambda>(route, target). (route, JStr (redact_url_userinfo target))) (px_targets p))),
     (''default_target'', JStr (redact_url_userinfo (px_default_target p))),
     (''allowed_origins'', int_json (int (length (px_allowed_origins p))))]"

definition admin_proxy_advertisable :: "admin_server \<Rightarrow> json" where
  "admin_proxy_advertisable s = JObj [(''name'', JStr ''proxy''), (''label'', JStr ''Proxy''), (''service'', JStr ''cors-proxy''),
     (''title'', JStr ''Wrapster CORS Proxy''),
     (''summary'', JStr ''Allowlisted browser proxy for Trustroots and community wiki calls''),
     (''access'', JStr ''request''), (''audience'', strs_json [''community'', ''trustroots'']),
     (''extra_tags'', JArr [strs_json [''endpoint'', admin_proxy_endpoint s]])]"

definition admin_rule_payload :: "rule \<Rightarrow> json" where
  "admin_rule_payload rl = JObj ([(''type'', JStr (rl_type rl)), (''relay'', JStr (rl_relay_url rl))]
     @ (if rl_type rl = rule_trustroots_nip05 then [(''nip05_base_url'', JStr (rl_nip05_base_url rl))]
        else if rl_type rl = rule_nostr_follow
        then [(''relationship'', JStr (rl_relationship rl)), (''owner_pubkey'', JStr (rl_owner_pubkey rl))] else [])
     @ (if rl_deny_pubkeys rl \<noteq> {} then [(''deny_count'', int_json (int (card (rl_deny_pubkeys rl))))] else []))"

definition admin_service_advertisable :: "string \<Rightarrow> json" where
  "admin_service_advertisable service =
     (let label = admin_service_label service
      in JObj [(''name'', JStr service), (''label'', JStr label), (''service'', JStr service), (''title'', JStr (''Wrapster '' @ label)),
        (''summary'', JStr (''Request-gated '' @ label @ '' access through Wrapster'')), (''access'', JStr ''request''),
        (''audience'', strs_json [''trustroots''])])"

definition admin_config_payload :: "admin_server \<Rightarrow> json" where
  "admin_config_payload s =
     (let lookup = strs_json (up_profile_relays (sv_upstream s));
          services = gw_service_access_rules (as_media_gateway s);
          wikis = as_wiki_adverts s;
          advertisable = (case as_proxy s of None \<Rightarrow> [] | Some _ \<Rightarrow> [admin_proxy_advertisable s])
            @ map (\<lambda>(service, _). admin_service_advertisable service) services
            @ map (\<lambda>(slug, w). admin_wiki_advertisable slug w) wikis
      in JObj ([(''relays'', JObj [(''upstream'', JStr (up_url (sv_upstream s))), (''additional'', lookup), (''lookup'', lookup)])]
        @ (case as_proxy s of None \<Rightarrow> []
           | Some p \<Rightarrow> [(''proxy'', admin_proxy_payload p),
               (''access_rules'', JObj (List.map_filter (\<lambda>name. map_option (\<lambda>rl. (name, admin_rule_payload rl))
                  (aa_rules (px_access p) name)) (as_rule_order s)))])
        @ [(''media'', JObj [(''connector_configured'', JBool (trim_space (gw_connector_base_url (as_media_gateway s)) \<noteq> [])),
             (''services'', JObj (map (\<lambda>(service, rules). (service, strs_json rules)) services))])]
        @ (if wikis = [] then [] else [(''wiki'', JObj (map (\<lambda>(slug, w). (slug, admin_wiki_payload slug w)) wikis))])
        @ [(''advertisable_services'', JArr advertisable)]))"

section \<open>Status\<close>

definition admin_duration :: "duration \<Rightarrow> string" where
  "admin_duration d =
     (if d = 0 then duration_str d
      else if d mod hour = 0 then int_str (d div hour) @ ''h''
      else if d mod minute = 0 then trim_suffix (duration_str d) ''0s''
      else duration_str d)"

definition nip_number :: "admin_env \<Rightarrow> json \<Rightarrow> int option" where
  "nip_number E j = (case j of
       JNum lexeme \<Rightarrow> Some (case parse_int64 lexeme of
           Some n \<Rightarrow> if \<bar>n\<bar> \<le> 2 ^ 53 then n else ae_float_int E lexeme | None \<Rightarrow> ae_float_int E lexeme)
     | _ \<Rightarrow> None)"

text \<open>The relay's own description, with the list of NIPs filtered, and the request made for it.\<close>

definition admin_strfry_nip11 :: "admin_env \<Rightarrow> string \<Rightarrow> json \<times> out_req list" where
  "admin_strfry_nip11 E relay_url =
     (case admin_nip11_http_url relay_url of
        None \<Rightarrow> (JNull, [])
      | Some info_url \<Rightarrow>
         (case url_parse info_url of
            None \<Rightarrow> (JNull, [])
          | Some _ \<Rightarrow>
             (let q = \<lparr>oq_method = ''GET'', oq_url = info_url, oq_header = hdr_set ''Accept'' ''application/nostr+json'' no_header, oq_body = None\<rparr>
              in (case ae_http E q of
                    Inl _ \<Rightarrow> (JNull, [q])
                  | Inr resp \<Rightarrow>
                     (if up_code resp < 200 \<or> 300 \<le> up_code resp then (JNull, [q])
                      else (case decode_object (take 1048576 (up_body resp)) of
                         None \<Rightarrow> (JNull, [q])
                       | Some (JObj payload) \<Rightarrow>
                          (case map_of payload ''supported_nips'' of
                             Some (JArr raws) \<Rightarrow>
                               (JObj (AList.update ''supported_nips''
                                  (JArr (map int_json (filter_nips_for_admin (List.map_filter (nip_number E) raws)))) payload), [q])
                           | _ \<Rightarrow> (JObj payload, [q]))
                       | Some v \<Rightarrow> (v, [q])))))))"

definition admin_strfry_status_payload :: "admin_env \<Rightarrow> admin_server \<Rightarrow> (string \<times> json) list \<times> out_req list" where
  "admin_strfry_status_payload E s =
     (let url = up_url (sv_upstream s);
          (reachable, latency, last_error) = (case ae_ws E url of
             Inr _ \<Rightarrow> (True, int_json (ae_dial_ms E), []) | Inl e \<Rightarrow> (False, JNull, e));
          (nip11, qs) = admin_strfry_nip11 E url
      in ([(''url'', JStr url), (''reachable'', JBool reachable), (''latency_ms'', latency),
           (''checked_at'', JStr (rfc3339_utc (unix_of_time (ae_now E)))), (''last_error'', JStr last_error), (''nip11'', nip11)], qs))"

definition recent_query_json :: "recent_query \<Rightarrow> json" where
  "recent_query_json q = JObj [(''at'', JStr (rfc3339_utc (rr_at q))), (''pubkey'', JStr (rr_pubkey q)),
     (''subscription_id'', JStr (rr_sub_id q)), (''filters'', JArr (rr_filters q))]"

text \<open>The payload, the requests, and the relay that was dialled.\<close>

definition admin_status_payload :: "admin_env \<Rightarrow> admin_server \<Rightarrow> relay_shared \<Rightarrow> string \<Rightarrow> json \<times> out_req list \<times> string list" where
  "admin_status_payload E s sh pubkey =
     (let cache_ok = (sh_cache sh = None \<or> ae_ping E);
          (strfry, qs1) = admin_strfry_status_payload E s;
          (media, qs2) = connector_status (as_media_gateway s) (ae_media_checked_at E) (ae_media_latency E)
      in (JObj
        [(''service'', JObj [(''name'', JStr ''wrapster''),
           (''description'', JStr ''NIP-42 authenticated relay wrapper with additional services''),
           (''authenticated_pubkey'', JStr pubkey),
           (''admin_pubkeys_count'', int_json (int (card (az_admins (as_admin_auth s))))),
           (''admin_auth_max_age_ms'', int_json (sgn (az_max_age (as_admin_auth s)) * (\<bar>az_max_age (as_admin_auth s)\<bar> div 1000000)))]),
         (''relay'', JObj [(''public_url'', JStr (sv_public_relay_url s)), (''upstream_url'', JStr (up_url (sv_upstream s))),
           (''auth_cache_ttl'', JStr (admin_duration (sv_auth_cache_ttl s))),
           (''auth_event_window'', JStr (admin_duration (sv_auth_event_max_age s))),
           (''supported_nips'', JArr (map int_json (filter_nips_for_admin [1, 5, 11, 42]))),
           (''recent_queries'', JArr (map recent_query_json (recent_relay_queries sh)))]),
         (''health'', JObj [(''cache'', JBool cache_ok), (''upstream'', JBool (st_bool strfry ''reachable'')),
           (''media_connector'', JBool (st_bool media ''reachable''))]),
         (''strfry'', JObj strfry), (''media_connector'', JObj media)],
        qs1 @ qs2, [up_url (sv_upstream s)]))"

section \<open>Cache and policy\<close>

definition unix_time_or_nil :: "int \<Rightarrow> json" where
  "unix_time_or_nil u = (if u = 0 then JNull else JStr (rfc3339_utc u))"

definition admin_auth_cache_payload :: "admin_env \<Rightarrow> relay_shared \<Rightarrow> goerr + json" where
  "admin_auth_cache_payload E sh =
     (case sh_cache sh of
        None \<Rightarrow> Inr (JObj [(''enabled'', JBool False)])
      | Some rows \<Rightarrow>
         bind_res (cache_summarize (ae_summary_fail E) rows (ae_now E)) (\<lambda>summary.
           Inr (JObj [(''enabled'', JBool True), (''total'', int_json (cs_total summary)), (''valid'', int_json (cs_valid summary)),
             (''expired'', int_json (cs_expired summary)), (''oldest_seen'', unix_time_or_nil (cs_oldest_unix summary)),
             (''newest_seen'', unix_time_or_nil (cs_newest_unix summary))])))"

definition admin_auth_cache :: "admin_env \<Rightarrow> relay_shared \<Rightarrow> http_resp" where
  "admin_auth_cache E sh = (case admin_auth_cache_payload E sh of
       Inl e \<Rightarrow> error_json 500 (error_text e) | Inr body \<Rightarrow> httpx_write_json 200 body)"

definition admin_policy_payload :: "admin_server \<Rightarrow> string \<Rightarrow> json" where
  "admin_policy_payload s pubkey = JObj
     [(''authenticated_pubkey'', JStr pubkey),
      (''access_rule'', JObj [(''name'', JStr ''trustroots-nip05''),
        (''description'', JStr ''Users must complete NIP-42 authentication and resolve to the same pubkey through NIP-05 verification.''),
        (''profile_kinds'', JArr [int_json trustroots_profile_kind, int_json 0]),
        (''profile_label_namespace'', JStr trustroots_username_label_namespace)]),
      (''admin_rule'', JObj [(''name'', JStr ''configured-admin-pubkeys''),
        (''description'', JStr ''Admin API requests must be signed with NIP-98 by a pubkey listed in ADMIN_PUBKEYS.''),
        (''admin_count'', int_json (int (card (az_admins (as_admin_auth s)))))])]"

section \<open>The API\<close>

definition admin_overview :: "admin_env \<Rightarrow> admin_server \<Rightarrow> relay_shared \<Rightarrow> string \<Rightarrow> file_sys \<Rightarrow> admin_out" where
  "admin_overview E s sh pubkey fs =
     (case admin_auth_cache_payload E sh of
        Inl e \<Rightarrow> admin_reply (error_json 500 (error_text e)) fs
      | Inr cache \<Rightarrow>
         (case admin_status_payload E s sh pubkey of (status, qs1, ds1) \<Rightarrow>
           (case admin_identity_payload E s pubkey of (identity, qs2, ds2) \<Rightarrow>
             \<lparr>ao_resp = httpx_write_json 200 (JObj [(''authenticated_pubkey'', JStr pubkey), (''status'', status),
                (''identity'', identity), (''auth_cache'', cache), (''policy'', admin_policy_payload s pubkey),
                (''fips'', admin_fips_payload E s fs), (''config'', admin_config_payload s)]),
              ao_sent = qs1 @ qs2, ao_dialled = ds1 @ ds2, ao_net = [], ao_files = fs\<rparr>)))"

text \<open>A method guard in front of a handler.\<close>

definition with_method :: "http_req \<Rightarrow> string \<Rightarrow> file_sys \<Rightarrow> admin_out \<Rightarrow> admin_out" where
  "with_method r m fs out = (case require_method r m of Some resp \<Rightarrow> admin_reply resp fs | None \<Rightarrow> out)"

definition admin_status :: "admin_env \<Rightarrow> admin_server \<Rightarrow> relay_shared \<Rightarrow> string \<Rightarrow> file_sys \<Rightarrow> admin_out" where
  "admin_status E s sh pubkey fs =
     (case admin_status_payload E s sh pubkey of (body, qs, ds) \<Rightarrow>
        \<lparr>ao_resp = httpx_write_json 200 body, ao_sent = qs, ao_dialled = ds, ao_net = [], ao_files = fs\<rparr>)"

definition admin_identity :: "admin_env \<Rightarrow> admin_server \<Rightarrow> string \<Rightarrow> file_sys \<Rightarrow> admin_out" where
  "admin_identity E s pubkey fs =
     (case admin_identity_payload E s pubkey of (body, qs, ds) \<Rightarrow>
        \<lparr>ao_resp = httpx_write_json 200 body, ao_sent = qs, ao_dialled = ds, ao_net = [], ao_files = fs\<rparr>)"

definition admin_config :: "admin_server \<Rightarrow> http_resp" where
  "admin_config s = httpx_write_json 200 (admin_config_payload s)"

definition admin_policy :: "admin_server \<Rightarrow> string \<Rightarrow> http_resp" where
  "admin_policy s pubkey = httpx_write_json 200 (admin_policy_payload s pubkey)"

definition admin_api :: "admin_env \<Rightarrow> admin_server \<Rightarrow> relay_shared \<Rightarrow> http_req \<Rightarrow> file_sys \<Rightarrow> admin_out" where
  "admin_api E s sh r fs =
     (case az_verify_request (ae_nostr E) (as_admin_auth s) r (ae_now E) of
        Inl e \<Rightarrow> admin_reply (error_json (admin_auth_status e) (error_text e)) fs
      | Inr pubkey \<Rightarrow>
         (let p = u_path (rq_url r)
          in if p = admin_api_overview then with_method r ''GET'' fs (admin_overview E s sh pubkey fs)
             else if p = admin_api_status then with_method r ''GET'' fs (admin_status E s sh pubkey fs)
             else if p = admin_api_identity then with_method r ''GET'' fs (admin_identity E s pubkey fs)
             else if p = admin_api_config then with_method r ''GET'' fs (admin_reply (admin_config s) fs)
             else if p = admin_api_auth_cache then with_method r ''GET'' fs (admin_reply (admin_auth_cache E sh) fs)
             else if p = admin_api_policy then with_method r ''GET'' fs (admin_reply (admin_policy s pubkey) fs)
             else if p = admin_api_fips_nsec then with_method r ''POST'' fs (admin_fips_nsec E s r fs)
             else if p = admin_api_fips_peer_check then with_method r ''POST'' fs (admin_fips_peer_check E r fs)
             else admin_reply not_found fs))"

end
