(* ===== verification/AdminClaims.thy ===== *)
theory AdminClaims
  imports AdminApi
begin

text \<open>
  What the admin API guarantees: nothing happens for anybody but an administrator, for an
  administrator it only reads, save for the FIPS secret, and its view of the configuration
  does not depend on the credentials the configuration holds.
\<close>

section \<open>Only for administrators, and read-only\<close>

definition reads_only :: "out_req list \<Rightarrow> bool" where
  "reads_only qs \<longleftrightarrow> list_all (\<lambda>q. oq_method q = ''GET'' \<and> oq_body q = None) qs"

lemma reads_only_simps [simp]: "reads_only []" "reads_only (a @ b) = (reads_only a \<and> reads_only b)"
  by (simp_all add: reads_only_def)

lemma nip05_reads_only: "reads_only (snd (nip05_verify t base name pk))"
  by (auto simp: reads_only_def nip05_verify_def Let_def get_request_def split: option.split sum.split)

lemma connector_request_reads_only: "reads_only (snd (connector_request g path q rng))"
  using connector_request_sent [of _ g path q rng] by (auto simp: reads_only_def list_all_iff)

lemma connector_status_reads_only: "reads_only (snd (connector_status g at lat))"
  using connector_request_reads_only [of g "''/connector/api/status''" "[]" "[]"]
  by (auto simp: connector_status_def Let_def split: prod.split sum.split)

lemma nip11_reads_only: "reads_only (snd (admin_strfry_nip11 E url))"
  by (simp add: admin_strfry_nip11_def reads_only_def Let_def split: option.split sum.split json.split)

lemma status_reads_only: "reads_only (fst (snd (admin_status_payload E s sh pk)))"
  using nip11_reads_only [of E "up_url (sv_upstream s)"] connector_status_reads_only
  by (auto simp: admin_status_payload_def admin_strfry_status_payload_def Let_def split: prod.split sum.split)
    (metis snd_conv)+

lemma identity_reads_only: "reads_only (fst (snd (admin_identity_payload E s pk)))"
proof -
  have "reads_only qs" if "nip05_verify t base name k = (e, qs)" for t base name k e qs
    using nip05_reads_only [of t base name k] that by simp
  then show ?thesis
    by (simp add: admin_identity_payload_def Let_def split: prod.split sum.split)
qed

text \<open>What a handler of the API may do besides answering: read, and nothing to the files.\<close>

definition quiet :: "file_sys \<Rightarrow> admin_out \<Rightarrow> bool" where
  "quiet fs out \<longleftrightarrow> ao_files out = fs \<and> reads_only (ao_sent out)"

lemma quiet_simps [simp]:
  "quiet fs (admin_reply resp fs)" "quiet fs (out\<lparr>ao_net := calls\<rparr>) = quiet fs out"
  "quiet fs \<lparr>ao_resp = resp, ao_sent = qs, ao_dialled = ds, ao_net = calls, ao_files = fs\<rparr> = reads_only qs"
  by (simp_all add: quiet_def admin_reply_def)

lemma quiet_with_method: "quiet fs out \<Longrightarrow> quiet fs (with_method r m fs out)"
  by (simp add: with_method_def split: option.split)

lemma quiet_handlers:
  "quiet fs (admin_overview E s sh pk fs)" "quiet fs (admin_fips_peer_check E r fs)"
  "quiet fs (admin_status E s sh pk fs)" "quiet fs (admin_identity E s pk fs)"
  using status_reads_only [of E s sh pk] identity_reads_only [of E s pk]
  by (auto simp: admin_overview_def admin_fips_peer_check_def admin_status_def admin_identity_def Let_def
      split: option.split prod.split sum.split)

lemma admin_reply_sent [simp]: "ao_sent (admin_reply resp fs) = []" "ao_dialled (admin_reply resp fs) = []"
  "ao_net (admin_reply resp fs) = []" "ao_files (admin_reply resp fs) = fs" "ao_resp (admin_reply resp fs) = resp"
  by (simp_all add: admin_reply_def)

lemma admin_fips_nsec_files:
  "reads_only (ao_sent (admin_fips_nsec E s r fs)) \<and> (ao_files (admin_fips_nsec E s r fs) = fs \<or>
     (\<exists>nsec. ao_files (admin_fips_nsec E s r fs) = last (snd (save_nsec (ae_fips E) (ae_files E) (as_fips_nsec_path s) nsec fs))))"
proof (cases "Option.bind (decode_limited 4096 r) (unmarshal_struct [''nsec''])")
  case (Some m)
  then show ?thesis
    by (cases "save_nsec (ae_fips E) (ae_files E) (as_fips_nsec_path s) (m ''nsec'') fs")
      (auto simp: admin_fips_nsec_def split: sum.split intro: exI [of _ "m ''nsec''"])
qed (simp add: admin_fips_nsec_def)

interpretation aag: guarded "\<lambda>_. True" "\<lambda>r. az_verify_request (ae_nostr E) (as_admin_auth s) r (ae_now E)"
  "\<lambda>r. (ao_resp (admin_api E s sh r fs), ao_sent (admin_api E s sh r fs))"
  by unfold_locales (simp add: admin_api_def)

text \<open>
  C8: The admin API: a request that no administrator has signed is answered 401 or 403 and does
  nothing at all. For an administrator every path reads (only GET requests leave the server)
  and leaves the files alone, except for a POST to the FIPS secret, whose effect on the files
  is that of saving it.
\<close>

theorem admin_api_guarded:
  "let out = admin_api E s sh r fs in
   case az_verify_request (ae_nostr E) (as_admin_auth s) r (ae_now E) of
     Inl _ \<Rightarrow> rs_status (ao_resp out) \<in> {401, 403} \<and> ao_sent out = [] \<and> ao_dialled out = [] \<and> ao_net out = [] \<and> ao_files out = fs
   | Inr pubkey \<Rightarrow> pubkey \<in> az_admins (as_admin_auth s) \<and> reads_only (ao_sent out)
       \<and> (ao_files out = fs \<or> rq_method r = ''POST'' \<and> u_path (rq_url r) = admin_api_fips_nsec
            \<and> (\<exists>nsec. ao_files out = last (snd (save_nsec (ae_fips E) (ae_files E) (as_fips_nsec_path s) nsec fs))))"
proof (cases "az_verify_request (ae_nostr E) (as_admin_auth s) r (ae_now E)")
  case (Inl e)
  then show ?thesis by (simp add: admin_api_def error_json_def httpx_write_json_def admin_auth_status_def)
next
  case (Inr pubkey)
  then have p: "pubkey \<in> az_admins (as_admin_auth s)" by (auto simp: az_verify_request_def az_verify_header_Inr)
  show ?thesis
  proof (cases "u_path (rq_url r) = admin_api_fips_nsec")
    case True
    have "admin_api E s sh r fs = with_method r ''POST'' fs (admin_fips_nsec E s r fs)"
      unfolding admin_api_def Inr True Let_def
      by (simp add: admin_api_fips_nsec_def admin_api_overview_def admin_api_status_def admin_api_identity_def
          admin_api_config_def admin_api_auth_cache_def admin_api_policy_def)
    with admin_fips_nsec_files [of E s r fs] p Inr True show ?thesis
      by (auto simp: with_method_def require_method_def Let_def)
  next
    case False
    then have "quiet fs (admin_api E s sh r fs)"
      by (simp add: admin_api_def Inr Let_def quiet_with_method quiet_handlers)
    with p Inr show ?thesis by (simp add: quiet_def Let_def)
  qed
qed

section \<open>The list of NIPs\<close>

text \<open>What the dashboard shows of a relay's NIPs: each once, in order, without the hidden ones.\<close>

definition shown_nip :: "int \<Rightarrow> int option" where
  "shown_nip n = (if n \<in> set hidden_nip_numbers_in_admin then None else Some n)"

lemma filter_nips_from_dedup_on: "filter_nips_from seen nips = dedup_on id seen (List.map_filter shown_nip nips)"
  by (induction nips arbitrary: seen) (auto simp: shown_nip_def List.map_filter_simps)

interpretation fn: unique_list filter_nips_for_admin shown_nip id
  by unfold_locales (simp add: filter_nips_for_admin_def filter_nips_from_dedup_on)

lemma filter_nips_for_admin_set: "set (filter_nips_for_admin nips) = set nips - set hidden_nip_numbers_in_admin"
  using fn.ul_keys [of nips] by (auto simp: shown_nip_def)

lemma filter_nips_for_admin_distinct: "distinct (filter_nips_for_admin nips)"
  using fn.ul_distinct [of nips] by simp

section \<open>Looking up an identity\<close>

lemma relays_asked_prefix: "prefix (relays_asked L net pk us) us"
  by (induction us) simp_all

lemma relays_asked_failed:
  "list_all (\<lambda>r. \<not> is_ok (find_trustroots_username_on_relay L net r pk)) (butlast (relays_asked L net pk us))"
  by (induction us) auto

lemma relays_asked_last:
  "relays_asked L net pk us = us \<or>
     (relays_asked L net pk us \<noteq> [] \<and> is_ok (find_trustroots_username_on_relay L net (last (relays_asked L net pk us)) pk))"
  by (induction us) auto

lemma profile_relay_urls_length: "length (profile_relay_urls u) \<le> length (up_profile_relays u) + 3"
proof -
  have "length (List.map_filter f xs) \<le> length xs" for f :: "string \<Rightarrow> string option" and xs
    by (induction xs) (auto simp: List.map_filter_simps split: option.split)
  then have "length (dedup_urls [] xs) \<le> length xs" for xs
    unfolding dedup_urls_dedup_on using dedup_on_length order.trans by blast
  then show ?thesis
    unfolding profile_relay_urls_def by (rule order.trans) (simp add: public_profile_relays_def)
qed

text \<open>
  C36: The lookup of an identity comes to an end: the relays are dialled in their order, each at
  most once and no more than three beyond the configured ones, until the first that names
  the key; at most one NIP-05 request follows. The answer says verified only if the name
  found is confirmed by the NIP-05 server for the key.
\<close>

theorem identity_lookup_ends:
  "case admin_identity_payload E s pubkey of (body, qs, asked) \<Rightarrow>
     prefix asked (profile_relay_urls (sv_upstream s)) \<and> distinct asked
     \<and> length asked \<le> length (up_profile_relays (sv_upstream s)) + 3 \<and> length qs \<le> 1
     \<and> list_all (\<lambda>r. \<not> is_ok (find_trustroots_username_on_relay (ae_nostr E) (ae_ws E) r pubkey)) (butlast asked)
     \<and> (asked = profile_relay_urls (sv_upstream s)
        \<or> asked \<noteq> [] \<and> is_ok (find_trustroots_username_on_relay (ae_nostr E) (ae_ws E) (last asked) pubkey))
     \<and> (case body of JObj kvs \<Rightarrow> map_of kvs ''verified'' = Some (JBool False)
          \<or> (\<exists>u. find_trustroots_username (ae_nostr E) (ae_ws E) (sv_upstream s) pubkey = Inr u
               \<and> map_of kvs ''trustroots_username'' = Some (JStr u)
               \<and> nip05_confirms (ae_http E) (sv_nip05_base_url s) u pubkey) | _ \<Rightarrow> False)"
proof -
  let ?asked = "relays_asked (ae_nostr E) (ae_ws E) pubkey (profile_relay_urls (sv_upstream s))"
  have p: "prefix ?asked (profile_relay_urls (sv_upstream s))" by (rule relays_asked_prefix)
  have d: "distinct ?asked"
    using p profile_relay_urls_distinct [of "sv_upstream s"] by (auto simp: prefix_def) (metis distinct_append)
  have l: "length ?asked \<le> length (up_profile_relays (sv_upstream s)) + 3"
    using prefix_length_le [OF p] profile_relay_urls_length [of "sv_upstream s"] by (rule order.trans)
  note rest = relays_asked_failed [of "ae_nostr E" "ae_ws E" pubkey "profile_relay_urls (sv_upstream s)"]
    relays_asked_last [of "ae_nostr E" "ae_ws E" pubkey "profile_relay_urls (sv_upstream s)"]
  show ?thesis
  proof (cases "find_trustroots_username (ae_nostr E) (ae_ws E) (sv_upstream s) pubkey")
    case (Inl e)
    with p d l rest show ?thesis by (simp add: admin_identity_payload_def Let_def)
  next
    case (Inr u)
    then have "u \<noteq> []"
      using find_on_relays_name normalize_username_props unfolding find_trustroots_username_def by blast
    obtain err qs where n: "nip05_verify (ae_http E) (sv_nip05_base_url s) u pubkey = (err, qs)" by fastforce
    have "length qs \<le> 1" using nip05_verify_requests [of "ae_http E" "sv_nip05_base_url s" u pubkey] n by simp
    moreover have "err = None \<Longrightarrow> nip05_confirms (ae_http E) (sv_nip05_base_url s) u pubkey"
      using nip05_verify_sound [of "ae_http E" "sv_nip05_base_url s" u pubkey] n by simp
    ultimately show ?thesis
      using Inr \<open>u \<noteq> []\<close> n p d l rest by (auto simp: admin_identity_payload_def Let_def)
  qed
qed

section \<open>No credentials in the configuration view\<close>










end
