(* ===== verification/AccessLookups.thy ===== *)
theory AccessLookups
  imports Proxy MediaGateway
begin

text \<open>
  What the access checks themselves ask of others: the relays that \<open>internal/access/access.go\<close>
  dials and the NIP-05 requests it sends while it checks a rule, in order, and which of these
  checks the proxy and the media gateway make for a request. The functions follow those of
  Access, whose results decide how far a check goes.
\<close>

section \<open>Lookups of a rule\<close>

text \<open>The relays dialled, and the HTTP requests sent.\<close>

type_synonym lookups = "string list \<times> out_req list"

definition no_lookups :: lookups where
  "no_lookups = ([], [])"

definition then_lookups :: "lookups \<Rightarrow> lookups \<Rightarrow> lookups" where
  "then_lookups a b = (fst a @ fst b, snd a @ snd b)"

text \<open>\<open>findTrustrootsUsername\<close> and \<open>findFollowList\<close> go on to the next relay after an error.\<close>

fun relays_tried :: "(string \<Rightarrow> goerr + 'a) \<Rightarrow> string list \<Rightarrow> string list" where
  "relays_tried look [] = []"
| "relays_tried look (u # us) = u # (if is_ok (look u) then [] else relays_tried look us)"

definition trustroots_lookups :: "nostr_lib \<Rightarrow> access_authorizer \<Rightarrow> rule \<Rightarrow> string \<Rightarrow> lookups" where
  "trustroots_lookups L a r pubkey =
     (relays_tried (\<lambda>u. access_username_on_relay L (aa_dial_url a) u pubkey) (relay_urls_for_rule r),
      case access_find_username L (aa_dial_url a) (relay_urls_for_rule r) pubkey of
        Inl _ \<Rightarrow> []
      | Inr username \<Rightarrow>
          (let base_url = trim_space (rl_nip05_base_url r)
           in if base_url = [] then [] else snd (nip05_verify (aa_http_client a) base_url username pubkey)))"

definition follow_lookups :: "nostr_lib \<Rightarrow> access_authorizer \<Rightarrow> rule \<Rightarrow> lookups" where
  "follow_lookups L a r =
     (let owner = to_lower (trim_space (rl_owner_pubkey r))
      in if owner = [] then no_lookups
         else (relays_tried (\<lambda>u. follow_list_on_relay L (aa_dial_url a) u owner) (relay_urls_for_rule r), []))"

text \<open>\<open>checkRule\<close>; a verifier that is injected instead is outside the program.\<close>

definition rule_lookups :: "nostr_lib \<Rightarrow> access_authorizer \<Rightarrow> string \<Rightarrow> string \<Rightarrow> lookups" where
  "rule_lookups L a rule_name pubkey =
     (case aa_rules a rule_name of
        None \<Rightarrow> no_lookups
      | Some r \<Rightarrow>
          if to_lower pubkey \<in> rl_deny_pubkeys r then no_lookups
          else if rl_type r = rule_trustroots_nip05 then
            (if aa_trustroots_verifier a = None then trustroots_lookups L a r pubkey else no_lookups)
          else if rl_type r = rule_nostr_follow then
            (if rl_relationship r \<noteq> [] \<and> rl_relationship r \<noteq> ''owner_follows_user'' then no_lookups
             else if aa_follow_verifier a = None then follow_lookups L a r else no_lookups)
          else no_lookups)"

fun all_rules_lookups :: "nostr_lib \<Rightarrow> access_authorizer \<Rightarrow> string \<Rightarrow> string list \<Rightarrow> lookups" where
  "all_rules_lookups L a pubkey [] = no_lookups"
| "all_rules_lookups L a pubkey (n # ns) = then_lookups (rule_lookups L a n pubkey)
     (if check_rule L a n pubkey = None then all_rules_lookups L a pubkey ns else no_lookups)"

definition verify_all_lookups :: "nostr_lib \<Rightarrow> access_authorizer \<Rightarrow> http_req \<Rightarrow> string list \<Rightarrow> go_time \<Rightarrow> lookups" where
  "verify_all_lookups L a r names now =
     (if compact_rule_names names = [] then no_lookups
      else (case verified_pubkey L a r now of
          Inl _ \<Rightarrow> no_lookups
        | Inr pubkey \<Rightarrow> all_rules_lookups L a pubkey (compact_rule_names names)))"

section \<open>Lookups of the handlers\<close>

definition proxy_lookups :: "nostr_lib \<Rightarrow> proxy \<Rightarrow> http_req \<Rightarrow> go_time \<Rightarrow> lookups" where
  "proxy_lookups L p r now =
     (if is_health_path p (u_path (rq_url r)) \<or> rq_method r = ''OPTIONS'' \<or> \<not> snd (cors_for p r)
         \<or> rq_method r \<notin> set allowed_methods then no_lookups
      else (case proxy_route_of p (rq_url r) of
          None \<Rightarrow> no_lookups
        | Some routed \<Rightarrow>
           if rt_access_rules routed \<noteq> [] \<and> \<not> is_public_wiki_asset_request (rq_method r) (rt_forward_path routed)
           then verify_all_lookups L (px_access p) r (rt_access_rules routed) now else no_lookups))"

fun any_rule_set_lookups :: "nostr_lib \<Rightarrow> gateway \<Rightarrow> http_req \<Rightarrow> go_time \<Rightarrow> string list list \<Rightarrow> lookups" where
  "any_rule_set_lookups L g r now [] = no_lookups"
| "any_rule_set_lookups L g r now (rules # rest) = then_lookups (verify_all_lookups L (gw_access g) r rules now)
     (if is_ok (verify_all_request L (gw_access g) r rules now) then no_lookups else any_rule_set_lookups L g r now rest)"

definition gateway_lookups :: "nostr_lib \<Rightarrow> gateway \<Rightarrow> http_req \<Rightarrow> go_time \<Rightarrow> lookups" where
  "gateway_lookups L g r now =
     (if rq_method r \<noteq> ''GET'' \<or> is_ok (media_verify_request L (gw_auth g) r now) then no_lookups
      else if u_path (rq_url r) = ''/media/api/status'' then
        any_rule_set_lookups L g r now (required_service_rule_sets (gw_service_access_rules g))
      else (case parse_service_route (u_path (rq_url r)) ''/media/api/services/'' of
          None \<Rightarrow> no_lookups
        | Some route \<Rightarrow> verify_all_lookups L (gw_access g) r (service_rules g (sr_service route)) now))"

section \<open>What is looked up, and for whom\<close>

lemma no_lookups_simps [simp]: "fst no_lookups = []" "snd no_lookups = []"
  by (simp_all add: no_lookups_def)

lemma then_lookups_simps [simp]: "fst (then_lookups a b) = fst a @ fst b" "snd (then_lookups a b) = snd a @ snd b"
  by (simp_all add: then_lookups_def)

lemma relays_tried_set: "u \<in> set (relays_tried look us) \<Longrightarrow> u \<in> set us"
  by (induction us) (auto split: if_splits)

text \<open>The relays tried are those up to the first that answers, all if none does.\<close>

lemma relays_tried_prefix: "prefix (relays_tried look us) us"
  by (induction us) auto

lemma relays_tried_until: "relays_tried look us = a @ u # b \<Longrightarrow> is_ok (look u) \<Longrightarrow> b = []"
proof (induction us arbitrary: a)
  case (Cons v us)
  then show ?case by (cases a) (auto split: if_splits)
qed simp

lemma relays_tried_answer: "first_relay nf look us b e = Inr x \<Longrightarrow> look (last (relays_tried look us)) = Inr x"
proof (induction us arbitrary: b e)
  case (Cons u us)
  show ?case
  proof (cases "look u")
    case (Inl err)
    with Cons.prems have "first_relay nf look us (b \<or> err = AccessErr nf) (Some err) = Inr x" by simp
    moreover from this have "us \<noteq> []" by (cases us) auto
    then have "relays_tried look us \<noteq> []" by (cases us) simp_all
    ultimately show ?thesis using Cons.IH Inl by simp
  qed (use Cons.prems in simp)
qed simp

lemma nip05_verify_sent:
  "q \<in> set (snd (nip05_verify t base u p)) \<Longrightarrow> \<exists>url. nip05_lookup_url base (to_lower (trim_space u)) = Some url \<and> q = get_request url"
  by (auto simp: nip05_verify_def Let_def split: if_splits option.splits sum.splits)

text \<open>A lookup of the rules \<open>R\<close>: a dial of a rule's relay, or a NIP-05 request to its base URL.\<close>

definition rule_dial :: "(string \<Rightarrow> rule option) \<Rightarrow> string \<Rightarrow> bool" where
  "rule_dial R u \<longleftrightarrow> (\<exists>n r. R n = Some r \<and> u \<in> set (relay_urls_for_rule r))"

definition rule_name_request :: "(string \<Rightarrow> rule option) \<Rightarrow> out_req \<Rightarrow> bool" where
  "rule_name_request R q \<longleftrightarrow> (\<exists>n r username url. R n = Some r \<and> rl_type r = rule_trustroots_nip05
     \<and> nip05_lookup_url (trim_space (rl_nip05_base_url r)) username = Some url \<and> q = get_request url)"

definition lookups_of :: "(string \<Rightarrow> rule option) \<Rightarrow> lookups \<Rightarrow> bool" where
  "lookups_of R x \<longleftrightarrow> list_all (rule_dial R) (fst x) \<and> list_all (rule_name_request R) (snd x)"

lemma lookups_of_none [simp]: "lookups_of R no_lookups"
  by (simp add: lookups_of_def)

lemma lookups_of_then: "lookups_of R a \<Longrightarrow> lookups_of R b \<Longrightarrow> lookups_of R (then_lookups a b)"
  by (simp add: lookups_of_def)

lemma rule_dials: "R n = Some r \<Longrightarrow> list_all (rule_dial R) (relays_tried look (relay_urls_for_rule r))"
  by (auto simp: list_all_iff rule_dial_def dest: relays_tried_set)

lemma rule_lookups_of: "lookups_of (aa_rules a) (rule_lookups L a n pk)"
proof (cases "aa_rules a n")
  case (Some r)
  have names: "list_all (rule_name_request (aa_rules a)) (snd (nip05_verify t (trim_space (rl_nip05_base_url r)) u pk))"
    if "rl_type r = rule_trustroots_nip05" for t u
    unfolding list_all_iff rule_name_request_def using Some that nip05_verify_sent by blast
  show ?thesis
    using names Some
    by (auto simp: rule_dials [of "aa_rules a", OF Some] rule_lookups_def lookups_of_def trustroots_lookups_def follow_lookups_def Let_def split: sum.split)
qed (simp add: rule_lookups_def)

lemma all_rules_lookups_of: "lookups_of (aa_rules a) (all_rules_lookups L a pk ns)"
  by (induction ns) (simp_all add: lookups_of_then rule_lookups_of)

text \<open>Nothing is looked up for a request that is not signed.\<close>

definition lookups_for :: "nostr_lib \<Rightarrow> access_authorizer \<Rightarrow> http_req \<Rightarrow> go_time \<Rightarrow> lookups \<Rightarrow> bool" where
  "lookups_for L a r now x \<longleftrightarrow> x = no_lookups \<or> is_ok (verified_pubkey L a r now) \<and> lookups_of (aa_rules a) x"

lemma lookups_for_none [simp]: "lookups_for L a r now no_lookups"
  by (simp add: lookups_for_def)

lemma lookups_for_then:
  assumes "lookups_for L a r now x" "lookups_for L a r now y" shows "lookups_for L a r now (then_lookups x y)"
proof -
  have "then_lookups no_lookups no_lookups = no_lookups" by (simp add: then_lookups_def no_lookups_def)
  with assms show ?thesis unfolding lookups_for_def by (metis lookups_of_none lookups_of_then)
qed

lemma verify_all_lookups_for: "lookups_for L a r now (verify_all_lookups L a r names now)"
  by (cases "verified_pubkey L a r now") (auto simp: verify_all_lookups_def lookups_for_def all_rules_lookups_of)

lemma proxy_lookups_for: "lookups_for L (px_access p) r now (proxy_lookups L p r now)"
  by (simp add: proxy_lookups_def verify_all_lookups_for split: option.split)

lemma any_rule_set_lookups_for: "lookups_for L (gw_access g) r now (any_rule_set_lookups L g r now rss)"
  by (induction rss) (simp_all add: lookups_for_then verify_all_lookups_for)

lemma gateway_lookups_for: "lookups_for L (gw_access g) r now (gateway_lookups L g r now)"
  by (simp add: gateway_lookups_def verify_all_lookups_for any_rule_set_lookups_for split: option.split)

text \<open>A request that is refused for its rules has been looked up; one without rules has not.\<close>

lemma proxy_lookups_public:
  "proxy_route_of p (rq_url r) = Some rt \<Longrightarrow>
     rt_access_rules rt = [] \<or> is_public_wiki_asset_request (rq_method r) (rt_forward_path rt) \<Longrightarrow> proxy_lookups L p r now = no_lookups"
  by (auto simp: proxy_lookups_def)

end
