(* ===== verification/WrapsterServe.thy ===== *)
theory WrapsterServe
  imports Wrapster AdminClaims AccessLookups
begin

text \<open>
  The whole server of \<open>cmd/wrapster/main.go\<close>: the wiring of every component, and
  \<open>Server.ServeHTTP\<close> of \<open>internal/relay/server.go\<close> with the handlers behind its routes.
  A request is answered, with what the server did on the way, or it opens a websocket
  session, whose rounds are those of \<open>RelayServer\<close>. The properties here span the
  components: whatever leaves the server has been admitted by the guard of its route.
\<close>

section \<open>Wiring\<close>

definition main_wiki :: "wiki_config \<Rightarrow> wiki_advert" where
  "main_wiki w = \<lparr>wa_origin = wk_origin w, wa_label = wk_label w, wa_summary = wk_summary w,
     wa_wiki_path = wk_wiki_path w, wa_wiki_api_path = wk_wiki_api_path w, wa_wiki_load_path = wk_wiki_load_path w,
     wa_wiki_main_page_path = wk_wiki_main_page_path w, wa_wiki_main_page_title = wk_wiki_main_page_title w,
     wa_proxy_route = wk_proxy_route w, wa_status = wk_status w, wa_audience = wk_audience w\<rparr>"

definition main_server :: "config \<Rightarrow> http_do \<Rightarrow> ws_net \<Rightarrow> admin_server" where
  "main_server c http net = relay_server.extend (main_relay c)
     \<lparr>as_admin_auth = main_admin c, as_fips_peer_npub = cf_fips_peer_npub c, as_fips_peer_addr = cf_fips_peer_addr c,
      as_fips_nsec_path = cf_fips_nsec_path c, as_media_gateway = main_gateway c http net,
      as_proxy = Some (main_proxy c http net), as_rule_order = map fst (cf_access_rules c),
      as_wiki_adverts = map (\<lambda>(slug, w). (slug, main_wiki w)) (cf_wiki c)\<rparr>"

section \<open>Serving\<close>

text \<open>
  Besides what the admin API needs: the websocket library (is this an upgrade, the upgrade
  itself given the origin check, and whether the first write succeeds), the bytes of the
  challenge, the transport of the proxy, and the page of the service directory.
\<close>

record serve_env = admin_env +
  ve_is_upgrade :: "http_req \<Rightarrow> bool"
  ve_upgrade :: "(http_req \<Rightarrow> bool) \<Rightarrow> http_req \<Rightarrow> bool"
  ve_random :: "string + 8 word list"
  ve_write_ok :: bool
  ve_transport :: http_do
  ve_directory :: "string \<Rightarrow> string"

datatype server_answer = Answer admin_out | Session "ws_session option"

text \<open>A handler's answer, after the lookups of the access rules it has checked.\<close>

definition answer_sent :: "lookups \<Rightarrow> http_resp \<times> out_req list \<Rightarrow> file_sys \<Rightarrow> server_answer" where
  "answer_sent looked out fs =
     Answer \<lparr>ao_resp = fst out, ao_sent = snd looked @ snd out, ao_dialled = fst looked, ao_net = [], ao_files = fs\<rparr>"

text \<open>The targets whose health a status of the proxy asks for.\<close>

definition proxy_probes :: "proxy \<Rightarrow> out_req list" where
  "proxy_probes p = map head_request (filter (\<lambda>t. url_parse t \<noteq> None)
     (map snd (px_targets p) @ (if px_default_target p \<noteq> [] then [px_default_target p] else [])))"

text \<open>\<open>health\<close>: the upstream relay is dialled, and the proxy asked for its status.\<close>

definition server_health :: "serve_env \<Rightarrow> admin_server \<Rightarrow> relay_shared \<Rightarrow> file_sys \<Rightarrow> admin_out" where
  "server_health E s sh fs =
     \<lparr>ao_resp = relay_health (relay_server.truncate s) (ae_ws E)
        (case sh_cache sh of None \<Rightarrow> None | Some _ \<Rightarrow> Some (ae_ping E))
        (map_option (\<lambda>p. proxy_status p (ve_transport E)) (as_proxy s)),
      ao_sent = (case as_proxy s of None \<Rightarrow> [] | Some p \<Rightarrow> proxy_probes p),
      ao_dialled = [up_url (sv_upstream s)], ao_net = [], ao_files = fs\<rparr>"

definition server_serve :: "serve_env \<Rightarrow> admin_server \<Rightarrow> relay_shared \<Rightarrow> http_req \<Rightarrow> file_sys \<Rightarrow> server_answer" where
  "server_serve E s sh r fs =
     (let A = admin_env.truncate E; L = ae_nostr E
      in case relay_route_of (ve_is_upgrade E) (as_proxy s \<noteq> None) r of
           RouteFavicon \<Rightarrow> Answer (admin_reply (admin_favicon A r) fs)
         | RouteServiceBrowser \<Rightarrow> Answer (admin_reply (service_advert_browser (ve_directory E) (sv_public_relay_url s) r) fs)
         | RouteAdminIndex \<Rightarrow> Answer (admin_reply (admin_index A r) fs)
         | RouteAdminAPI \<Rightarrow> Answer (admin_api A s sh r fs)
         | RouteMedia \<Rightarrow> answer_sent (gateway_lookups L (as_media_gateway s) r (ae_now E))
              (gateway_serve L (as_media_gateway s) r (ae_now E)) fs
         | RouteHealth \<Rightarrow> Answer (server_health E s sh fs)
         | RouteProxy \<Rightarrow> (case as_proxy s of
               None \<Rightarrow> Answer (admin_reply not_found fs)
             | Some p \<Rightarrow> answer_sent (proxy_lookups L p r (ae_now E))
                 (proxy_serve L p (ve_transport E) r (ae_now E)) fs)
         | RouteNoProxy \<Rightarrow> Answer (admin_reply not_found fs)
         | RouteNip11 \<Rightarrow> Answer (admin_reply relay_nip11 fs)
         | RouteWebsocket \<Rightarrow> Session (open_session (ve_upgrade E) (ve_random E) (ve_write_ok E) r)
         | RouteNotFound \<Rightarrow> Answer (admin_reply not_found fs))"

section \<open>What leaves the server\<close>

text \<open>The media gateway admits a granted key, or a key that all the rules of some service admit.\<close>

definition media_admits :: "nostr_lib \<Rightarrow> gateway \<Rightarrow> http_req \<Rightarrow> go_time \<Rightarrow> bool" where
  "media_admits L g r now \<longleftrightarrow>
     (\<exists>pk. media_verify_request L (gw_auth g) r now = Inr pk
        \<or> list_ex (\<lambda>(_, rules). verify_all_request L (gw_access g) r (media_clean_rule_names rules) now = Inr pk)
            (gw_service_access_rules g))"

lemma service_rules_admit:
  assumes "verify_all_request L (gw_access g) r (service_rules g service) now = Inr pk" "service_rules g service \<noteq> []"
  shows "list_ex (\<lambda>(_, rules). verify_all_request L (gw_access g) r (media_clean_rule_names rules) now = Inr pk)
            (gw_service_access_rules g)"
proof (cases "map_of (gw_service_access_rules g) service")
  case None
  with assms(2) show ?thesis by (simp add: service_rules_def media_clean_rule_names_def)
next
  case (Some rs)
  with assms(1) show ?thesis by (force simp: service_rules_def list_ex_iff dest: map_of_SomeD)
qed

lemma gateway_guard_admits:
  assumes "gateway_guard L g r now = Inr (pk, path, query)"
  shows "rq_method r = ''GET'' \<and> media_admits L g r now"
proof -
  have "authorize_status L g r now = Inr pk \<or> (\<exists>service. authorize_service L g r service now = Inr pk)" "rq_method r = ''GET''"
    using assms by (auto simp: gateway_guard_def split: sum.split_asm if_split_asm option.split_asm)
  then show ?thesis
    using authorize_status_Inr [of L g r now pk] authorize_service_Inr [of L g r _ now pk] service_rules_admit
    unfolding media_admits_def list_ex_iff by fastforce
qed

lemma media_sent_admitted:
  "q \<in> set (snd (gateway_serve L g r now)) \<Longrightarrow> rq_method r = ''GET'' \<and> media_admits L g r now"
  using gg.sent_admitted [of q "(L, g, r, now)"] gateway_guard_admits by auto

lemma proxy_sent_admitted:
  assumes "q \<in> set (snd (proxy_serve L p transport r now))"
  shows "q \<in> set (proxy_probes p) \<or> (\<exists>rt. proxy_guard L p r now = Inr rt)"
proof (cases "is_health_path p (u_path (rq_url r))")
  case True
  with assms show ?thesis by (auto simp: proxy_serve_def proxy_probes_def split: prod.split_asm)
next
  case False
  with assms pg.sent_admitted [of "(L, p, transport, r, now)" q] show ?thesis by auto
qed

text \<open>
  The routes that send: a request that leaves the server is a probe of a proxy target, or
  its route is that of the admin API, the media gateway or the proxy, and admits it.
\<close>

definition admitted :: "serve_env \<Rightarrow> admin_server \<Rightarrow> http_req \<Rightarrow> bool" where
  "admitted E s r \<longleftrightarrow>
     (has_prefix (u_path (rq_url r)) ''/admin/api/'' \<and> is_ok (az_verify_request (ae_nostr E) (as_admin_auth s) r (ae_now E)))
     \<or> (has_prefix (u_path (rq_url r)) ''/media/api/'' \<and> rq_method r = ''GET''
          \<and> media_admits (ae_nostr E) (as_media_gateway s) r (ae_now E))
     \<or> ((u_path (rq_url r) = ''/proxy'' \<or> has_prefix (u_path (rq_url r)) ''/proxy/'')
          \<and> (\<exists>p. as_proxy s = Some p \<and> is_ok (proxy_guard (ae_nostr E) p r (ae_now E))))"

lemma relay_route_paths:
  "relay_route_of up px r = RouteAdminAPI \<Longrightarrow> has_prefix (u_path (rq_url r)) ''/admin/api/''"
  "relay_route_of up px r = RouteMedia \<Longrightarrow> has_prefix (u_path (rq_url r)) ''/media/api/''"
  "relay_route_of up px r = RouteProxy \<Longrightarrow> u_path (rq_url r) = ''/proxy'' \<or> has_prefix (u_path (rq_url r)) ''/proxy/''"
  by (auto simp: relay_route_of_def Let_def split: if_split_asm)

lemma truncate_fields [simp]:
  "ae_nostr (admin_env.truncate E) = ae_nostr E" "ae_now (admin_env.truncate E) = ae_now E"
  "ae_fips (admin_env.truncate E) = ae_fips E" "ae_files (admin_env.truncate E) = ae_files E"
  by (simp_all add: admin_env.truncate_def)

text \<open>The lookups of a request: those of the rules of its handler, and only if it is signed.\<close>

definition looked_up :: "serve_env \<Rightarrow> admin_server \<Rightarrow> http_req \<Rightarrow> ((string \<Rightarrow> rule option) \<Rightarrow> bool) \<Rightarrow> bool" where
  "looked_up E s r P \<longleftrightarrow> (\<exists>a. (a = gw_access (as_media_gateway s) \<or> (\<exists>p. as_proxy s = Some p \<and> a = px_access p))
     \<and> is_ok (verified_pubkey (ae_nostr E) a r (ae_now E)) \<and> P (aa_rules a))"

lemma looked_upI:
  assumes "lookups_for (ae_nostr E) a r (ae_now E) x"
    and "a = gw_access (as_media_gateway s) \<or> (\<exists>p. as_proxy s = Some p \<and> a = px_access p)"
  shows "u \<in> set (fst x) \<Longrightarrow> looked_up E s r (\<lambda>R. rule_dial R u)"
    and "q \<in> set (snd x) \<Longrightarrow> looked_up E s r (\<lambda>R. rule_name_request R q)"
  using assms unfolding lookups_for_def looked_up_def lookups_of_def list_all_iff by fastforce+

lemma server_serve_sent:
  assumes "server_serve E s sh r fs = Answer out" "q \<in> set (ao_sent out)"
  shows "(\<exists>p. as_proxy s = Some p \<and> q \<in> set (proxy_probes p)) \<or> looked_up E s r (\<lambda>R. rule_name_request R q) \<or> admitted E s r"
proof (cases "relay_route_of (ve_is_upgrade E) (as_proxy s \<noteq> None) r")
  case RouteAdminAPI
  with assms have q: "q \<in> set (ao_sent (admin_api (admin_env.truncate E) s sh r fs))" by (simp add: server_serve_def Let_def)
  from aag.sent_admitted [OF TrueI, of q "admin_env.truncate E" s sh r fs] q
  have "is_ok (az_verify_request (ae_nostr E) (as_admin_auth s) r (ae_now E))" by auto
  with relay_route_paths(1) [OF RouteAdminAPI] show ?thesis by (simp add: admitted_def)
next
  case RouteMedia
  with assms consider "q \<in> set (snd (gateway_lookups (ae_nostr E) (as_media_gateway s) r (ae_now E)))"
    | "q \<in> set (snd (gateway_serve (ae_nostr E) (as_media_gateway s) r (ae_now E)))"
    by (auto simp: server_serve_def answer_sent_def Let_def)
  then show ?thesis
  proof cases
    case 1
    with looked_upI(2) [OF gateway_lookups_for] show ?thesis by blast
  next
    case 2
    with media_sent_admitted relay_route_paths(2) [OF RouteMedia] show ?thesis by (simp add: admitted_def)
  qed
next
  case RouteProxy
  with assms obtain p where p: "as_proxy s = Some p" and q: "q \<in> set (snd (proxy_lookups (ae_nostr E) p r (ae_now E)))
      \<or> q \<in> set (snd (proxy_serve (ae_nostr E) p (ve_transport E) r (ae_now E)))"
    by (auto simp: server_serve_def answer_sent_def Let_def split: option.split_asm)
  from q show ?thesis
  proof
    assume "q \<in> set (snd (proxy_lookups (ae_nostr E) p r (ae_now E)))"
    with looked_upI(2) [OF proxy_lookups_for] p show ?thesis by blast
  next
    assume "q \<in> set (snd (proxy_serve (ae_nostr E) p (ve_transport E) r (ae_now E)))"
    from proxy_sent_admitted [OF this] p relay_route_paths(3) [OF RouteProxy] show ?thesis by (auto simp: admitted_def)
  qed
qed (use assms in \<open>auto simp: server_serve_def server_health_def Let_def split: option.splits\<close>)

lemma admin_api_refused:
  "az_verify_request (ae_nostr E) (as_admin_auth s) r (ae_now E) = Inl e \<Longrightarrow>
     admin_api E s sh r fs = admin_reply (error_json (admin_auth_status e) (error_text e)) fs"
  by (simp add: admin_api_def)

lemma relay_route_health: "relay_route_of up px r = RouteHealth \<Longrightarrow> u_path (rq_url r) = ''/healthz''"
  by (auto simp: relay_route_of_def Let_def split: if_split_asm)

text \<open>The relays that are dialled: the upstream relay by a health check, and those of lookups.\<close>

lemma server_serve_dialled:
  assumes "server_serve E s sh r fs = Answer out" "u \<in> set (ao_dialled out)"
  shows "(u_path (rq_url r) = ''/healthz'' \<and> u = up_url (sv_upstream s)) \<or> looked_up E s r (\<lambda>R. rule_dial R u)
    \<or> has_prefix (u_path (rq_url r)) ''/admin/api/'' \<and> is_ok (az_verify_request (ae_nostr E) (as_admin_auth s) r (ae_now E))"
proof (cases "relay_route_of (ve_is_upgrade E) (as_proxy s \<noteq> None) r")
  case RouteAdminAPI
  with assms have out: "u \<in> set (ao_dialled (admin_api (admin_env.truncate E) s sh r fs))" by (simp add: server_serve_def Let_def)
  then show ?thesis
    using relay_route_paths(1) [OF RouteAdminAPI] admin_api_refused [of "admin_env.truncate E" s r _ sh fs]
    by (cases "az_verify_request (ae_nostr E) (as_admin_auth s) r (ae_now E)") (auto simp: admin_reply_def)
next
  case RouteMedia
  with assms have "u \<in> set (fst (gateway_lookups (ae_nostr E) (as_media_gateway s) r (ae_now E)))"
    by (auto simp: server_serve_def answer_sent_def Let_def)
  with looked_upI(1) [OF gateway_lookups_for] show ?thesis by blast
next
  case RouteProxy
  with assms obtain p where p: "as_proxy s = Some p" and "u \<in> set (fst (proxy_lookups (ae_nostr E) p r (ae_now E)))"
    by (auto simp: server_serve_def answer_sent_def admin_reply_def Let_def split: option.split_asm)
  with looked_upI(1) [OF proxy_lookups_for] show ?thesis by blast
next
  case RouteHealth
  with assms relay_route_health [OF RouteHealth] show ?thesis by (auto simp: server_serve_def server_health_def Let_def)
qed (use assms in \<open>auto simp: server_serve_def admin_reply_def admin_favicon_def service_advert_browser_def admin_index_def
    relay_nip11_def Let_def split: option.splits\<close>)

lemma server_serve_effects:
  assumes "server_serve E s sh r fs = Answer out"
  shows "(ao_net out = [] \<and> ao_files out = fs)
     \<or> has_prefix (u_path (rq_url r)) ''/admin/api/'' \<and> is_ok (az_verify_request (ae_nostr E) (as_admin_auth s) r (ae_now E))"
proof (cases "relay_route_of (ve_is_upgrade E) (as_proxy s \<noteq> None) r")
  case RouteAdminAPI
  with assms have out: "out = admin_api (admin_env.truncate E) s sh r fs" by (simp add: server_serve_def Let_def)
  show ?thesis
    using relay_route_paths(1) [OF RouteAdminAPI] admin_api_refused [of "admin_env.truncate E" s r _ sh fs] out
    by (cases "az_verify_request (ae_nostr E) (as_admin_auth s) r (ae_now E)") auto
qed (use assms in \<open>auto simp: server_serve_def server_health_def answer_sent_def Let_def split: option.splits\<close>)

lemma proxy_probes_bare: "q \<in> set (proxy_probes p) \<Longrightarrow> oq_method q = ''HEAD'' \<and> oq_header q = no_header \<and> oq_body q = None"
  by (auto simp: proxy_probes_def head_request_def)

text \<open>
  The server as a whole: an HTTP request makes it send something to another host only if the
  guard of the request's own route (admin API, media gateway or proxy) admits the request;
  the exceptions are bare HEAD requests to the configured proxy targets, which health checks
  send, and the NIP-05 lookups of access rules for a request that is signed. Peer checks and changes of files happen only for a signed request of an
  administrator to the admin API.
\<close>

theorem server_contacts_only_admitted:
  "case server_serve E s sh r fs of Session _ \<Rightarrow> True | Answer out \<Rightarrow>
     list_all (\<lambda>q. oq_method q = ''HEAD'' \<and> oq_header q = no_header \<and> oq_body q = None
          \<and> (\<exists>p. as_proxy s = Some p \<and> q \<in> set (proxy_probes p))
        \<or> looked_up E s r (\<lambda>R. rule_name_request R q)
        \<or> admitted E s r) (ao_sent out)
     \<and> ((ao_net out = [] \<and> ao_files out = fs)
        \<or> has_prefix (u_path (rq_url r)) ''/admin/api/''
          \<and> is_ok (az_verify_request (ae_nostr E) (as_admin_auth s) r (ae_now E)))"
  using server_serve_sent [of E s sh r fs] server_serve_effects [of E s sh r fs] proxy_probes_bare
  by (auto simp: list_all_iff split: server_answer.split) (metis+)?

section \<open>The running program\<close>

lemma main_server_fields [simp]:
  "as_admin_auth (main_server c http net) = main_admin c" "as_media_gateway (main_server c http net) = main_gateway c http net"
  "as_proxy (main_server c http net) = Some (main_proxy c http net)"
  by (simp_all add: main_server_def relay_server.extend_def)

lemma media_clean_rule_names_trimmed:
  "list_all (\<lambda>n. trim_space n = n \<and> n \<noteq> []) ns \<Longrightarrow> media_clean_rule_names ns = ns"
  by (induction ns) (simp_all add: media_clean_rule_names_def)

text \<open>Under a loaded configuration, the rule sets of the services are the configured ones.\<close>

lemma loaded_media_admits:
  assumes l: "load_with_args L getenv fs args = Inr c" and m: "media_admits M (main_gateway c http net) r now"
  shows "\<exists>pk. media_verify_request M (new_media_authorizer (cf_media_grant_pubkeys c) (cf_media_auth_max_age c)) r now = Inr pk
    \<or> (verified_pubkey M (main_access c http net) r now = Inr pk
       \<and> list_ex (\<lambda>(_, rules). rules \<noteq> [] \<and> list_all (\<lambda>n. check_rule M (main_access c http net) n pk = None) rules) (cf_media_services c))"
proof -
  have t: "list_all (\<lambda>n. trim_space n = n \<and> n \<noteq> []) rules" if "(k, rules) \<in> set (cf_media_services c)" for k rules
  proof -
    from that have "set rules \<subseteq> set (asked_rules c)" unfolding asked_rules_def set_append set_concat set_map by fastforce
    then show ?thesis
      using asked_rules_named [OF load_rules_named(1) [OF l]] unfolding list_all_iff rule_named_def by blast
  qed
  from m obtain pk where "media_verify_request M (gw_auth (main_gateway c http net)) r now = Inr pk
    \<or> (\<exists>k rules. (k, rules) \<in> set (cf_media_services c)
         \<and> verify_all_request M (main_access c http net) r (media_clean_rule_names rules) now = Inr pk)"
    by (auto simp: media_admits_def main_gateway_def list_ex_iff)
  then show ?thesis
  proof (elim disjE exE conjE)
    fix k rules
    assume k: "(k, rules) \<in> set (cf_media_services c)"
      and v: "verify_all_request M (main_access c http net) r (media_clean_rule_names rules) now = Inr pk"
    from v have "verified_pubkey M (main_access c http net) r now = Inr pk" "rules \<noteq> []"
      "list_all (\<lambda>n. check_rule M (main_access c http net) n pk = None) rules"
      by (simp_all add: verify_all_Inr media_clean_rule_names_trimmed [OF t [OF k]] compact_rule_names_trimmed [OF t [OF k]])
    with k show ?thesis unfolding list_ex_iff by (intro exI [of _ pk] disjI2 conjI bexI [of _ "(k, rules)"]) simp_all
  qed (auto simp: main_gateway_def)
qed

text \<open>What it takes to be admitted under a loaded configuration, on the three routes that send.\<close>

definition admitted_by :: "config \<Rightarrow> http_do \<Rightarrow> ws_net \<Rightarrow> serve_env \<Rightarrow> http_req \<Rightarrow> bool" where
  "admitted_by c http net E r \<longleftrightarrow>
     (let path = u_path (rq_url r); M = ae_nostr E; now = ae_now E; A = main_access c http net
      in has_prefix path ''/admin/api/'' \<and> (\<exists>pk. pk \<in> az_admins (main_admin c) \<and> az_verify_request M (main_admin c) r now = Inr pk)
         \<or> has_prefix path ''/media/api/'' \<and> rq_method r = ''GET''
             \<and> (\<exists>pk. media_verify_request M (new_media_authorizer (cf_media_grant_pubkeys c) (cf_media_auth_max_age c)) r now = Inr pk
                 \<or> (verified_pubkey M A r now = Inr pk
                    \<and> list_ex (\<lambda>(_, rules). rules \<noteq> [] \<and> list_all (\<lambda>n. check_rule M A n pk = None) rules) (cf_media_services c)))
         \<or> (path = ''/proxy'' \<or> has_prefix path ''/proxy/'')
             \<and> (cf_proxy_access_rules c = []
                \<or> (\<exists>rt. proxy_route_of (main_proxy c http net) (rq_url r) = Some rt
                     \<and> is_public_wiki_asset_request (rq_method r) (rt_forward_path rt))
                \<or> (\<exists>pk. verified_pubkey M A r now = Inr pk
                     \<and> list_all (\<lambda>n. check_rule M A n pk = None) (cf_proxy_access_rules c))))"

lemma admin_verified_key: "az_verify_request M (main_admin c) r now = Inr pk \<Longrightarrow> pk \<in> az_admins (main_admin c)"
  by (auto simp: az_verify_request_def az_verify_header_Inr)

lemma is_ok_iff: "is_ok x \<longleftrightarrow> (\<exists>y. x = Inr y)"
  by (cases x) simp_all

lemma loaded_admitted:
  assumes l: "load_with_args L getenv fs args = Inr c" and adm: "admitted E (main_server c http net) r"
  shows "admitted_by c http net E r"
proof -
  from adm consider
      "has_prefix (u_path (rq_url r)) ''/admin/api/''" "\<exists>pk. az_verify_request (ae_nostr E) (main_admin c) r (ae_now E) = Inr pk"
    | "has_prefix (u_path (rq_url r)) ''/media/api/''" "rq_method r = ''GET''"
        "media_admits (ae_nostr E) (main_gateway c http net) r (ae_now E)"
    | "u_path (rq_url r) = ''/proxy'' \<or> has_prefix (u_path (rq_url r)) ''/proxy/''"
        "is_ok (proxy_guard (ae_nostr E) (main_proxy c http net) r (ae_now E))"
    unfolding admitted_def main_server_fields is_ok_iff by auto
  then show ?thesis
  proof cases
    case 1
    with admin_verified_key show ?thesis unfolding admitted_by_def Let_def by blast
  next
    case 2
    with loaded_media_admits [OF l 2(3)] show ?thesis unfolding admitted_by_def Let_def by blast
  next
    case 3
    then obtain rt where "proxy_guard (ae_nostr E) (main_proxy c http net) r (ae_now E) = Inr rt" by (auto simp: is_ok_iff)
    with 3(1) loaded_proxy_guard [OF l] show ?thesis unfolding admitted_by_def Let_def by blast
  qed
qed

lemma loaded_looked_up:
  assumes "looked_up E (main_server c http net) r P"
  shows "(\<exists>pk. verified_pubkey (ae_nostr E) (main_access c http net) r (ae_now E) = Inr pk) \<and> P (map_of (cf_access_rules c))"
proof -
  from assms obtain a where "a = gw_access (main_gateway c http net) \<or> a = px_access (main_proxy c http net)"
    and a: "is_ok (verified_pubkey (ae_nostr E) a r (ae_now E))" "P (aa_rules a)"
    by (auto simp: looked_up_def)
  then have "a = main_access c http net" by (auto simp: main_gateway_def)
  with a show ?thesis by (simp add: is_ok_iff main_access_def)
qed

text \<open>
  C1: End to end, for the program started with a configuration that loads: all that a request
  that opens no relay session makes the server send. An HTTP request to another host is a bare
  HEAD probe of a configured proxy target (health checks make them for anybody); or, for a
  request that is signed by whatever key, the NIP-05 lookup of a configured access rule; or the
  client's request is admitted: by an administrator's key, by a key granted media access, by
  a key that passes every rule of a media service, each on its own routes, or on the routes of
  the proxy by a key that passes every global rule, or without a key for a public asset of a
  wiki, or when no global rule is configured. A relay is dialled only as the upstream relay
  by a health check, as a relay of a configured rule for a signed request, or for an
  administrator.
\<close>

theorem loaded_server_admits:
  "case load_with_args L getenv fs args of Inl _ \<Rightarrow> True | Inr c \<Rightarrow>
   (case server_serve E (main_server c http net) sh r files of Session _ \<Rightarrow> True | Answer out \<Rightarrow>
     (let signed = (\<exists>pk. verified_pubkey (ae_nostr E) (main_access c http net) r (ae_now E) = Inr pk);
          rules = map_of (cf_access_rules c)
      in list_all (\<lambda>q. q \<in> set (proxy_probes (main_proxy c http net))
             \<or> signed \<and> rule_name_request rules q
             \<or> admitted_by c http net E r) (ao_sent out)
         \<and> list_all (\<lambda>u. u_path (rq_url r) = ''/healthz'' \<and> u = cf_upstream_relay_url c
             \<or> signed \<and> rule_dial rules u
             \<or> has_prefix (u_path (rq_url r)) ''/admin/api/''
                 \<and> (\<exists>pk. pk \<in> az_admins (main_admin c) \<and> az_verify_request (ae_nostr E) (main_admin c) r (ae_now E) = Inr pk))
           (ao_dialled out)))"
proof (cases "load_with_args L getenv fs args")
  case l: (Inr c)
  show ?thesis
  proof (cases "server_serve E (main_server c http net) sh r files")
    case (Answer out)
    have up: "up_url (sv_upstream (main_server c http net)) = cf_upstream_relay_url c"
      by (simp add: main_server_def main_relay_def relay_server.extend_def)
    have sent: "q \<in> set (proxy_probes (main_proxy c http net))
        \<or> (\<exists>pk. verified_pubkey (ae_nostr E) (main_access c http net) r (ae_now E) = Inr pk) \<and> rule_name_request (map_of (cf_access_rules c)) q
        \<or> admitted_by c http net E r" if "q \<in> set (ao_sent out)" for q
      using server_serve_sent [OF Answer that] loaded_looked_up [of E c http net r] loaded_admitted [OF l, of E http net r] by auto
    have dialled: "u_path (rq_url r) = ''/healthz'' \<and> u = cf_upstream_relay_url c
        \<or> (\<exists>pk. verified_pubkey (ae_nostr E) (main_access c http net) r (ae_now E) = Inr pk) \<and> rule_dial (map_of (cf_access_rules c)) u
        \<or> has_prefix (u_path (rq_url r)) ''/admin/api/''
            \<and> (\<exists>pk. pk \<in> az_admins (main_admin c) \<and> az_verify_request (ae_nostr E) (main_admin c) r (ae_now E) = Inr pk)"
      if "u \<in> set (ao_dialled out)" for u
      using server_serve_dialled [OF Answer that] loaded_looked_up [of E c http net r] admin_verified_key
      unfolding up main_server_fields is_ok_iff by blast
    show ?thesis
      unfolding l Answer sum.case server_answer.case Let_def list_all_iff using sent dialled by blast
  qed (simp add: l)
qed simp

end
