(* ===== verification/AuthTool.thy ===== *)
theory AuthTool
  imports Fips GoEncode
begin

text \<open>
  The command line tool \<open>scripts/gen-nip98-auth/main.go\<close>, which prints the
  \<open>Authorization\<close> header of a signed request. What it prints is read by the verifier of
  \<open>internal/admin/auth.go\<close> (theory \<open>Nip98\<close>). Signing and the JSON of an event are those of
  go-nostr and are parameters, as is the clock.
\<close>

section \<open>The tool\<close>

record sign_lib =
  sl_sign :: "string \<Rightarrow> event \<Rightarrow> string + event"
  sl_marshal :: "event \<Rightarrow> string + string"

definition decode_private_key :: "fips_lib \<Rightarrow> string \<Rightarrow> string + string" where
  "decode_private_key F value0 =
     (let val = trim_space value0
      in if has_prefix (to_lower val) ''nsec1'' then
           (case fl_nip19_decode F val of
              Inl err \<Rightarrow> Inl err
            | Inr (pre, decoded) \<Rightarrow>
               if pre \<noteq> ''nsec'' then Inl ''value must be an nsec''
               else (case decoded of
                  None \<Rightarrow> Inl ''invalid nsec private key''
                | Some private_key \<Rightarrow>
                   if length private_key \<noteq> 64 then Inl ''invalid nsec private key'' else Inr private_key))
         else if length val = 64 then Inr val
         else Inl ''private key must be nsec or 64-char hex'')"

definition unsigned_event :: "string \<Rightarrow> string \<Rightarrow> int \<Rightarrow> event" where
  "unsigned_event url rmethod now_unix =
     empty_event\<lparr>ev_created_at := now_unix, ev_kind := nip98_event_kind,
       ev_tags := [[''u'', url], [''method'', to_upper rmethod]]\<rparr>"

text \<open>\<open>Inl\<close> is the exit code with what is written to the standard error, \<open>Inr\<close> the standard output.\<close>

definition gen_nip98_auth :: "fips_lib \<Rightarrow> sign_lib \<Rightarrow> string \<Rightarrow> string \<Rightarrow> string \<Rightarrow> int \<Rightarrow> (int \<times> string) + string" where
  "gen_nip98_auth F S nsec url rmethod now_unix =
     (if trim_space nsec = [] \<or> trim_space url = [] then
        Inl (2, ''usage: gen-nip98-auth --nsec <nsec> --url <url> [--method GET]'' @ [CHR 0x0A])
      else (case decode_private_key F nsec of
         Inl err \<Rightarrow> Inl (1, ''decode private key: '' @ err @ [CHR 0x0A])
       | Inr private_key \<Rightarrow>
          (case sl_sign S private_key (unsigned_event url rmethod now_unix) of
             Inl err \<Rightarrow> Inl (1, ''sign event: '' @ err @ [CHR 0x0A])
           | Inr event \<Rightarrow>
              (case sl_marshal S event of
                 Inl err \<Rightarrow> Inl (1, ''marshal event: '' @ err @ [CHR 0x0A])
               | Inr raw \<Rightarrow> Inr (''Nostr '' @ base64_encode raw @ [CHR 0x0A])))))"

section \<open>Facts\<close>

lemma b64_std_char [simp]: "n < 64 \<Longrightarrow> b64_std (b64_char n) = Some n"
  by (auto simp: b64_std_def b64_char_def char_eq_code Let_def)

lemma b64_std_pad [simp]: "b64_std (CHR ''='') = None"
  by (simp add: b64_std_def)

lemma b64_groups_encode: "b64_groups (base64_encode s) = Some s"
proof (induction s rule: base64_encode.induct)
  case (2 a)
  then show ?case using b64_rejoin [of 0 "of_char a"] by (simp add: Let_def)
next
  case (3 a b)
  then show ?case
    using b64_rejoin [of "of_char b div 16" "of_char a"] b64_rejoin2 [of "of_char b" 0 "of_char a"]
    by (simp add: Let_def)
next
  case (4 a b c s)
  then show ?case
    using b64_rejoin [of "of_char b div 16" "of_char a"]
      b64_rejoin2 [of "of_char b" "of_char c div 64" "of_char a"] b64_rejoin3 [of "of_char c" "of_char b"]
    by (simp add: Let_def)
qed simp

lemma b64_char_not_space: "n < 64 \<Longrightarrow> \<not> is_space (b64_char n)"
  by (auto simp: is_space_def b64_char_def char_eq_code)

lemma base64_encode_chars: "c \<in> set (base64_encode s) \<Longrightarrow> \<not> is_space c"
  by (induction s rule: base64_encode.induct) (auto simp: Let_def b64_char_not_space is_space_def [of "CHR ''=''"])

lemma base64_encode_eq_Nil [simp]: "base64_encode s = [] \<longleftrightarrow> s = []"
  by (cases s rule: base64_encode.cases) (simp_all add: Let_def)

lemma base64_roundtrip [simp]: "base64_decode (base64_encode s) = Some s"
proof -
  have "filter (\<lambda>c. c \<noteq> CHR 0x0A \<and> c \<noteq> CHR 0x0D) (base64_encode s) = base64_encode s"
    using base64_encode_chars [of _ s] by (auto simp: filter_id_conv is_space_def)
  then show ?thesis by (simp add: base64_decode_def b64_groups_encode)
qed

lemma to_lower_to_upper [simp]: "to_lower (to_upper s) = to_lower s"
proof -
  have "char_lower (char_upper c) = char_lower c" for c
  proof (cases "97 \<le> (of_char c :: nat) \<and> (of_char c :: nat) \<le> 122")
    case True
    then obtain m where m: "(of_char c :: nat) = m + 32" "65 \<le> m" "m \<le> 90"
      by (intro that [of "of_char c - 32"]; linarith)
    then have "(of_char (char_of m :: char) :: nat) = m" by simp
    moreover have "char_of (m + 32) = c" unfolding m(1) [symmetric] by simp
    ultimately show ?thesis using True m by (simp add: char_lower_def char_upper_def)
  qed (auto simp: char_upper_def Let_def)
  then show ?thesis by (simp add: to_lower_def to_upper_def)
qed

lemma equal_fold_to_upper [simp]: "equal_fold (to_upper m) m' = equal_fold m m'"
  by (simp add: equal_fold_def)

lemma header_trimmed:
  assumes "b \<noteq> []" "\<And>c. c \<in> set b \<Longrightarrow> \<not> is_space c"
  shows "trim_space (''Nostr '' @ b @ [CHR 0x0A]) = ''Nostr '' @ b"
proof -
  have "trim_space (''Nostr '' @ b) = ''Nostr '' @ b"
    using assms by (intro trim_space_id) (auto simp: is_space_def)
  then show ?thesis using trim_space_newline [of "''Nostr '' @ b"] by simp
qed

section \<open>Claims\<close>

text \<open>
  Documented behaviour of go-nostr: signing fills in the id, the key and a signature that
  checks, and leaves the rest of the event; an event is read back from its own JSON.
\<close>

definition sign_lib_ok :: "nostr_lib \<Rightarrow> sign_lib \<Rightarrow> bool" where
  "sign_lib_ok L S \<longleftrightarrow>
     (\<forall>k e e'. sl_sign S k e = Inr e' \<longrightarrow> sig_ok L e' \<and> ev_created_at e' = ev_created_at e \<and> ev_kind e' = ev_kind e
        \<and> ev_tags e' = ev_tags e)
     \<and> (\<forall>e raw. sl_marshal S e = Inr raw \<longrightarrow> raw \<noteq> [] \<and> Option.bind (json_parse raw) (nl_decode_event L) = Some e)"

text \<open>
  C21: The header the tool prints is one the server accepts, for exactly the request it was made
  for: it decodes to an event, and the event verifies for a URL, a method and a time if and
  only if the URL is the given one, the method is the given one up to case, and the time is
  within the allowed age of the signing; the key that is returned is that of the signer.
\<close>

theorem tool_header_accepted:
  assumes ok: "sign_lib_ok L S" and out: "gen_nip98_auth F S nsec url rmethod signed_at = Inr hdr"
  shows "\<exists>event. event_from_authorization L hdr = Inr event
    \<and> (\<forall>u m age now p. verify_nip98_event L event u m age now = Inr p \<longleftrightarrow>
         u = url \<and> equal_fold rmethod m \<and> \<bar>time_unix signed_at - now\<bar> \<le> effective_age age \<and> p = to_lower (ev_pubkey event))"
proof -
  from out obtain k event raw where e: "sl_sign S k (unsigned_event url rmethod signed_at) = Inr event"
    and raw: "sl_marshal S event = Inr raw" and hdr: "hdr = ''Nostr '' @ base64_encode raw @ [CHR 0x0A]"
    by (auto simp: gen_nip98_auth_def split: if_split_asm sum.split_asm)
  from ok e have s: "sig_ok L event" "ev_created_at event = signed_at" "ev_kind event = nip98_event_kind"
    "ev_tags event = [[''u'', url], [''method'', to_upper rmethod]]"
    by (auto simp: sign_lib_ok_def unsigned_event_def)
  from ok raw have "raw \<noteq> []" "Option.bind (json_parse raw) (nl_decode_event L) = Some event"
    unfolding sign_lib_ok_def by blast+
  then obtain j where j: "raw \<noteq> []" "json_parse raw = Some j" "nl_decode_event L j = Some event"
    by (auto simp: bind_eq_Some_conv)
  let ?b = "base64_encode raw"
  have b: "?b \<noteq> []" "trim_space ?b = ?b"
    using j(1) base64_encode_chars [of _ raw] by (auto intro!: trim_space_id)
  have t: "trim_space hdr = ''Nostr'' @ CHR '' '' # ?b"
    unfolding hdr using header_trimmed [OF b(1) base64_encode_chars] by simp
  have "cut (CHR '' '') (trim_space hdr) = Some (''Nostr'', ?b)"
    unfolding t cut_Some_iff by simp
  with b j t have "event_from_authorization L hdr = Inr event"
    by (simp add: event_from_authorization_def)
  moreover have "nip98_valid L event u m age now \<longleftrightarrow>
      u = url \<and> equal_fold rmethod m \<and> \<bar>time_unix signed_at - now\<bar> \<le> effective_age age" for u m age now
    using s by (auto simp: nip98_valid_def event_time_def)
  ultimately show ?thesis by (auto simp: verify_nip98_event_Inr)
qed

definition tool_sign_lib :: sign_lib where
  "tool_sign_lib = \<lparr>sl_sign = (\<lambda>k e. Inr (e\<lparr>ev_pubkey := ''AB'', ev_sig := ''s''\<rparr>)),
     sl_marshal = (\<lambda>e. if e = (unsigned_event ''http://h/admin/api/status'' ''get'' 5)\<lparr>ev_pubkey := ''AB'', ev_sig := ''s''\<rparr>
        then Inr ''1'' else Inl ''no'')\<rparr>"

definition tool_nostr :: nostr_lib where
  "tool_nostr = \<lparr>nl_decode_event = (\<lambda>j. if j = JNum ''1''
        then Some ((unsigned_event ''http://h/admin/api/status'' ''get'' 5)\<lparr>ev_pubkey := ''AB'', ev_sig := ''s''\<rparr>) else None),
     nl_check_signature = (\<lambda>e. Inr (ev_sig e = ''s'')), nl_get_id = ev_id, nl_valid_pubkey = (\<lambda>k. True)\<rparr>"

definition tool_fips_lib :: fips_lib where
  "tool_fips_lib = \<lparr>fl_nip19_decode = (\<lambda>_. Inr (''nsec'', Some (replicate 64 (CHR ''7'')))),
     fl_get_public_key = (\<lambda>_. Inl []), fl_encode_public_key = (\<lambda>_. Inl [])\<rparr>"

lemma tool_header_accepted_witness:
  "\<exists>event. event_from_authorization tool_nostr (''Nostr MQ=='' @ [CHR 0x0A]) = Inr event
     \<and> verify_nip98_event tool_nostr event ''http://h/admin/api/status'' ''GET'' 0 (time_unix 5) = Inr (to_lower (ev_pubkey event))"
proof -
  have ok: "sign_lib_ok tool_nostr tool_sign_lib"
  proof -
    have "json_parse ''1'' = Some (JNum ''1'')" by code_simp
    then show ?thesis
      by (auto simp: sign_lib_ok_def tool_sign_lib_def tool_nostr_def sig_ok_def split: if_split_asm)
  qed
  have out: "gen_nip98_auth tool_fips_lib tool_sign_lib ''nsec1x'' ''http://h/admin/api/status'' ''get'' 5
      = Inr (''Nostr MQ=='' @ [CHR 0x0A])" by code_simp
  have "equal_fold ''get'' ''GET''" by code_simp
  then show ?thesis using tool_header_accepted [OF ok out] by (force simp: effective_age_def minute_def second_def)
qed

end
