(* ===== verification/ConnectorMain.thy ===== *)
theory ConnectorMain
  imports SetupClaims ConfigLoad
begin

text \<open>
  The program \<open>cmd/wrapster-connector/main.go\<close>: from the environment and the stored
  configuration to the connector and its setup interface. Listening itself, and logging, are
  outside the model; the client made from \<open>CONNECTOR_HTTP_TIMEOUT\<close> is a parameter.
\<close>

section \<open>Starting\<close>

definition env_media_config :: "connector_config \<Rightarrow> media_config" where
  "env_media_config cfg =
     \<lparr>mc_jellyfin_base_url = cc_jellyfin_base_url cfg, mc_jellyfin_api_key = cc_jellyfin_api_key cfg,
      mc_plex_base_url = cc_plex_base_url cfg, mc_plex_token = cc_plex_token cfg,
      mc_fips_peer_npub = [], mc_fips_peer_addr = []\<rparr>"

text \<open>The stored configuration, if there is a valid one, else that of the environment.\<close>

definition start_media_config :: "nostr_lib \<Rightarrow> media_lib \<Rightarrow> file_ops \<Rightarrow> file_sys \<Rightarrow> connector_config \<Rightarrow> media_config" where
  "start_media_config L M ops fs cfg =
     (let m = (case load_media_config L M ops (cc_config_path cfg) fs of
                 Inl _ \<Rightarrow> env_media_config cfg
               | Inr None \<Rightarrow> env_media_config cfg
               | Inr (Some file_cfg) \<Rightarrow> file_cfg);
          m1 = (if mc_fips_peer_npub m = [] then m\<lparr>mc_fips_peer_npub := cc_fips_peer_npub cfg\<rparr> else m)
      in (if mc_fips_peer_addr m1 = [] then m1\<lparr>mc_fips_peer_addr := cc_fips_peer_addr cfg\<rparr> else m1))"

text \<open>\<open>Inl\<close>: the fatal error. \<open>None\<close>: no setup interface is served.\<close>

definition connector_main :: "nostr_lib \<Rightarrow> media_lib \<Rightarrow> file_ops \<Rightarrow> file_sys \<Rightarrow> http_do \<Rightarrow> environment \<Rightarrow> string + (connector \<times> setup_handler option)" where
  "connector_main L M ops fs client getenv =
     bind_res (load_connector getenv) (\<lambda>cfg.
       bind_res (parse_cidrs (cc_allowed_cidrs cfg)) (\<lambda>allowed.
         let connector = set_media_config (start_media_config L M ops fs cfg)
               ((empty_connector client)\<lparr>cn_allowed_cidrs := allowed, cn_shared_token := cc_shared_token cfg\<rparr>)
         in Inr (connector,
              if cc_setup_listen_addr cfg \<noteq> []
              then Some \<lparr>su_config_path = cc_config_path cfg, su_fips_nsec_path = cc_fips_nsec_path cfg,
                 su_auth = new_authorizer (cc_setup_admin_pubkeys cfg) (cc_setup_auth_max_age cfg)\<rparr>
              else None)))"

section \<open>Claims\<close>

lemma set_media_config_keeps [simp]:
  "cn_allowed_cidrs (set_media_config cfg c) = cn_allowed_cidrs c"
  "cn_shared_token (set_media_config cfg c) = cn_shared_token c"
  by (simp_all add: set_media_config_def Let_def)

lemma connector_main_Inr:
  "connector_main L M ops fs client getenv = Inr (c, su) \<longleftrightarrow>
     (\<exists>cfg allowed. load_connector getenv = Inr cfg \<and> parse_cidrs (cc_allowed_cidrs cfg) = Inr allowed
        \<and> c = set_media_config (start_media_config L M ops fs cfg)
             ((empty_connector client)\<lparr>cn_allowed_cidrs := allowed, cn_shared_token := cc_shared_token cfg\<rparr>)
        \<and> su = (if cc_setup_listen_addr cfg \<noteq> []
              then Some \<lparr>su_config_path = cc_config_path cfg, su_fips_nsec_path = cc_fips_nsec_path cfg,
                 su_auth = new_authorizer (cc_setup_admin_pubkeys cfg) (cc_setup_auth_max_age cfg)\<rparr>
              else None))"
  by (auto simp: connector_main_def bind_res_Inr Let_def)

text \<open>The address of the caller of a request, as the connector reads it.\<close>

definition caller_ip :: "http_req \<Rightarrow> ip_bytes option" where
  "caller_ip r = parse_ip (case split_host_port (rq_remote r) of Inl _ \<Rightarrow> rq_remote r | Inr (h, _) \<Rightarrow> h)"

lemma allowed_remote_caller:
  assumes "parse_cidrs vs = Inr (cn_allowed_cidrs c)" "allowed_remote c (rq_remote r)"
  shows "list_all (\<lambda>v. trim_space v = []) vs
     \<or> (\<exists>ip. caller_ip r = Some ip \<and> list_ex (\<lambda>v. trim_space v \<noteq> [] \<and> cidr_covers (trim_space v) ip) vs)"
proof (cases "cn_allowed_cidrs c = []")
  case True
  with parse_cidrs_empty [OF assms(1)] show ?thesis by simp
next
  case False
  with assms(2) obtain ip where ip: "caller_ip r = Some ip" "list_ex (\<lambda>n. net_contains n ip) (cn_allowed_cidrs c)"
    by (auto simp: allowed_remote_def caller_ip_def Let_def split: option.splits)
  then have "length ip = 16" by (simp add: caller_ip_def parse_ip_length)
  from parse_cidrs_contains [OF assms(1) this] ip show ?thesis by auto
qed

text \<open>
  C27: The connector as it is started: it contacts a media server only for a GET request from an
  address that an entry of \<open>CONNECTOR_ALLOWED_CIDRS\<close> covers (from any address when no entry
  is given), with the shared token when one is set.
\<close>

theorem started_connector_serves_only_allowed:
  "case (load_connector getenv, connector_main L M ops fs client getenv) of
     (Inr cfg, Inr (c, su)) \<Rightarrow>
       (case snd (connector_serve M' c r) of
          [] \<Rightarrow> True
        | _ \<Rightarrow> rq_method r = ''GET''
            \<and> (list_all (\<lambda>v. trim_space v = []) (cc_allowed_cidrs cfg)
               \<or> (\<exists>ip. caller_ip r = Some ip
                    \<and> list_ex (\<lambda>v. trim_space v \<noteq> [] \<and> cidr_covers (trim_space v) ip) (cc_allowed_cidrs cfg)))
            \<and> (trim_space (cc_shared_token cfg) = []
               \<or> trim_space (hdr_get (rq_header r) ''Authorization'') = ''Bearer '' @ trim_space (cc_shared_token cfg)))
   | _ \<Rightarrow> True"
proof (cases "\<exists>c su. connector_main L M ops fs client getenv = Inr (c, su) \<and> snd (connector_serve M' c r) \<noteq> []")
  case False
  then show ?thesis by (auto split: sum.splits list.split)
next
  case True
  then obtain c su q where m: "connector_main L M ops fs client getenv = Inr (c, su)" "q \<in> set (snd (connector_serve M' c r))"
    by (metis all_not_in_conv set_empty)
  then obtain cfg where cfg: "load_connector getenv = Inr cfg" "parse_cidrs (cc_allowed_cidrs cfg) = Inr (cn_allowed_cidrs c)"
    "cn_shared_token c = cc_shared_token cfg"
    by (auto simp: connector_main_Inr)
  from cng.sent_admitted [OF TrueI m(2)] have g: "allowed_remote c (rq_remote r)"
    "allowed_token c (hdr_get (rq_header r) ''Authorization'')" "rq_method r = ''GET''"
    using connector_guard_Inr by blast+
  from allowed_remote_caller [OF cfg(2) g(1)] g cfg m(1) show ?thesis
    by (auto simp: allowed_token_def Let_def split: if_splits list.split)
qed

end
