(* ===== verification/Spec2Isabelle.thy ===== *)
theory Spec2Isabelle
  imports RelayRefinement ProxyClaims MediaSongs ConfigClaims SetupRace WrapsterServe AuthTool ConnectorMain
begin

text \<open>
  Wrapster (\<open>src/wrapster\<close>) is a gate written in Go. Its main program serves, on one port, a
  Nostr relay that only lets authenticated Trustroots users through, a generic reverse proxy for
  hospitality sites, a media gateway in front of a private connector, and an admin API. A second
  program, the connector, runs beside the media servers, with a setup interface of its own. A
  third one prints signed authorization headers. Paths below are relative to
  \<open>src/wrapster/internal\<close>, those of programs to \<open>src/wrapster\<close> and \<open>src\<close>.

  \<^bold>\<open>Theories, from the language upwards.\<close> Prelude: Go's \<open>strings\<close> and \<open>strconv\<close>, the
  loops that collect unique values (locale \<open>unique_list\<close>), reachable states (locales
  \<open>step_invariant\<close> and \<open>refinement\<close>), results. GoUrl, GoJson, GoHttp: what the source uses of
  \<open>net/url\<close>, \<open>path\<close>, \<open>encoding/json\<close>, \<open>net/http\<close> and \<open>time\<close>, with
  \<open>httpx/httpx.go\<close> and the locale \<open>guarded\<close> of handlers that check before they act.
  Nostr: the errors of all packages and the event of go-nostr.

  \<^item> Bech32, Nip98: \<open>admin/auth.go\<close>. Keys and their npub form, signed HTTP requests.
  \<^item> Nip42: \<open>auth/auth.go\<close>, the relay's authentication event.
  \<^item> AuthCache: \<open>store/store.go\<close>, the SQLite table as a list of rows (locale \<open>keyed_store\<close>).
  \<^item> Nip05: \<open>nip05/nip05.go\<close>. Profile: \<open>relay/profile.go\<close> and \<open>relay/upstream.go\<close>.
  \<^item> RelayMessages, RelayServer, RelaySafety, RelayClaims, RelaySessions, RelayRefinement:
    \<open>relay/messages.go\<close> and \<open>relay/server.go\<close>. A session is a record of the handler's variables and of what it
    wrote; \<open>client_message\<close> and \<open>pipe_message\<close> are one round of its two loops; the step
    relation \<open>ws_step\<close> interleaves the rounds of any number of sessions over the shared cache
    and log, and restarts that keep the cache. RelaySessions has the connections of a session;
    RelayRefinement an abstract gate with four rules, which every session implements.
  \<^item> Access: \<open>access/access.go\<close>, the rules that admit a key. AccessLookups: the relays and NIP-05
    servers that a check of the proxy or the gateway asks on the way.
  \<^item> Proxy, ProxyClaims: \<open>proxy/proxy.go\<close>. MediaGateway, MediaClaims: \<open>media/auth.go\<close>,
    \<open>media/routes.go\<close>, \<open>media/gateway.go\<close>. A handler returns its response and the requests
    it sent, in order; its guard is stated apart and the handler is proved to refine it.
  \<^item> ConfigToml, ConfigLoad, ConfigRules, ConfigClaims: \<open>config/targets.go\<close> and
    \<open>config/config.go\<close>. Errors are the left values of sums, with the texts of the code.
  \<^item> GoNet, GoEncode: addresses, networks and the encoders of the library that the connector uses.
    GoJsonPrint: the JSON writer, inverse to the reader of GoJson. GoQuery: query strings, written
    and read back.
    SecretFile: how a file with secrets is replaced, as the list of the file systems after every
    step, each of which may fail.
  \<^item> Fips: \<open>fips/\<close>, the identity in its file, the peer check with its network calls.
  \<^item> Connector, Plex, ConnectorServe, ConnectorClaims: \<open>media/connector.go\<close>, the requests to
    Jellyfin and Plex, the admission of callers.
  \<^item> MediaWire, MediaChain, MediaSongs: gateway and connector as one system. MediaWire is the wire between
    them (\<open>net/http\<close> at both ends: a request printed by one and parsed by the other), MediaChain
    puts the connector's handler in the place of the gateway's HTTP client, MediaSongs follows
    the random song from its report to its stream.
  \<^item> ConnectorStore, Setup, SetupClaims: \<open>media/setup.go\<close>, the stored configuration and the setup
    interface. The step relation \<open>setup_step\<close> is any sequence of requests, one after another, and
    of file failures; SetupRace takes the two halves of a PUT apart and interleaves two of them.
  \<^item> BuildInfo: \<open>buildinfo/buildinfo.go\<close>, the build time on the pages, with \<open>time.Parse\<close> for its
    six layouts. AdminCommon, AdminApi, AdminClaims: \<open>admin/routes.go\<close>, \<open>relay/admin.go\<close> and
    the shared parts of the two admin interfaces. A handler returns its response and all it did: requests,
    dials, network calls, files.
  \<^item> Wrapster, WrapsterServe: \<open>cmd/wrapster/main.go\<close>, the wiring, \<open>Server.ServeHTTP\<close> over all
    routes, and the properties that span the components. ConnectorMain:
    \<open>cmd/wrapster-connector/main.go\<close>. AuthTool: \<open>scripts/gen-nip98-auth/main.go\<close>.

  \<^bold>\<open>What is shown.\<close> Each interface to the outside is a \<open>guarded\<close> handler: whatever it sends has
  passed its guard, which is characterized exactly (who signed, for which URL and method, within
  which time, under which rules). These guards are composed over the routes of the server and
  with the loaded configuration (\<open>loaded_server_admits\<close>, which also counts the lookups of the
  checks themselves), and for the connector with its environment (\<open>started_connector_serves_only_allowed\<close>); gateway and connector are composed over
  the wire (\<open>media_chain_contacts_only_admitted\<close>, \<open>media_chain_status\<close>, \<open>media_chain_search\<close>,
  \<open>media_chain_stream\<close>, \<open>media_chain_song_plays\<close>, for a connector URL of a plain host, as
  \<open>plain_base\<close> says). Relay sessions refine an abstract machine (\<open>relay_session_refines_gate\<close>). State is covered by invariants over
  all interleavings and request sequences: sessions, cache and log of the relay, the stored
  configuration and the secrets on disk; no message of a relay client goes unanswered
  (\<open>relay_handles_every_message\<close>). Readers and writers are inverse to each other:
  configuration files, stream identifiers, authorization headers, JSON answers, queries, build times.

  \<^bold>\<open>Bounds and fuel.\<close> Integers of Go that can overflow where it matters are wrapped explicitly
  (\<open>wrap64\<close>) or are words (bech32). The JSON reader and the duration reader take fuel; the fuel
  is the length of the input, and \<open>parse_value_fuel\<close> and \<open>duration_parts_fuel\<close> show that
  more fuel changes nothing. All other loops are structural or have a termination proof.

  \<^bold>\<open>Parameters.\<close> Code outside the repository is an argument: go-nostr (\<open>nostr_lib\<close>: decoding and
  signature check), the HTTP client (\<open>http_do\<close>), relays behind websockets (\<open>ws_net\<close>: the
  messages a peer answers, then its read error), the upgrade of a connection, failures of SQLite
  and of file operations, the environment, the clock and random bytes, name resolution and dials
  of the peer check, NIP-19 and signing, the tokenizer of XML, and the embedded pages. A Go map is an association list or
  a function; where the code ranges over a map, results are stated for the order of the list.

  \<^bold>\<open>Not modelled.\<close> Listening and logging; the passing of time while a request is served (a timeout
  is the read error of the peer; how long the access checks wait is in Access); panics and their
  recovery; the form of numbers that are decoded and encoded again (a JSON number keeps its
  text, where Go goes through a float64), and the replacement of invalid UTF-8; the texts of the
  embedded pages, style sheets and browser scripts (a third of the
  lines of the Go files are such string constants), which are parameters.
\<close>

end
